(* ===== verification/Conduit_Prelude.thy ===== *)
theory Conduit_Prelude
  imports Complex_Main "HOL-Library.Product_Lexorder"
begin

text \<open>
  Shared vocabulary of the development: the effect type of the server's asynchronous
  operations (a state that is passed on even when the operation throws, as the database
  keeps what was written before an exception), tables as lists of rows with the SQL
  statements the drivers use, and the generic lemmas about both.
\<close>

named_theorems eff_simps "evaluation of effectful operations"
named_theorems table_simps "evaluation of SQL statements on tables"

section \<open>Identifiers and time\<close>

text \<open>
  A \<open>uuid\<close> is the 128 bit value of a database key.  The gateway reads its clock in
  milliseconds (\<open>Date.now()\<close>); a database timestamp has microseconds, and becomes a
  \<open>Date\<close> by truncation when a row is read.
\<close>

type_synonym uuid = nat
type_synonym millis = int
type_synonym micros = int

definition js_date :: "micros \<Rightarrow> millis" where
  "js_date t = t div 1000"

definition pg_time :: "millis \<Rightarrow> micros" where
  "pg_time t = t * 1000"

lemma js_date_pg_time [simp]: "js_date (pg_time t) = t"
  by (simp add: js_date_def pg_time_def)

lemma js_date_mono: "s \<le> t \<Longrightarrow> js_date s \<le> js_date t"
  by (simp add: js_date_def zdiv_mono1)

lemma pg_time_less [simp]: "pg_time s < pg_time t \<longleftrightarrow> s < t"
  by (simp add: pg_time_def)

lemma pg_time_le [simp]: "pg_time s \<le> pg_time t \<longleftrightarrow> s \<le> t"
  by (simp add: pg_time_def)

section \<open>Operations that may throw\<close>

text \<open>
  An operation takes the state and returns the thrown error or the result, together with
  the state at that point.
\<close>

type_synonym ('e, 's, 'a) eff = "'s \<Rightarrow> ('e + 'a) \<times> 's"

definition eff_return :: "'a \<Rightarrow> ('e, 's, 'a) eff" where
  "eff_return a s = (Inr a, s)"

definition eff_throw :: "'e \<Rightarrow> ('e, 's, 'a) eff" where
  "eff_throw e s = (Inl e, s)"

definition eff_bind :: "('e, 's, 'a) eff \<Rightarrow> ('a \<Rightarrow> ('e, 's, 'b) eff) \<Rightarrow> ('e, 's, 'b) eff" where
  "eff_bind m f s = (case m s of (Inl e, t) \<Rightarrow> (Inl e, t) | (Inr a, t) \<Rightarrow> f a t)"

definition eff_read :: "('s \<Rightarrow> 'a) \<Rightarrow> ('e, 's, 'a) eff" where
  "eff_read f s = (Inr (f s), s)"

definition eff_write :: "('s \<Rightarrow> 's) \<Rightarrow> ('e, 's, unit) eff" where
  "eff_write f s = (Inr (), f s)"

text \<open>\<open>if (!c) throw e\<close>, and reading an optional value that must be there.\<close>

definition eff_require :: "bool \<Rightarrow> 'e \<Rightarrow> ('e, 's, unit) eff" where
  "eff_require c e = (if c then eff_return () else eff_throw e)"

definition eff_some :: "'a option \<Rightarrow> 'e \<Rightarrow> ('e, 's, 'a) eff" where
  "eff_some x e = (case x of None \<Rightarrow> eff_throw e | Some a \<Rightarrow> eff_return a)"

text \<open>\<open>for (const x of xs) out.push(await f(x))\<close>: stops at the first exception.\<close>

fun eff_mapM :: "('a \<Rightarrow> ('e, 's, 'b) eff) \<Rightarrow> 'a list \<Rightarrow> ('e, 's, 'b list) eff" where
  "eff_mapM f [] = eff_return []"
| "eff_mapM f (x # xs) =
     eff_bind (f x) (\<lambda>y. eff_bind (eff_mapM f xs) (\<lambda>ys. eff_return (y # ys)))"

text \<open>
  A database transaction: an exception rolls every write back (\<open>ROLLBACK\<close>), a normal
  return commits.
\<close>

definition eff_transaction :: "('e, 's, 'a) eff \<Rightarrow> ('e, 's, 'a) eff" where
  "eff_transaction m s = (case m s of (Inl e, t) \<Rightarrow> (Inl e, s) | (Inr a, t) \<Rightarrow> (Inr a, t))"

text \<open>\<open>try { m } catch { h }\<close>.\<close>

definition eff_catch :: "('e, 's, 'a) eff \<Rightarrow> ('e \<Rightarrow> ('e, 's, 'a) eff) \<Rightarrow> ('e, 's, 'a) eff" where
  "eff_catch m h s = (case m s of (Inl e, t) \<Rightarrow> h e t | (Inr a, t) \<Rightarrow> (Inr a, t))"

text \<open>An operation on one component of a larger state, and one that touches no state.\<close>

definition eff_lift :: "('u \<Rightarrow> 's) \<Rightarrow> ('s \<Rightarrow> 'u \<Rightarrow> 'u) \<Rightarrow> ('e, 's, 'a) eff \<Rightarrow> ('e, 'u, 'a) eff" where
  "eff_lift get put m u = (case m (get u) of (r, t) \<Rightarrow> (r, put t u))"

definition eff_sum :: "'e + 'a \<Rightarrow> ('e, 's, 'a) eff" where
  "eff_sum x s = (x, s)"

lemmas eff_defs = eff_return_def eff_throw_def eff_bind_def eff_read_def eff_write_def
  eff_require_def eff_some_def eff_transaction_def eff_catch_def

declare eff_return_def [eff_simps] eff_throw_def [eff_simps] eff_read_def [eff_simps]
  eff_write_def [eff_simps] eff_require_def [eff_simps]

lemma eff_bind_Inr_iff:
  "eff_bind m f s = (Inr b, u) \<longleftrightarrow> (\<exists>a t. m s = (Inr a, t) \<and> f a t = (Inr b, u))"
  by (auto simp: eff_bind_def split: prod.splits sum.splits)

lemma eff_bind_Inl_iff:
  "eff_bind m f s = (Inl e, u) \<longleftrightarrow>
     m s = (Inl e, u) \<or> (\<exists>a t. m s = (Inr a, t) \<and> f a t = (Inl e, u))"
  by (auto simp: eff_bind_def split: prod.splits sum.splits)

lemma eff_bind_eval [eff_simps]:
  "m s = (Inr a, t) \<Longrightarrow> eff_bind m f s = f a t"
  "m s = (Inl e, t) \<Longrightarrow> eff_bind m f s = (Inl e, t)"
  by (simp_all add: eff_bind_def)

lemma eff_bind_return [simp]: "eff_bind (eff_return a) f = f a"
  by (rule ext) (simp add: eff_defs)

lemma eff_bind_throw [simp]: "eff_bind (eff_throw e) f = eff_throw e"
  by (rule ext) (simp add: eff_defs)

lemma eff_bind_read [simp]: "eff_bind (eff_read g) f s = f (g s) s"
  by (simp add: eff_defs)

lemma eff_bind_write [simp]: "eff_bind (eff_write g) f s = f () (g s)"
  by (simp add: eff_defs)

lemma eff_bind_require [simp]:
  "eff_bind (eff_require c e) f s = (if c then f () s else (Inl e, s))"
  by (simp add: eff_defs)

lemma eff_bind_some [simp]:
  "eff_bind (eff_some x e) f s = (case x of None \<Rightarrow> (Inl e, s) | Some a \<Rightarrow> f a s)"
  by (simp add: eff_defs split: option.split)

lemma eff_bind_sum [simp]:
  "eff_bind (eff_sum x) f s = (case x of Inl e \<Rightarrow> (Inl e, s) | Inr a \<Rightarrow> f a s)"
  by (simp add: eff_sum_def eff_bind_def split: sum.split)

lemma eff_some_eval [eff_simps]:
  "eff_some (Some a) e s = (Inr a, s)" "eff_some None e s = (Inl e, s)"
  by (simp_all add: eff_defs)

text \<open>Reading off a run whose kind of outcome is known.\<close>

lemma run_returns: "\<not> isl (fst p) \<Longrightarrow> \<exists>a. p = (Inr a, snd p)"
  by (cases p; cases "fst p") auto

lemma run_throws: "isl (fst p) \<Longrightarrow> \<exists>e. p = (Inl e, snd p)"
  by (cases p; cases "fst p") auto

lemma eff_mapM_length: "eff_mapM f xs s = (Inr ys, t) \<Longrightarrow> length ys = length xs"
  by (induction xs arbitrary: s ys) (auto simp: eff_bind_Inr_iff eff_return_def)

section \<open>What an operation may change\<close>

text \<open>
  \<open>evolves R m\<close>: whatever the operation does, error paths included, the state it leaves
  is related by \<open>R\<close> to the state it started from.  For a preorder \<open>R\<close> the property is
  compositional, so it needs a proof only for the primitive writes.  An invariant \<open>P\<close> is the
  case \<open>R s t = (P s \<longrightarrow> P t)\<close>.
\<close>

definition evolves :: "('s \<Rightarrow> 's \<Rightarrow> bool) \<Rightarrow> ('e, 's, 'a) eff \<Rightarrow> bool" where
  "evolves R m \<longleftrightarrow> (\<forall>s. R s (snd (m s)))"

definition keeps :: "('s \<Rightarrow> bool) \<Rightarrow> 's \<Rightarrow> 's \<Rightarrow> bool" where
  "keeps P s t \<longleftrightarrow> (P s \<longrightarrow> P t)"

lemma evolvesD: "evolves R m \<Longrightarrow> m s = (r, t) \<Longrightarrow> R s t"
  unfolding evolves_def by (metis snd_conv)

lemma evolvesI: "(\<And>s r t. m s = (r, t) \<Longrightarrow> R s t) \<Longrightarrow> evolves R m"
  unfolding evolves_def by (metis prod.collapse)

locale effect_frame =
  fixes R :: "'s \<Rightarrow> 's \<Rightarrow> bool"
  assumes frame_refl: "R s s"
    and frame_trans: "R s t \<Longrightarrow> R t u \<Longrightarrow> R s u"
begin

lemma evolves_return: "evolves R (eff_return a)"
  by (simp add: evolves_def eff_defs frame_refl)

lemma evolves_throw: "evolves R (eff_throw e)"
  by (simp add: evolves_def eff_defs frame_refl)

lemma evolves_read: "evolves R (eff_read f)"
  by (simp add: evolves_def eff_defs frame_refl)

lemma evolves_require: "evolves R (eff_require c e)"
  by (simp add: evolves_def eff_defs frame_refl)

lemma evolves_some: "evolves R (eff_some x e)"
  by (simp add: evolves_def eff_defs frame_refl split: option.split)

lemma evolves_write: "(\<And>s. R s (f s)) \<Longrightarrow> evolves R (eff_write f)"
  by (simp add: evolves_def eff_defs)

lemma evolves_bind:
  assumes m: "evolves R m" and f: "\<And>a. evolves R (f a)"
  shows "evolves R (eff_bind m f)"
proof (rule evolvesI)
  fix s r u
  assume run: "eff_bind m f s = (r, u)"
  obtain q t where mt: "m s = (q, t)" by (cases "m s")
  have st: "R s t" using evolvesD [OF m mt] .
  show "R s u"
  proof (cases q)
    case (Inl e)
    with run mt st show ?thesis by (simp add: eff_bind_def)
  next
    case (Inr a)
    with run mt have "f a t = (r, u)" by (simp add: eff_bind_def)
    then show ?thesis using evolvesD [OF f] st frame_trans by blast
  qed
qed

lemma evolves_mapM:
  assumes "\<And>x. x \<in> set xs \<Longrightarrow> evolves R (f x)"
  shows "evolves R (eff_mapM f xs)"
  using assms by (induction xs) (auto intro!: evolves_return evolves_bind)

lemma evolves_transaction: "evolves R m \<Longrightarrow> evolves R (eff_transaction m)"
  unfolding evolves_def eff_transaction_def
  by (auto simp: frame_refl split: prod.splits sum.splits) (metis snd_conv)

lemma evolves_catch:
  assumes "evolves R m" and "\<And>e. evolves R (h e)"
  shows "evolves R (eff_catch m h)"
  using assms frame_trans unfolding evolves_def eff_catch_def
  by (auto split: prod.splits sum.splits) (metis snd_conv)+

lemma evolves_sum: "evolves R (eff_sum x)"
  by (simp add: evolves_def eff_sum_def frame_refl)

lemma evolves_if: "evolves R m \<Longrightarrow> evolves R n \<Longrightarrow> evolves R (if c then m else n)"
  by simp

lemma evolves_option:
  "evolves R m \<Longrightarrow> (\<And>a. evolves R (f a)) \<Longrightarrow> evolves R (case x of None \<Rightarrow> m | Some a \<Rightarrow> f a)"
  by (simp split: option.split)

lemmas evolves_intros = evolves_return evolves_throw evolves_read evolves_require
  evolves_some evolves_bind evolves_mapM evolves_transaction evolves_catch evolves_if
  evolves_option evolves_sum

end

text \<open>Every invariant gives such a preorder.\<close>

interpretation keeps: effect_frame "keeps P" for P
  by unfold_locales (auto simp: keeps_def)

section \<open>Tables\<close>

text \<open>
  A table is the list of its rows in insertion order.  \<open>row_find\<close> is
  \<open>SELECT \<dots> WHERE key = k\<close> on a unique key, \<open>row_update\<close> an \<open>UPDATE \<dots> WHERE p\<close>,
  \<open>row_delete\<close> a \<open>DELETE \<dots> WHERE p\<close>.
\<close>

definition row_find :: "('r \<Rightarrow> 'k) \<Rightarrow> 'k \<Rightarrow> 'r list \<Rightarrow> 'r option" where
  "row_find key k t = find (\<lambda>r. key r = k) t"

definition row_update :: "('r \<Rightarrow> bool) \<Rightarrow> ('r \<Rightarrow> 'r) \<Rightarrow> 'r list \<Rightarrow> 'r list" where
  "row_update p f t = map (\<lambda>r. if p r then f r else r) t"

definition row_delete :: "('r \<Rightarrow> bool) \<Rightarrow> 'r list \<Rightarrow> 'r list" where
  "row_delete p t = filter (\<lambda>r. \<not> p r) t"

lemma row_find_Nil [table_simps]: "row_find key k [] = None"
  by (simp add: row_find_def)

lemma row_find_Cons [table_simps]:
  "row_find key k (r # t) = (if key r = k then Some r else row_find key k t)"
  by (simp add: row_find_def)

lemma row_find_SomeD: "row_find key k t = Some r \<Longrightarrow> r \<in> set t \<and> key r = k"
  by (auto simp: row_find_def find_Some_iff)

lemma row_find_None_iff: "row_find key k t = None \<longleftrightarrow> k \<notin> key ` set t"
  by (auto simp: row_find_def find_None_iff)

lemma row_find_Some_key: "row_find key k t = Some r \<Longrightarrow> k \<in> key ` set t"
  by (auto dest!: row_find_SomeD)

lemma row_find_append:
  "row_find key k (s @ t) = (case row_find key k s of None \<Rightarrow> row_find key k t | Some r \<Rightarrow> Some r)"
  by (induction s) (auto simp: table_simps)

lemma row_find_distinct:
  "distinct (map key t) \<Longrightarrow> r \<in> set t \<Longrightarrow> row_find key (key r) t = Some r"
  by (induction t) (auto simp: table_simps)

lemma row_find_update:
  assumes "\<And>r. p r \<Longrightarrow> key (f r) = key r"
  shows "row_find key k (row_update p f t) =
    map_option (\<lambda>r. if p r then f r else r) (row_find key k t)"
  using assms by (induction t) (auto simp: row_update_def table_simps)

lemma row_find_delete:
  assumes "distinct (map key t)"
  shows "row_find key k (row_delete p t) =
    (case row_find key k t of None \<Rightarrow> None | Some r \<Rightarrow> if p r then None else Some r)"
  using assms
  by (induction t)
     (auto simp: row_delete_def table_simps row_find_None_iff split: option.splits
       dest: row_find_Some_key)

lemma row_find_delete_other:
  "row_find key k t = Some r \<Longrightarrow> \<not> p r \<Longrightarrow> row_find key k (row_delete p t) = Some r"
  by (induction t) (auto simp: row_delete_def table_simps split: if_splits)

lemma row_update_simps [table_simps]:
  "row_update p f [] = []"
  "row_update p f (r # t) = (if p r then f r else r) # row_update p f t"
  by (simp_all add: row_update_def)

lemma row_delete_simps [table_simps]:
  "row_delete p [] = []"
  "row_delete p (r # t) = (if p r then row_delete p t else r # row_delete p t)"
  by (simp_all add: row_delete_def)

lemma map_row_update:
  "(\<And>r. p r \<Longrightarrow> key (f r) = key r) \<Longrightarrow> map key (row_update p f t) = map key t"
  by (induction t) (auto simp: table_simps)

lemma image_row_update:
  "(\<And>r. p r \<Longrightarrow> key (f r) = key r) \<Longrightarrow> key ` set (row_update p f t) = key ` set t"
  by (induction t) (auto simp: table_simps)

lemma set_row_update: "set (row_update p f t) = (\<lambda>r. if p r then f r else r) ` set t"
  by (simp add: row_update_def)

lemma set_row_delete: "set (row_delete p t) = {r \<in> set t. \<not> p r}"
  by (auto simp: row_delete_def)

lemma image_row_delete: "f ` set (row_delete p t) \<subseteq> f ` set t"
  by (auto simp: set_row_delete)

lemma image_row_delete_key [table_simps]:
  "key ` set (row_delete (\<lambda>r. key r = i) t) = key ` set t - {i}"
  by (auto simp: set_row_delete)

lemma row_delete_append: "row_delete p (s @ t) = row_delete p s @ row_delete p t"
  by (simp add: row_delete_def)

lemma distinct_row_delete: "distinct (map key t) \<Longrightarrow> distinct (map key (row_delete p t))"
  by (simp add: row_delete_def distinct_map_filter)

section \<open>Association lists\<close>

text \<open>\<open>o[k] = v\<close> and \<open>map.set(k, v)\<close> on a list of entries: a new key comes last.\<close>

definition assoc_put :: "'k \<Rightarrow> 'v \<Rightarrow> ('k \<times> 'v) list \<Rightarrow> ('k \<times> 'v) list" where
  "assoc_put k v kvs =
     (if k \<in> fst ` set kvs then map (\<lambda>(k', v'). if k' = k then (k, v) else (k', v')) kvs else kvs @ [(k, v)])"

lemma map_of_replace:
  "map_of (map (\<lambda>(k', v'). if k' = k then (k, v) else (k', v')) kvs) i =
     (if i = k \<and> k \<in> fst ` set kvs then Some v else map_of kvs i)"
proof (induction kvs)
  case (Cons p kvs)
  obtain x y where p: "p = (x, y)" by (cases p)
  with Cons show ?case by (cases "x = k"; cases "i = k") simp_all
qed simp

lemma map_of_assoc_put: "map_of (assoc_put k v kvs) i = (if i = k then Some v else map_of kvs i)"
proof (cases "k \<in> fst ` set kvs")
  case False
  then have "map_of kvs k = None" by (simp add: map_of_eq_None_iff)
  with False show ?thesis by (simp add: assoc_put_def map_add_def split: option.split)
qed (simp add: assoc_put_def map_of_replace)

lemma map_of_rev_assoc_put: "map_of (rev (assoc_put k v kvs)) i = (if i = k then Some v else map_of (rev kvs) i)"
  by (cases "k \<in> fst ` set kvs") (simp_all add: assoc_put_def rev_map map_of_replace)

section \<open>JavaScript conventions\<close>

text \<open>A string in a condition is true unless it is empty; an absent value is false.\<close>

definition truthy :: "string option \<Rightarrow> bool" where
  "truthy s = (case s of None \<Rightarrow> False | Some t \<Rightarrow> t \<noteq> [])"

lemma truthy_simps [simp]: "truthy None = False" "truthy (Some s) = (s \<noteq> [])"
  by (simp_all add: truthy_def)

text \<open>\<open>ss.join(sep)\<close>.\<close>

fun join_strings :: "string \<Rightarrow> string list \<Rightarrow> string" where
  "join_strings sep [] = []"
| "join_strings sep [s] = s"
| "join_strings sep (s # t # ss) = s @ sep @ join_strings sep (t # ss)"

text \<open>\<open>x ?? d\<close>.\<close>

definition nullish :: "'a option \<Rightarrow> 'a \<Rightarrow> 'a" where
  "nullish x d = (case x of None \<Rightarrow> d | Some a \<Rightarrow> a)"

lemma nullish_simps [simp]: "nullish None d = d" "nullish (Some a) d = a"
  by (simp_all add: nullish_def)

text \<open>\<open>Math.ceil(a / b)\<close> for a positive divisor.\<close>

definition ceil_div :: "int \<Rightarrow> int \<Rightarrow> int" where
  "ceil_div a b = - ((- a) div b)"

lemma ceil_div_bounds:
  assumes "0 < b"
  shows "a \<le> ceil_div a b * b" and "ceil_div a b * b < a + b"
proof -
  have *: "(- a) div b * b = - a - (- a) mod b"
    by (simp add: minus_mod_eq_div_mult [symmetric])
  have "0 \<le> (- a) mod b" "(- a) mod b < b" using assms by simp_all
  with * show "a \<le> ceil_div a b * b" "ceil_div a b * b < a + b"
    by (simp_all add: ceil_div_def)
qed

end
