(* ===== verification/Json_Value.thy ===== *)
theory Json_Value
  imports Conduit_Prelude
begin

text \<open>
  JSON values as the gateway handles them: request bodies, call arguments, error fields and
  response bodies.  A number is the rational value of the finite double it is parsed to; an
  object is the list of its entries in order.
\<close>

datatype json =
    JNull
  | JBool bool
  | JNum rat
  | JStr string
  | JArr "json list"
  | JObj "(string \<times> json) list"

text \<open>\<open>o[field]\<close>: \<open>None\<close> is \<open>undefined\<close>.  A later entry overrides an earlier one.\<close>

type_synonym json_object = "(string \<times> json) list"

definition field_of :: "json_object \<Rightarrow> string \<Rightarrow> json option" where
  "field_of kvs k = map_of (rev kvs) k"

text \<open>The truth value of a member in a condition.\<close>

fun json_truthy :: "json \<Rightarrow> bool" where
  "json_truthy JNull = False"
| "json_truthy (JBool b) = b"
| "json_truthy (JNum n) = (n \<noteq> 0)"
| "json_truthy (JStr s) = (s \<noteq> [])"
| "json_truthy (JArr xs) = True"
| "json_truthy (JObj kvs) = True"

definition member_truthy :: "json option \<Rightarrow> bool" where
  "member_truthy v = (case v of None \<Rightarrow> False | Some j \<Rightarrow> json_truthy j)"

definition put_field :: "string \<Rightarrow> json \<Rightarrow> json_object \<Rightarrow> json_object" where
  "put_field k v kvs = assoc_put k v kvs"

text \<open>A member that is left out when its value is undefined.\<close>

definition member :: "string \<Rightarrow> json option \<Rightarrow> json_object" where
  "member k v = (case v of None \<Rightarrow> [] | Some j \<Rightarrow> [(k, j)])"

definition nullable :: "('a \<Rightarrow> json) \<Rightarrow> 'a option \<Rightarrow> json" where
  "nullable f x = (case x of None \<Rightarrow> JNull | Some a \<Rightarrow> f a)"

definition jint :: "int \<Rightarrow> json" where
  "jint n = JNum (of_int n)"

definition jstrs :: "string list \<Rightarrow> json" where
  "jstrs ss = JArr (map JStr ss)"

lemma field_of_Nil [simp]: "field_of [] k = None"
  by (simp add: field_of_def)

lemma field_of_snoc [simp]:
  "field_of (kvs @ [(k, v)]) k' = (if k' = k then Some v else field_of kvs k')"
  by (simp add: field_of_def)

lemma field_of_put [simp]: "field_of (put_field k v kvs) i = (if i = k then Some v else field_of kvs i)"
  by (simp add: put_field_def field_of_def map_of_rev_assoc_put)

lemma nullable_simps [simp]: "nullable f None = JNull" "nullable f (Some a) = f a"
  by (simp_all add: nullable_def)

end
