(* ===== verification/Core_Errors.thy ===== *)
theory Core_Errors
  imports Json_Value
begin

text \<open>
  The standardized error codes and the error class of \<^verbatim>\<open>packages/core/src/errors\<close>.  An
  exception of the gateway is a \<^verbatim>\<open>ConduitError\<close> or any other JavaScript error (a driver or
  database failure, a failed \<^verbatim>\<open>JSON.parse\<close>).
\<close>

datatype error_code =
    InvalidRequest | InvalidJwt | UnknownConstraintOperator | CapabilityNotGranted
  | ConstraintViolated | PolicyDenied | ApprovalRequired | LimitExceeded | AgentRevokedError
  | AgentExpiredError | AgentPendingError | AgentRejectedError | AgentClaimedError
  | AbsoluteLifetimeExceeded | HostRevokedError | HostPendingError | Unauthorized
  | RateLimited | InternalError | UnsupportedMode | UnsupportedAlgorithm
  | InvalidCapabilities | AgentExists | AlreadyGranted | AgentNotFound | HostNotFound
  | CapabilityNotFound | AuthenticationRequired

fun error_wire :: "error_code \<Rightarrow> string" where
  "error_wire InvalidRequest = ''invalid_request''"
| "error_wire InvalidJwt = ''invalid_jwt''"
| "error_wire UnknownConstraintOperator = ''unknown_constraint_operator''"
| "error_wire CapabilityNotGranted = ''capability_not_granted''"
| "error_wire ConstraintViolated = ''constraint_violated''"
| "error_wire PolicyDenied = ''policy_denied''"
| "error_wire ApprovalRequired = ''approval_required''"
| "error_wire LimitExceeded = ''limit_exceeded''"
| "error_wire AgentRevokedError = ''agent_revoked''"
| "error_wire AgentExpiredError = ''agent_expired''"
| "error_wire AgentPendingError = ''agent_pending''"
| "error_wire AgentRejectedError = ''agent_rejected''"
| "error_wire AgentClaimedError = ''agent_claimed''"
| "error_wire AbsoluteLifetimeExceeded = ''absolute_lifetime_exceeded''"
| "error_wire HostRevokedError = ''host_revoked''"
| "error_wire HostPendingError = ''host_pending''"
| "error_wire Unauthorized = ''unauthorized''"
| "error_wire RateLimited = ''rate_limited''"
| "error_wire InternalError = ''internal_error''"
| "error_wire UnsupportedMode = ''unsupported_mode''"
| "error_wire UnsupportedAlgorithm = ''unsupported_algorithm''"
| "error_wire InvalidCapabilities = ''invalid_capabilities''"
| "error_wire AgentExists = ''agent_exists''"
| "error_wire AlreadyGranted = ''already_granted''"
| "error_wire AgentNotFound = ''agent_not_found''"
| "error_wire HostNotFound = ''host_not_found''"
| "error_wire CapabilityNotFound = ''capability_not_found''"
| "error_wire AuthenticationRequired = ''authentication_required''"

record conduit_error =
  ce_code :: error_code
  ce_message :: string
  ce_httpStatus :: nat
  ce_fields :: json_object

datatype fault = ConduitError conduit_error | OtherError string

definition conduit_err :: "error_code \<Rightarrow> string \<Rightarrow> nat \<Rightarrow> json_object \<Rightarrow> fault" where
  "conduit_err c m st fs =
     ConduitError \<lparr>ce_code = c, ce_message = m, ce_httpStatus = st, ce_fields = fs\<rparr>"

text \<open>An error without extra fields, as most are.\<close>

abbreviation err :: "error_code \<Rightarrow> string \<Rightarrow> nat \<Rightarrow> fault" where
  "err c m st \<equiv> conduit_err c m st []"

text \<open>
  \<^verbatim>\<open>toEnvelope()\<close>: the spread of the fields comes last, so a field named \<^verbatim>\<open>error\<close> or
  \<^verbatim>\<open>message\<close> would win.
\<close>

definition toEnvelope :: "conduit_error \<Rightarrow> json_object" where
  "toEnvelope e =
     [(''error'', JStr (error_wire (ce_code e))), (''message'', JStr (ce_message e))] @ ce_fields e"

fun fault_code :: "fault \<Rightarrow> error_code option" where
  "fault_code (ConduitError e) = Some (ce_code e)"
| "fault_code (OtherError m) = None"

fun fault_status :: "fault \<Rightarrow> nat" where
  "fault_status (ConduitError e) = ce_httpStatus e"
| "fault_status (OtherError m) = 500"

lemma fault_code_err [simp]: "fault_code (conduit_err c m st fs) = Some c"
  by (simp add: conduit_err_def)

lemma fault_status_err [simp]: "fault_status (conduit_err c m st fs) = st"
  by (simp add: conduit_err_def)

lemma conduit_err_eq_iff [simp]:
  "conduit_err c m st fs = conduit_err c' m' st' fs' \<longleftrightarrow> c = c' \<and> m = m' \<and> st = st' \<and> fs = fs'"
  by (simp add: conduit_err_def)

lemma conduit_err_not_other [simp]:
  "conduit_err c m st fs \<noteq> OtherError x" "OtherError x \<noteq> conduit_err c m st fs"
  by (simp_all add: conduit_err_def)

lemma error_wire_inj: "inj error_wire"
proof (rule injI)
  fix c d assume "error_wire c = error_wire d"
  then show "c = d" by (cases c; cases d) simp_all
qed

end
