(* ===== verification/Core_Types.thy ===== *)
theory Core_Types
  imports Core_Errors
begin

text \<open>
  The shared contracts of \<^verbatim>\<open>packages/core/src/types\<close>: one record or datatype per interface,
  with the source's field names behind a short prefix (record fields are global names).  An
  optional or nullable field is an \<open>option\<close>; a \<^verbatim>\<open>Date\<close> is its number of milliseconds.
\<close>

section \<open>Keys and token claims\<close>

record jwk =
  jwk_kty :: string
  jwk_crv :: string
  jwk_x :: string
  jwk_kid :: "string option"
  jwk_use :: "string option"
  jwk_alg :: "string option"

datatype jwt_typ = HostJwt | AgentJwt

fun jwt_typ_wire :: "jwt_typ \<Rightarrow> string" where
  "jwt_typ_wire HostJwt = ''host+jwt''"
| "jwt_typ_wire AgentJwt = ''agent+jwt''"

section \<open>Hosts and agents\<close>

datatype agent_state =
    AgentPending | AgentActive | AgentExpired | AgentRevoked | AgentRejected | AgentClaimed

datatype host_state = HostActive | HostPending | HostRevoked | HostRejected

datatype agent_mode = Delegated | Autonomous

fun agent_state_wire :: "agent_state \<Rightarrow> string" where
  "agent_state_wire AgentPending = ''pending''"
| "agent_state_wire AgentActive = ''active''"
| "agent_state_wire AgentExpired = ''expired''"
| "agent_state_wire AgentRevoked = ''revoked''"
| "agent_state_wire AgentRejected = ''rejected''"
| "agent_state_wire AgentClaimed = ''claimed''"

fun host_state_wire :: "host_state \<Rightarrow> string" where
  "host_state_wire HostActive = ''active''"
| "host_state_wire HostPending = ''pending''"
| "host_state_wire HostRevoked = ''revoked''"
| "host_state_wire HostRejected = ''rejected''"

fun agent_mode_wire :: "agent_mode \<Rightarrow> string" where
  "agent_mode_wire Delegated = ''delegated''"
| "agent_mode_wire Autonomous = ''autonomous''"

record host =
  h_id :: uuid
  h_publicKeyJwk :: "jwk option"
  h_jwksUrl :: "string option"
  h_userId :: "string option"
  h_defaultCapabilities :: "string list"
  h_status :: host_state
  h_createdAt :: millis
  h_updatedAt :: millis

record agent =
  a_id :: uuid
  a_hostId :: uuid
  a_projectId :: "uuid option"
  a_name :: "string option"
  a_description :: "string option"
  a_publicKeyJwk :: "jwk option"
  a_jwksUrl :: "string option"
  a_status :: agent_state
  a_mode :: agent_mode
  a_activatedAt :: "millis option"
  a_sessionExpiresAt :: "millis option"
  a_maxLifetimeExpiresAt :: "millis option"
  a_absoluteExpiresAt :: "millis option"
  a_createdAt :: millis
  a_updatedAt :: millis

section \<open>Capabilities and their constraints\<close>

datatype scalar = SStr string | SNum rat | SBool bool

text \<open>
  An operator object: the four operators of the interface and, as the object comes from a
  request body, the names of any other keys it carries.
\<close>

record constraint_object =
  co_max :: "rat option"
  co_min :: "rat option"
  co_in :: "scalar list option"
  co_not_in :: "scalar list option"
  co_other :: "string list"

datatype capconstraint = CScalar scalar | CObject constraint_object

text \<open>\<^verbatim>\<open>Record<string, Constraint>\<close>: an object with distinct keys in insertion order.\<close>

type_synonym constraints = "(string \<times> capconstraint) list"

datatype grant_status = GrantActive | GrantPending | GrantDenied

fun grant_status_wire :: "grant_status \<Rightarrow> string" where
  "grant_status_wire GrantActive = ''active''"
| "grant_status_wire GrantPending = ''pending''"
| "grant_status_wire GrantDenied = ''denied''"

record capability_grant =
  g_id :: uuid
  g_agentId :: uuid
  g_capability :: string
  g_connectionId :: "uuid option"
  g_operation :: "string option"
  g_taskId :: "uuid option"
  g_status :: grant_status
  g_constraints :: constraints
  g_grantedBy :: "uuid option"
  g_deniedBy :: "uuid option"
  g_reason :: "string option"
  g_expiresAt :: "millis option"
  g_createdAt :: millis

section \<open>Connections, projects, tasks, tools\<close>

record connection =
  c_id :: uuid
  c_name :: string
  c_projectId :: "uuid option"
  c_platform :: string
  c_credentialEncrypted :: "char list"
  c_allowedOperations :: "string list"
  c_createdAt :: millis
  c_lastTestOk :: "bool option"
  c_lastTestAt :: "millis option"
  c_lastTestDetail :: "string option"

record connection_grant =
  cg_id :: uuid
  cg_agentId :: uuid
  cg_connectionId :: uuid
  cg_allowedOperations :: "string list"
  cg_rateLimit :: "int option"

record project =
  p_id :: uuid
  p_name :: string
  p_description :: "string option"
  p_createdAt :: millis

datatype task_status = TaskActive | TaskCompleted | TaskExpired

fun task_status_wire :: "task_status \<Rightarrow> string" where
  "task_status_wire TaskActive = ''active''"
| "task_status_wire TaskCompleted = ''completed''"
| "task_status_wire TaskExpired = ''expired''"

record task =
  t_id :: uuid
  t_agentId :: uuid
  t_hostId :: uuid
  t_name :: string
  t_purpose :: "string option"
  t_status :: task_status
  t_expiresAt :: "millis option"
  t_createdAt :: millis
  t_completedAt :: "millis option"

datatype adapter_type = Mcp | OpenApi | Cli

fun adapter_type_wire :: "adapter_type \<Rightarrow> string" where
  "adapter_type_wire Mcp = ''mcp''"
| "adapter_type_wire OpenApi = ''openapi''"
| "adapter_type_wire Cli = ''cli''"

record canonical_schema =
  cs_name :: string
  cs_description :: string
  cs_input :: json
  cs_output :: "json option"

record tool =
  tl_id :: uuid
  tl_name :: string
  tl_adapterType :: adapter_type
  tl_adapterConfig :: json_object
  tl_schemaCache :: "canonical_schema option"
  tl_schemaCachedAt :: "millis option"

section \<open>Audit\<close>

datatype audit_outcome = OutcomeSuccess | OutcomeDenied | OutcomeError

fun audit_outcome_wire :: "audit_outcome \<Rightarrow> string" where
  "audit_outcome_wire OutcomeSuccess = ''success''"
| "audit_outcome_wire OutcomeDenied = ''denied''"
| "audit_outcome_wire OutcomeError = ''error''"

record audit_entry =
  ae_id :: uuid
  ae_agentId :: "uuid option"
  ae_hostId :: "uuid option"
  ae_eventType :: string
  ae_capability :: "string option"
  ae_connectionId :: "uuid option"
  ae_operation :: "string option"
  ae_taskId :: "uuid option"
  ae_outcome :: audit_outcome
  ae_argsHash :: "string option"
  ae_durationMs :: "int option"
  ae_createdAt :: millis

datatype security_event_type =
    JtiReplayDetected | TokenConfusion | SignatureInvalid | ClockSkewRejected
  | ConstraintViolatedEvent | RateLimitExceeded | RevokedPrincipalDenied

section \<open>Policy\<close>

datatype policy_effect = Allow | Deny | RequireApproval

datatype risk_level = RiskLow | RiskMed | RiskHigh

record policy_rule =
  pr_id :: string
  pr_description :: "string option"
  pr_effect :: policy_effect
  pr_agentModes :: "string list option"
  pr_capabilities :: "string list option"
  pr_platforms :: "string list option"
  pr_operations :: "string list option"
  pr_minRisk :: "risk_level option"

record policy_config =
  pc_enabled :: bool
  pc_defaultEffect :: policy_effect
  pc_rules :: "policy_rule list"

record policy_context =
  px_agentMode :: string
  px_capability :: string
  px_platform :: string
  px_operation :: string
  px_risk :: risk_level

record policy_decision =
  pd_effect :: policy_effect
  pd_ruleId :: "string option"

section \<open>Discovery\<close>

text \<open>\<^verbatim>\<open>parseMajorVersion\<close>: the digits at the start of the version string.\<close>

definition is_digit_char :: "char \<Rightarrow> bool" where
  "is_digit_char c \<longleftrightarrow> (48::nat) \<le> of_char c \<and> of_char c \<le> (57::nat)"

fun digits_value :: "nat \<Rightarrow> string \<Rightarrow> nat" where
  "digits_value acc [] = acc"
| "digits_value acc (c # cs) = digits_value (acc * 10 + (of_char c - 48)) cs"

definition parseMajorVersion :: "string \<Rightarrow> nat option" where
  "parseMajorVersion v =
     (let ds = takeWhile is_digit_char v in if ds = [] then None else Some (digits_value 0 ds))"

definition AAP_VERSION :: string where
  "AAP_VERSION = ''1.0-draft''"

definition AAP_SUPPORTED_MAJOR :: nat where
  "AAP_SUPPORTED_MAJOR = 1"

definition isSupportedVersion :: "string \<Rightarrow> nat \<Rightarrow> bool" where
  "isSupportedVersion v supportedMajor \<longleftrightarrow> parseMajorVersion v = Some supportedMajor"

lemma isSupportedVersion_own: "isSupportedVersion AAP_VERSION AAP_SUPPORTED_MAJOR"
  by code_simp

text \<open>
  The record fields and the datatypes of this theory are used through their selectors; the
  order of risk levels is the order of their ranks.
\<close>

fun riskRank :: "risk_level \<Rightarrow> int" where
  "riskRank RiskLow = 1"
| "riskRank RiskMed = 2"
| "riskRank RiskHigh = 3"

lemma riskRank_inj: "riskRank a = riskRank b \<longleftrightarrow> a = b"
  by (cases a; cases b) simp_all

instantiation risk_level :: linorder
begin

definition less_eq_risk_level :: "risk_level \<Rightarrow> risk_level \<Rightarrow> bool" where
  "a \<le> b \<longleftrightarrow> riskRank a \<le> riskRank b"

definition less_risk_level :: "risk_level \<Rightarrow> risk_level \<Rightarrow> bool" where
  "a < b \<longleftrightarrow> riskRank a < riskRank b"

instance
  by standard (auto simp: less_eq_risk_level_def less_risk_level_def riskRank_inj)

end

end
