(* ===== verification/Base64url.thy ===== *)
theory Base64url
  imports Core_Errors
begin

text \<open>
  The byte-level codecs of the gateway: base64url as \<^verbatim>\<open>Buffer\<close> encodes and decodes it (used for
  token segments, thumbprints and page cursors), and the opaque page cursor of
  \<^verbatim>\<open>drivers/postgres/rowMappers.ts\<close>.  A string is its list of bytes.
\<close>

section \<open>base64url\<close>

definition b64_char :: "nat \<Rightarrow> char" where
  "b64_char n =
     (if n < 26 then char_of (n + 65) else if n < 52 then char_of (n + 71)
      else if n < 62 then char_of (n - 4) else if n = 62 then CHR ''-'' else CHR ''_'')"

text \<open>
  The decoder also takes the characters of plain base64; any other character (padding and white
  space included) is skipped.
\<close>

definition b64_value :: "char \<Rightarrow> nat option" where
  "b64_value c =
     (let n = of_char c :: nat in
      if 65 \<le> n \<and> n \<le> 90 then Some (n - 65)
      else if 97 \<le> n \<and> n \<le> 122 then Some (n - 71)
      else if 48 \<le> n \<and> n \<le> 57 then Some (n + 4)
      else if n = 45 \<or> n = 43 then Some 62
      else if n = 95 \<or> n = 47 then Some 63
      else None)"

fun b64_sextets :: "nat list \<Rightarrow> nat list" where
  "b64_sextets [] = []"
| "b64_sextets [a] = [a div 4, (a mod 4) * 16]"
| "b64_sextets [a, b] = [a div 4, (a mod 4) * 16 + b div 16, (b mod 16) * 4]"
| "b64_sextets (a # b # c # bs) =
     (a div 4) # ((a mod 4) * 16 + b div 16) # ((b mod 16) * 4 + c div 64) # (c mod 64) # b64_sextets bs"

text \<open>The last group of a decoder input may be short; a single sextet is dropped.\<close>

fun b64_bytes :: "nat list \<Rightarrow> nat list" where
  "b64_bytes [] = []"
| "b64_bytes [x] = []"
| "b64_bytes [x, y] = [x * 4 + y div 16]"
| "b64_bytes [x, y, z] = [x * 4 + y div 16, (y mod 16) * 16 + z div 4]"
| "b64_bytes (x # y # z # w # xs) =
     (x * 4 + y div 16) # ((y mod 16) * 16 + z div 4) # ((z mod 4) * 64 + w) # b64_bytes xs"

definition base64url :: "string \<Rightarrow> string" where
  "base64url s = map b64_char (b64_sextets (map of_char s))"

definition from_base64url :: "string \<Rightarrow> string" where
  "from_base64url s = map char_of (b64_bytes (List.map_filter b64_value s))"

lemma b64_char_value: "n < 64 \<Longrightarrow> b64_value (b64_char n) = Some n"
  by (auto simp: b64_char_def b64_value_def Let_def)

lemma pack_div: "r < n \<Longrightarrow> (q * n + r) div n = q" for q n r :: nat
  by simp

lemma pack_mod: "r < n \<Longrightarrow> (q * n + r) mod n = r" for q n r :: nat
  by simp

lemma byte_parts:
  assumes "b < (256::nat)"
  shows "b div 4 < 64" "b div 16 < 16" "b div 64 < 4" "b mod 4 < 4" "b mod 16 < 16" "b mod 64 < 64"
  using assms by (simp_all add: less_mult_imp_div_less)

lemma pack_bound:
  fixes q r :: nat
  assumes "q < m" "r < n"
  shows "q * n + r < m * n"
proof -
  have "q * n + r < Suc q * n" using assms by simp
  also have "Suc q * n \<le> m * n" using assms by (simp del: mult_Suc)
  finally show ?thesis .
qed

lemma sextet_bounds:
  assumes "b < (256::nat)" "c < 256"
  shows "(a mod 4) * 16 + b div 16 < 64" "(b mod 16) * 4 + c div 64 < 64"
    "(a mod 4) * 16 < 64" "(a mod 16) * 4 < 64"
  using pack_bound [of "a mod 4" 4 "b div 16" 16] pack_bound [of "b mod 16" 16 "c div 64" 4]
    pack_bound [of "a mod 4" 4 0 16] pack_bound [of "a mod 16" 16 0 4] byte_parts [of b] byte_parts [of c] assms
  by simp_all

lemma b64_sextets_bound: "\<forall>b \<in> set bs. b < 256 \<Longrightarrow> \<forall>x \<in> set (b64_sextets bs). x < 64"
proof (induction bs rule: b64_sextets.induct)
  case (2 a)
  then show ?case by (simp add: byte_parts sextet_bounds [of a a])
next
  case (3 a b)
  then show ?case by (simp add: byte_parts sextet_bounds [of b a] sextet_bounds [of a b])
next
  case (4 a b c bs)
  then show ?case by (simp add: byte_parts sextet_bounds [of b c])
qed simp

lemma b64_bytes_sextets: "\<forall>b \<in> set bs. b < 256 \<Longrightarrow> b64_bytes (b64_sextets bs) = bs"
proof (induction bs rule: b64_sextets.induct)
  case (2 a)
  then show ?case by simp
next
  case (3 a b)
  then have p: "b div 16 < 16" using byte_parts by simp
  show ?case using pack_div [OF p] pack_mod [OF p] by simp
next
  case (4 a b c bs)
  then have p: "b div 16 < 16" and q: "c div 64 < 4" using byte_parts by simp_all
  show ?case using 4 pack_div [OF p] pack_mod [OF p] pack_div [OF q] pack_mod [OF q] by simp
qed simp

lemma map_filter_b64:
  "\<forall>x \<in> set xs. x < 64 \<Longrightarrow> List.map_filter b64_value (map b64_char xs) = xs"
  by (induction xs) (simp_all add: List.map_filter_simps b64_char_value)

lemma from_base64url_base64url: "from_base64url (base64url s) = s"
proof -
  let ?bs = "map of_char s :: nat list"
  have b: "\<forall>b \<in> set ?bs. b < 256" by auto
  have "List.map_filter b64_value (base64url s) = b64_sextets ?bs"
    unfolding base64url_def by (rule map_filter_b64) (rule b64_sextets_bound [OF b])
  then have "from_base64url (base64url s) = map char_of ?bs"
    by (simp add: from_base64url_def b64_bytes_sextets [OF b])
  then show ?thesis by (simp add: map_idI)
qed

section \<open>Page cursors\<close>

text \<open>
  A cursor is the base64url text of \<^verbatim>\<open><ISO time>|<id>\<close>.  The printed time and id are
  arguments: \<open>toISOString\<close> and the text of a uuid.
\<close>

definition encodeCursor :: "string \<Rightarrow> string \<Rightarrow> string" where
  "encodeCursor isoCreatedAt i = base64url (isoCreatedAt @ ''|'' @ i)"

definition decodeCursor :: "string \<Rightarrow> fault + (string \<times> string)" where
  "decodeCursor cursor =
     (let raw = from_base64url cursor; ts = takeWhile (\<lambda>c. c \<noteq> CHR ''|'') raw
      in if CHR ''|'' \<notin> set raw then Inl (OtherError ''malformed pagination cursor'')
         else Inr (ts, drop (length ts + 1) raw))"

lemma decodeCursor_encodeCursor_raw:
  assumes "CHR ''|'' \<notin> set ts"
  shows "decodeCursor (encodeCursor ts i) = Inr (ts, i)"
proof -
  have "takeWhile (\<lambda>c. c \<noteq> CHR ''|'') (ts @ CHR ''|'' # i) = ts"
    using assms by (subst takeWhile_append2) auto
  then show ?thesis
    by (simp add: decodeCursor_def encodeCursor_def from_base64url_base64url)
qed

text \<open>
  A page cursor survives the round trip through its opaque base64url text: decoding an encoded
  cursor gives back the time and the id, for every time text without a bar (an ISO time has none)
  and whatever the id is.
\<close>

lemma decodeCursor_encodeCursor:
  assumes "CHR ''|'' \<notin> set ts"
  shows "decodeCursor (encodeCursor ts i) = Inr (ts, i)"
  using assms by (rule decodeCursor_encodeCursor_raw)

lemma decodeCursor_encodeCursor_witness:
  "decodeCursor (encodeCursor ''2024-06-01T12:00:00.123Z'' ''7f'') =
     Inr (''2024-06-01T12:00:00.123Z'', ''7f'')"
  by (rule decodeCursor_encodeCursor) code_simp

end
