(* ===== verification/Storage_Db.thy ===== *)
theory Storage_Db
  imports Core_Types Base64url
begin

text \<open>
  The database behind \<^verbatim>\<open>packages/storage\<close>: the row types of the Postgres driver with their
  mapping to the domain types, the tables with the constraints of \<^verbatim>\<open>migrations/postgres\<close>, and
  keyset pagination.  Row timestamps are microseconds; a mapped row has milliseconds.
\<close>

section \<open>Rows\<close>

record host_row =
  hr_id :: uuid
  hr_public_key_jwk :: "jwk option"
  hr_jwks_url :: "string option"
  hr_key_thumbprint :: "string option"
  hr_user_id :: "string option"
  hr_default_capabilities :: "string list"
  hr_status :: host_state
  hr_created_at :: micros
  hr_updated_at :: micros

record agent_row =
  ar_id :: uuid
  ar_host_id :: uuid
  ar_project_id :: "uuid option"
  ar_public_key_jwk :: "jwk option"
  ar_jwks_url :: "string option"
  ar_name :: "string option"
  ar_description :: "string option"
  ar_status :: agent_state
  ar_mode :: agent_mode
  ar_activated_at :: "micros option"
  ar_session_expires_at :: "micros option"
  ar_max_lifetime_expires_at :: "micros option"
  ar_absolute_expires_at :: "micros option"
  ar_created_at :: micros
  ar_updated_at :: micros

record project_row =
  por_id :: uuid
  por_name :: string
  por_description :: "string option"
  por_created_at :: micros

record grant_row =
  gr_id :: uuid
  gr_agent_id :: uuid
  gr_capability :: string
  gr_connection_id :: "uuid option"
  gr_operation :: "string option"
  gr_task_id :: "uuid option"
  gr_status :: grant_status
  gr_constraints :: constraints
  gr_granted_by :: "uuid option"
  gr_denied_by :: "uuid option"
  gr_reason :: "string option"
  gr_expires_at :: "micros option"
  gr_created_at :: micros

record task_row =
  tr_id :: uuid
  tr_agent_id :: uuid
  tr_host_id :: uuid
  tr_name :: string
  tr_purpose :: "string option"
  tr_status :: task_status
  tr_expires_at :: "micros option"
  tr_created_at :: micros
  tr_completed_at :: "micros option"

record connection_row =
  cr_id :: uuid
  cr_name :: string
  cr_project_id :: "uuid option"
  cr_platform :: string
  cr_credential_encrypted :: "char list"
  cr_allowed_operations :: "string list"
  cr_created_at :: micros
  cr_last_test_ok :: "bool option"
  cr_last_test_at :: "micros option"
  cr_last_test_detail :: "string option"

record conn_grant_row =
  cgr_id :: uuid
  cgr_agent_id :: uuid
  cgr_connection_id :: uuid
  cgr_allowed_operations :: "string list"
  cgr_rate_limit :: "int option"
  cgr_created_at :: micros

record tool_row =
  tlr_id :: uuid
  tlr_name :: string
  tlr_adapter_type :: adapter_type
  tlr_adapter_config :: json_object
  tlr_schema_cache :: "canonical_schema option"
  tlr_schema_cached_at :: "micros option"

record audit_row =
  aur_id :: uuid
  aur_agent_id :: "uuid option"
  aur_host_id :: "uuid option"
  aur_event_type :: string
  aur_capability :: "string option"
  aur_connection_id :: "uuid option"
  aur_operation :: "string option"
  aur_task_id :: "uuid option"
  aur_outcome :: audit_outcome
  aur_args_hash :: "string option"
  aur_duration_ms :: "int option"
  aur_created_at :: micros

record jti_row =
  jr_jti :: string
  jr_expires_at :: micros

section \<open>Mapping a row to the domain\<close>

definition mapHostRow :: "host_row \<Rightarrow> host" where
  "mapHostRow r =
    \<lparr>h_id = hr_id r, h_publicKeyJwk = hr_public_key_jwk r, h_jwksUrl = hr_jwks_url r,
     h_userId = hr_user_id r, h_defaultCapabilities = hr_default_capabilities r,
     h_status = hr_status r, h_createdAt = js_date (hr_created_at r),
     h_updatedAt = js_date (hr_updated_at r)\<rparr>"

definition mapAgentRow :: "agent_row \<Rightarrow> agent" where
  "mapAgentRow r =
    \<lparr>a_id = ar_id r, a_hostId = ar_host_id r, a_projectId = ar_project_id r,
     a_name = ar_name r, a_description = ar_description r,
     a_publicKeyJwk = ar_public_key_jwk r, a_jwksUrl = ar_jwks_url r,
     a_status = ar_status r, a_mode = ar_mode r,
     a_activatedAt = map_option js_date (ar_activated_at r),
     a_sessionExpiresAt = map_option js_date (ar_session_expires_at r),
     a_maxLifetimeExpiresAt = map_option js_date (ar_max_lifetime_expires_at r),
     a_absoluteExpiresAt = map_option js_date (ar_absolute_expires_at r),
     a_createdAt = js_date (ar_created_at r), a_updatedAt = js_date (ar_updated_at r)\<rparr>"

definition mapProjectRow :: "project_row \<Rightarrow> project" where
  "mapProjectRow r =
    \<lparr>p_id = por_id r, p_name = por_name r, p_description = por_description r,
     p_createdAt = js_date (por_created_at r)\<rparr>"

definition mapGrantRow :: "grant_row \<Rightarrow> capability_grant" where
  "mapGrantRow r =
    \<lparr>g_id = gr_id r, g_agentId = gr_agent_id r, g_capability = gr_capability r,
     g_connectionId = gr_connection_id r, g_operation = gr_operation r, g_taskId = gr_task_id r,
     g_status = gr_status r, g_constraints = gr_constraints r, g_grantedBy = gr_granted_by r,
     g_deniedBy = gr_denied_by r, g_reason = gr_reason r,
     g_expiresAt = map_option js_date (gr_expires_at r), g_createdAt = js_date (gr_created_at r)\<rparr>"

definition mapTaskRow :: "task_row \<Rightarrow> task" where
  "mapTaskRow r =
    \<lparr>t_id = tr_id r, t_agentId = tr_agent_id r, t_hostId = tr_host_id r, t_name = tr_name r,
     t_purpose = tr_purpose r, t_status = tr_status r,
     t_expiresAt = map_option js_date (tr_expires_at r), t_createdAt = js_date (tr_created_at r),
     t_completedAt = map_option js_date (tr_completed_at r)\<rparr>"

definition mapConnectionRow :: "connection_row \<Rightarrow> connection" where
  "mapConnectionRow r =
    \<lparr>c_id = cr_id r, c_name = cr_name r, c_projectId = cr_project_id r,
     c_platform = cr_platform r, c_credentialEncrypted = cr_credential_encrypted r,
     c_allowedOperations = cr_allowed_operations r, c_createdAt = js_date (cr_created_at r),
     c_lastTestOk = cr_last_test_ok r, c_lastTestAt = map_option js_date (cr_last_test_at r),
     c_lastTestDetail = cr_last_test_detail r\<rparr>"

definition mapConnGrantRow :: "conn_grant_row \<Rightarrow> connection_grant" where
  "mapConnGrantRow r =
    \<lparr>cg_id = cgr_id r, cg_agentId = cgr_agent_id r, cg_connectionId = cgr_connection_id r,
     cg_allowedOperations = cgr_allowed_operations r, cg_rateLimit = cgr_rate_limit r\<rparr>"

definition mapToolRow :: "tool_row \<Rightarrow> tool" where
  "mapToolRow r =
    \<lparr>tl_id = tlr_id r, tl_name = tlr_name r, tl_adapterType = tlr_adapter_type r,
     tl_adapterConfig = tlr_adapter_config r, tl_schemaCache = tlr_schema_cache r,
     tl_schemaCachedAt = map_option js_date (tlr_schema_cached_at r)\<rparr>"

definition mapAuditRow :: "audit_row \<Rightarrow> audit_entry" where
  "mapAuditRow r =
    \<lparr>ae_id = aur_id r, ae_agentId = aur_agent_id r, ae_hostId = aur_host_id r,
     ae_eventType = aur_event_type r, ae_capability = aur_capability r,
     ae_connectionId = aur_connection_id r, ae_operation = aur_operation r,
     ae_taskId = aur_task_id r, ae_outcome = aur_outcome r, ae_argsHash = aur_args_hash r,
     ae_durationMs = aur_duration_ms r, ae_createdAt = js_date (aur_created_at r)\<rparr>"

lemma mapAgentRow_simps [simp]:
  "a_id (mapAgentRow r) = ar_id r" "a_hostId (mapAgentRow r) = ar_host_id r"
  "a_projectId (mapAgentRow r) = ar_project_id r" "a_status (mapAgentRow r) = ar_status r"
  "a_mode (mapAgentRow r) = ar_mode r" "a_name (mapAgentRow r) = ar_name r"
  "a_description (mapAgentRow r) = ar_description r"
  "a_publicKeyJwk (mapAgentRow r) = ar_public_key_jwk r" "a_jwksUrl (mapAgentRow r) = ar_jwks_url r"
  "a_absoluteExpiresAt (mapAgentRow r) = map_option js_date (ar_absolute_expires_at r)"
  "a_sessionExpiresAt (mapAgentRow r) = map_option js_date (ar_session_expires_at r)"
  "a_maxLifetimeExpiresAt (mapAgentRow r) = map_option js_date (ar_max_lifetime_expires_at r)"
  by (simp_all add: mapAgentRow_def)

lemma mapHostRow_simps [simp]:
  "h_id (mapHostRow r) = hr_id r" "h_status (mapHostRow r) = hr_status r"
  "h_publicKeyJwk (mapHostRow r) = hr_public_key_jwk r" "h_jwksUrl (mapHostRow r) = hr_jwks_url r"
  by (simp_all add: mapHostRow_def)

lemma mapGrantRow_simps [simp]:
  "g_id (mapGrantRow r) = gr_id r" "g_agentId (mapGrantRow r) = gr_agent_id r"
  "g_capability (mapGrantRow r) = gr_capability r" "g_connectionId (mapGrantRow r) = gr_connection_id r"
  "g_operation (mapGrantRow r) = gr_operation r" "g_taskId (mapGrantRow r) = gr_task_id r"
  "g_status (mapGrantRow r) = gr_status r" "g_constraints (mapGrantRow r) = gr_constraints r"
  "g_grantedBy (mapGrantRow r) = gr_granted_by r"
  by (simp_all add: mapGrantRow_def)

lemma mapTaskRow_simps [simp]:
  "t_id (mapTaskRow r) = tr_id r" "t_agentId (mapTaskRow r) = tr_agent_id r"
  "t_hostId (mapTaskRow r) = tr_host_id r" "t_status (mapTaskRow r) = tr_status r"
  by (simp_all add: mapTaskRow_def)

lemma mapConnectionRow_simps [simp]:
  "c_id (mapConnectionRow r) = cr_id r" "c_name (mapConnectionRow r) = cr_name r"
  "c_projectId (mapConnectionRow r) = cr_project_id r"
  "c_platform (mapConnectionRow r) = cr_platform r"
  "c_allowedOperations (mapConnectionRow r) = cr_allowed_operations r"
  by (simp_all add: mapConnectionRow_def)

lemma mapConnGrantRow_simps [simp]:
  "cg_agentId (mapConnGrantRow r) = cgr_agent_id r"
  "cg_connectionId (mapConnGrantRow r) = cgr_connection_id r"
  "cg_allowedOperations (mapConnGrantRow r) = cgr_allowed_operations r"
  "cg_rateLimit (mapConnGrantRow r) = cgr_rate_limit r"
  by (simp_all add: mapConnGrantRow_def)

section \<open>The database\<close>

text \<open>
  \<open>db_now\<close> is what \<^verbatim>\<open>now()\<close> returns; \<open>db_uuids\<close> is the sequence of values
  \<^verbatim>\<open>gen_random_uuid()\<close> will return, of which \<open>db_draws\<close> are used up.
\<close>

record db =
  db_hosts :: "host_row list"
  db_agents :: "agent_row list"
  db_projects :: "project_row list"
  db_grants :: "grant_row list"
  db_tasks :: "task_row list"
  db_connections :: "connection_row list"
  db_conn_grants :: "conn_grant_row list"
  db_tools :: "tool_row list"
  db_audit :: "audit_row list"
  db_jti :: "jti_row list"
  db_now :: micros
  db_uuids :: "nat \<Rightarrow> uuid"
  db_draws :: nat

type_synonym 'a db_op = "(fault, db, 'a) eff"

definition gen_random_uuid :: "uuid db_op" where
  "gen_random_uuid d = (Inr (db_uuids d (db_draws d)), d\<lparr>db_draws := Suc (db_draws d)\<rparr>)"

text \<open>A statement that violates a constraint of the schema raises a database error.\<close>

definition constraint_error :: "string \<Rightarrow> fault" where
  "constraint_error c = OtherError (''violates constraint '' @ c)"

definition host_exists :: "db \<Rightarrow> uuid \<Rightarrow> bool" where
  "host_exists d i \<longleftrightarrow> i \<in> hr_id ` set (db_hosts d)"

definition agent_exists :: "db \<Rightarrow> uuid \<Rightarrow> bool" where
  "agent_exists d i \<longleftrightarrow> i \<in> ar_id ` set (db_agents d)"

definition project_exists :: "db \<Rightarrow> uuid \<Rightarrow> bool" where
  "project_exists d i \<longleftrightarrow> i \<in> por_id ` set (db_projects d)"

definition connection_exists :: "db \<Rightarrow> uuid \<Rightarrow> bool" where
  "connection_exists d i \<longleftrightarrow> i \<in> cr_id ` set (db_connections d)"

definition task_exists :: "db \<Rightarrow> uuid \<Rightarrow> bool" where
  "task_exists d i \<longleftrightarrow> i \<in> tr_id ` set (db_tasks d)"

definition fk_ok :: "(uuid \<Rightarrow> bool) \<Rightarrow> uuid option \<Rightarrow> bool" where
  "fk_ok present i = (case i of None \<Rightarrow> True | Some j \<Rightarrow> present j)"

text \<open>
  The constraints of the schema: primary keys, the unique thumbprint, the unique
  (agent, connection) pair, unique tool names and replay-cache keys, and the foreign keys.
\<close>

definition conn_key :: "conn_grant_row \<Rightarrow> uuid \<times> uuid" where
  "conn_key r = (cgr_agent_id r, cgr_connection_id r)"

definition unique_some :: "('r \<Rightarrow> 'k option) \<Rightarrow> 'r list \<Rightarrow> bool" where
  "unique_some f t \<longleftrightarrow>
     (\<forall>r \<in> set t. \<forall>s \<in> set t. \<forall>k. f r = Some k \<longrightarrow> f s = Some k \<longrightarrow> r = s)"

definition keys_wf :: "db \<Rightarrow> bool" where
  "keys_wf d \<longleftrightarrow>
     distinct (map hr_id (db_hosts d)) \<and> distinct (map ar_id (db_agents d)) \<and>
     distinct (map por_id (db_projects d)) \<and> distinct (map gr_id (db_grants d)) \<and>
     distinct (map tr_id (db_tasks d)) \<and> distinct (map cr_id (db_connections d)) \<and>
     distinct (map conn_key (db_conn_grants d)) \<and> distinct (map tlr_name (db_tools d)) \<and>
     distinct (map aur_id (db_audit d)) \<and> distinct (map jr_jti (db_jti d)) \<and>
     unique_some hr_key_thumbprint (db_hosts d)"

definition refs :: "('r \<Rightarrow> 'k option) \<Rightarrow> 'r list \<Rightarrow> 'k set" where
  "refs f t = {k. Some k \<in> f ` set t}"

definition refs_wf :: "db \<Rightarrow> bool" where
  "refs_wf d \<longleftrightarrow>
     ar_host_id ` set (db_agents d) \<subseteq> hr_id ` set (db_hosts d) \<and>
     refs ar_project_id (db_agents d) \<subseteq> por_id ` set (db_projects d) \<and>
     refs cr_project_id (db_connections d) \<subseteq> por_id ` set (db_projects d) \<and>
     gr_agent_id ` set (db_grants d) \<subseteq> ar_id ` set (db_agents d) \<and>
     refs gr_connection_id (db_grants d) \<subseteq> cr_id ` set (db_connections d) \<and>
     refs gr_task_id (db_grants d) \<subseteq> tr_id ` set (db_tasks d) \<and>
     tr_agent_id ` set (db_tasks d) \<subseteq> ar_id ` set (db_agents d) \<and>
     tr_host_id ` set (db_tasks d) \<subseteq> hr_id ` set (db_hosts d) \<and>
     cgr_agent_id ` set (db_conn_grants d) \<subseteq> ar_id ` set (db_agents d) \<and>
     cgr_connection_id ` set (db_conn_grants d) \<subseteq> cr_id ` set (db_connections d)"

definition db_wf :: "db \<Rightarrow> bool" where
  "db_wf d \<longleftrightarrow> keys_wf d \<and> refs_wf d"

lemmas db_wf_defs = db_wf_def keys_wf_def refs_wf_def host_exists_def agent_exists_def
  project_exists_def connection_exists_def task_exists_def

lemma refs_snoc [table_simps]: "refs f (t @ [r]) = set_option (f r) \<union> refs f t"
  by (auto simp: refs_def image_iff)

lemma fk_ok_set: "fk_ok p x \<longleftrightarrow> (\<forall>i \<in> set_option x. p i)"
  by (cases x) (simp_all add: fk_ok_def)

lemma refs_row_update:
  "(\<And>r. p r \<Longrightarrow> f (g r) = f r) \<Longrightarrow> refs f (row_update p g t) = refs f t"
  by (simp add: refs_def image_row_update)

lemma refs_row_delete: "refs f (row_delete p t) \<subseteq> refs f t"
  by (auto simp: refs_def set_row_delete)

lemma refs_set_null:
  "(\<And>r. f (g r) = None) \<Longrightarrow> refs f (row_update (\<lambda>r. f r = Some i) g t) = refs f t - {i}"
  by (auto simp: refs_def set_row_update image_iff split: if_splits)

lemma unique_someI:
  "(\<And>r s k. r \<in> set t \<Longrightarrow> s \<in> set t \<Longrightarrow> f r = Some k \<Longrightarrow> f s = Some k \<Longrightarrow> r = s) \<Longrightarrow> unique_some f t"
  unfolding unique_some_def by blast

lemma unique_someD:
  "unique_some f t \<Longrightarrow> r \<in> set t \<Longrightarrow> s \<in> set t \<Longrightarrow> f r = Some k \<Longrightarrow> f s = Some k \<Longrightarrow> r = s"
  unfolding unique_some_def by blast

lemma unique_some_snoc:
  assumes u: "unique_some f t" and n: "f r = None \<or> f r \<notin> f ` set t"
  shows "unique_some f (t @ [r])"
proof (rule unique_someI)
  fix x y k assume x: "x \<in> set (t @ [r])" and y: "y \<in> set (t @ [r])" and e: "f x = Some k" "f y = Some k"
  have new: "z \<in> set t \<Longrightarrow> f z = Some k \<Longrightarrow> f r \<noteq> Some k" for z using n by (metis image_eqI option.distinct(1))
  show "x = y"
    using x y e unique_someD [OF u, of x y k] new [of x] new [of y] by auto
qed

lemma unique_some_update:
  assumes u: "unique_some f t" and g: "\<And>r. p r \<Longrightarrow> f (g r) = f r"
  shows "unique_some f (row_update p g t)"
proof (rule unique_someI)
  let ?h = "\<lambda>r. if p r then g r else r"
  fix x y k assume "x \<in> set (row_update p g t)" "y \<in> set (row_update p g t)" and e: "f x = Some k" "f y = Some k"
  then obtain r s where r: "r \<in> set t" "x = ?h r" and s: "s \<in> set t" "y = ?h s"
    by (auto simp: set_row_update)
  have "f r = Some k" "f s = Some k" using e r(2) s(2) g by (auto split: if_splits)
  then have "r = s" by (rule unique_someD [OF u r(1) s(1)])
  then show "x = y" using r(2) s(2) by simp
qed

lemma unique_some_set:
  assumes u: "unique_some f t" and d: "distinct (map key t)"
    and g: "\<And>r. f (g r) = Some k" and other: "\<And>r. r \<in> set t \<Longrightarrow> key r \<noteq> i \<Longrightarrow> f r \<noteq> Some k"
  shows "unique_some f (row_update (\<lambda>r. key r = i) g t)"
proof (rule unique_someI)
  let ?h = "\<lambda>r. if key r = i then g r else r"
  have inj: "r \<in> set t \<Longrightarrow> s \<in> set t \<Longrightarrow> key r = key s \<Longrightarrow> r = s" for r s
    using d by (auto simp: distinct_map inj_on_def)
  fix x y l assume "x \<in> set (row_update (\<lambda>r. key r = i) g t)" "y \<in> set (row_update (\<lambda>r. key r = i) g t)"
    and e: "f x = Some l" "f y = Some l"
  then obtain r s where r: "r \<in> set t" "x = ?h r" and s: "s \<in> set t" "y = ?h s"
    by (auto simp: set_row_update)
  consider "key r = i" "key s = i" | "key r \<noteq> i" "key s \<noteq> i" | "key r = i" "key s \<noteq> i" | "key r \<noteq> i" "key s = i"
    by blast
  then show "x = y"
    using e r s inj [of r s] unique_someD [OF u r(1) s(1), of l] other [of r] other [of s]
    by cases (simp_all add: g)
qed

lemma fk_ok_simps [simp]: "fk_ok p None" "fk_ok p (Some i) = p i"
  by (simp_all add: fk_ok_def)

end
