(* ===== verification/Paging.thy ===== *)
theory Paging
  imports Storage_Db "HOL-Library.Sublist"
begin

text \<open>
  Keyset pagination of the \<^verbatim>\<open>list\<close> methods of the Postgres repositories: the statement
  \<^verbatim>\<open>WHERE (created_at, id) < ($1, $2) ORDER BY created_at DESC, id DESC LIMIT $3\<close>, the page that
  is made of its rows, and the walk of a client that follows \<open>nextCursor\<close> until
  \<open>hasMore\<close> is false.  The one-row look-ahead decides \<open>hasMore\<close>.
\<close>

record page_query =
  q_cursor :: "string option"
  q_limit :: "int option"

record 'a page =
  pg_items :: "'a list"
  pg_nextCursor :: "string option"
  pg_hasMore :: bool

definition clampLimit :: "int option \<Rightarrow> nat" where
  "clampLimit limit = nat (min (max (nullish limit 50) 1) 200)"

text \<open>
  How ids and times are printed and how the database casts their text: \<open>toISOString\<close>, the text
  of a uuid, and the casts \<^verbatim>\<open>::timestamptz\<close> and \<^verbatim>\<open>::uuid\<close>, which fail on other text.
\<close>

record codec =
  k_iso :: "millis \<Rightarrow> string"
  k_uuid :: "uuid \<Rightarrow> string"
  k_timestamptz :: "string \<Rightarrow> micros option"
  k_to_uuid :: "string \<Rightarrow> uuid option"

definition cursor_key :: "codec \<Rightarrow> string option \<Rightarrow> fault + (micros \<times> uuid) option" where
  "cursor_key k cur =
     (if \<not> truthy cur then Inr None
      else case decodeCursor (the cur) of
        Inl e \<Rightarrow> Inl e
      | Inr (ts, i) \<Rightarrow>
          (case (k_timestamptz k ts, k_to_uuid k i) of
             (Some t, Some u) \<Rightarrow> Inr (Some (t, u))
           | _ \<Rightarrow> Inl (OtherError ''invalid input syntax'')))"

definition keyset_select :: "('r \<Rightarrow> micros \<times> uuid) \<Rightarrow> (micros \<times> uuid) option \<Rightarrow> 'r list \<Rightarrow> 'r list" where
  "keyset_select key cur t =
     rev (sort_key key (filter (\<lambda>r. case cur of None \<Rightarrow> True | Some c \<Rightarrow> key r < c) t))"

definition keyset_page ::
  "codec \<Rightarrow> ('r \<Rightarrow> micros \<times> uuid) \<Rightarrow> ('r \<Rightarrow> 'a) \<Rightarrow> ('a \<Rightarrow> millis \<times> uuid) \<Rightarrow> page_query \<Rightarrow> 'r list
     \<Rightarrow> fault + 'a page" where
  "keyset_page k key mapRow pos q t =
     (let limit = clampLimit (q_limit q) in
      case cursor_key k (q_cursor q) of
        Inl e \<Rightarrow> Inl e
      | Inr cur \<Rightarrow>
          let rows = take (limit + 1) (keyset_select key cur t);
              hasMore = limit < length rows;
              items = map mapRow (take limit rows)
          in Inr \<lparr>pg_items = items,
                  pg_nextCursor =
                    (if hasMore \<and> items \<noteq> []
                     then Some (encodeCursor (k_iso k (fst (pos (last items)))) (k_uuid k (snd (pos (last items)))))
                     else None),
                  pg_hasMore = hasMore\<rparr>)"

text \<open>A client that follows the cursors; \<open>fuel\<close> bounds the number of requests.\<close>

fun walk_pages :: "nat \<Rightarrow> (string option \<Rightarrow> fault + 'a page) \<Rightarrow> string option \<Rightarrow> (fault + 'a list) option" where
  "walk_pages 0 fetch cur = None"
| "walk_pages (Suc fuel) fetch cur =
     (case fetch cur of
        Inl e \<Rightarrow> Some (Inl e)
      | Inr p \<Rightarrow>
          if \<not> pg_hasMore p then Some (Inr (pg_items p))
          else case walk_pages fuel fetch (pg_nextCursor p) of
                 None \<Rightarrow> None
               | Some (Inl e) \<Rightarrow> Some (Inl e)
               | Some (Inr rest) \<Rightarrow> Some (Inr (pg_items p @ rest)))"

section \<open>Lemmas\<close>

lemma clampLimit_bounds: "1 \<le> clampLimit l" "clampLimit l \<le> 200"
  by (auto simp: clampLimit_def)

lemma set_keyset_select:
  "set (keyset_select key cur t) = {r \<in> set t. case cur of None \<Rightarrow> True | Some c \<Rightarrow> key r < c}"
  by (simp add: keyset_select_def)

text \<open>Selecting from a table is filtering the table in display order.\<close>

definition display_order :: "('r \<Rightarrow> micros \<times> uuid) \<Rightarrow> 'r list \<Rightarrow> 'r list" where
  "display_order key t = rev (sort_key key t)"

lemma keyset_select_filter:
  "keyset_select key cur t =
     filter (\<lambda>r. case cur of None \<Rightarrow> True | Some c \<Rightarrow> key r < c) (display_order key t)"
  by (simp add: keyset_select_def display_order_def rev_filter [symmetric] filter_sort)

lemma display_order_desc:
  assumes "distinct (map key t)"
  shows "sorted_wrt (\<lambda>a b. key b < key a) (display_order key t)"
proof -
  have "distinct (map key (sort_key key t))" using assms by (simp add: distinct_map)
  moreover have "sorted (map key (sort_key key t))" by simp
  ultimately have "sorted_wrt (<) (map key (sort_key key t))"
    by (simp add: strict_sorted_iff)
  then show ?thesis
    by (simp add: display_order_def sorted_wrt_rev sorted_wrt_map)
qed

lemma keyset_select_desc:
  "distinct (map key t) \<Longrightarrow> sorted_wrt (\<lambda>a b. key b < key a) (keyset_select key cur t)"
  by (simp add: keyset_select_filter sorted_wrt_filter [OF display_order_desc])

lemma length_keyset_select: "length (keyset_select key cur t) \<le> length t"
  by (simp add: keyset_select_def)

text \<open>The rows below the last row of a page are exactly the rows after it.\<close>

lemma desc_filter_drop:
  assumes "sorted_wrt (\<lambda>a b. key b < (key a :: 'k :: linorder)) xs" and "n < length xs"
  shows "filter (\<lambda>r. key r < key (xs ! n)) xs = drop (Suc n) xs"
  using assms
proof (induction xs arbitrary: n)
  case Nil
  then show ?case by simp
next
  case (Cons x xs)
  show ?case
  proof (cases n)
    case 0
    with Cons.prems(1) show ?thesis by (auto simp: filter_id_conv)
  next
    case (Suc m)
    with Cons.prems have "key (xs ! m) < key x" by simp
    then have "\<not> key x < key (xs ! m)" by simp
    with Suc Cons show ?thesis by simp
  qed
qed

lemma keyset_select_next:
  assumes "distinct (map key t)" and n: "n < length (keyset_select key cur t)"
  shows "keyset_select key (Some (key (keyset_select key cur t ! n))) t =
    drop (Suc n) (keyset_select key cur t)"
proof -
  let ?xs = "keyset_select key cur t"
  define k where "k = key (?xs ! n)"
  let ?P = "\<lambda>r. case cur of None \<Rightarrow> True | Some c \<Rightarrow> key r < c"
  have "?xs ! n \<in> set ?xs" using n by simp
  then have "case cur of None \<Rightarrow> True | Some c \<Rightarrow> k < c"
    unfolding k_def by (simp add: set_keyset_select)
  then have cut: "key r < k \<Longrightarrow> ?P r" for r
    by (cases cur) (auto intro: less_trans)
  have "keyset_select key (Some k) t = filter (\<lambda>r. key r < k) (display_order key t)"
    by (simp only: keyset_select_filter option.case)
  also have "\<dots> = filter (\<lambda>r. key r < k) (filter ?P (display_order key t))"
    unfolding filter_filter by (rule filter_cong [OF refl]) (use cut in blast)
  also have "\<dots> = filter (\<lambda>r. key r < k) ?xs"
    by (simp only: keyset_select_filter)
  also have "\<dots> = drop (Suc n) ?xs"
    unfolding k_def by (rule desc_filter_drop [OF keyset_select_desc [OF assms(1)] n])
  finally show ?thesis unfolding k_def .
qed

section \<open>Following the cursors\<close>

text \<open>The documented behaviour of the printed forms: the database reads back what was printed.\<close>

definition codec_ok :: "codec \<Rightarrow> bool" where
  "codec_ok k \<longleftrightarrow>
     (\<forall>m. CHR ''|'' \<notin> set (k_iso k m) \<and> k_timestamptz k (k_iso k m) = Some (pg_time m)) \<and>
     (\<forall>u. k_to_uuid k (k_uuid k u) = Some u)"

text \<open>A timestamp without a fraction of a millisecond.\<close>

definition ms_aligned :: "micros \<Rightarrow> bool" where
  "ms_aligned t \<longleftrightarrow> pg_time (js_date t) = t"

lemma base64url_nonempty: "s \<noteq> [] \<Longrightarrow> base64url s \<noteq> []"
  by (cases "map of_char s :: nat list" rule: b64_sextets.cases) (auto simp: base64url_def)

lemma truthy_encodeCursor: "truthy (Some (encodeCursor ts i))"
  unfolding encodeCursor_def by (simp add: base64url_nonempty)

lemma cursor_key_encode:
  assumes "codec_ok k"
  shows "cursor_key k (Some (encodeCursor (k_iso k m) (k_uuid k u))) = Inr (Some (pg_time m, u))"
  using assms truthy_encodeCursor [of "k_iso k m" "k_uuid k u"]
  by (simp add: cursor_key_def codec_ok_def decodeCursor_encodeCursor_raw)

lemma subseq_set: "subseq xs ys \<Longrightarrow> set xs \<subseteq> set ys"
  by (auto simp: subseq_conv_nths dest: in_set_nthsD)

lemma subseq_distinct: "subseq xs ys \<Longrightarrow> distinct ys \<Longrightarrow> distinct xs"
  by (auto simp: subseq_conv_nths)

lemma same_millisecond: "pg_time (js_date t) \<le> s \<Longrightarrow> s \<le> t \<Longrightarrow> js_date s = js_date t"
  by (rule antisym) (auto dest: js_date_mono)

lemma truncated_le: "pg_time (js_date t) \<le> t"
  by (simp add: pg_time_def js_date_def minus_mod_eq_div_mult [symmetric])

locale keyset_view =
  fixes key :: "'r \<Rightarrow> micros \<times> uuid" and mapRow :: "'r \<Rightarrow> 'a" and pos :: "'a \<Rightarrow> millis \<times> uuid"
  assumes pos_mapRow: "pos (mapRow r) = (js_date (fst (key r)), snd (key r))"
begin

lemma page_of:
  assumes "cursor_key k cstr = Inr cur"
  shows "keyset_page k key mapRow pos \<lparr>q_cursor = cstr, q_limit = l\<rparr> t =
    (let n = clampLimit l; xs = keyset_select key cur t in
     Inr \<lparr>pg_items = map mapRow (take n xs),
          pg_nextCursor =
            (if n < length xs
             then Some (encodeCursor (k_iso k (js_date (fst (key (xs ! (n - 1)))))) (k_uuid k (snd (key (xs ! (n - 1))))))
             else None),
          pg_hasMore = (n < length xs)\<rparr>)"
proof -
  let ?n = "clampLimit l" and ?xs = "keyset_select key cur t"
  have n: "1 \<le> ?n" by (rule clampLimit_bounds)
  have len: "?n < length (take (?n + 1) ?xs) \<longleftrightarrow> ?n < length ?xs" by (simp add: min_def)
  have tk: "take ?n (take (?n + 1) ?xs) = take ?n ?xs" by (simp add: min_def)
  have last: "?n < length ?xs \<Longrightarrow> last (map mapRow (take ?n ?xs)) = mapRow (?xs ! (?n - 1))"
    using n by (subst last_conv_nth) (auto simp: min_def)
  have ne: "?n < length ?xs \<Longrightarrow> take ?n ?xs \<noteq> []" using n by auto
  show ?thesis
    using assms last ne by (simp add: keyset_page_def Let_def len tk pos_mapRow)
qed

text \<open>
  The rows below the cursor of a page are among the rows after it; one that is lost there is older than the last
  row of the page but of the same millisecond.
\<close>

lemma next_page:
  assumes "distinct (map key t)" and n: "n < length (keyset_select key cur t)"
  defines "q \<equiv> keyset_select key cur t ! n"
  defines "nxt \<equiv> keyset_select key (Some (pg_time (js_date (fst (key q))), snd (key q))) t"
  shows "subseq nxt (drop (Suc n) (keyset_select key cur t))"
    and "r \<in> set (drop (Suc n) (keyset_select key cur t)) \<Longrightarrow> r \<notin> set nxt \<Longrightarrow>
      key r < key q \<and> js_date (fst (key r)) = js_date (fst (key q))"
    and "ms_aligned (fst (key q)) \<Longrightarrow> nxt = drop (Suc n) (keyset_select key cur t)"
proof -
  let ?c = "(pg_time (js_date (fst (key q))), snd (key q))"
  have full: "keyset_select key (Some (key q)) t = drop (Suc n) (keyset_select key cur t)"
    unfolding q_def by (rule keyset_select_next [OF assms(1) n])
  have le: "?c \<le> key q" by (cases "key q") (simp add: less_eq_prod_def truncated_le)
  have nxt: "nxt = filter (\<lambda>r. key r < ?c) (keyset_select key (Some (key q)) t)"
    unfolding nxt_def keyset_select_filter filter_filter option.case
    by (rule filter_cong [OF refl]) (use le in auto)
  then show "subseq nxt (drop (Suc n) (keyset_select key cur t))" unfolding full by simp
  show "key r < key q \<and> js_date (fst (key r)) = js_date (fst (key q))"
    if "r \<in> set (drop (Suc n) (keyset_select key cur t))" "r \<notin> set nxt"
  proof -
    have r: "key r < key q" "?c \<le> key r"
      using that unfolding nxt full [symmetric] by (auto simp: set_keyset_select)
    then have "pg_time (js_date (fst (key q))) \<le> fst (key r)" "fst (key r) \<le> fst (key q)"
      by (auto simp: less_eq_prod_def less_prod_def)
    with r(1) same_millisecond show ?thesis by blast
  qed
  show "nxt = drop (Suc n) (keyset_select key cur t)" if "ms_aligned (fst (key q))"
    using that unfolding nxt_def full [symmetric] by (simp add: ms_aligned_def)
qed

lemma walk_shows:
  assumes k: "codec_ok k" and d: "distinct (map key t)"
  shows "cursor_key k cstr = Inr cur \<Longrightarrow> length (keyset_select key cur t) < fuel \<Longrightarrow>
    \<exists>rows. walk_pages fuel (\<lambda>c. keyset_page k key mapRow pos \<lparr>q_cursor = c, q_limit = l\<rparr> t) cstr =
        Some (Inr (map mapRow rows)) \<and> subseq rows (keyset_select key cur t) \<and>
      (\<forall>r \<in> set (keyset_select key cur t). r \<notin> set rows \<longrightarrow>
         (\<exists>q \<in> set rows. key r < key q \<and> js_date (fst (key r)) = js_date (fst (key q)))) \<and>
      ((\<forall>r \<in> set t. ms_aligned (fst (key r))) \<longrightarrow> rows = keyset_select key cur t)"
proof (induction fuel arbitrary: cstr cur)
  case (Suc fuel)
  let ?n = "clampLimit l" and ?xs = "keyset_select key cur t"
  note page = page_of [OF Suc.prems(1), of l t]
  have n: "1 \<le> ?n" by (rule clampLimit_bounds)
  show ?case
  proof (cases "?n < length ?xs")
    case False
    then show ?thesis by (intro exI [of _ ?xs]) (simp add: page Let_def)
  next
    case True
    let ?q = "?xs ! (?n - 1)"
    let ?c = "(pg_time (js_date (fst (key ?q))), snd (key ?q))"
    have i: "?n - 1 < length ?xs" and Si: "Suc (?n - 1) = ?n" using True n by auto
    note after = next_page [OF d i, unfolded Si]
    have "length (keyset_select key (Some ?c) t) \<le> length (drop ?n ?xs)"
      using list_emb_length [OF after(1)] .
    then have len: "length (keyset_select key (Some ?c) t) < fuel" using Suc.prems(2) n True by simp
    from Suc.IH [OF cursor_key_encode [OF k] len] obtain rest where
      w: "walk_pages fuel (\<lambda>c. keyset_page k key mapRow pos \<lparr>q_cursor = c, q_limit = l\<rparr> t)
          (Some (encodeCursor (k_iso k (js_date (fst (key ?q)))) (k_uuid k (snd (key ?q))))) = Some (Inr (map mapRow rest))"
      and sub: "subseq rest (keyset_select key (Some ?c) t)"
      and lost: "\<forall>r \<in> set (keyset_select key (Some ?c) t). r \<notin> set rest \<longrightarrow>
         (\<exists>q \<in> set rest. key r < key q \<and> js_date (fst (key r)) = js_date (fst (key q)))"
      and all: "(\<forall>r \<in> set t. ms_aligned (fst (key r))) \<longrightarrow> rest = keyset_select key (Some ?c) t"
      by blast
    have q: "?q \<in> set (take ?n ?xs)" using i n by (auto simp: in_set_conv_nth intro!: exI [of _ "?n - 1"])
    have "?q \<in> set t" using i nth_mem by (fastforce simp: set_keyset_select)
    have "subseq (take ?n ?xs @ rest) (take ?n ?xs @ drop ?n ?xs)"
      using subseq_order.trans [OF sub after(1)] by (simp only: subseq_append')
    then have 1: "subseq (take ?n ?xs @ rest) ?xs" by simp
    have 2: "\<exists>q \<in> set (take ?n ?xs @ rest). key r < key q \<and> js_date (fst (key r)) = js_date (fst (key q))"
      if "r \<in> set ?xs" "r \<notin> set (take ?n ?xs @ rest)" for r
    proof -
      have "r \<in> set (drop ?n ?xs)" using that by (metis Un_iff append_take_drop_id set_append)
      then show ?thesis using after(2) [of r] lost that(2) q by (cases "r \<in> set (keyset_select key (Some ?c) t)") auto
    qed
    have 3: "take ?n ?xs @ rest = ?xs" if "\<forall>r \<in> set t. ms_aligned (fst (key r))"
      using that all after(3) \<open>?q \<in> set t\<close> by (metis append_take_drop_id)
    show ?thesis
      using True w 1 2 3 by (intro exI [of _ "take ?n ?xs @ rest"]) (simp add: page Let_def)
  qed
qed simp

end

text \<open>The rows of the four paged tables.\<close>

interpretation host_page: keyset_view "\<lambda>r. (hr_created_at r, hr_id r)" mapHostRow
    "\<lambda>h. (h_createdAt h, h_id h)"
  by unfold_locales (simp add: mapHostRow_def)

interpretation agent_page: keyset_view "\<lambda>r. (ar_created_at r, ar_id r)" mapAgentRow
    "\<lambda>a. (a_createdAt a, a_id a)"
  by unfold_locales (simp add: mapAgentRow_def)

interpretation connection_page: keyset_view "\<lambda>r. (cr_created_at r, cr_id r)" mapConnectionRow
    "\<lambda>c. (c_createdAt c, c_id c)"
  by unfold_locales (simp add: mapConnectionRow_def)

interpretation audit_page: keyset_view "\<lambda>r. (aur_created_at r, aur_id r)" mapAuditRow
    "\<lambda>e. (ae_createdAt e, ae_id e)"
  by unfold_locales (simp add: mapAuditRow_def)

text \<open>A codec that satisfies the laws, for closed examples: times in unary, ids likewise.\<close>

definition unary_codec :: codec where
  "unary_codec =
     \<lparr>k_iso = (\<lambda>m. if 0 \<le> m then replicate (nat m) CHR ''p'' else replicate (nat (- m)) CHR ''n''),
      k_uuid = (\<lambda>u. replicate u CHR ''u''),
      k_timestamptz = (\<lambda>s. Some (pg_time (if CHR ''n'' \<in> set s then - int (length s) else int (length s)))),
      k_to_uuid = (\<lambda>s. Some (length s))\<rparr>"

lemma unary_codec_ok: "codec_ok unary_codec"
  by (simp add: codec_ok_def unary_codec_def)

end
