(* ===== verification/Js_Text.thy ===== *)
theory Js_Text
  imports Core_Types
begin

text \<open>
  The string functions of JavaScript the gateway relies on: case, substrings, splitting, and the
  conversions of text to numbers, with the decimal text of a natural number as their inverse.
\<close>

section \<open>Substrings\<close>

definition ascii_lower :: "char \<Rightarrow> char" where
  "ascii_lower c = (let n = of_char c :: nat in if 65 \<le> n \<and> n \<le> 90 then char_of (n + 32) else c)"

text \<open>\<open>s.includes(p)\<close>.\<close>

fun contains :: "string \<Rightarrow> string \<Rightarrow> bool" where
  "contains p [] = (p = [])"
| "contains p (c # cs) = (take (length p) (c # cs) = p \<or> contains p cs)"

definition starts_with :: "string \<Rightarrow> string \<Rightarrow> bool" where
  "starts_with p s \<longleftrightarrow> take (length p) s = p"

lemma contains_iff: "contains p s \<longleftrightarrow> (\<exists>u v. s = u @ p @ v)"
proof (induction s)
  case (Cons c cs)
  have "(\<exists>u v. c # cs = u @ p @ v) \<longleftrightarrow> (\<exists>v. c # cs = p @ v) \<or> (\<exists>u v. cs = u @ p @ v)"
    by (auto simp: Cons_eq_append_conv)
  moreover have "(\<exists>v. c # cs = p @ v) \<longleftrightarrow> take (length p) (c # cs) = p"
    by (metis append_eq_conv_conj append_take_drop_id)
  ultimately show ?case using Cons by simp
qed simp

text \<open>\<open>s.split(c)\<close> for a separator of one character.\<close>

fun split_at :: "char \<Rightarrow> string \<Rightarrow> string list" where
  "split_at c [] = [[]]"
| "split_at c (x # xs) =
     (if x = c then [] # split_at c xs
      else case split_at c xs of [] \<Rightarrow> [[x]] | p # ps \<Rightarrow> (x # p) # ps)"

lemma split_at_no_sep: "c \<notin> set s \<Longrightarrow> split_at c s = [s]"
  by (induction s) auto

lemma split_at_append: "c \<notin> set s \<Longrightarrow> split_at c (s @ c # t) = s # split_at c t"
  by (induction s) auto

text \<open>\<open>s.trim()\<close>.\<close>

definition is_space :: "char \<Rightarrow> bool" where
  "is_space c \<longleftrightarrow> (let n = of_char c :: nat in n = 32 \<or> (9 \<le> n \<and> n \<le> 13) \<or> n = 160)"

definition js_trim :: "string \<Rightarrow> string" where
  "js_trim s = rev (dropWhile is_space (rev (dropWhile is_space s)))"

section \<open>Numbers\<close>

text \<open>The decimal text of a natural number.\<close>

fun dec :: "nat \<Rightarrow> string" where
  "dec n = (if n < 10 then [char_of (48 + n)] else dec (n div 10) @ [char_of (48 + n mod 10)])"

declare dec.simps [simp del]

definition hex_value :: "char \<Rightarrow> nat option" where
  "hex_value c =
     (let n = of_char c :: nat in
      if 48 \<le> n \<and> n \<le> 57 then Some (n - 48)
      else if 97 \<le> n \<and> n \<le> 102 then Some (n - 87)
      else if 65 \<le> n \<and> n \<le> 70 then Some (n - 55)
      else None)"

fun radix_value :: "nat \<Rightarrow> nat \<Rightarrow> string \<Rightarrow> nat option" where
  "radix_value b acc [] = Some acc"
| "radix_value b acc (c # cs) =
     (case hex_value c of
        None \<Rightarrow> None
      | Some v \<Rightarrow> if v < b then radix_value b (acc * b + v) cs else None)"

text \<open>
  \<open>Number(s)\<close> for a string: white space around it is ignored, the empty string is \<open>0\<close>, a prefix
  selects radix 16, 8 or 2, and otherwise it is a decimal literal with optional sign, fraction and
  exponent.  \<open>None\<close> stands for \<open>NaN\<close> (and for the infinite values).
\<close>

definition strip_sign :: "string \<Rightarrow> bool \<times> string" where
  "strip_sign s =
     (case s of
        c # cs \<Rightarrow> if c = CHR ''-'' then (True, cs) else if c = CHR ''+'' then (False, cs) else (False, s)
      | [] \<Rightarrow> (False, []))"

definition digits_nat :: "string \<Rightarrow> nat option" where
  "digits_nat s = (if s \<noteq> [] \<and> list_all is_digit_char s then Some (digits_value 0 s) else None)"

definition scale10 :: "bool \<Rightarrow> nat \<Rightarrow> rat \<Rightarrow> rat" where
  "scale10 neg e q = (if neg then q / 10 ^ e else q * 10 ^ e)"

definition js_decimal :: "string \<Rightarrow> rat option" where
  "js_decimal s =
     (let (neg, t) = strip_sign s;
          mant = takeWhile (\<lambda>c. c \<noteq> CHR ''e'' \<and> c \<noteq> CHR ''E'') t;
          expo = drop (length mant) t;
          ip = takeWhile (\<lambda>c. c \<noteq> CHR ''.'') mant;
          fp = drop (length ip + 1) mant;
          q = Fract (int (digits_value 0 (ip @ fp))) (10 ^ length fp);
          v = (if neg then - q else q)
      in if ip @ fp = [] \<or> \<not> list_all is_digit_char (ip @ fp) then None
         else if expo = [] then Some v
         else let (eneg, ds) = strip_sign (tl expo) in
              case digits_nat ds of None \<Rightarrow> None | Some e \<Rightarrow> Some (scale10 eneg e v))"

definition js_number :: "string \<Rightarrow> rat option" where
  "js_number s =
     (let t = js_trim s; pre = map ascii_lower (take 2 t); body = drop 2 t;
          radix = (\<lambda>b. if body = [] then None else map_option (\<lambda>n. of_nat n) (radix_value b 0 body))
      in if t = [] then Some 0
         else if pre = ''0x'' then radix 16
         else if pre = ''0o'' then radix 8
         else if pre = ''0b'' then radix 2
         else js_decimal t)"

definition rat_int :: "rat \<Rightarrow> int option" where
  "rat_int q = (if of_int \<lfloor>q\<rfloor> = q then Some \<lfloor>q\<rfloor> else None)"

section \<open>Lemmas\<close>

lemma digits_value_append: "digits_value acc (s @ t) = digits_value (digits_value acc s) t"
  by (induction s arbitrary: acc) simp_all

lemma dec_digits: "list_all is_digit_char (dec n)"
proof (induction n rule: dec.induct)
  case (1 n)
  show ?case
  proof (cases "n < 10")
    case True
    then show ?thesis by (simp add: dec.simps [of n] is_digit_char_def)
  next
    case False
    have "n mod 10 < 10" by simp
    then have "is_digit_char (char_of (48 + n mod 10))" by (simp add: is_digit_char_def)
    with False 1 show ?thesis by (simp add: dec.simps [of n])
  qed
qed

lemma digits_value_dec: "digits_value 0 (dec n) = n"
proof (induction n rule: dec.induct)
  case (1 n)
  show ?case
  proof (cases "n < 10")
    case True
    then show ?thesis by (simp add: dec.simps [of n])
  next
    case False
    have "n mod 10 < 10" by simp
    with False 1 show ?thesis
      by (simp add: dec.simps [of n] digits_value_append mult.commute)
  qed
qed

lemma dec_nonempty [simp]: "dec n \<noteq> []"
  by (subst dec.simps) simp

lemma dec_length: "n < 1000 \<Longrightarrow> length (dec n) \<le> 3"
  by (auto simp: dec.simps [of n] dec.simps [of "n div 10"] dec.simps [of "n div 10 div 10"])

lemma dec_not_special:
  assumes "\<not> is_digit_char c" shows "c \<notin> set (dec n)"
  using dec_digits [of n] assms by (auto simp: list_all_iff)

lemma digits_nat_dec [simp]: "digits_nat (dec n) = Some n"
  by (simp add: digits_nat_def dec_digits digits_value_dec)

lemma dropWhile_none: "(\<And>c. c \<in> set s \<Longrightarrow> \<not> p c) \<Longrightarrow> dropWhile p s = s"
  by (cases s) auto

lemma digit_not_space: "is_digit_char c \<Longrightarrow> \<not> is_space c"
  by (auto simp: is_digit_char_def is_space_def Let_def)

lemma js_trim_dec: "js_trim (dec n) = dec n"
proof -
  have "\<not> is_space c" if "c \<in> set (dec n)" for c
    using that dec_digits [of n] digit_not_space by (auto simp: list_all_iff)
  then have "dropWhile is_space (dec n) = dec n" "dropWhile is_space (rev (dec n)) = rev (dec n)"
    by (auto intro: dropWhile_none)
  then show ?thesis by (simp add: js_trim_def)
qed

lemma js_decimal_dec: "js_decimal (dec n) = Some (of_nat n)"
proof -
  have no: "c \<notin> set (dec n)" if "\<not> is_digit_char c" for c
    by (rule dec_not_special [OF that])
  have nd: "\<not> is_digit_char (CHR ''-'')" "\<not> is_digit_char (CHR ''+'')" "\<not> is_digit_char (CHR ''e'')"
    "\<not> is_digit_char (CHR ''E'')" "\<not> is_digit_char (CHR ''.'')" by code_simp+
  have sign: "strip_sign (dec n) = (False, dec n)"
    using no [OF nd(1)] no [OF nd(2)] by (cases "dec n") (auto simp: strip_sign_def)
  have mant: "takeWhile (\<lambda>c. c \<noteq> CHR ''e'' \<and> c \<noteq> CHR ''E'') (dec n) = dec n"
    using no [OF nd(3)] no [OF nd(4)] by (auto simp: takeWhile_eq_all_conv)
  have ip: "takeWhile (\<lambda>c. c \<noteq> CHR ''.'') (dec n) = dec n"
    using no [OF nd(5)] by (auto simp: takeWhile_eq_all_conv)
  show ?thesis
    by (simp add: js_decimal_def sign mant ip dec_digits digits_value_dec Let_def of_nat_rat)
qed

lemma dec_no_prefix:
  assumes "p \<noteq> CHR ''0''" and "\<not> is_digit_char p" shows "map ascii_lower (take 2 (dec n)) \<noteq> [CHR ''0'', p]"
proof
  assume eq: "map ascii_lower (take 2 (dec n)) = [CHR ''0'', p]"
  then obtain a c where t: "take 2 (dec n) = [a, c]" and lower: "ascii_lower c = p"
    by (auto simp: map_eq_Cons_conv)
  have "c \<in> set (take 2 (dec n))" unfolding t by simp
  then have c: "c \<in> set (dec n)" "ascii_lower c = p" using lower by (auto dest: in_set_takeD)
  have "is_digit_char c" using c(1) dec_digits [of n] by (auto simp: list_all_iff)
  then have "ascii_lower c = c" by (auto simp: ascii_lower_def is_digit_char_def Let_def)
  with c \<open>is_digit_char c\<close> assms(2) show False by simp
qed

lemma js_number_dec: "js_number (dec n) = Some (of_nat n)"
proof -
  have nd: "\<not> is_digit_char (CHR ''x'')" "\<not> is_digit_char (CHR ''o'')" "\<not> is_digit_char (CHR ''b'')" by code_simp+
  show ?thesis
    using dec_no_prefix [OF _ nd(1), of n] dec_no_prefix [OF _ nd(2), of n] dec_no_prefix [OF _ nd(3), of n]
    by (simp add: js_number_def Let_def js_trim_dec js_decimal_dec)
qed

lemma rat_int_of_nat [simp]: "rat_int (of_nat n) = Some (int n)"
  by (simp add: rat_int_def)

end
