(* ===== verification/Crypto_Jwt.thy ===== *)
theory Crypto_Jwt
  imports Js_Text Base64url
begin

text \<open>
  \<^verbatim>\<open>packages/crypto\<close>: the RFC 7638 thumbprint of a key, and compact EdDSA tokens: decoding
  without verification, verifying and signing.  The primitives of \<^verbatim>\<open>node:crypto\<close> (SHA-256,
  Ed25519 keys and signatures) and \<open>JSON.parse\<close> / \<open>JSON.stringify\<close> are parameters, as are the
  conversions of a value to text in a template string and to a parameter of a SQL statement.
\<close>

record node_crypto =
  nc_sha256 :: "string \<Rightarrow> string"
  nc_ed_verify :: "jwk \<Rightarrow> string \<Rightarrow> string \<Rightarrow> bool option"
  nc_ed_sign :: "json_object \<Rightarrow> string \<Rightarrow> string option"

record json_text =
  jt_parse :: "string \<Rightarrow> json option"
  jt_stringify :: "json \<Rightarrow> string"
  jt_text :: "json \<Rightarrow> string"
  jt_param :: "json \<Rightarrow> string"

section \<open>Thumbprints\<close>

definition jwk_canonical :: "jwk \<Rightarrow> string" where
  "jwk_canonical k =
     ''{\"crv\":\"'' @ jwk_crv k @ ''\",\"kty\":\"'' @ jwk_kty k @ ''\",\"x\":\"'' @ jwk_x k @ ''\"}''"

definition jwkThumbprint :: "node_crypto \<Rightarrow> jwk \<Rightarrow> string" where
  "jwkThumbprint c k = base64url (nc_sha256 c (jwk_canonical k))"

section \<open>Tokens\<close>

record decoded_jwt =
  dj_typ :: "json option"
  dj_header :: json
  dj_claims :: json
  dj_signingInput :: string
  dj_signature :: string

text \<open>
  Reading a member of a parsed value: \<open>null\<close> throws, any other value that is not an object
  has none of the members in question.
\<close>

fun member_of :: "json \<Rightarrow> string \<Rightarrow> fault + json option" where
  "member_of JNull k = Inl (OtherError ''Cannot read properties of null'')"
| "member_of (JObj kvs) k = Inr (field_of kvs k)"
| "member_of (JBool b) k = Inr None"
| "member_of (JNum n) k = Inr None"
| "member_of (JStr s) k = Inr None"
| "member_of (JArr xs) k = Inr None"

definition decodeJwt :: "json_text \<Rightarrow> string \<Rightarrow> fault + decoded_jwt" where
  "decodeJwt J token =
     (case split_at CHR ''.'' token of
        [h, p, s] \<Rightarrow>
          (case jt_parse J (from_base64url h) of
             None \<Rightarrow> Inl (OtherError ''SyntaxError'')
           | Some header \<Rightarrow>
               (case jt_parse J (from_base64url p) of
                  None \<Rightarrow> Inl (OtherError ''SyntaxError'')
                | Some claims \<Rightarrow>
                    (case member_of header ''typ'' of
                       Inl e \<Rightarrow> Inl e
                     | Inr typ \<Rightarrow>
                         Inr \<lparr>dj_typ = typ,
                              dj_header = header,
                              dj_claims = claims,
                              dj_signingInput = h @ ''.'' @ p,
                              dj_signature = from_base64url s\<rparr>)))
      | _ \<Rightarrow> Inl (OtherError ''malformed JWT: expected three segments''))"

text \<open>
  \<open>createJwtVerifier().verify\<close>: \<open>nc_ed_verify\<close> is \<open>None\<close> when \<open>createPublicKey\<close> or
  the verification throws.
\<close>

definition jwt_verify :: "node_crypto \<Rightarrow> json_text \<Rightarrow> string \<Rightarrow> jwk \<Rightarrow> fault + decoded_jwt" where
  "jwt_verify c J token key =
     (case decodeJwt J token of
        Inl e \<Rightarrow> Inl e
      | Inr d \<Rightarrow>
          (case nc_ed_verify c key (dj_signingInput d) (dj_signature d) of
             None \<Rightarrow> Inl (OtherError ''invalid key'')
           | Some ok \<Rightarrow> if ok then Inr d else Inl (OtherError ''invalid JWT signature'')))"

definition jwt_sign :: "node_crypto \<Rightarrow> json_text \<Rightarrow> jwt_typ \<Rightarrow> json \<Rightarrow> json_object \<Rightarrow> fault + string" where
  "jwt_sign c J typ claims privateKeyJwk =
     (let header = JObj [(''alg'', JStr ''EdDSA''), (''typ'', JStr (jwt_typ_wire typ))];
          signingInput = base64url (jt_stringify J header) @ ''.'' @ base64url (jt_stringify J claims)
      in case nc_ed_sign c privateKeyJwk signingInput of
           None \<Rightarrow> Inl (OtherError ''invalid key'')
         | Some sig \<Rightarrow> Inr (signingInput @ ''.'' @ base64url sig))"

section \<open>Lemmas\<close>

lemma dot_not_base64url: "CHR ''.'' \<notin> set (base64url s)"
proof
  let ?xs = "b64_sextets (map of_char s)"
  assume "CHR ''.'' \<in> set (base64url s)"
  then obtain x where x: "x \<in> set ?xs" and dot: "b64_char x = CHR ''.''"
    by (auto simp: base64url_def)
  have "\<forall>x \<in> set ?xs. x < 64" by (rule b64_sextets_bound) auto
  then have "b64_value (b64_char x) = Some x" using x by (simp add: b64_char_value)
  moreover have "b64_value (CHR ''.'') = None" by code_simp
  ultimately show False by (simp add: dot)
qed

text \<open>
  What the callers rely on: parsing inverts printing, and a signature made with the private half
  of a key pair verifies with the public half.
\<close>

definition json_text_ok :: "json_text \<Rightarrow> json \<Rightarrow> bool" where
  "json_text_ok J j \<longleftrightarrow> jt_parse J (jt_stringify J j) = Some j"

definition jwt_header :: "jwt_typ \<Rightarrow> json" where
  "jwt_header typ = JObj [(''alg'', JStr ''EdDSA''), (''typ'', JStr (jwt_typ_wire typ))]"

definition key_pair_ok :: "node_crypto \<Rightarrow> jwk \<Rightarrow> json_object \<Rightarrow> bool" where
  "key_pair_ok c pub priv \<longleftrightarrow>
     (\<forall>m s. nc_ed_sign c priv m = Some s \<longrightarrow> nc_ed_verify c pub m s = Some True)"

lemma decodeJwt_token:
  assumes "json_text_ok J (JObj hs)" and "json_text_ok J cl"
  shows "decodeJwt J ((base64url (jt_stringify J (JObj hs)) @ ''.'' @ base64url (jt_stringify J cl)) @ ''.'' @
      base64url sig) =
    Inr \<lparr>dj_typ = field_of hs ''typ'', dj_header = JObj hs, dj_claims = cl,
         dj_signingInput = base64url (jt_stringify J (JObj hs)) @ ''.'' @ base64url (jt_stringify J cl),
         dj_signature = sig\<rparr>"
  using assms
  by (simp add: decodeJwt_def split_at_append split_at_no_sep dot_not_base64url
      from_base64url_base64url json_text_ok_def)

lemma jwt_sign_verify_raw:
  assumes J: "json_text_ok J (jwt_header typ)" "json_text_ok J claims"
    and k: "key_pair_ok c pub priv"
    and s: "jwt_sign c J typ claims priv = Inr token"
  shows "\<exists>d. jwt_verify c J token pub = Inr d \<and> dj_typ d = Some (JStr (jwt_typ_wire typ)) \<and>
    dj_claims d = claims"
proof -
  let ?hs = "[(''alg'', JStr ''EdDSA''), (''typ'', JStr (jwt_typ_wire typ))]"
  let ?m = "base64url (jt_stringify J (JObj ?hs)) @ ''.'' @ base64url (jt_stringify J claims)"
  from s obtain sig where sig: "nc_ed_sign c priv ?m = Some sig"
    and token: "token = ?m @ ''.'' @ base64url sig"
    unfolding jwt_sign_def Let_def by (auto split: option.splits)
  have ok: "nc_ed_verify c pub ?m sig = Some True"
    using k sig unfolding key_pair_ok_def by blast
  have d: "decodeJwt J token = Inr \<lparr>dj_typ = field_of ?hs ''typ'', dj_header = JObj ?hs,
      dj_claims = claims, dj_signingInput = ?m, dj_signature = sig\<rparr>"
    unfolding token by (rule decodeJwt_token [OF J [unfolded jwt_header_def]])
  show ?thesis
    unfolding jwt_verify_def d using ok by (simp add: field_of_def)
qed

text \<open>
  A token signed by the gateway's signer verifies with the matching public key, and the
  verifier returns exactly the claims and the token type that were signed.
\<close>

lemma jwt_sign_verify:
  assumes "json_text_ok J (jwt_header typ)" and "json_text_ok J claims"
    and "key_pair_ok c pub priv" and "jwt_sign c J typ claims priv = Inr token"
  shows "\<exists>d. jwt_verify c J token pub = Inr d \<and> dj_typ d = Some (JStr (jwt_typ_wire typ)) \<and>
    dj_claims d = claims"
  using assms by (rule jwt_sign_verify_raw)

text \<open>A closed instance: the texts of one header and one claim set, and a keyed checksum.\<close>

definition sample_claims :: json where
  "sample_claims = JObj [(''sub'', JStr ''7'')]"

definition sample_json_text :: json_text where
  "sample_json_text =
    \<lparr>jt_parse = (\<lambda>s.
        if s = ''{\"alg\":\"EdDSA\",\"typ\":\"agent+jwt\"}'' then Some (jwt_header AgentJwt)
        else if s = ''{\"sub\":\"7\"}'' then Some sample_claims else None),
     jt_stringify = (\<lambda>j.
        if j = jwt_header AgentJwt then ''{\"alg\":\"EdDSA\",\"typ\":\"agent+jwt\"}''
        else if j = sample_claims then ''{\"sub\":\"7\"}'' else ''?''),
     jt_text = (\<lambda>j. case j of JStr s \<Rightarrow> s | _ \<Rightarrow> ''?''),
     jt_param = (\<lambda>j. case j of JStr s \<Rightarrow> s | _ \<Rightarrow> ''?'')\<rparr>"

definition sample_crypto :: node_crypto where
  "sample_crypto =
    \<lparr>nc_sha256 = rev,
     nc_ed_verify = (\<lambda>k m s. Some (s = jwk_x k @ take 8 (rev m))),
     nc_ed_sign = (\<lambda>p m. Some (''k1'' @ take 8 (rev m)))\<rparr>"

definition sample_jwk :: jwk where
  "sample_jwk =
    \<lparr>jwk_kty = ''OKP'', jwk_crv = ''Ed25519'', jwk_x = ''k1'', jwk_kid = None, jwk_use = None,
     jwk_alg = None\<rparr>"

lemma jwt_sign_verify_witness:
  "\<exists>token d. jwt_sign sample_crypto sample_json_text AgentJwt sample_claims [] = Inr token \<and>
     jwt_verify sample_crypto sample_json_text token sample_jwk = Inr d \<and> dj_claims d = sample_claims"
proof -
  have J: "json_text_ok sample_json_text (jwt_header AgentJwt)" "json_text_ok sample_json_text sample_claims"
    by (simp_all add: json_text_ok_def sample_json_text_def jwt_header_def sample_claims_def)
  have k: "key_pair_ok sample_crypto sample_jwk []"
    by (simp add: key_pair_ok_def sample_crypto_def sample_jwk_def)
  obtain token where t: "jwt_sign sample_crypto sample_json_text AgentJwt sample_claims [] = Inr token"
    by (simp add: jwt_sign_def sample_crypto_def Let_def)
  from jwt_sign_verify [OF J k t] t show ?thesis by blast
qed

end
