(* ===== verification/Storage_Repos.thy ===== *)
theory Storage_Repos
  imports Paging Crypto_Jwt "HOL-Library.Char_ord" "HOL-Library.List_Lexorder"
begin

named_theorems wf_intros "operations that keep the constraints of the schema"

text \<open>
  The repositories of \<^verbatim>\<open>packages/storage\<close> as the Postgres driver implements them: one group of
  operations per aggregate, each an operation on the database that a failing statement (a violated
  constraint of the schema) stops with an error.  Every statement runs on its own unless the caller
  opens a transaction.  Of rows with equal sort keys, the one inserted last counts as newest.
\<close>

section \<open>Inputs\<close>

record new_host =
  nh_publicKeyJwk :: "jwk option"
  nh_jwksUrl :: "string option"
  nh_userId :: "string option"
  nh_defaultCapabilities :: "string list"
  nh_status :: host_state

record new_agent =
  na_hostId :: uuid
  na_projectId :: "uuid option"
  na_publicKeyJwk :: "jwk option"
  na_jwksUrl :: "string option"
  na_name :: "string option"
  na_description :: "string option"
  na_mode :: agent_mode
  na_status :: agent_state

record new_project =
  np_name :: string
  np_description :: "string option"

record new_capability_grant =
  ng_agentId :: uuid
  ng_capability :: string
  ng_connectionId :: "uuid option"
  ng_operation :: "string option"
  ng_taskId :: "uuid option"
  ng_status :: grant_status
  ng_constraints :: constraints
  ng_grantedBy :: "uuid option"
  ng_expiresAt :: "millis option"

record new_task =
  nt_agentId :: uuid
  nt_hostId :: uuid
  nt_name :: string
  nt_purpose :: "string option"
  nt_expiresAt :: "millis option"

record new_connection =
  nn_name :: string
  nn_projectId :: "uuid option"
  nn_platform :: string
  nn_credentialEncrypted :: "char list"
  nn_allowedOperations :: "string list"

record new_tool =
  nl_name :: string
  nl_adapterType :: adapter_type
  nl_adapterConfig :: json_object

record new_audit_entry =
  ne_agentId :: "uuid option"
  ne_hostId :: "uuid option"
  ne_eventType :: string
  ne_capability :: "string option"
  ne_connectionId :: "uuid option"
  ne_operation :: "string option"
  ne_taskId :: "uuid option"
  ne_outcome :: audit_outcome
  ne_argsHash :: "string option"
  ne_durationMs :: "int option"

record audit_query = page_query +
  aq_agentId :: "uuid option"
  aq_outcome :: "audit_outcome option"
  aq_from :: "millis option"
  aq_to :: "millis option"

record agent_lifetimes =
  lt_activatedAt :: "millis option"
  lt_sessionExpiresAt :: "millis option"
  lt_maxLifetimeExpiresAt :: "millis option"
  lt_absoluteExpiresAt :: "millis option"

record connection_update =
  cu_name :: "string option"
  cu_allowedOperations :: "string list option"
  cu_credentialEncrypted :: "char list option"
  cu_projectId :: "uuid option option"

section \<open>Statements\<close>

text \<open>
  \<open>INSERT\<close>: the new row is checked against the constraints of its table, then appended.
\<close>

definition insert_row ::
  "(db \<Rightarrow> 'r list) \<Rightarrow> ('r list \<Rightarrow> db \<Rightarrow> db) \<Rightarrow> ('r \<Rightarrow> db \<Rightarrow> bool) \<Rightarrow> string \<Rightarrow> 'r \<Rightarrow> 'r db_op" where
  "insert_row tab put ok c r d =
     (if ok r d then (Inr r, put (tab d @ [r]) d) else (Inl (constraint_error c), d))"

definition host_row_ok :: "host_row \<Rightarrow> db \<Rightarrow> bool" where
  "host_row_ok r d \<longleftrightarrow>
     \<not> host_exists d (hr_id r) \<and> (hr_public_key_jwk r \<noteq> None \<or> hr_jwks_url r \<noteq> None) \<and>
     (hr_key_thumbprint r = None \<or> hr_key_thumbprint r \<notin> hr_key_thumbprint ` set (db_hosts d))"

definition agent_row_ok :: "agent_row \<Rightarrow> db \<Rightarrow> bool" where
  "agent_row_ok r d \<longleftrightarrow>
     \<not> agent_exists d (ar_id r) \<and> host_exists d (ar_host_id r) \<and>
     fk_ok (project_exists d) (ar_project_id r) \<and>
     (ar_public_key_jwk r \<noteq> None \<or> ar_jwks_url r \<noteq> None)"

definition project_row_ok :: "project_row \<Rightarrow> db \<Rightarrow> bool" where
  "project_row_ok r d \<longleftrightarrow> \<not> project_exists d (por_id r)"

definition grant_row_ok :: "grant_row \<Rightarrow> db \<Rightarrow> bool" where
  "grant_row_ok r d \<longleftrightarrow>
     gr_id r \<notin> gr_id ` set (db_grants d) \<and> agent_exists d (gr_agent_id r) \<and>
     fk_ok (connection_exists d) (gr_connection_id r) \<and> fk_ok (task_exists d) (gr_task_id r)"

definition task_row_ok :: "task_row \<Rightarrow> db \<Rightarrow> bool" where
  "task_row_ok r d \<longleftrightarrow>
     \<not> task_exists d (tr_id r) \<and> agent_exists d (tr_agent_id r) \<and> host_exists d (tr_host_id r)"

definition connection_row_ok :: "connection_row \<Rightarrow> db \<Rightarrow> bool" where
  "connection_row_ok r d \<longleftrightarrow>
     \<not> connection_exists d (cr_id r) \<and> fk_ok (project_exists d) (cr_project_id r)"

definition conn_grant_row_ok :: "conn_grant_row \<Rightarrow> db \<Rightarrow> bool" where
  "conn_grant_row_ok r d \<longleftrightarrow>
     cgr_id r \<notin> cgr_id ` set (db_conn_grants d) \<and>
     conn_key r \<notin> conn_key ` set (db_conn_grants d) \<and>
     agent_exists d (cgr_agent_id r) \<and> connection_exists d (cgr_connection_id r)"

definition tool_row_ok :: "tool_row \<Rightarrow> db \<Rightarrow> bool" where
  "tool_row_ok r d \<longleftrightarrow>
     tlr_id r \<notin> tlr_id ` set (db_tools d) \<and> tlr_name r \<notin> tlr_name ` set (db_tools d)"

definition audit_row_ok :: "audit_row \<Rightarrow> db \<Rightarrow> bool" where
  "audit_row_ok r d \<longleftrightarrow> aur_id r \<notin> aur_id ` set (db_audit d)"

definition insert_host :: "host_row \<Rightarrow> host_row db_op" where
  "insert_host = insert_row db_hosts (\<lambda>t d. d\<lparr>db_hosts := t\<rparr>) host_row_ok ''hosts''"

definition insert_agent :: "agent_row \<Rightarrow> agent_row db_op" where
  "insert_agent = insert_row db_agents (\<lambda>t d. d\<lparr>db_agents := t\<rparr>) agent_row_ok ''agents''"

definition insert_project :: "project_row \<Rightarrow> project_row db_op" where
  "insert_project = insert_row db_projects (\<lambda>t d. d\<lparr>db_projects := t\<rparr>) project_row_ok ''projects''"

definition insert_grant :: "grant_row \<Rightarrow> grant_row db_op" where
  "insert_grant = insert_row db_grants (\<lambda>t d. d\<lparr>db_grants := t\<rparr>) grant_row_ok ''capability_grants''"

definition insert_task :: "task_row \<Rightarrow> task_row db_op" where
  "insert_task = insert_row db_tasks (\<lambda>t d. d\<lparr>db_tasks := t\<rparr>) task_row_ok ''tasks''"

definition insert_connection :: "connection_row \<Rightarrow> connection_row db_op" where
  "insert_connection =
     insert_row db_connections (\<lambda>t d. d\<lparr>db_connections := t\<rparr>) connection_row_ok ''connections''"

definition insert_conn_grant :: "conn_grant_row \<Rightarrow> conn_grant_row db_op" where
  "insert_conn_grant =
     insert_row db_conn_grants (\<lambda>t d. d\<lparr>db_conn_grants := t\<rparr>) conn_grant_row_ok ''connection_grants''"

definition insert_tool :: "tool_row \<Rightarrow> tool_row db_op" where
  "insert_tool = insert_row db_tools (\<lambda>t d. d\<lparr>db_tools := t\<rparr>) tool_row_ok ''tools''"

definition insert_audit :: "audit_row \<Rightarrow> audit_row db_op" where
  "insert_audit = insert_row db_audit (\<lambda>t d. d\<lparr>db_audit := t\<rparr>) audit_row_ok ''audit_log''"

section \<open>Hosts\<close>

definition hosts_create :: "node_crypto \<Rightarrow> new_host \<Rightarrow> host db_op" where
  "hosts_create c n =
     eff_bind gen_random_uuid (\<lambda>i. eff_bind (eff_read db_now) (\<lambda>t.
     eff_bind (insert_host
       \<lparr>hr_id = i, hr_public_key_jwk = nh_publicKeyJwk n, hr_jwks_url = nh_jwksUrl n,
        hr_key_thumbprint = map_option (jwkThumbprint c) (nh_publicKeyJwk n),
        hr_user_id = nh_userId n, hr_default_capabilities = nh_defaultCapabilities n,
        hr_status = nh_status n, hr_created_at = t, hr_updated_at = t\<rparr>)
     (\<lambda>r. eff_return (mapHostRow r))))"

definition hosts_findById :: "uuid \<Rightarrow> host option db_op" where
  "hosts_findById i = eff_read (\<lambda>d. map_option mapHostRow (row_find hr_id i (db_hosts d)))"

definition hosts_findByThumbprint :: "string \<Rightarrow> host option db_op" where
  "hosts_findByThumbprint iss =
     eff_read (\<lambda>d. map_option mapHostRow (row_find hr_key_thumbprint (Some iss) (db_hosts d)))"

definition update_hosts :: "uuid \<Rightarrow> (micros \<Rightarrow> host_row \<Rightarrow> host_row) \<Rightarrow> db \<Rightarrow> db" where
  "update_hosts i f d = d\<lparr>db_hosts := row_update (\<lambda>r. hr_id r = i) (f (db_now d)) (db_hosts d)\<rparr>"

definition hosts_updateStatus :: "uuid \<Rightarrow> host_state \<Rightarrow> unit db_op" where
  "hosts_updateStatus i st =
     eff_write (update_hosts i (\<lambda>t r. r\<lparr>hr_status := st, hr_updated_at := t\<rparr>))"

definition hosts_updatePublicKey :: "node_crypto \<Rightarrow> uuid \<Rightarrow> jwk \<Rightarrow> unit db_op" where
  "hosts_updatePublicKey c i k d =
     (let th = jwkThumbprint c k in
      if host_exists d i \<and> (\<exists>r \<in> set (db_hosts d). hr_id r \<noteq> i \<and> hr_key_thumbprint r = Some th)
      then (Inl (constraint_error ''hosts_key_thumbprint_uq''), d)
      else (Inr (), update_hosts i (\<lambda>t r. r\<lparr>hr_public_key_jwk := Some k, hr_key_thumbprint := Some th,
                                          hr_updated_at := t\<rparr>) d))"

definition hosts_setUserId :: "uuid \<Rightarrow> string option \<Rightarrow> unit db_op" where
  "hosts_setUserId i u = eff_write (update_hosts i (\<lambda>t r. r\<lparr>hr_user_id := u, hr_updated_at := t\<rparr>))"

definition hosts_list :: "codec \<Rightarrow> page_query \<Rightarrow> host page db_op" where
  "hosts_list k q d =
     (keyset_page k (\<lambda>r. (hr_created_at r, hr_id r)) mapHostRow (\<lambda>h. (h_createdAt h, h_id h)) q
        (db_hosts d), d)"

section \<open>Agents\<close>

definition agents_create :: "new_agent \<Rightarrow> agent db_op" where
  "agents_create n =
     eff_bind gen_random_uuid (\<lambda>i. eff_bind (eff_read db_now) (\<lambda>t.
     eff_bind (insert_agent
       \<lparr>ar_id = i, ar_host_id = na_hostId n, ar_project_id = na_projectId n,
        ar_public_key_jwk = na_publicKeyJwk n, ar_jwks_url = na_jwksUrl n, ar_name = na_name n,
        ar_description = na_description n, ar_status = na_status n, ar_mode = na_mode n,
        ar_activated_at = None, ar_session_expires_at = None, ar_max_lifetime_expires_at = None,
        ar_absolute_expires_at = None, ar_created_at = t, ar_updated_at = t\<rparr>)
     (\<lambda>r. eff_return (mapAgentRow r))))"

definition agents_findById :: "uuid \<Rightarrow> agent option db_op" where
  "agents_findById i = eff_read (\<lambda>d. map_option mapAgentRow (row_find ar_id i (db_agents d)))"

text \<open>The subject of a token is text; text that is not a uuid fails the comparison with the key.\<close>

definition agents_findBySubject :: "codec \<Rightarrow> string \<Rightarrow> agent option db_op" where
  "agents_findBySubject k sub =
     (case k_to_uuid k sub of
        None \<Rightarrow> eff_throw (OtherError ''invalid input syntax for type uuid'')
      | Some i \<Rightarrow> agents_findById i)"

definition agents_listByHost :: "uuid \<Rightarrow> agent list db_op" where
  "agents_listByHost h =
     eff_read (\<lambda>d. map mapAgentRow
       (sort_key (\<lambda>r. (ar_created_at r, ar_id r)) (filter (\<lambda>r. ar_host_id r = h) (db_agents d))))"

definition agents_list :: "codec \<Rightarrow> page_query \<Rightarrow> agent page db_op" where
  "agents_list k q d =
     (keyset_page k (\<lambda>r. (ar_created_at r, ar_id r)) mapAgentRow (\<lambda>a. (a_createdAt a, a_id a)) q
        (db_agents d), d)"

definition update_agents :: "uuid \<Rightarrow> (micros \<Rightarrow> agent_row \<Rightarrow> agent_row) \<Rightarrow> db \<Rightarrow> db" where
  "update_agents i f d = d\<lparr>db_agents := row_update (\<lambda>r. ar_id r = i) (f (db_now d)) (db_agents d)\<rparr>"

definition agents_updateStatus :: "uuid \<Rightarrow> agent_state \<Rightarrow> unit db_op" where
  "agents_updateStatus i st =
     eff_write (update_agents i (\<lambda>t r. r\<lparr>ar_status := st, ar_updated_at := t\<rparr>))"

definition agents_updatePublicKey :: "uuid \<Rightarrow> jwk \<Rightarrow> unit db_op" where
  "agents_updatePublicKey i k =
     eff_write (update_agents i (\<lambda>t r. r\<lparr>ar_public_key_jwk := Some k, ar_updated_at := t\<rparr>))"

definition agents_setProject :: "uuid \<Rightarrow> uuid option \<Rightarrow> unit db_op" where
  "agents_setProject i p d =
     (if agent_exists d i \<and> \<not> fk_ok (project_exists d) p
      then (Inl (constraint_error ''agents_project_id_fkey''), d)
      else (Inr (), update_agents i (\<lambda>t r. r\<lparr>ar_project_id := p, ar_updated_at := t\<rparr>) d))"

definition agents_updateMetadata :: "uuid \<Rightarrow> string option \<Rightarrow> string option \<Rightarrow> unit db_op" where
  "agents_updateMetadata i n de =
     eff_write (update_agents i (\<lambda>t r. r\<lparr>ar_name := n, ar_description := de, ar_updated_at := t\<rparr>))"

definition agents_touchSession :: "uuid \<Rightarrow> millis \<Rightarrow> unit db_op" where
  "agents_touchSession i e =
     eff_write (update_agents i (\<lambda>t r. r\<lparr>ar_session_expires_at := Some (pg_time e), ar_updated_at := t\<rparr>))"

definition agents_applyLifetimes :: "uuid \<Rightarrow> agent_lifetimes \<Rightarrow> unit db_op" where
  "agents_applyLifetimes i c =
     eff_write (update_agents i (\<lambda>t r. r
       \<lparr>ar_activated_at := map_option pg_time (lt_activatedAt c),
        ar_session_expires_at := map_option pg_time (lt_sessionExpiresAt c),
        ar_max_lifetime_expires_at := map_option pg_time (lt_maxLifetimeExpiresAt c),
        ar_absolute_expires_at := map_option pg_time (lt_absoluteExpiresAt c),
        ar_updated_at := t\<rparr>))"

section \<open>Projects\<close>

definition projects_create :: "new_project \<Rightarrow> project db_op" where
  "projects_create n =
     eff_bind gen_random_uuid (\<lambda>i. eff_bind (eff_read db_now) (\<lambda>t.
     eff_bind (insert_project
       \<lparr>por_id = i, por_name = np_name n, por_description = np_description n, por_created_at = t\<rparr>)
     (\<lambda>r. eff_return (mapProjectRow r))))"

definition projects_findById :: "uuid \<Rightarrow> project option db_op" where
  "projects_findById i = eff_read (\<lambda>d. map_option mapProjectRow (row_find por_id i (db_projects d)))"

definition projects_list :: "project list db_op" where
  "projects_list = eff_read (\<lambda>d. map mapProjectRow (sort_key por_name (db_projects d)))"

text \<open>The references to a deleted project become \<open>NULL\<close>.\<close>

definition projects_delete :: "uuid \<Rightarrow> unit db_op" where
  "projects_delete i = eff_write (\<lambda>d. d
     \<lparr>db_projects := row_delete (\<lambda>r. por_id r = i) (db_projects d),
      db_agents := row_update (\<lambda>r. ar_project_id r = Some i) (\<lambda>r. r\<lparr>ar_project_id := None\<rparr>) (db_agents d),
      db_connections := row_update (\<lambda>r. cr_project_id r = Some i) (\<lambda>r. r\<lparr>cr_project_id := None\<rparr>)
        (db_connections d)\<rparr>)"

section \<open>Capability grants\<close>

text \<open>Two statements: the prior grant is deleted before the new one is inserted.\<close>

definition grants_delete_prior :: "uuid \<Rightarrow> string \<Rightarrow> unit db_op" where
  "grants_delete_prior a cap = eff_write (\<lambda>d. d
     \<lparr>db_grants := row_delete (\<lambda>r. gr_agent_id r = a \<and> gr_capability r = cap) (db_grants d)\<rparr>)"

definition grants_insert :: "new_capability_grant \<Rightarrow> capability_grant db_op" where
  "grants_insert n =
     eff_bind gen_random_uuid (\<lambda>i. eff_bind (eff_read db_now) (\<lambda>t.
     eff_bind (insert_grant
       \<lparr>gr_id = i, gr_agent_id = ng_agentId n, gr_capability = ng_capability n,
        gr_connection_id = ng_connectionId n, gr_operation = ng_operation n,
        gr_task_id = ng_taskId n, gr_status = ng_status n, gr_constraints = ng_constraints n,
        gr_granted_by = ng_grantedBy n, gr_denied_by = None, gr_reason = None,
        gr_expires_at = map_option pg_time (ng_expiresAt n), gr_created_at = t\<rparr>)
     (\<lambda>r. eff_return (mapGrantRow r))))"

definition grants_upsert :: "new_capability_grant \<Rightarrow> capability_grant db_op" where
  "grants_upsert n =
     eff_bind (grants_delete_prior (ng_agentId n) (ng_capability n)) (\<lambda>_. grants_insert n)"

definition grants_findForAgent :: "uuid \<Rightarrow> capability_grant list db_op" where
  "grants_findForAgent a =
     eff_read (\<lambda>d. map mapGrantRow
       (rev (sort_key gr_created_at (filter (\<lambda>r. gr_agent_id r = a) (db_grants d)))))"

definition grant_live :: "micros \<Rightarrow> grant_row \<Rightarrow> bool" where
  "grant_live t r \<longleftrightarrow>
     gr_status r = GrantActive \<and> (case gr_expires_at r of None \<Rightarrow> True | Some e \<Rightarrow> t < e)"

definition active_grants :: "uuid \<Rightarrow> string \<Rightarrow> db \<Rightarrow> grant_row list" where
  "active_grants a cap d =
     rev (sort_key gr_created_at
       (filter (\<lambda>r. gr_agent_id r = a \<and> gr_capability r = cap \<and> grant_live (db_now d) r) (db_grants d)))"

definition grants_findActive :: "uuid \<Rightarrow> string \<Rightarrow> capability_grant option db_op" where
  "grants_findActive a cap =
     eff_read (\<lambda>d. case active_grants a cap d of [] \<Rightarrow> None | r # rs \<Rightarrow> Some (mapGrantRow r))"

definition update_grants :: "(grant_row \<Rightarrow> bool) \<Rightarrow> (grant_row \<Rightarrow> grant_row) \<Rightarrow> db \<Rightarrow> db" where
  "update_grants p f d = d\<lparr>db_grants := row_update p f (db_grants d)\<rparr>"

definition grants_setStatus :: "uuid \<Rightarrow> grant_status \<Rightarrow> uuid option \<Rightarrow> string option \<Rightarrow> unit db_op" where
  "grants_setStatus i st denier why =
     eff_write (update_grants (\<lambda>r. gr_id r = i)
       (\<lambda>r. r\<lparr>gr_status := st, gr_denied_by := denier, gr_reason := why\<rparr>))"

definition grants_revokeAllForAgent :: "uuid \<Rightarrow> unit db_op" where
  "grants_revokeAllForAgent a =
     eff_write (update_grants (\<lambda>r. gr_agent_id r = a \<and> gr_status r \<noteq> GrantDenied)
       (\<lambda>r. r\<lparr>gr_status := GrantDenied\<rparr>))"

definition grants_revokeByTask :: "uuid \<Rightarrow> unit db_op" where
  "grants_revokeByTask tk =
     eff_write (update_grants (\<lambda>r. gr_task_id r = Some tk \<and> gr_status r \<noteq> GrantDenied)
       (\<lambda>r. r\<lparr>gr_status := GrantDenied\<rparr>))"

section \<open>Tasks\<close>

definition tasks_create :: "new_task \<Rightarrow> task db_op" where
  "tasks_create n =
     eff_bind gen_random_uuid (\<lambda>i. eff_bind (eff_read db_now) (\<lambda>t.
     eff_bind (insert_task
       \<lparr>tr_id = i, tr_agent_id = nt_agentId n, tr_host_id = nt_hostId n, tr_name = nt_name n,
        tr_purpose = nt_purpose n, tr_status = TaskActive,
        tr_expires_at = map_option pg_time (nt_expiresAt n), tr_created_at = t,
        tr_completed_at = None\<rparr>)
     (\<lambda>r. eff_return (mapTaskRow r))))"

definition tasks_findById :: "uuid \<Rightarrow> task option db_op" where
  "tasks_findById i = eff_read (\<lambda>d. map_option mapTaskRow (row_find tr_id i (db_tasks d)))"

definition tasks_list :: "page_query \<Rightarrow> task page db_op" where
  "tasks_list q = eff_read (\<lambda>d.
     let limit = nat (min (max (nullish (q_limit q) 100) 1) 500);
         rows = take (limit + 1) (rev (sort_key tr_created_at (db_tasks d)))
     in \<lparr>pg_items = map mapTaskRow (take limit rows), pg_nextCursor = None,
         pg_hasMore = (limit < length rows)\<rparr>)"

definition tasks_setStatus :: "uuid \<Rightarrow> task_status \<Rightarrow> millis option \<Rightarrow> unit db_op" where
  "tasks_setStatus i st done_at = eff_write (\<lambda>d. d
     \<lparr>db_tasks := row_update (\<lambda>r. tr_id r = i)
        (\<lambda>r. r\<lparr>tr_status := st, tr_completed_at := map_option pg_time done_at\<rparr>) (db_tasks d)\<rparr>)"

section \<open>Connections\<close>

definition connections_create :: "new_connection \<Rightarrow> connection db_op" where
  "connections_create n =
     eff_bind gen_random_uuid (\<lambda>i. eff_bind (eff_read db_now) (\<lambda>t.
     eff_bind (insert_connection
       \<lparr>cr_id = i, cr_name = nn_name n, cr_project_id = nn_projectId n, cr_platform = nn_platform n,
        cr_credential_encrypted = nn_credentialEncrypted n,
        cr_allowed_operations = nn_allowedOperations n, cr_created_at = t, cr_last_test_ok = None,
        cr_last_test_at = None, cr_last_test_detail = None\<rparr>)
     (\<lambda>r. eff_return (mapConnectionRow r))))"

definition connections_findById :: "uuid \<Rightarrow> connection option db_op" where
  "connections_findById i =
     eff_read (\<lambda>d. map_option mapConnectionRow (row_find cr_id i (db_connections d)))"

definition apply_connection_update :: "connection_update \<Rightarrow> connection_row \<Rightarrow> connection_row" where
  "apply_connection_update u r = r
     \<lparr>cr_name := nullish (cu_name u) (cr_name r),
      cr_allowed_operations := nullish (cu_allowedOperations u) (cr_allowed_operations r),
      cr_credential_encrypted := nullish (cu_credentialEncrypted u) (cr_credential_encrypted r),
      cr_project_id := nullish (cu_projectId u) (cr_project_id r)\<rparr>"

text \<open>An empty patch only reads the row; the project of a patch has to exist.\<close>

definition connections_update :: "uuid \<Rightarrow> connection_update \<Rightarrow> connection option db_op" where
  "connections_update i u =
     (if cu_name u = None \<and> cu_allowedOperations u = None \<and> cu_credentialEncrypted u = None \<and>
         cu_projectId u = None
      then connections_findById i
      else (\<lambda>d.
        if connection_exists d i \<and> \<not> fk_ok (project_exists d) (nullish (cu_projectId u) None)
        then (Inl (constraint_error ''connections_project_id_fkey''), d)
        else let d' = d\<lparr>db_connections :=
                   row_update (\<lambda>r. cr_id r = i) (apply_connection_update u) (db_connections d)\<rparr>
             in (Inr (map_option mapConnectionRow (row_find cr_id i (db_connections d'))), d')))"

text \<open>Grants that name a deleted connection lose it; its connection grants are deleted with it.\<close>

definition connections_delete :: "uuid \<Rightarrow> unit db_op" where
  "connections_delete i = eff_write (\<lambda>d. d
     \<lparr>db_connections := row_delete (\<lambda>r. cr_id r = i) (db_connections d),
      db_grants := row_update (\<lambda>r. gr_connection_id r = Some i) (\<lambda>r. r\<lparr>gr_connection_id := None\<rparr>)
        (db_grants d),
      db_conn_grants := row_delete (\<lambda>r. cgr_connection_id r = i) (db_conn_grants d)\<rparr>)"

definition connections_recordTest :: "uuid \<Rightarrow> bool \<Rightarrow> string \<Rightarrow> millis \<Rightarrow> unit db_op" where
  "connections_recordTest i ok detail t = eff_write (\<lambda>d. d
     \<lparr>db_connections := row_update (\<lambda>r. cr_id r = i)
        (\<lambda>r. r\<lparr>cr_last_test_ok := Some ok, cr_last_test_at := Some (pg_time t),
              cr_last_test_detail := Some detail\<rparr>) (db_connections d)\<rparr>)"

definition connections_getEncryptedCredential :: "uuid \<Rightarrow> char list option db_op" where
  "connections_getEncryptedCredential i =
     eff_read (\<lambda>d. map_option cr_credential_encrypted (row_find cr_id i (db_connections d)))"

definition connections_list :: "codec \<Rightarrow> page_query \<Rightarrow> connection page db_op" where
  "connections_list k q d =
     (keyset_page k (\<lambda>r. (cr_created_at r, cr_id r)) mapConnectionRow
        (\<lambda>c. (c_createdAt c, c_id c)) q (db_connections d), d)"

section \<open>Connection grants\<close>

text \<open>
  \<^verbatim>\<open>ON CONFLICT (agent_id, connection_id) DO UPDATE\<close>: the draw of a row id happens before the
  conflict is found.
\<close>

definition connGrants_upsert :: "uuid \<Rightarrow> uuid \<Rightarrow> string list \<Rightarrow> int option \<Rightarrow> connection_grant db_op" where
  "connGrants_upsert a c ops rl =
     eff_bind gen_random_uuid (\<lambda>i d.
       case row_find conn_key (a, c) (db_conn_grants d) of
         Some r \<Rightarrow>
           let r' = r\<lparr>cgr_allowed_operations := ops, cgr_rate_limit := rl\<rparr> in
           (Inr (mapConnGrantRow r'),
            d\<lparr>db_conn_grants := row_update (\<lambda>g. conn_key g = (a, c))
                 (\<lambda>g. g\<lparr>cgr_allowed_operations := ops, cgr_rate_limit := rl\<rparr>) (db_conn_grants d)\<rparr>)
       | None \<Rightarrow>
           eff_bind (insert_conn_grant
             \<lparr>cgr_id = i, cgr_agent_id = a, cgr_connection_id = c, cgr_allowed_operations = ops,
              cgr_rate_limit = rl, cgr_created_at = db_now d\<rparr>)
           (\<lambda>r. eff_return (mapConnGrantRow r)) d)"

definition connGrants_findForAgent :: "uuid \<Rightarrow> uuid \<Rightarrow> connection_grant option db_op" where
  "connGrants_findForAgent a c =
     eff_read (\<lambda>d. map_option mapConnGrantRow (row_find conn_key (a, c) (db_conn_grants d)))"

definition connGrants_listByAgent :: "uuid \<Rightarrow> connection_grant list db_op" where
  "connGrants_listByAgent a =
     eff_read (\<lambda>d. map mapConnGrantRow
       (sort_key cgr_created_at (filter (\<lambda>r. cgr_agent_id r = a) (db_conn_grants d))))"

definition connGrants_delete :: "uuid \<Rightarrow> uuid \<Rightarrow> unit db_op" where
  "connGrants_delete a c = eff_write (\<lambda>d. d
     \<lparr>db_conn_grants := row_delete (\<lambda>r. conn_key r = (a, c)) (db_conn_grants d)\<rparr>)"

section \<open>Tools\<close>

definition tools_upsert :: "new_tool \<Rightarrow> tool db_op" where
  "tools_upsert n =
     eff_bind gen_random_uuid (\<lambda>i d.
       case row_find tlr_name (nl_name n) (db_tools d) of
         Some r \<Rightarrow>
           let f = (\<lambda>g. g\<lparr>tlr_adapter_type := nl_adapterType n, tlr_adapter_config := nl_adapterConfig n,
                         tlr_schema_cache := None, tlr_schema_cached_at := None\<rparr>) in
           (Inr (mapToolRow (f r)),
            d\<lparr>db_tools := row_update (\<lambda>g. tlr_name g = nl_name n) f (db_tools d)\<rparr>)
       | None \<Rightarrow>
           eff_bind (insert_tool
             \<lparr>tlr_id = i, tlr_name = nl_name n, tlr_adapter_type = nl_adapterType n,
              tlr_adapter_config = nl_adapterConfig n, tlr_schema_cache = None,
              tlr_schema_cached_at = None\<rparr>)
           (\<lambda>r. eff_return (mapToolRow r)) d)"

definition tools_findByName :: "string \<Rightarrow> tool option db_op" where
  "tools_findByName n = eff_read (\<lambda>d. map_option mapToolRow (row_find tlr_name n (db_tools d)))"

definition tools_list :: "page_query \<Rightarrow> tool page db_op" where
  "tools_list q = eff_read (\<lambda>d.
     let limit = clampLimit (q_limit q);
         rows = take (limit + 1) (sort_key tlr_name (db_tools d))
     in \<lparr>pg_items = map mapToolRow (take limit rows), pg_nextCursor = None,
         pg_hasMore = (limit < length rows)\<rparr>)"

definition tools_cacheSchema :: "string \<Rightarrow> canonical_schema option \<Rightarrow> millis \<Rightarrow> unit db_op" where
  "tools_cacheSchema n sc t = eff_write (\<lambda>d. d
     \<lparr>db_tools := row_update (\<lambda>r. tlr_name r = n)
        (\<lambda>r. r\<lparr>tlr_schema_cache := sc, tlr_schema_cached_at := Some (pg_time t)\<rparr>) (db_tools d)\<rparr>)"

section \<open>Audit log\<close>

definition audit_append :: "new_audit_entry \<Rightarrow> unit db_op" where
  "audit_append n =
     eff_bind gen_random_uuid (\<lambda>i. eff_bind (eff_read db_now) (\<lambda>t.
     eff_bind (insert_audit
       \<lparr>aur_id = i, aur_agent_id = ne_agentId n, aur_host_id = ne_hostId n,
        aur_event_type = ne_eventType n, aur_capability = ne_capability n,
        aur_connection_id = ne_connectionId n, aur_operation = ne_operation n,
        aur_task_id = ne_taskId n, aur_outcome = ne_outcome n, aur_args_hash = ne_argsHash n,
        aur_duration_ms = ne_durationMs n, aur_created_at = t\<rparr>)
     (\<lambda>r. eff_return ())))"

definition audit_matches :: "audit_query \<Rightarrow> audit_row \<Rightarrow> bool" where
  "audit_matches q r \<longleftrightarrow>
     (case aq_agentId q of None \<Rightarrow> True | Some a \<Rightarrow> aur_agent_id r = Some a) \<and>
     (case aq_outcome q of None \<Rightarrow> True | Some oc \<Rightarrow> aur_outcome r = oc)"

definition audit_query_page :: "codec \<Rightarrow> audit_query \<Rightarrow> audit_entry page db_op" where
  "audit_query_page k q d =
     (keyset_page k (\<lambda>r. (aur_created_at r, aur_id r)) mapAuditRow (\<lambda>e. (ae_createdAt e, ae_id e))
        \<lparr>q_cursor = q_cursor q, q_limit = q_limit q\<rparr> (filter (audit_matches q) (db_audit d)), d)"

text \<open>There is no table for security events.\<close>

definition audit_recordSecurityEvent :: "security_event_type \<Rightarrow> unit db_op" where
  "audit_recordSecurityEvent e = eff_return ()"

section \<open>Replay cache\<close>

definition jti_has :: "string \<Rightarrow> bool db_op" where
  "jti_has j = eff_read (\<lambda>d. \<exists>r \<in> set (db_jti d). jr_jti r = j \<and> db_now d \<le> jr_expires_at r)"

definition jti_put :: "string \<Rightarrow> millis \<Rightarrow> bool db_op" where
  "jti_put j e d =
     (case row_find jr_jti j (db_jti d) of
        None \<Rightarrow> (Inr True, d\<lparr>db_jti := db_jti d @ [\<lparr>jr_jti = j, jr_expires_at = pg_time e\<rparr>]\<rparr>)
      | Some r \<Rightarrow>
          if jr_expires_at r < db_now d
          then (Inr True, d\<lparr>db_jti := row_update (\<lambda>x. jr_jti x = j)
                                       (\<lambda>x. x\<lparr>jr_expires_at := pg_time e\<rparr>) (db_jti d)\<rparr>)
          else (Inr False, d))"

definition jti_purgeExpired :: "millis \<Rightarrow> nat db_op" where
  "jti_purgeExpired now d =
     (Inr (length (filter (\<lambda>r. jr_expires_at r < pg_time now) (db_jti d))),
      d\<lparr>db_jti := row_delete (\<lambda>r. jr_expires_at r < pg_time now) (db_jti d)\<rparr>)"

section \<open>The schema's constraints hold at all times\<close>

lemma insert_row_keeps:
  "(\<And>d. P d \<Longrightarrow> ok r d \<Longrightarrow> P (put (tab d @ [r]) d)) \<Longrightarrow> evolves (keeps P) (insert_row tab put ok c r)"
  by (auto simp: evolves_def keeps_def insert_row_def)

lemma draw_keeps [wf_intros]: "evolves (keeps db_wf) gen_random_uuid"
  by (auto simp: evolves_def keeps_def gen_random_uuid_def db_wf_defs)

lemma write_keeps:
  "(\<And>d. P d \<Longrightarrow> P (f d)) \<Longrightarrow> evolves (keeps P) (eff_write f)"
  by (auto simp: evolves_def keeps_def eff_write_def)

lemma query_keeps: "(\<And>d. snd (m d) = d) \<Longrightarrow> evolves (keeps P) m"
  by (simp add: evolves_def keeps_def)

lemmas row_ok_defs = host_row_ok_def agent_row_ok_def project_row_ok_def grant_row_ok_def
  task_row_ok_def connection_row_ok_def conn_grant_row_ok_def tool_row_ok_def audit_row_ok_def
  fk_ok_set table_simps

text \<open>Inclusions between sets of keys, for deletions.\<close>

lemma key_subset_simps:
  "f ` set t \<subseteq> A \<Longrightarrow> f ` set (row_delete p t) \<subseteq> A"
  "refs g t \<subseteq> B \<Longrightarrow> refs g (row_delete p' t) \<subseteq> B"
  "C \<subseteq> D \<Longrightarrow> C - E \<subseteq> D - E"
  using image_row_delete [of f p t] refs_row_delete [of g p' t] by blast+

lemmas update_simps = map_row_update image_row_update refs_row_update unique_some_update
  distinct_row_delete

lemma insert_host_keeps [wf_intros]: "evolves (keeps db_wf) (insert_host r)"
  unfolding insert_host_def
  by (rule insert_row_keeps, simp add: db_wf_defs row_ok_defs subset_insertI2) (auto intro!: unique_some_snoc)

lemma insert_agent_keeps [wf_intros]: "evolves (keeps db_wf) (insert_agent r)"
  unfolding insert_agent_def
  by (rule insert_row_keeps, simp add: db_wf_defs row_ok_defs subset_insertI2) auto

lemma insert_project_keeps [wf_intros]: "evolves (keeps db_wf) (insert_project r)"
  unfolding insert_project_def
  by (rule insert_row_keeps) (simp add: db_wf_defs row_ok_defs subset_insertI2)

lemma insert_grant_keeps [wf_intros]: "evolves (keeps db_wf) (insert_grant r)"
  unfolding insert_grant_def
  by (rule insert_row_keeps, simp add: db_wf_defs row_ok_defs subset_insertI2) auto

lemma insert_task_keeps [wf_intros]: "evolves (keeps db_wf) (insert_task r)"
  unfolding insert_task_def
  by (rule insert_row_keeps) (simp add: db_wf_defs row_ok_defs subset_insertI2)

lemma insert_connection_keeps [wf_intros]: "evolves (keeps db_wf) (insert_connection r)"
  unfolding insert_connection_def
  by (rule insert_row_keeps, simp add: db_wf_defs row_ok_defs subset_insertI2) auto

lemma insert_conn_grant_keeps [wf_intros]: "evolves (keeps db_wf) (insert_conn_grant r)"
  unfolding insert_conn_grant_def
  by (rule insert_row_keeps) (simp add: db_wf_defs row_ok_defs subset_insertI2)

lemma insert_tool_keeps [wf_intros]: "evolves (keeps db_wf) (insert_tool r)"
  unfolding insert_tool_def
  by (rule insert_row_keeps) (simp add: db_wf_defs row_ok_defs subset_insertI2)

lemma insert_audit_keeps [wf_intros]: "evolves (keeps db_wf) (insert_audit r)"
  unfolding insert_audit_def
  by (rule insert_row_keeps) (simp add: db_wf_defs row_ok_defs subset_insertI2)

lemma update_hosts_keeps:
  "db_wf d \<Longrightarrow> (\<And>t r. hr_id (f t r) = hr_id r) \<Longrightarrow>
    (\<And>t r. hr_key_thumbprint (f t r) = hr_key_thumbprint r) \<Longrightarrow> db_wf (update_hosts i f d)"
  by (simp add: db_wf_defs update_hosts_def update_simps)

lemma update_agents_keeps:
  "db_wf d \<Longrightarrow> (\<And>t r. ar_id (f t r) = ar_id r) \<Longrightarrow> (\<And>t r. ar_host_id (f t r) = ar_host_id r) \<Longrightarrow>
    (\<And>t r. ar_project_id (f t r) = ar_project_id r) \<Longrightarrow> db_wf (update_agents i f d)"
  by (simp add: db_wf_defs update_agents_def update_simps)

lemma update_grants_keeps:
  "db_wf d \<Longrightarrow> (\<And>r. gr_id (f r) = gr_id r) \<Longrightarrow> (\<And>r. gr_agent_id (f r) = gr_agent_id r) \<Longrightarrow>
    (\<And>r. gr_connection_id (f r) = gr_connection_id r) \<Longrightarrow> (\<And>r. gr_task_id (f r) = gr_task_id r) \<Longrightarrow>
    db_wf (update_grants p f d)"
  by (simp add: db_wf_defs update_grants_def update_simps)

lemma host_ops_keep [wf_intros]:
  "evolves (keeps db_wf) (hosts_create c n)" "evolves (keeps db_wf) (hosts_findById i)"
  "evolves (keeps db_wf) (hosts_findByThumbprint iss)" "evolves (keeps db_wf) (hosts_updateStatus i st)"
  "evolves (keeps db_wf) (hosts_setUserId i u)" "evolves (keeps db_wf) (hosts_list k q)"
  unfolding hosts_create_def hosts_findById_def hosts_findByThumbprint_def hosts_updateStatus_def
    hosts_setUserId_def hosts_list_def
  by (intro keeps.evolves_intros wf_intros write_keeps update_hosts_keeps query_keeps; simp)+

lemma hosts_updatePublicKey_keeps [wf_intros]: "evolves (keeps db_wf) (hosts_updatePublicKey c i k)"
proof (rule evolvesI)
  fix d r u
  assume run: "hosts_updatePublicKey c i k d = (r, u)"
  let ?th = "jwkThumbprint c k"
  let ?f = "\<lambda>t r. r\<lparr>hr_public_key_jwk := Some k, hr_key_thumbprint := Some ?th, hr_updated_at := t\<rparr>"
  show "keeps db_wf d u"
    unfolding keeps_def
  proof
    assume wf: "db_wf d"
    show "db_wf u"
    proof (cases "u = d")
      case False
      with run have free: "host_exists d i \<Longrightarrow> r \<in> set (db_hosts d) \<Longrightarrow> hr_id r \<noteq> i \<Longrightarrow>
          hr_key_thumbprint r \<noteq> Some ?th" for r
        by (auto simp: hosts_updatePublicKey_def Let_def split: if_splits)
      from False run have u: "u = update_hosts i ?f d"
        by (auto simp: hosts_updatePublicKey_def Let_def split: if_splits)
      have "unique_some hr_key_thumbprint (row_update (\<lambda>r. hr_id r = i) (?f (db_now d)) (db_hosts d))"
      proof (cases "host_exists d i")
        case True
        show ?thesis
          by (rule unique_some_set [where k = ?th])
            (use wf free [OF True] in \<open>auto simp: db_wf_defs\<close>)
      next
        case False
        then have "row_update (\<lambda>r. hr_id r = i) (?f (db_now d)) (db_hosts d) = db_hosts d"
          unfolding row_update_def host_exists_def by (auto intro!: map_idI)
        then show ?thesis using wf by (simp add: db_wf_defs)
      qed
      then show ?thesis
        using wf unfolding u update_hosts_def by (simp add: db_wf_defs update_simps)
    qed (use wf in simp)
  qed
qed

lemma agent_ops_keep [wf_intros]:
  "evolves (keeps db_wf) (agents_create n)" "evolves (keeps db_wf) (agents_findById i)"
  "evolves (keeps db_wf) (agents_findBySubject k sub)" "evolves (keeps db_wf) (agents_listByHost h)"
  "evolves (keeps db_wf) (agents_list k q)" "evolves (keeps db_wf) (agents_updateStatus i st)"
  "evolves (keeps db_wf) (agents_updatePublicKey i pk)"
  "evolves (keeps db_wf) (agents_updateMetadata i nm de)"
  "evolves (keeps db_wf) (agents_touchSession i e)" "evolves (keeps db_wf) (agents_applyLifetimes i c)"
  unfolding agents_create_def agents_findById_def agents_findBySubject_def agents_listByHost_def
    agents_list_def agents_updateStatus_def agents_updatePublicKey_def agents_updateMetadata_def
    agents_touchSession_def agents_applyLifetimes_def
  by (intro keeps.evolves_intros wf_intros write_keeps update_agents_keeps query_keeps; simp)+

lemma refs_set_project:
  "refs ar_project_id (row_update p (\<lambda>r. r\<lparr>ar_project_id := x, ar_updated_at := t\<rparr>) rs)
     \<subseteq> refs ar_project_id rs \<union> set_option x"
  by (auto simp: refs_def set_row_update image_iff split: if_splits)

lemma agents_setProject_keeps [wf_intros]: "evolves (keeps db_wf) (agents_setProject i p)"
proof (rule evolvesI)
  fix d r u
  assume run: "agents_setProject i p d = (r, u)"
  show "keeps db_wf d u"
    unfolding keeps_def
  proof
    assume wf: "db_wf d"
    show "db_wf u"
    proof (cases "agent_exists d i \<and> \<not> fk_ok (project_exists d) p")
      case True
      then show ?thesis using run wf by (simp add: agents_setProject_def)
    next
      case False
      have old: "refs ar_project_id (db_agents d) \<subseteq> por_id ` set (db_projects d)"
        using wf by (simp add: db_wf_defs)
      have "refs ar_project_id (row_update (\<lambda>r. ar_id r = i)
          (\<lambda>r. r\<lparr>ar_project_id := p, ar_updated_at := db_now d\<rparr>) (db_agents d)) \<subseteq> por_id ` set (db_projects d)"
      proof (cases "agent_exists d i")
        case True
        with False have "set_option p \<subseteq> por_id ` set (db_projects d)"
          by (auto simp: fk_ok_set project_exists_def)
        then show ?thesis using old refs_set_project by blast
      next
        case no: False
        then have "row_update (\<lambda>r. ar_id r = i) f (db_agents d) = db_agents d" for f
          unfolding row_update_def agent_exists_def by (auto intro!: map_idI)
        then show ?thesis using old by simp
      qed
      with wf have "db_wf (update_agents i (\<lambda>t r. r\<lparr>ar_project_id := p, ar_updated_at := t\<rparr>) d)"
        by (simp add: update_agents_def db_wf_defs update_simps)
      then show ?thesis
        using False run by (simp add: agents_setProject_def split: if_splits)
    qed
  qed
qed

lemma project_ops_keep [wf_intros]:
  "evolves (keeps db_wf) (projects_create n)" "evolves (keeps db_wf) (projects_findById i)"
  "evolves (keeps db_wf) projects_list"
  unfolding projects_create_def projects_findById_def projects_list_def
  by (intro keeps.evolves_intros wf_intros)+

lemma projects_delete_keeps [wf_intros]: "evolves (keeps db_wf) (projects_delete i)"
  unfolding projects_delete_def
  by (rule write_keeps) (simp add: db_wf_defs update_simps table_simps refs_set_null key_subset_simps)

lemma grants_delete_prior_keeps [wf_intros]: "evolves (keeps db_wf) (grants_delete_prior a cap)"
  unfolding grants_delete_prior_def
  by (rule write_keeps) (simp add: db_wf_defs update_simps key_subset_simps)

lemma grant_ops_keep [wf_intros]:
  "evolves (keeps db_wf) (grants_insert n)" "evolves (keeps db_wf) (grants_upsert n)"
  "evolves (keeps db_wf) (grants_findForAgent a)" "evolves (keeps db_wf) (grants_findActive a cap)"
  "evolves (keeps db_wf) (grants_setStatus i st dn why)"
  "evolves (keeps db_wf) (grants_revokeAllForAgent a)" "evolves (keeps db_wf) (grants_revokeByTask tk)"
proof -
  show ins: "evolves (keeps db_wf) (grants_insert n)"
    unfolding grants_insert_def by (intro keeps.evolves_intros wf_intros)
  show "evolves (keeps db_wf) (grants_upsert n)"
    unfolding grants_upsert_def by (intro keeps.evolves_intros wf_intros ins)
qed (unfold grants_findForAgent_def grants_findActive_def grants_setStatus_def
    grants_revokeAllForAgent_def grants_revokeByTask_def,
  (intro keeps.evolves_intros wf_intros write_keeps update_grants_keeps; simp)+)

lemma task_ops_keep [wf_intros]:
  "evolves (keeps db_wf) (tasks_create n)" "evolves (keeps db_wf) (tasks_findById i)"
  "evolves (keeps db_wf) (tasks_list q)"
  unfolding tasks_create_def tasks_findById_def tasks_list_def
  by (intro keeps.evolves_intros wf_intros)+

lemma tasks_setStatus_keeps [wf_intros]: "evolves (keeps db_wf) (tasks_setStatus i st done_at)"
  unfolding tasks_setStatus_def
  by (rule write_keeps) (simp add: db_wf_defs update_simps)

lemma connection_ops_keep [wf_intros]:
  "evolves (keeps db_wf) (connections_create n)" "evolves (keeps db_wf) (connections_findById i)"
  "evolves (keeps db_wf) (connections_getEncryptedCredential i)" "evolves (keeps db_wf) (connections_list k q)"
  unfolding connections_create_def connections_findById_def connections_getEncryptedCredential_def
    connections_list_def
  by (intro keeps.evolves_intros wf_intros query_keeps; simp)+

lemma connections_recordTest_keeps [wf_intros]:
  "evolves (keeps db_wf) (connections_recordTest i ok detail t)"
  unfolding connections_recordTest_def
  by (rule write_keeps) (simp add: db_wf_defs update_simps)

lemma connections_delete_keeps [wf_intros]: "evolves (keeps db_wf) (connections_delete i)"
  unfolding connections_delete_def
  by (rule write_keeps) (simp add: db_wf_defs update_simps table_simps refs_set_null key_subset_simps)

lemma apply_connection_update_sel [simp]:
  "cr_id (apply_connection_update u r) = cr_id r"
  "cr_project_id (apply_connection_update u r) = nullish (cu_projectId u) (cr_project_id r)"
  "cr_platform (apply_connection_update u r) = cr_platform r"
  by (simp_all add: apply_connection_update_def)

lemma connections_update_keeps [wf_intros]: "evolves (keeps db_wf) (connections_update i u)"
proof (rule evolvesI)
  fix d r v
  assume run: "connections_update i u d = (r, v)"
  let ?t = "row_update (\<lambda>r. cr_id r = i) (apply_connection_update u) (db_connections d)"
  show "keeps db_wf d v"
    unfolding keeps_def
  proof
    assume wf: "db_wf d"
    have old: "refs cr_project_id (db_connections d) \<subseteq> por_id ` set (db_projects d)"
      using wf by (simp add: db_wf_defs)
    from run consider "v = d" | "v = d\<lparr>db_connections := ?t\<rparr>"
      "connection_exists d i \<Longrightarrow> fk_ok (project_exists d) (nullish (cu_projectId u) None)"
      by (auto simp: connections_update_def connections_findById_def eff_simps Let_def split: if_splits)
    then show "db_wf v"
    proof cases
      case 2
      have "refs cr_project_id ?t \<subseteq> por_id ` set (db_projects d)"
      proof
        fix p assume "p \<in> refs cr_project_id ?t"
        then obtain r where r: "r \<in> set (db_connections d)"
          and p: "cr_project_id (if cr_id r = i then apply_connection_update u r else r) = Some p"
          by (auto simp: refs_def set_row_update)
        show "p \<in> por_id ` set (db_projects d)"
        proof (cases "cr_id r = i \<and> cu_projectId u \<noteq> None")
          case True
          with r 2(2) p show ?thesis by (auto simp: connection_exists_def project_exists_def)
        next
          case False
          with p have "cr_project_id r = Some p" by (auto split: if_splits)
          with r old show ?thesis by (force simp: refs_def)
        qed
      qed
      then show ?thesis using wf 2(1) by (simp add: db_wf_defs update_simps)
    qed (use wf in simp)
  qed
qed

lemma connGrant_ops_keep [wf_intros]:
  "evolves (keeps db_wf) (connGrants_findForAgent a c)" "evolves (keeps db_wf) (connGrants_listByAgent a)"
  unfolding connGrants_findForAgent_def connGrants_listByAgent_def
  by (intro keeps.evolves_intros wf_intros)+

lemma conn_key_update [simp]:
  "conn_key (r\<lparr>cgr_allowed_operations := ops, cgr_rate_limit := rl\<rparr>) = conn_key r"
  by (simp add: conn_key_def)

lemma connGrants_upsert_keeps [wf_intros]: "evolves (keeps db_wf) (connGrants_upsert a c ops rl)"
  unfolding connGrants_upsert_def
proof (intro keeps.evolves_bind draw_keeps evolvesI)
  fix i and d :: db and r v
  let ?row = "\<lparr>cgr_id = i, cgr_agent_id = a, cgr_connection_id = c, cgr_allowed_operations = ops,
              cgr_rate_limit = rl, cgr_created_at = db_now d\<rparr>"
  have new: "evolves (keeps db_wf) (eff_bind (insert_conn_grant ?row) (\<lambda>r. eff_return (mapConnGrantRow r)))"
    by (intro keeps.evolves_intros wf_intros)
  assume run: "(case row_find conn_key (a, c) (db_conn_grants d) of
         None \<Rightarrow> eff_bind (insert_conn_grant ?row) (\<lambda>r. eff_return (mapConnGrantRow r)) d
       | Some r \<Rightarrow>
           let r' = r\<lparr>cgr_allowed_operations := ops, cgr_rate_limit := rl\<rparr> in
           (Inr (mapConnGrantRow r'),
            d\<lparr>db_conn_grants := row_update (\<lambda>g. conn_key g = (a, c))
                 (\<lambda>g. g\<lparr>cgr_allowed_operations := ops, cgr_rate_limit := rl\<rparr>) (db_conn_grants d)\<rparr>)) = (r, v)"
  show "keeps db_wf d v"
  proof (cases "row_find conn_key (a, c) (db_conn_grants d)")
    case None
    with run show ?thesis using evolvesD [OF new] by simp
  next
    case (Some g)
    with run have "v = d\<lparr>db_conn_grants := row_update (\<lambda>g. conn_key g = (a, c))
        (\<lambda>g. g\<lparr>cgr_allowed_operations := ops, cgr_rate_limit := rl\<rparr>) (db_conn_grants d)\<rparr>"
      by (simp add: Let_def)
    then show ?thesis by (simp add: keeps_def db_wf_defs update_simps)
  qed
qed

lemma connGrants_delete_keeps [wf_intros]: "evolves (keeps db_wf) (connGrants_delete a c)"
  unfolding connGrants_delete_def
  by (rule write_keeps) (simp add: db_wf_defs update_simps key_subset_simps)

lemma tool_ops_keep [wf_intros]:
  "evolves (keeps db_wf) (tools_findByName nm)" "evolves (keeps db_wf) (tools_list q)"
  unfolding tools_findByName_def tools_list_def
  by (intro keeps.evolves_intros wf_intros)+

lemma tools_cacheSchema_keeps [wf_intros]: "evolves (keeps db_wf) (tools_cacheSchema nm sc t)"
  unfolding tools_cacheSchema_def
  by (rule write_keeps) (simp add: db_wf_defs update_simps)

lemma tools_upsert_keeps [wf_intros]: "evolves (keeps db_wf) (tools_upsert n)"
  unfolding tools_upsert_def
proof (intro keeps.evolves_bind draw_keeps evolvesI)
  fix i and d :: db and r v
  let ?row = "\<lparr>tlr_id = i, tlr_name = nl_name n, tlr_adapter_type = nl_adapterType n,
              tlr_adapter_config = nl_adapterConfig n, tlr_schema_cache = None,
              tlr_schema_cached_at = None\<rparr>"
  let ?f = "\<lambda>g. g\<lparr>tlr_adapter_type := nl_adapterType n, tlr_adapter_config := nl_adapterConfig n,
                         tlr_schema_cache := None, tlr_schema_cached_at := None\<rparr>"
  have new: "evolves (keeps db_wf) (eff_bind (insert_tool ?row) (\<lambda>r. eff_return (mapToolRow r)))"
    by (intro keeps.evolves_intros wf_intros)
  assume run: "(case row_find tlr_name (nl_name n) (db_tools d) of
         None \<Rightarrow> eff_bind (insert_tool ?row) (\<lambda>r. eff_return (mapToolRow r)) d
       | Some r \<Rightarrow> let f = ?f in
           (Inr (mapToolRow (f r)), d\<lparr>db_tools := row_update (\<lambda>g. tlr_name g = nl_name n) f (db_tools d)\<rparr>)) = (r, v)"
  show "keeps db_wf d v"
  proof (cases "row_find tlr_name (nl_name n) (db_tools d)")
    case None
    with run show ?thesis using evolvesD [OF new] by simp
  next
    case (Some g)
    with run have "v = d\<lparr>db_tools := row_update (\<lambda>g. tlr_name g = nl_name n) ?f (db_tools d)\<rparr>"
      by (simp add: Let_def)
    then show ?thesis by (simp add: keeps_def db_wf_defs update_simps)
  qed
qed

lemma audit_ops_keep [wf_intros]:
  "evolves (keeps db_wf) (audit_append n)" "evolves (keeps db_wf) (audit_query_page k aq)"
  "evolves (keeps db_wf) (audit_recordSecurityEvent e)"
  unfolding audit_append_def audit_query_page_def audit_recordSecurityEvent_def
  by (intro keeps.evolves_intros wf_intros query_keeps; simp)+

lemma jti_ops_keep [wf_intros]:
  "evolves (keeps db_wf) (jti_has j)" "evolves (keeps db_wf) (jti_put j e)"
  "evolves (keeps db_wf) (jti_purgeExpired t)"
proof -
  show "evolves (keeps db_wf) (jti_has j)" unfolding jti_has_def by (intro keeps.evolves_intros wf_intros)
  show "evolves (keeps db_wf) (jti_put j e)"
    by (auto simp: evolves_def keeps_def jti_put_def db_wf_defs update_simps row_find_None_iff
        split: option.splits)
  show "evolves (keeps db_wf) (jti_purgeExpired t)"
    by (auto simp: evolves_def keeps_def jti_purgeExpired_def db_wf_defs update_simps)
qed

end
