(* ===== verification/Storage_Laws.thy ===== *)
theory Storage_Laws
  imports Storage_Repos
begin

text \<open>
  What the repositories promise their callers: the evaluation rules of the operations, what
  page walks show, one grant per agent and capability, deletions without dangling references, and the
  replay cache, stated as an interface of its own and discharged for the Postgres implementation.
\<close>

section \<open>Evaluation\<close>

lemma find_ops_eval [eff_simps]:
  "hosts_findById i d = (Inr (map_option mapHostRow (row_find hr_id i (db_hosts d))), d)"
  "hosts_findByThumbprint iss d =
     (Inr (map_option mapHostRow (row_find hr_key_thumbprint (Some iss) (db_hosts d))), d)"
  "agents_findById i d = (Inr (map_option mapAgentRow (row_find ar_id i (db_agents d))), d)"
  "tasks_findById i d = (Inr (map_option mapTaskRow (row_find tr_id i (db_tasks d))), d)"
  "connections_findById i d = (Inr (map_option mapConnectionRow (row_find cr_id i (db_connections d))), d)"
  "grants_findActive a cap d =
     (Inr (case active_grants a cap d of [] \<Rightarrow> None | r # rs \<Rightarrow> Some (mapGrantRow r)), d)"
  "connGrants_findForAgent a c d =
     (Inr (map_option mapConnGrantRow (row_find conn_key (a, c) (db_conn_grants d))), d)"
  "connGrants_listByAgent a d =
     (Inr (map mapConnGrantRow
        (sort_key cgr_created_at (filter (\<lambda>r. cgr_agent_id r = a) (db_conn_grants d)))), d)"
  by (simp_all add: hosts_findById_def hosts_findByThumbprint_def agents_findById_def
      tasks_findById_def connections_findById_def grants_findActive_def connGrants_findForAgent_def
      connGrants_listByAgent_def eff_read_def)

lemma bind_find [simp]:
  "eff_bind (hosts_findById i) f d = f (map_option mapHostRow (row_find hr_id i (db_hosts d))) d"
  "eff_bind (agents_findById i) g d = g (map_option mapAgentRow (row_find ar_id i (db_agents d))) d"
  "eff_bind (tasks_findById i) h d = h (map_option mapTaskRow (row_find tr_id i (db_tasks d))) d"
  "eff_bind (connections_findById i) k d =
     k (map_option mapConnectionRow (row_find cr_id i (db_connections d))) d"
  by (simp_all add: hosts_findById_def agents_findById_def tasks_findById_def connections_findById_def)

lemma row_find_update_agents [table_simps]:
  "(\<And>t r. ar_id (f t r) = ar_id r) \<Longrightarrow>
    row_find ar_id j (db_agents (update_agents i f d)) =
      map_option (\<lambda>r. if j = i then f (db_now d) r else r) (row_find ar_id j (db_agents d))"
  by (cases "row_find ar_id j (db_agents d)")
    (auto simp: update_agents_def row_find_update dest: row_find_SomeD)

lemma row_find_update_hosts [table_simps]:
  "(\<And>t r. hr_id (f t r) = hr_id r) \<Longrightarrow>
    row_find hr_id j (db_hosts (update_hosts i f d)) =
      map_option (\<lambda>r. if j = i then f (db_now d) r else r) (row_find hr_id j (db_hosts d))"
  by (cases "row_find hr_id j (db_hosts d)")
    (auto simp: update_hosts_def row_find_update dest: row_find_SomeD)

lemma update_agents_frame [simp]:
  "db_hosts (update_agents i f d) = db_hosts d" "db_grants (update_agents i f d) = db_grants d"
  "db_connections (update_agents i f d) = db_connections d"
  "db_conn_grants (update_agents i f d) = db_conn_grants d"
  "db_tasks (update_agents i f d) = db_tasks d" "db_projects (update_agents i f d) = db_projects d"
  "db_audit (update_agents i f d) = db_audit d" "db_jti (update_agents i f d) = db_jti d"
  "db_now (update_agents i f d) = db_now d"
  by (simp_all add: update_agents_def)

lemma update_hosts_frame [simp]:
  "db_agents (update_hosts i f d) = db_agents d" "db_grants (update_hosts i f d) = db_grants d"
  "db_now (update_hosts i f d) = db_now d"
  by (simp_all add: update_hosts_def)

lemma audit_append_frame [simp]:
  "db_agents (snd (audit_append n d)) = db_agents d" "db_hosts (snd (audit_append n d)) = db_hosts d"
  "db_grants (snd (audit_append n d)) = db_grants d" "db_tasks (snd (audit_append n d)) = db_tasks d"
  "db_connections (snd (audit_append n d)) = db_connections d"
  "db_conn_grants (snd (audit_append n d)) = db_conn_grants d"
  by (simp_all add: audit_append_def insert_audit_def insert_row_def gen_random_uuid_def eff_bind_def eff_simps)

section \<open>Walking the pages\<close>

text \<open>
  C17: A client that lists the agents page by page, following the cursors, is done after at most one request more than
  there are agents.  It gets agents newest first, none twice; an agent that it does not get was created in the
  same millisecond as a newer one that it does get, and if all creation times are whole milliseconds it gets every agent.
\<close>

theorem agents_walk_shows:
  assumes "db_wf d" and "codec_ok k" and "length (db_agents d) < fuel"
  shows "\<exists>rows. walk_pages fuel (\<lambda>c. fst (agents_list k \<lparr>q_cursor = c, q_limit = l\<rparr> d)) None =
      Some (Inr (map mapAgentRow rows)) \<and>
    subseq rows (display_order (\<lambda>r. (ar_created_at r, ar_id r)) (db_agents d)) \<and> distinct rows \<and>
    (\<forall>r \<in> set (db_agents d). r \<notin> set rows \<longrightarrow>
       (\<exists>q \<in> set rows. (ar_created_at r, ar_id r) < (ar_created_at q, ar_id q) \<and>
          js_date (ar_created_at r) = js_date (ar_created_at q))) \<and>
    ((\<forall>r \<in> set (db_agents d). ms_aligned (ar_created_at r)) \<longrightarrow>
       rows = display_order (\<lambda>r. (ar_created_at r, ar_id r)) (db_agents d))"
proof -
  let ?key = "\<lambda>r. (ar_created_at r, ar_id r)"
  have d: "distinct (map ?key (db_agents d))"
    using assms(1) by (auto simp: db_wf_defs distinct_map inj_on_def)
  have all: "keyset_select ?key None (db_agents d) = display_order ?key (db_agents d)" by (simp add: keyset_select_filter)
  have "length (keyset_select ?key None (db_agents d)) < fuel"
    using assms(3) length_keyset_select le_less_trans by blast
  from agent_page.walk_shows [OF assms(2) d _ this, of None l] obtain rows where
    rows: "walk_pages fuel (\<lambda>c. keyset_page k ?key mapAgentRow (\<lambda>a. (a_createdAt a, a_id a)) \<lparr>q_cursor = c, q_limit = l\<rparr>
        (db_agents d)) None = Some (Inr (map mapAgentRow rows))" "subseq rows (display_order ?key (db_agents d))"
      "\<forall>r \<in> set (db_agents d). r \<notin> set rows \<longrightarrow> (\<exists>q \<in> set rows. ?key r < ?key q \<and> js_date (fst (?key r)) = js_date (fst (?key q)))"
      "(\<forall>r \<in> set (db_agents d). ms_aligned (fst (?key r))) \<longrightarrow> rows = display_order ?key (db_agents d)"
    unfolding all by (auto simp: cursor_key_def display_order_def)
  have "distinct (display_order ?key (db_agents d))" using d by (simp add: display_order_def distinct_map)
  then have "distinct rows" using rows(2) subseq_distinct by blast
  with rows show ?thesis by (auto simp: agents_list_def)
qed

definition sample_agent_row :: "uuid \<Rightarrow> micros \<Rightarrow> agent_row" where
  "sample_agent_row i t =
    \<lparr>ar_id = i, ar_host_id = 1, ar_project_id = None, ar_public_key_jwk = Some sample_jwk,
     ar_jwks_url = None, ar_name = None, ar_description = None, ar_status = AgentActive,
     ar_mode = Delegated, ar_activated_at = None, ar_session_expires_at = None,
     ar_max_lifetime_expires_at = None, ar_absolute_expires_at = None, ar_created_at = t,
     ar_updated_at = t\<rparr>"

definition sample_host_row :: host_row where
  "sample_host_row =
    \<lparr>hr_id = 1, hr_public_key_jwk = Some sample_jwk, hr_jwks_url = None, hr_key_thumbprint = None,
     hr_user_id = None, hr_default_capabilities = [], hr_status = HostActive, hr_created_at = 0,
     hr_updated_at = 0\<rparr>"

definition empty_db :: db where
  "empty_db =
    \<lparr>db_hosts = [], db_agents = [], db_projects = [], db_grants = [], db_tasks = [],
     db_connections = [], db_conn_grants = [], db_tools = [], db_audit = [], db_jti = [],
     db_now = 5000000, db_uuids = (\<lambda>n. n + 100), db_draws = 0\<rparr>"

definition sample_db :: "agent_row list \<Rightarrow> db" where
  "sample_db as = empty_db\<lparr>db_hosts := [sample_host_row], db_agents := as\<rparr>"

lemma sample_db_wf: "distinct (map ar_id as) \<Longrightarrow> ar_host_id ` set as \<subseteq> {1} \<Longrightarrow>
    refs ar_project_id as = {} \<Longrightarrow> db_wf (sample_db as)"
  by (auto simp: sample_db_def empty_db_def db_wf_defs sample_host_row_def unique_some_def refs_def)

text \<open>Three agents, the two older ones of one millisecond: with pages of one agent the oldest is not shown.\<close>

lemma agents_walk_shows_witness:
  "\<exists>rows. walk_pages 4 (\<lambda>c. fst (agents_list unary_codec \<lparr>q_cursor = c, q_limit = Some 1\<rparr>
       (sample_db [sample_agent_row 6 900, sample_agent_row 7 2100, sample_agent_row 8 2900]))) None =
       Some (Inr (map mapAgentRow rows)) \<and>
     sample_agent_row 6 900 \<in> set rows \<and>
     (sample_agent_row 7 2100 \<in> set rows \<or> sample_agent_row 8 2900 \<in> set rows)"
proof -
  let ?as = "[sample_agent_row 6 900, sample_agent_row 7 2100, sample_agent_row 8 2900]"
  have wf: "db_wf (sample_db ?as)" by (rule sample_db_wf) (auto simp: sample_agent_row_def refs_def)
  have len: "length (db_agents (sample_db ?as)) < 4" by (simp add: sample_db_def)
  have times: "js_date 900 = 0" "js_date 2100 = 2" "js_date 2900 = 2" by (simp_all add: js_date_def)
  have eqs: "sample_agent_row i t = sample_agent_row j u \<longleftrightarrow> i = j \<and> t = u" "ar_created_at (sample_agent_row i t) = t" for i j t u
    by (auto simp: sample_agent_row_def)
  from agents_walk_shows [OF wf unary_codec_ok len, of "Some 1"] obtain rows where
    run: "walk_pages 4 (\<lambda>c. fst (agents_list unary_codec \<lparr>q_cursor = c, q_limit = Some 1\<rparr> (sample_db ?as))) None =
       Some (Inr (map mapAgentRow rows))" and sub: "subseq rows (display_order (\<lambda>r. (ar_created_at r, ar_id r)) (db_agents (sample_db ?as)))"
    and lost: "\<forall>r \<in> set (db_agents (sample_db ?as)). r \<notin> set rows \<longrightarrow>
       (\<exists>q \<in> set rows. (ar_created_at r, ar_id r) < (ar_created_at q, ar_id q) \<and> js_date (ar_created_at r) = js_date (ar_created_at q))"
    by blast
  have "set (display_order (\<lambda>r. (ar_created_at r, ar_id r)) (db_agents (sample_db ?as))) = set (db_agents (sample_db ?as))"
    by (simp only: display_order_def set_rev set_sort)
  with subseq_set [OF sub] have "set rows \<subseteq> set (db_agents (sample_db ?as))" by blast
  then have "set rows \<subseteq> set ?as" by (simp add: sample_db_def)
  then have among: "q \<in> set rows \<Longrightarrow> q = sample_agent_row 6 900 \<or> q = sample_agent_row 7 2100 \<or> q = sample_agent_row 8 2900" for q
    by auto
  have all: "sample_agent_row 6 900 \<in> set (db_agents (sample_db ?as))" "sample_agent_row 7 2100 \<in> set (db_agents (sample_db ?as))"
    by (simp_all add: sample_db_def)
  have "sample_agent_row 6 900 \<in> set rows"
  proof (rule ccontr)
    assume "\<not> ?thesis"
    then obtain q where "q \<in> set rows" "js_date 900 = js_date (ar_created_at q)" "q \<noteq> sample_agent_row 6 900"
      using lost [rule_format, OF all(1)] by (auto simp: eqs)
    with among [of q] show False by (auto simp: eqs times)
  qed
  moreover have "sample_agent_row 7 2100 \<in> set rows \<or> sample_agent_row 8 2900 \<in> set rows"
  proof (rule ccontr)
    assume none: "\<not> ?thesis"
    then obtain q where "q \<in> set rows" "js_date 2100 = js_date (ar_created_at q)"
      using lost [rule_format, OF all(2)] by (auto simp: eqs)
    with among [of q] none show False by (auto simp: eqs times)
  qed
  ultimately show ?thesis using run by blast
qed

text \<open>
  Two agents created within the same millisecond: the cursor keeps only the milliseconds of the
  last row of a page, so a walk with pages of one row ends after the newer agent and never shows
  the older one.
\<close>

lemma agents_walk_skips:
  "walk_pages 5 (\<lambda>c. fst (agents_list unary_codec \<lparr>q_cursor = c, q_limit = Some 1\<rparr>
       (sample_db [sample_agent_row 7 2100, sample_agent_row 8 2900]))) None =
    Some (Inr [mapAgentRow (sample_agent_row 8 2900)])"
  by code_simp

section \<open>One grant per agent and capability\<close>

definition grants_of :: "uuid \<Rightarrow> string \<Rightarrow> db \<Rightarrow> grant_row list" where
  "grants_of a cap d = filter (\<lambda>r. gr_agent_id r = a \<and> gr_capability r = cap) (db_grants d)"

lemma grants_upsert_cases:
  assumes "grants_upsert n d = (res, d')"
  obtains (ok) r where "res = Inr (mapGrantRow r)"
      "db_grants d' = row_delete (\<lambda>r. gr_agent_id r = ng_agentId n \<and> gr_capability r = ng_capability n)
         (db_grants d) @ [r]"
      "gr_agent_id r = ng_agentId n" "gr_capability r = ng_capability n" "gr_status r = ng_status n"
      "gr_connection_id r = ng_connectionId n" "gr_task_id r = ng_taskId n"
      "gr_operation r = ng_operation n" "gr_constraints r = ng_constraints n"
      "gr_expires_at r = map_option pg_time (ng_expiresAt n)"
    | (failed) "res = Inl (constraint_error ''capability_grants'')"
      "db_grants d' = row_delete (\<lambda>r. gr_agent_id r = ng_agentId n \<and> gr_capability r = ng_capability n)
         (db_grants d)"
  using assms
  by (auto simp: grants_upsert_def grants_delete_prior_def grants_insert_def gen_random_uuid_def
      insert_grant_def insert_row_def eff_bind_def eff_simps split: if_splits)

lemma grants_of_delete_prior: 
  "filter (\<lambda>r. gr_agent_id r = a \<and> gr_capability r = c)
     (row_delete (\<lambda>r. gr_agent_id r = a \<and> gr_capability r = c) t) = []"
  by (simp add: row_delete_def filter_empty_conv)

lemma grants_upsert_replaces_raw:
  assumes "grants_upsert n d = (Inr g, d')"
  shows "\<exists>r. grants_of (ng_agentId n) (ng_capability n) d' = [r] \<and> g = mapGrantRow r \<and>
    g_status g = ng_status n \<and> g_connectionId g = ng_connectionId n \<and> g_taskId g = ng_taskId n"
  using assms
  by (cases rule: grants_upsert_cases) (auto simp: grants_of_def grants_of_delete_prior)

text \<open>
  A successful grant upsert leaves exactly one grant for its agent and capability, the one it
  returns, with the status, connection and task that were asked for: an approval replaces the
  pending request, a re-grant the earlier mapping.
\<close>

lemma grants_upsert_replaces:
  assumes "grants_upsert n d = (Inr g, d')"
  shows "\<exists>r. grants_of (ng_agentId n) (ng_capability n) d' = [r] \<and> g = mapGrantRow r \<and>
    g_status g = ng_status n \<and> g_connectionId g = ng_connectionId n \<and> g_taskId g = ng_taskId n"
  using assms by (rule grants_upsert_replaces_raw)

definition sample_new_grant :: "uuid \<Rightarrow> uuid option \<Rightarrow> new_capability_grant" where
  "sample_new_grant a c =
    \<lparr>ng_agentId = a, ng_capability = ''slack.post'', ng_connectionId = c, ng_operation = Some ''post'',
     ng_taskId = None, ng_status = GrantActive, ng_constraints = [], ng_grantedBy = Some 1,
     ng_expiresAt = None\<rparr>"

lemma grants_upsert_replaces_witness:
  "\<exists>g d'. grants_upsert (sample_new_grant 7 None) (sample_db [sample_agent_row 7 2000]) = (Inr g, d') \<and>
     length (grants_of 7 ''slack.post'' d') = 1"
proof -
  let ?run = "grants_upsert (sample_new_grant 7 None) (sample_db [sample_agent_row 7 2000])"
  have "\<not> isl (fst ?run)" by code_simp
  from run_returns [OF this] obtain g where run: "?run = (Inr g, snd ?run)" by blast
  have "\<exists>r. grants_of 7 ''slack.post'' (snd ?run) = [r]"
    using grants_upsert_replaces [OF run] by (auto simp: sample_new_grant_def)
  with run show ?thesis by (metis One_nat_def length_Cons list.size(3))
qed

text \<open>
  An upsert whose insert is refused (a connection that does not exist) still has deleted the
  agent's earlier grant for the capability: the operation fails and the agent is left without the
  grant it had, because the two statements are not one transaction.
\<close>

lemma grants_upsert_failure_loses_grant:
  assumes "grants_upsert n d = (Inl e, d')"
  shows "grants_of (ng_agentId n) (ng_capability n) d' = []"
  using assms
  by (cases rule: grants_upsert_cases) (auto simp: grants_of_def grants_of_delete_prior)

lemma grants_upsert_failure_loses_grant_witness:
  "\<exists>g d1 e d2. grants_upsert (sample_new_grant 7 None) (sample_db [sample_agent_row 7 2000]) = (Inr g, d1) \<and>
     length (grants_of 7 ''slack.post'' d1) = 1 \<and>
     grants_upsert (sample_new_grant 7 (Some 99)) d1 = (Inl e, d2) \<and> grants_of 7 ''slack.post'' d2 = []"
proof -
  let ?d1 = "snd (grants_upsert (sample_new_grant 7 None) (sample_db [sample_agent_row 7 2000]))"
  let ?d2 = "snd (grants_upsert (sample_new_grant 7 (Some 99)) ?d1)"
  have a: "\<not> isl (fst (grants_upsert (sample_new_grant 7 None) (sample_db [sample_agent_row 7 2000])))"
    by code_simp
  have b: "isl (fst (grants_upsert (sample_new_grant 7 (Some 99)) ?d1))" by code_simp
  have l: "length (grants_of 7 ''slack.post'' ?d1) = 1" by code_simp
  from run_returns [OF a] obtain g
    where g: "grants_upsert (sample_new_grant 7 None) (sample_db [sample_agent_row 7 2000]) = (Inr g, ?d1)"
    by blast
  from run_throws [OF b] obtain e where e: "grants_upsert (sample_new_grant 7 (Some 99)) ?d1 = (Inl e, ?d2)"
    by blast
  have "grants_of 7 ''slack.post'' ?d2 = []"
    using grants_upsert_failure_loses_grant [OF e] by (simp add: sample_new_grant_def)
  with g e l show ?thesis by blast
qed

section \<open>Deleting a connection\<close>

text \<open>
  Deleting a connection keeps every constraint of the schema and leaves no trace of it: no grant
  and no connection grant refers to it, and every other connection grant is untouched.
\<close>

lemma connections_delete_no_trace:
  assumes "db_wf d" and "connections_delete i d = (res, d')"
  shows "db_wf d' \<and> res = Inr () \<and> \<not> connection_exists d' i \<and>
    i \<notin> refs gr_connection_id (db_grants d') \<and>
    (\<forall>g. g \<in> set (db_conn_grants d') = (g \<in> set (db_conn_grants d) \<and> cgr_connection_id g \<noteq> i))"
proof -
  have "db_wf d'"
    using evolvesD [OF connections_delete_keeps assms(2)] assms(1) by (simp add: keeps_def)
  then show ?thesis
    using assms(2)
    by (auto simp: connections_delete_def eff_write_def connection_exists_def refs_set_null
        set_row_delete)
qed

definition sample_connection_row :: "uuid \<Rightarrow> uuid option \<Rightarrow> connection_row" where
  "sample_connection_row i p =
    \<lparr>cr_id = i, cr_name = ''slack'', cr_project_id = p, cr_platform = ''slack'',
     cr_credential_encrypted = ''c'', cr_allowed_operations = [], cr_created_at = 1000,
     cr_last_test_ok = None, cr_last_test_at = None, cr_last_test_detail = None\<rparr>"

definition sample_conn_grant_row :: "uuid \<Rightarrow> uuid \<Rightarrow> string list \<Rightarrow> conn_grant_row" where
  "sample_conn_grant_row a c ops =
    \<lparr>cgr_id = c, cgr_agent_id = a, cgr_connection_id = c, cgr_allowed_operations = ops,
     cgr_rate_limit = None, cgr_created_at = 1000\<rparr>"

definition sample_wired_db :: db where
  "sample_wired_db = (sample_db [sample_agent_row 7 2000])
     \<lparr>db_connections := [sample_connection_row 4 None, sample_connection_row 5 None],
      db_conn_grants := [sample_conn_grant_row 7 4 [], sample_conn_grant_row 7 5 []]\<rparr>"

lemma sample_wired_db_wf: "db_wf sample_wired_db"
  by (auto simp: sample_wired_db_def sample_db_def empty_db_def db_wf_defs sample_host_row_def
      unique_some_def refs_def sample_agent_row_def sample_connection_row_def
      sample_conn_grant_row_def conn_key_def)

lemma connections_delete_no_trace_witness:
  "\<not> connection_exists (snd (connections_delete 4 sample_wired_db)) 4 \<and>
   sample_conn_grant_row 7 5 [] \<in> set (db_conn_grants (snd (connections_delete 4 sample_wired_db)))"
proof -
  let ?run = "connections_delete 4 sample_wired_db"
  have run: "connections_delete 4 sample_wired_db = (fst ?run, snd ?run)" by simp
  show ?thesis
    using connections_delete_no_trace [OF sample_wired_db_wf run]
    by (auto simp: sample_wired_db_def sample_conn_grant_row_def)
qed

section \<open>The replay cache\<close>

text \<open>
  The interface the token pipeline relies on: \<open>put j e s\<close> says whether the identifier was new, and
  an identifier accepted with expiry \<open>e\<close> stays held, and is refused, while the clock has not passed
  \<open>e\<close>.  \<open>admissible e s\<close> says that the state's clock has not.
\<close>

locale replay_cache =
  fixes put :: "'j \<Rightarrow> 'e \<Rightarrow> 's \<Rightarrow> bool \<times> 's"
    and held :: "'j \<Rightarrow> 'e \<Rightarrow> 's \<Rightarrow> bool"
    and admissible :: "'e \<Rightarrow> 's \<Rightarrow> bool"
    and other :: "'e \<Rightarrow> 's \<Rightarrow> 's \<Rightarrow> bool"
  assumes put_new: "put j e s = (True, s') \<Longrightarrow> held j e s'"
    and put_held: "held j e s \<Longrightarrow> admissible e s \<Longrightarrow> put j e' s = (b, s') \<Longrightarrow> \<not> b \<and> held j e s'"
    and put_keeps: "held j e s \<Longrightarrow> admissible e s \<Longrightarrow> put j' e' s = (b, s') \<Longrightarrow> held j e s'"
    and other_keeps: "held j e s \<Longrightarrow> other e s s' \<Longrightarrow> held j e s'"
begin

text \<open>
  A history of states: each step is another caller's \<open>put\<close> or one of the other operations
  (the clock, the purge job), all while the entry's expiry has not passed.
\<close>

inductive history :: "'e \<Rightarrow> 's \<Rightarrow> 's \<Rightarrow> bool" for e where
  history_refl: "history e s s"
| history_put: "history e s t \<Longrightarrow> admissible e t \<Longrightarrow> put j' e' t = (b, u) \<Longrightarrow> history e s u"
| history_other: "history e s t \<Longrightarrow> other e t u \<Longrightarrow> history e s u"

lemma history_held: "history e s t \<Longrightarrow> held j e s \<Longrightarrow> held j e t"
  by (induction rule: history.induct) (auto intro: put_keeps other_keeps)

lemma accepted_once:
  assumes "put j e s = (True, s1)" and "history e s1 s2" and "admissible e s2"
    and "put j e' s2 = (b, s3)"
  shows "\<not> b"
  using put_held [OF history_held [OF assms(2) put_new [OF assms(1)]] assms(3,4)] by simp

end

definition jti_put_run :: "string \<Rightarrow> millis \<Rightarrow> db \<Rightarrow> bool \<times> db" where
  "jti_put_run j e d = (fst (jti_put j e d) = Inr True, snd (jti_put j e d))"

definition jti_held :: "string \<Rightarrow> millis \<Rightarrow> db \<Rightarrow> bool" where
  "jti_held j e d \<longleftrightarrow>
     (case row_find jr_jti j (db_jti d) of None \<Rightarrow> False | Some r \<Rightarrow> pg_time e \<le> jr_expires_at r)"

definition before_expiry :: "millis \<Rightarrow> db \<Rightarrow> bool" where
  "before_expiry e d \<longleftrightarrow> db_now d \<le> pg_time e"

text \<open>The clock of the database advances, or the purge job runs with the gateway's time.\<close>

definition clock_or_purge :: "millis \<Rightarrow> db \<Rightarrow> db \<Rightarrow> bool" where
  "clock_or_purge e d d' \<longleftrightarrow>
     (\<exists>t. d' = d\<lparr>db_now := t\<rparr>) \<or> (\<exists>m. m \<le> e \<and> d' = snd (jti_purgeExpired m d))"

lemma row_find_jti_put:
  "row_find jr_jti j' (db_jti (snd (jti_put j e d))) =
     (if j' = j \<and> fst (jti_put j e d) = Inr True
      then Some \<lparr>jr_jti = j, jr_expires_at = pg_time e\<rparr> else row_find jr_jti j' (db_jti d))"
proof (cases "row_find jr_jti j (db_jti d)")
  case None
  then show ?thesis
    by (auto simp: jti_put_def row_find_append table_simps split: option.splits)
next
  case (Some r)
  then have "jr_jti r = j" by (auto dest: row_find_SomeD)
  with Some show ?thesis
    by (cases "row_find jr_jti j' (db_jti d)")
      (auto simp: jti_put_def row_find_update dest: row_find_SomeD)
qed

interpretation jti: replay_cache jti_put_run jti_held before_expiry clock_or_purge
proof unfold_locales
  fix j e and s s' :: db
  assume "jti_put_run j e s = (True, s')"
  then show "jti_held j e s'"
    by (auto simp: jti_put_run_def jti_held_def row_find_jti_put)
next
  fix j e e' b and s s' :: db
  assume h: "jti_held j e s" and a: "before_expiry e s" and run: "jti_put_run j e' s = (b, s')"
  from h obtain r where r: "row_find jr_jti j (db_jti s) = Some r" and le: "pg_time e \<le> jr_expires_at r"
    by (auto simp: jti_held_def split: option.splits)
  have "\<not> jr_expires_at r < db_now s" using le a unfolding before_expiry_def by linarith
  with r have "jti_put j e' s = (Inr False, s)" by (simp add: jti_put_def)
  with run h show "\<not> b \<and> jti_held j e s'" by (auto simp: jti_put_run_def)
next
  fix j e j' e' b and s s' :: db
  assume h: "jti_held j e s" and a: "before_expiry e s" and run: "jti_put_run j' e' s = (b, s')"
  from h obtain r where r: "row_find jr_jti j (db_jti s) = Some r" and le: "pg_time e \<le> jr_expires_at r"
    by (auto simp: jti_held_def split: option.splits)
  have "\<not> jr_expires_at r < db_now s" using le a unfolding before_expiry_def by linarith
  with r have "j' = j \<Longrightarrow> jti_put j' e' s = (Inr False, s)" by (simp add: jti_put_def)
  then have "row_find jr_jti j (db_jti (snd (jti_put j' e' s))) = row_find jr_jti j (db_jti s)"
    by (auto simp: row_find_jti_put)
  with run h show "jti_held j e s'" by (auto simp: jti_put_run_def jti_held_def)
next
  fix j e and s s' :: db
  assume h: "jti_held j e s" and o: "clock_or_purge e s s'"
  from h obtain r where r: "row_find jr_jti j (db_jti s) = Some r" and le: "pg_time e \<le> jr_expires_at r"
    by (auto simp: jti_held_def split: option.splits)
  from o consider t where "s' = s\<lparr>db_now := t\<rparr>" | m where "m \<le> e" "s' = snd (jti_purgeExpired m s)"
    by (auto simp: clock_or_purge_def)
  then show "jti_held j e s'"
  proof cases
    case 1
    with h show ?thesis by (simp add: jti_held_def)
  next
    case 2
    have "pg_time m \<le> pg_time e" using 2(1) by simp
    then have "\<not> jr_expires_at r < pg_time m" using le by linarith
    then have "row_find jr_jti j (db_jti s') = Some r"
      using r 2(2) by (simp add: jti_purgeExpired_def row_find_delete_other)
    with le show ?thesis by (simp add: jti_held_def)
  qed
qed

text \<open>
  C7: A token identifier that the replay cache has accepted with an expiry is refused ever after,
  as long as the clock of the database has not passed that expiry, whatever other identifiers are
  recorded in between and however often expired entries are purged.
\<close>

lemma jti_accepted_once:
  assumes "jti_put_run j e d = (True, d1)" and "jti.history e d1 d2" and "before_expiry e d2"
    and "jti_put_run j e' d2 = (b, d3)"
  shows "\<not> b"
  by (rule jti.accepted_once [OF assms])

lemma jti_accepted_once_witness:
  "\<exists>d1 d2 d3. jti_put_run ''x'' 9000 empty_db = (True, d1) \<and> jti.history 9000 d1 d2 \<and>
     jti_put_run ''x'' 9500 d2 = (False, d3)"
proof -
  let ?d1 = "snd (jti_put_run ''x'' 9000 empty_db)"
  let ?d2 = "snd (jti_put_run ''y'' 1 ?d1)\<lparr>db_now := 8000000\<rparr>"
  have "fst (jti_put_run ''x'' 9000 empty_db)" by code_simp
  then have p1: "jti_put_run ''x'' 9000 empty_db = (True, ?d1)" by (metis prod.collapse)
  have a1: "before_expiry 9000 ?d1" and a2: "before_expiry 9000 ?d2" by code_simp+
  have h1: "jti.history 9000 ?d1 (snd (jti_put_run ''y'' 1 ?d1))"
    by (rule jti.history.intros(2) [OF jti.history.intros(1) a1 prod.collapse [symmetric]])
  have h2: "jti.history 9000 ?d1 ?d2"
    by (rule jti.history.intros(3) [OF h1]) (auto simp: clock_or_purge_def)
  have "\<not> fst (jti_put_run ''x'' 9500 ?d2)"
    by (rule jti_accepted_once [OF p1 h2 a2 prod.collapse [symmetric]])
  with p1 h2 show ?thesis by (metis prod.collapse)
qed

end
