(* ===== verification/State_Machine.thy ===== *)
theory State_Machine
  imports Storage_Laws
begin

text \<open>
  \<^verbatim>\<open>identity/agentStateMachine.ts\<close>, \<^verbatim>\<open>hostStateMachine.ts\<close> and \<^verbatim>\<open>stateMachine.ts\<close>: the two
  transition tables and the transactional transition that reads the status, checks it against the
  table and writes the new one.  A locale states what a lifecycle promises; it is interpreted for
  agents and for hosts.
\<close>

section \<open>The tables\<close>

fun AGENT_TRANSITIONS :: "agent_state \<Rightarrow> agent_state list" where
  "AGENT_TRANSITIONS AgentPending = [AgentActive, AgentRejected]"
| "AGENT_TRANSITIONS AgentActive = [AgentExpired, AgentRevoked, AgentClaimed]"
| "AGENT_TRANSITIONS AgentExpired = [AgentActive, AgentRevoked]"
| "AGENT_TRANSITIONS AgentRevoked = []"
| "AGENT_TRANSITIONS AgentRejected = []"
| "AGENT_TRANSITIONS AgentClaimed = []"

definition canTransitionAgent :: "agent_state \<Rightarrow> agent_state \<Rightarrow> bool" where
  "canTransitionAgent from to \<longleftrightarrow> to \<in> set (AGENT_TRANSITIONS from)"

fun HOST_TRANSITIONS :: "host_state \<Rightarrow> host_state list" where
  "HOST_TRANSITIONS HostPending = [HostActive, HostRejected]"
| "HOST_TRANSITIONS HostActive = [HostRevoked]"
| "HOST_TRANSITIONS HostRevoked = []"
| "HOST_TRANSITIONS HostRejected = []"

definition canTransitionHost :: "host_state \<Rightarrow> host_state \<Rightarrow> bool" where
  "canTransitionHost from to \<longleftrightarrow> to \<in> set (HOST_TRANSITIONS from)"

section \<open>Transitions\<close>

text \<open>The part before the write, and the part from the write on.\<close>

definition check_agent_transition :: "codec \<Rightarrow> uuid \<Rightarrow> agent_state \<Rightarrow> unit db_op" where
  "check_agent_transition k agentId to =
     eff_bind (agents_findById agentId) (\<lambda>found.
     eff_bind (eff_some found (err AgentNotFound (''agent '' @ k_uuid k agentId @ '' not found'') 404)) (\<lambda>agent.
     eff_require (canTransitionAgent (a_status agent) to)
       (err InvalidRequest (''illegal agent transition: '' @ agent_state_wire (a_status agent) @
          '' -> '' @ agent_state_wire to) 409)))"

definition write_agent_transition :: "uuid \<Rightarrow> agent_state \<Rightarrow> agent db_op" where
  "write_agent_transition agentId to =
     eff_bind (agents_updateStatus agentId to) (\<lambda>_.
     eff_bind (agents_findById agentId) (\<lambda>updated.
     eff_some updated (err InternalError ''agent disappeared mid-transition'' 500)))"

definition transitionAgent :: "codec \<Rightarrow> uuid \<Rightarrow> agent_state \<Rightarrow> agent db_op" where
  "transitionAgent k agentId to =
     eff_transaction (eff_bind (check_agent_transition k agentId to) (\<lambda>_. write_agent_transition agentId to))"

definition transitionHost :: "codec \<Rightarrow> uuid \<Rightarrow> host_state \<Rightarrow> host db_op" where
  "transitionHost k hostId to =
     eff_transaction (
       eff_bind (hosts_findById hostId) (\<lambda>found.
       eff_bind (eff_some found (err HostNotFound (''host '' @ k_uuid k hostId @ '' not found'') 404)) (\<lambda>host.
       eff_bind (eff_require (canTransitionHost (h_status host) to)
         (err InvalidRequest (''illegal host transition: '' @ host_state_wire (h_status host) @
            '' -> '' @ host_state_wire to) 409)) (\<lambda>_.
       eff_bind (hosts_updateStatus hostId to) (\<lambda>_.
       eff_bind (hosts_findById hostId) (\<lambda>updated.
       eff_some updated (err InternalError ''host disappeared mid-transition'' 500)))))))"

section \<open>Outcomes\<close>

definition agent_status :: "db \<Rightarrow> uuid \<Rightarrow> agent_state option" where
  "agent_status d i = map_option ar_status (row_find ar_id i (db_agents d))"

definition host_status :: "db \<Rightarrow> uuid \<Rightarrow> host_state option" where
  "host_status d i = map_option hr_status (row_find hr_id i (db_hosts d))"

lemma transitionAgent_eval:
  "transitionAgent k i to d =
     (case row_find ar_id i (db_agents d) of
        None \<Rightarrow> (Inl (err AgentNotFound (''agent '' @ k_uuid k i @ '' not found'') 404), d)
      | Some r \<Rightarrow>
          if canTransitionAgent (ar_status r) to
          then (Inr (mapAgentRow (r\<lparr>ar_status := to, ar_updated_at := db_now d\<rparr>)),
                update_agents i (\<lambda>t r. r\<lparr>ar_status := to, ar_updated_at := t\<rparr>) d)
          else (Inl (err InvalidRequest (''illegal agent transition: '' @ agent_state_wire (ar_status r) @
                  '' -> '' @ agent_state_wire to) 409), d))"
  by (auto simp: transitionAgent_def check_agent_transition_def write_agent_transition_def
      eff_transaction_def eff_bind_def agents_findById_def agents_updateStatus_def eff_simps
      table_simps split: option.splits)

lemma transitionHost_eval:
  "transitionHost k i to d =
     (case row_find hr_id i (db_hosts d) of
        None \<Rightarrow> (Inl (err HostNotFound (''host '' @ k_uuid k i @ '' not found'') 404), d)
      | Some r \<Rightarrow>
          if canTransitionHost (hr_status r) to
          then (Inr (mapHostRow (r\<lparr>hr_status := to, hr_updated_at := db_now d\<rparr>)),
                update_hosts i (\<lambda>t r. r\<lparr>hr_status := to, hr_updated_at := t\<rparr>) d)
          else (Inl (err InvalidRequest (''illegal host transition: '' @ host_state_wire (hr_status r) @
                  '' -> '' @ host_state_wire to) 409), d))"
  by (auto simp: transitionHost_def eff_transaction_def eff_bind_def hosts_findById_def
      hosts_updateStatus_def eff_simps table_simps split: option.splits)

lemma transition_keeps [wf_intros]:
  "evolves (keeps db_wf) (transitionAgent k i to)" "evolves (keeps db_wf) (transitionHost k h hto)"
  unfolding transitionAgent_def check_agent_transition_def write_agent_transition_def transitionHost_def
  by (intro keeps.evolves_intros wf_intros)+

section \<open>The contract of a lifecycle\<close>

locale lifecycle =
  fixes table :: "'st \<Rightarrow> 'st list"
    and status :: "'d \<Rightarrow> 'i \<Rightarrow> 'st option"
    and move :: "'i \<Rightarrow> 'st \<Rightarrow> ('e, 'd, 'a) eff"
  assumes move_ok: "move i to d = (Inr a, d') \<Longrightarrow>
      \<exists>from. status d i = Some from \<and> to \<in> set (table from) \<and> status d' = (status d)(i := Some to)"
    and move_fails: "move i to d = (Inl e, d') \<Longrightarrow> d' = d"
    and move_enabled: "status d i = Some from \<Longrightarrow> to \<in> set (table from) \<Longrightarrow> \<exists>a d'. move i to d = (Inr a, d')"
begin

definition legal :: "'st \<Rightarrow> 'st \<Rightarrow> bool" where
  "legal from to \<longleftrightarrow> to \<in> set (table from)"

primrec run :: "('i \<times> 'st) list \<Rightarrow> 'd \<Rightarrow> 'd" where
  "run [] d = d"
| "run (m # ms) d = run ms (snd (move (fst m) (snd m) d))"

lemma move_path: "status d i = Some s \<Longrightarrow> \<exists>s'. status (snd (move j to d)) i = Some s' \<and> legal\<^sup>*\<^sup>* s s'"
proof -
  assume s: "status d i = Some s"
  obtain r d' where m: "move j to d = (r, d')" by (cases "move j to d")
  show ?thesis
  proof (cases r)
    case (Inl e)
    with m move_fails have "d' = d" by blast
    with m s show ?thesis by auto
  next
    case (Inr a)
    with m obtain src where f: "status d j = Some src" "to \<in> set (table src)"
      and st: "status d' = (status d)(j := Some to)" using move_ok by blast
    show ?thesis
    proof (cases "i = j")
      case True
      with f s have "legal s to" by (simp add: legal_def)
      with True m st show ?thesis by auto
    qed (use m st s in auto)
  qed
qed

lemma run_path: "status d i = Some s \<Longrightarrow> \<exists>s'. status (run ms d) i = Some s' \<and> legal\<^sup>*\<^sup>* s s'"
proof (induction ms arbitrary: d s)
  case (Cons m ms)
  from move_path [OF Cons.prems] obtain s1
    where 1: "status (snd (move (fst m) (snd m) d)) i = Some s1" "legal\<^sup>*\<^sup>* s s1" by blast
  from Cons.IH [OF 1(1)] 1(2) show ?case by (auto intro: rtranclp_trans)
qed simp

lemma terminal_stays: "table s = [] \<Longrightarrow> legal\<^sup>*\<^sup>* s s' \<Longrightarrow> s' = s"
  by (erule converse_rtranclpE) (auto simp: legal_def)

lemma run_terminal: "status d i = Some s \<Longrightarrow> table s = [] \<Longrightarrow> status (run ms d) i = Some s"
  using run_path terminal_stays by blast

end

interpretation agents: lifecycle AGENT_TRANSITIONS agent_status "transitionAgent k" for k
proof unfold_locales
  fix i to d a d' assume "transitionAgent k i to d = (Inr a, d')"
  then show "\<exists>from. agent_status d i = Some from \<and> to \<in> set (AGENT_TRANSITIONS from) \<and>
      agent_status d' = (agent_status d)(i := Some to)"
    by (auto simp: transitionAgent_eval agent_status_def fun_eq_iff table_simps canTransitionAgent_def
        option.map_comp comp_def split: option.splits if_splits)
next
  fix i to d e d' assume "transitionAgent k i to d = (Inl e, d')"
  then show "d' = d" by (auto simp: transitionAgent_eval split: option.splits if_splits)
next
  fix d i src to assume "agent_status d i = Some src" "to \<in> set (AGENT_TRANSITIONS src)"
  then show "\<exists>a d'. transitionAgent k i to d = (Inr a, d')"
    by (auto simp: transitionAgent_eval agent_status_def canTransitionAgent_def split: option.splits)
qed

interpretation hosts: lifecycle HOST_TRANSITIONS host_status "transitionHost k" for k
proof unfold_locales
  fix i to d a d' assume "transitionHost k i to d = (Inr a, d')"
  then show "\<exists>from. host_status d i = Some from \<and> to \<in> set (HOST_TRANSITIONS from) \<and>
      host_status d' = (host_status d)(i := Some to)"
    by (auto simp: transitionHost_eval host_status_def fun_eq_iff table_simps canTransitionHost_def
        option.map_comp comp_def split: option.splits if_splits)
next
  fix i to d e d' assume "transitionHost k i to d = (Inl e, d')"
  then show "d' = d" by (auto simp: transitionHost_eval split: option.splits if_splits)
next
  fix d i src to assume "host_status d i = Some src" "to \<in> set (HOST_TRANSITIONS src)"
  then show "\<exists>a d'. transitionHost k i to d = (Inr a, d')"
    by (auto simp: transitionHost_eval host_status_def canTransitionHost_def split: option.splits)
qed

text \<open>
  C8: Whatever sequence of transitions is requested, one after the other, an agent that is revoked,
  rejected or claimed stays so: no request leaves a terminal state, and every status an agent can
  come to is reached by moves of the transition table.
\<close>

lemma agent_lifecycle:
  assumes "agent_status d i = Some s"
  shows "\<exists>s'. agent_status (agents.run k ms d) i = Some s' \<and> (agents.legal)\<^sup>*\<^sup>* s s' \<and>
    (s \<in> {AgentRevoked, AgentRejected, AgentClaimed} \<longrightarrow> s' = s)"
proof -
  from agents.run_path [OF assms, where k = k and ms = ms] obtain s'
    where s': "agent_status (agents.run k ms d) i = Some s'" "(agents.legal)\<^sup>*\<^sup>* s s'" by blast
  have "s \<in> {AgentRevoked, AgentRejected, AgentClaimed} \<Longrightarrow> AGENT_TRANSITIONS s = []" by auto
  with s' agents.terminal_stays show ?thesis by blast
qed

lemma agent_lifecycle_witness:
  "agent_status (agents.run unary_codec [(7, AgentRevoked), (7, AgentActive)]
     (sample_db [sample_agent_row 7 2000])) 7 \<noteq> None"
proof -
  have "agent_status (sample_db [sample_agent_row 7 2000]) 7 = Some AgentActive" by code_simp
  from agent_lifecycle [OF this, of unary_codec "[(7, AgentRevoked), (7, AgentActive)]"]
  show ?thesis by auto
qed

end
