(* ===== verification/Constraint_Engine.thy ===== *)
theory Constraint_Engine
  imports Core_Types
begin

text \<open>
  \<^verbatim>\<open>identity/constraintEngine.ts\<close>: checking call arguments against the constraints of a grant, and
  narrowing two constraint sets to one.  A member of an object that it does not own is looked up in
  \<^verbatim>\<open>Object.prototype\<close>, which matters for \<open>intersect\<close>.
\<close>

section \<open>One constraint\<close>

definition KNOWN_OPS :: "string list" where
  "KNOWN_OPS = [''max'', ''min'', ''in'', ''not_in'']"

text \<open>The keys of an operator object outside the four operators are in \<open>co_other\<close>.\<close>

definition assertKnownOperators :: "string \<Rightarrow> constraint_object \<Rightarrow> fault + unit" where
  "assertKnownOperators field c =
     (let unknown = co_other c in
      if unknown \<noteq> []
      then Inl (conduit_err UnknownConstraintOperator
             (''unknown constraint operator(s) on \"'' @ field @ ''\": '' @ join_strings '', '' unknown)
             400 [(''unknownOperators'', jstrs unknown)])
      else Inr ())"

fun json_scalar :: "scalar \<Rightarrow> json" where
  "json_scalar (SStr s) = JStr s"
| "json_scalar (SNum n) = JNum n"
| "json_scalar (SBool b) = JBool b"

text \<open>\<open>xs.includes(value)\<close>: \<open>undefined\<close>, arrays and objects equal no scalar.\<close>

definition includes_value :: "scalar list \<Rightarrow> json option \<Rightarrow> bool" where
  "includes_value xs v = (case v of None \<Rightarrow> False | Some j \<Rightarrow> list_ex (\<lambda>s. json_scalar s = j) xs)"

definition num_value :: "json option \<Rightarrow> rat option" where
  "num_value v = (case v of Some (JNum n) \<Rightarrow> Some n | _ \<Rightarrow> None)"

definition opt_all :: "('a \<Rightarrow> bool) \<Rightarrow> 'a option \<Rightarrow> bool" where
  "opt_all p x = (case x of None \<Rightarrow> True | Some a \<Rightarrow> p a)"

definition satisfies_ops :: "constraint_object \<Rightarrow> json option \<Rightarrow> bool" where
  "satisfies_ops c v \<longleftrightarrow>
     opt_all (\<lambda>m. case num_value v of None \<Rightarrow> False | Some n \<Rightarrow> n \<le> m) (co_max c) \<and>
     opt_all (\<lambda>m. case num_value v of None \<Rightarrow> False | Some n \<Rightarrow> m \<le> n) (co_min c) \<and>
     opt_all (\<lambda>xs. includes_value xs v) (co_in c) \<and>
     opt_all (\<lambda>xs. \<not> includes_value xs v) (co_not_in c)"

fun satisfies :: "capconstraint \<Rightarrow> json option \<Rightarrow> bool" where
  "satisfies (CScalar s) v = (v = Some (json_scalar s))"
| "satisfies (CObject c) v = satisfies_ops c v"

definition known_constraint :: "string \<Rightarrow> capconstraint \<Rightarrow> fault + unit" where
  "known_constraint field c = (case c of CScalar s \<Rightarrow> Inr () | CObject ob \<Rightarrow> assertKnownOperators field ob)"

section \<open>Validation\<close>

record violation =
  vi_field :: string
  vi_constraint :: capconstraint
  vi_actual :: "json option"

fun validate_fields :: "constraints \<Rightarrow> json_object \<Rightarrow> fault + violation list" where
  "validate_fields [] args = Inr []"
| "validate_fields ((field, c) # cs) args =
     (case known_constraint field c of
        Inl e \<Rightarrow> Inl e
      | Inr _ \<Rightarrow>
          (case validate_fields cs args of
             Inl e \<Rightarrow> Inl e
           | Inr vs \<Rightarrow>
               if satisfies c (field_of args field) then Inr vs
               else Inr (\<lparr>vi_field = field, vi_constraint = c, vi_actual = field_of args field\<rparr> # vs)))"

definition validate :: "constraints \<Rightarrow> json_object \<Rightarrow> fault + violation list" where
  "validate cs args = validate_fields cs args"

section \<open>Intersection\<close>

text \<open>Two optional values: both, one of them, or none.\<close>

fun merge_with :: "('a \<Rightarrow> 'a \<Rightarrow> 'a) \<Rightarrow> 'a option \<Rightarrow> 'a option \<Rightarrow> 'a option" where
  "merge_with f (Some a) (Some b) = Some (f a b)"
| "merge_with f (Some a) None = Some a"
| "merge_with f None y = y"

definition no_ops :: constraint_object where
  "no_ops = \<lparr>co_max = None, co_min = None, co_in = None, co_not_in = None, co_other = []\<rparr>"

definition dedupe :: "scalar list \<Rightarrow> scalar list" where
  "dedupe xs = rev (remdups (rev xs))"

definition merge_ops :: "constraint_object \<Rightarrow> constraint_object \<Rightarrow> constraint_object" where
  "merge_ops oa ob =
     (let notIn = nullish (co_not_in oa) [] @ nullish (co_not_in ob) [] in
      \<lparr>co_max = merge_with min (co_max oa) (co_max ob),
       co_min = merge_with max (co_min oa) (co_min ob),
       co_in = merge_with (\<lambda>xs ys. filter (\<lambda>v. v \<in> set ys) xs) (co_in oa) (co_in ob),
       co_not_in = (if notIn \<noteq> [] then Some (dedupe notIn) else None),
       co_other = []\<rparr>)"

definition constraint_json :: "capconstraint \<Rightarrow> json" where
  "constraint_json c =
     (case c of
        CScalar s \<Rightarrow> json_scalar s
      | CObject ob \<Rightarrow>
          let entry = (\<lambda>k v. case v of None \<Rightarrow> [] | Some j \<Rightarrow> [(k, j)]); scalars = (\<lambda>xs. JArr (map json_scalar xs)) in
          JObj (entry ''max'' (map_option JNum (co_max ob)) @ entry ''min'' (map_option JNum (co_min ob)) @
                entry ''in'' (map_option scalars (co_in ob)) @
                entry ''not_in'' (map_option scalars (co_not_in ob))))"

definition conflict :: "string \<Rightarrow> capconstraint \<Rightarrow> capconstraint \<Rightarrow> fault" where
  "conflict field a b =
     conduit_err InvalidRequest (''cannot narrow conflicting constraints on \"'' @ field @ ''\"'') 400
       [(''field'', JStr field), (''a'', constraint_json a), (''b'', constraint_json b)]"

definition intersectField :: "string \<Rightarrow> capconstraint \<Rightarrow> capconstraint \<Rightarrow> fault + capconstraint" where
  "intersectField field a b =
     (case known_constraint field a of
        Inl e \<Rightarrow> Inl e
      | Inr _ \<Rightarrow>
          (case known_constraint field b of
             Inl e \<Rightarrow> Inl e
           | Inr _ \<Rightarrow>
               (case (a, b) of
                  (CScalar x, CScalar y) \<Rightarrow> if x = y then Inr a else Inl (conflict field a b)
                | (CScalar x, CObject ob) \<Rightarrow>
                    if satisfies b (Some (json_scalar x)) then Inr a else Inl (conflict field a b)
                | (CObject oa, CScalar y) \<Rightarrow>
                    if satisfies a (Some (json_scalar y)) then Inr b else Inl (conflict field a b)
                | (CObject oa, CObject ob) \<Rightarrow> Inr (CObject (merge_ops oa ob)))))"

text \<open>
  \<open>a[field]\<close>: an own member, a function or accessor inherited from \<^verbatim>\<open>Object.prototype\<close>, or
  \<open>undefined\<close>.  An inherited function is neither a scalar nor an object to \<open>intersectField\<close>,
  which then takes the other constraint for an operator object: an object keeps its operators, a
  scalar has none.  Reading \<^verbatim>\<open>__proto__\<close> gives an object without operators.
\<close>

datatype member = Own capconstraint | Inherited | Undefined

definition object_prototype :: "string list" where
  "object_prototype =
     [''constructor'', ''__defineGetter__'', ''__defineSetter__'', ''hasOwnProperty'',
      ''__lookupGetter__'', ''__lookupSetter__'', ''isPrototypeOf'', ''propertyIsEnumerable'',
      ''toString'', ''valueOf'', ''toLocaleString'']"

definition get_member :: "constraints \<Rightarrow> string \<Rightarrow> member" where
  "get_member cs field =
     (case map_of cs field of
        Some c \<Rightarrow> Own c
      | None \<Rightarrow> if field \<in> set object_prototype then Inherited
                else if field = ''__proto__'' then Own (CObject no_ops) else Undefined)"

definition intersect_inherited :: "string \<Rightarrow> capconstraint \<Rightarrow> fault + capconstraint" where
  "intersect_inherited field c =
     (case known_constraint field c of
        Inl e \<Rightarrow> Inl e
      | Inr _ \<Rightarrow>
          Inr (CObject (case c of CScalar s \<Rightarrow> no_ops | CObject ob \<Rightarrow> merge_ops no_ops ob)))"

definition intersect_member :: "string \<Rightarrow> member \<Rightarrow> member \<Rightarrow> fault + capconstraint" where
  "intersect_member field ma mb =
     (case (ma, mb) of
        (Undefined, Own cb) \<Rightarrow> Inr cb
      | (Own ca, Undefined) \<Rightarrow> Inr ca
      | (Own ca, Own cb) \<Rightarrow> intersectField field ca cb
      | (Own ca, Inherited) \<Rightarrow> intersect_inherited field ca
      | (Inherited, Own cb) \<Rightarrow> intersect_inherited field cb
      | _ \<Rightarrow> Inr (CObject no_ops))"

text \<open>Assigning \<^verbatim>\<open>out['__proto__']\<close> sets the prototype of \<open>out\<close> and adds no member.\<close>

fun intersect_fields :: "string list \<Rightarrow> constraints \<Rightarrow> constraints \<Rightarrow> fault + constraints" where
  "intersect_fields [] a b = Inr []"
| "intersect_fields (field # fs) a b =
     (case intersect_member field (get_member a field) (get_member b field) of
        Inl e \<Rightarrow> Inl e
      | Inr c \<Rightarrow>
          (case intersect_fields fs a b of
             Inl e \<Rightarrow> Inl e
           | Inr out \<Rightarrow> if field = ''__proto__'' then Inr out else Inr ((field, c) # out)))"

definition intersect :: "constraints \<Rightarrow> constraints \<Rightarrow> fault + constraints" where
  "intersect a b =
     intersect_fields (map fst a @ filter (\<lambda>f. f \<notin> set (map fst a)) (map fst b)) a b"

section \<open>What validation decides\<close>

definition known_ops :: "capconstraint \<Rightarrow> bool" where
  "known_ops c = (case c of CScalar s \<Rightarrow> True | CObject ob \<Rightarrow> co_other ob = [])"

lemma known_constraint_Inr_iff: "known_constraint field c = Inr u \<longleftrightarrow> known_ops c"
  by (cases c) (auto simp: known_constraint_def known_ops_def assertKnownOperators_def Let_def)

lemma known_constraint_eval:
  "known_ops c \<Longrightarrow> known_constraint field c = Inr ()"
  "\<not> known_ops c \<Longrightarrow> \<exists>e. known_constraint field c = Inl e \<and> fault_code e = Some UnknownConstraintOperator"
  by (cases c; auto simp: known_constraint_def known_ops_def assertKnownOperators_def Let_def)+

lemma validate_ok_iff_raw:
  "validate cs args = Inr [] \<longleftrightarrow>
     (\<forall>(f, c) \<in> set cs. known_ops c \<and> satisfies c (field_of args f))"
proof (induction cs)
  case (Cons x cs)
  obtain f c where x: "x = (f, c)" by (cases x)
  show ?case
  proof (cases "known_ops c")
    case True
    with Cons show ?thesis
      by (auto simp: x validate_def known_constraint_eval split: sum.splits if_splits)
  next
    case False
    from known_constraint_eval(2) [OF this] obtain e where "known_constraint f c = Inl e" by blast
    with False show ?thesis by (simp add: x validate_def)
  qed
qed (simp add: validate_def)

text \<open>
  C16: Validation passes exactly when every constraint uses known operators only and is satisfied by
  the argument of its name: an unknown operator is never ignored, and a constrained argument that
  is missing or of another type satisfies only a \<^verbatim>\<open>not_in\<close>.
\<close>

lemma validate_ok_iff:
  "validate cs args = Inr [] \<longleftrightarrow>
     (\<forall>(f, c) \<in> set cs. known_ops c \<and> satisfies c (field_of args f))"
  by (rule validate_ok_iff_raw)

lemma validate_ok_iff_witness:
  "validate [(''team'', CScalar (SStr ''ops''))] [(''team'', JStr ''ops'')] = Inr []"
  unfolding validate_ok_iff by code_simp

section \<open>Intersection narrows\<close>

lemma json_scalar_inj: "json_scalar s = json_scalar t \<longleftrightarrow> s = t"
  by (cases s; cases t) simp_all

lemma includes_value_iff: "includes_value xs v \<longleftrightarrow> (\<exists>s \<in> set xs. v = Some (json_scalar s))"
  by (auto simp: includes_value_def list_ex_iff split: option.splits)

lemma includes_filter:
  "includes_value (filter (\<lambda>v. v \<in> set ys) xs) v \<longleftrightarrow> includes_value xs v \<and> includes_value ys v"
  by (auto simp: includes_value_iff json_scalar_inj)

lemma set_dedupe [simp]: "set (dedupe xs) = set xs"
  by (simp add: dedupe_def)

lemma opt_all_simps [simp]: "opt_all p None" "opt_all p (Some a) = p a"
  by (simp_all add: opt_all_def)

lemma opt_all_merge:
  assumes "\<And>a b. p (f a b) \<longleftrightarrow> p a \<and> p b"
  shows "opt_all p (merge_with f x y) \<longleftrightarrow> opt_all p x \<and> opt_all p y"
  using assms by (cases x; cases y) simp_all

lemma satisfies_merge_ops:
  "satisfies_ops (merge_ops oa ob) v \<longleftrightarrow> satisfies_ops oa v \<and> satisfies_ops ob v"
proof -
  have mx: "opt_all (\<lambda>m. case num_value v of None \<Rightarrow> False | Some n \<Rightarrow> n \<le> m) (merge_with min (co_max oa) (co_max ob)) \<longleftrightarrow>
      opt_all (\<lambda>m. case num_value v of None \<Rightarrow> False | Some n \<Rightarrow> n \<le> m) (co_max oa) \<and>
      opt_all (\<lambda>m. case num_value v of None \<Rightarrow> False | Some n \<Rightarrow> n \<le> m) (co_max ob)"
    by (rule opt_all_merge) (simp split: option.split)
  have mn: "opt_all (\<lambda>m. case num_value v of None \<Rightarrow> False | Some n \<Rightarrow> m \<le> n) (merge_with max (co_min oa) (co_min ob)) \<longleftrightarrow>
      opt_all (\<lambda>m. case num_value v of None \<Rightarrow> False | Some n \<Rightarrow> m \<le> n) (co_min oa) \<and>
      opt_all (\<lambda>m. case num_value v of None \<Rightarrow> False | Some n \<Rightarrow> m \<le> n) (co_min ob)"
    by (rule opt_all_merge) (simp split: option.split)
  have is_in: "opt_all (\<lambda>xs. includes_value xs v)
        (merge_with (\<lambda>xs ys. filter (\<lambda>v. v \<in> set ys) xs) (co_in oa) (co_in ob)) \<longleftrightarrow>
      opt_all (\<lambda>xs. includes_value xs v) (co_in oa) \<and> opt_all (\<lambda>xs. includes_value xs v) (co_in ob)"
    by (rule opt_all_merge) (rule includes_filter)
  let ?n = "nullish (co_not_in oa) [] @ nullish (co_not_in ob) []"
  have nin: "opt_all (\<lambda>xs. \<not> includes_value xs v) (if ?n \<noteq> [] then Some (dedupe ?n) else None) \<longleftrightarrow>
      opt_all (\<lambda>xs. \<not> includes_value xs v) (co_not_in oa) \<and>
      opt_all (\<lambda>xs. \<not> includes_value xs v) (co_not_in ob)"
    by (cases "co_not_in oa"; cases "co_not_in ob")
      (auto simp: includes_value_iff)
  show ?thesis
    unfolding satisfies_ops_def merge_ops_def Let_def constraint_object.select_convs mx mn is_in nin
    by blast
qed

lemma merge_ops_known [simp]: "co_other (merge_ops oa ob) = []"
  by (simp add: merge_ops_def Let_def)

definition meets :: "capconstraint \<Rightarrow> json option \<Rightarrow> bool" where
  "meets c v \<longleftrightarrow> known_ops c \<and> satisfies c v"

lemma intersectField_exact:
  "intersectField f a b = Inr c \<Longrightarrow> meets c v \<longleftrightarrow> meets a v \<and> meets b v"
  by (cases a; cases b)
    (auto simp: intersectField_def meets_def known_constraint_Inr_iff satisfies_merge_ops known_ops_def
      json_scalar_inj split: sum.splits if_splits)

lemma intersectField_throws:
  assumes "intersectField f a b = Inl e" shows "\<not> (meets a v \<and> meets b v)"
proof (cases "known_ops a \<and> known_ops b")
  case True
  then have "known_constraint f a = Inr ()" "known_constraint f b = Inr ()"
    by (simp_all add: known_constraint_eval)
  with assms show ?thesis
    by (cases a; cases b) (auto simp: intersectField_def meets_def json_scalar_inj split: if_splits)
qed (auto simp: meets_def)

text \<open>Field names that are not members of every object.\<close>

definition plain_names :: "constraints \<Rightarrow> bool" where
  "plain_names cs \<longleftrightarrow> (\<forall>f \<in> set (map fst cs). f \<notin> set object_prototype \<and> f \<noteq> ''__proto__'')"

definition all_meet :: "constraints \<Rightarrow> json_object \<Rightarrow> bool" where
  "all_meet cs args \<longleftrightarrow> (\<forall>(f, c) \<in> set cs. meets c (field_of args f))"

lemma all_meet_iff: "validate cs args = Inr [] \<longleftrightarrow> all_meet cs args"
  by (simp add: validate_ok_iff_raw all_meet_def meets_def)

text \<open>The requirement a constraint set puts on one field.\<close>

definition meets_at :: "constraints \<Rightarrow> json_object \<Rightarrow> string \<Rightarrow> bool" where
  "meets_at cs args f = (case map_of cs f of None \<Rightarrow> True | Some c \<Rightarrow> meets c (field_of args f))"

lemma all_meet_at:
  assumes "distinct (map fst cs)" and "fst ` set cs \<subseteq> F"
  shows "all_meet cs args \<longleftrightarrow> (\<forall>f \<in> F. meets_at cs args f)"
proof
  assume all: "all_meet cs args"
  show "\<forall>f \<in> F. meets_at cs args f"
    using all by (auto simp: meets_at_def all_meet_def split: option.splits dest!: map_of_SomeD)
next
  assume at: "\<forall>f \<in> F. meets_at cs args f"
  show "all_meet cs args"
    unfolding all_meet_def
  proof (clarify)
    fix f c assume fc: "(f, c) \<in> set cs"
    then have "map_of cs f = Some c" using assms(1) by simp
    moreover have "f \<in> F" using fc assms(2) by force
    ultimately show "meets c (field_of args f)" using at by (auto simp: meets_at_def)
  qed
qed

lemma intersect_member_exact:
  assumes p: "f \<notin> set object_prototype" "f \<noteq> ''__proto__''" and d: "f \<in> fst ` set a \<union> fst ` set b"
  shows "(\<forall>c. intersect_member f (get_member a f) (get_member b f) = Inr c \<longrightarrow>
      (meets c (field_of args f) \<longleftrightarrow> meets_at a args f \<and> meets_at b args f)) \<and>
    (\<forall>e. intersect_member f (get_member a f) (get_member b f) = Inl e \<longrightarrow>
      \<not> (meets_at a args f \<and> meets_at b args f))"
proof (cases "map_of a f")
  case None
  then obtain cb where "map_of b f = Some cb"
    using d by (metis UnE map_of_eq_None_iff option.exhaust)
  with None p show ?thesis by (auto simp: get_member_def intersect_member_def meets_at_def)
next
  case (Some ca)
  with p intersectField_exact intersectField_throws show ?thesis
    by (cases "map_of b f") (auto simp: get_member_def intersect_member_def meets_at_def)
qed

lemma intersect_fields_exact:
  assumes "\<And>f. f \<in> set fs \<Longrightarrow> f \<notin> set object_prototype \<and> f \<noteq> ''__proto__'' \<and> f \<in> fst ` set a \<union> fst ` set b"
  shows "(\<forall>out. intersect_fields fs a b = Inr out \<longrightarrow>
      (all_meet out args \<longleftrightarrow> (\<forall>f \<in> set fs. meets_at a args f \<and> meets_at b args f))) \<and>
    (\<forall>e. intersect_fields fs a b = Inl e \<longrightarrow> \<not> (\<forall>f \<in> set fs. meets_at a args f \<and> meets_at b args f))"
  using assms
proof (induction fs)
  case (Cons f fs)
  from Cons.prems [of f] have p: "f \<notin> set object_prototype" "f \<noteq> ''__proto__''" "f \<in> fst ` set a \<union> fst ` set b"
    by simp_all
  note one = intersect_member_exact [OF p, of args]
  have IH: "(\<forall>out. intersect_fields fs a b = Inr out \<longrightarrow>
      (all_meet out args \<longleftrightarrow> (\<forall>f \<in> set fs. meets_at a args f \<and> meets_at b args f))) \<and>
    (\<forall>e. intersect_fields fs a b = Inl e \<longrightarrow> \<not> (\<forall>f \<in> set fs. meets_at a args f \<and> meets_at b args f))"
    using Cons by simp
  show ?case
  proof (cases "intersect_member f (get_member a f) (get_member b f)")
    case (Inl e)
    with one show ?thesis by auto
  next
    case (Inr c)
    with one IH p show ?thesis
      by (cases "intersect_fields fs a b") (auto simp: all_meet_def)
  qed
qed (simp add: all_meet_def)

lemma intersect_exact_raw:
  assumes a: "distinct (map fst a)" "plain_names a" and b: "distinct (map fst b)" "plain_names b"
  shows "(\<forall>out. intersect a b = Inr out \<longrightarrow> (all_meet out args \<longleftrightarrow> all_meet a args \<and> all_meet b args)) \<and>
    (\<forall>e. intersect a b = Inl e \<longrightarrow> \<not> (all_meet a args \<and> all_meet b args))"
proof -
  let ?fs = "map fst a @ filter (\<lambda>f. f \<notin> set (map fst a)) (map fst b)"
  have names: "f \<notin> set object_prototype \<and> f \<noteq> ''__proto__'' \<and> f \<in> fst ` set a \<union> fst ` set b"
    if "f \<in> set ?fs" for f
    using that a(2) b(2) by (auto simp: plain_names_def)
  have cover: "fst ` set a \<subseteq> set ?fs" "fst ` set b \<subseteq> set ?fs" by auto
  show ?thesis
    unfolding intersect_def all_meet_at [OF a(1) cover(1)] all_meet_at [OF b(1) cover(2)]
    using intersect_fields_exact [OF names, of ?fs args] by blast
qed

text \<open>
  C15: Intersecting two constraint sets never widens and never narrows more than it has to: arguments
  pass the result exactly when they pass both sets; and when the intersection is refused, no
  arguments at all pass both.  The field names must not be names of members that every JavaScript
  object has.
\<close>

lemma intersect_exact:
  assumes "distinct (map fst a)" and "plain_names a" and "distinct (map fst b)" and "plain_names b"
  shows "(\<forall>out. intersect a b = Inr out \<longrightarrow>
      (validate out args = Inr [] \<longleftrightarrow> validate a args = Inr [] \<and> validate b args = Inr [])) \<and>
    (\<forall>e. intersect a b = Inl e \<longrightarrow> \<not> (validate a args = Inr [] \<and> validate b args = Inr []))"
  unfolding all_meet_iff by (rule intersect_exact_raw [OF assms])

definition sample_max :: "rat \<Rightarrow> capconstraint" where
  "sample_max n = CObject (no_ops\<lparr>co_max := Some n\<rparr>)"

lemma intersect_exact_witness:
  "\<exists>out. intersect [(''amount'', sample_max 5)] [(''amount'', sample_max 3), (''to'', CScalar (SStr ''ops''))] = Inr out \<and>
     validate out [(''amount'', JNum 2), (''to'', JStr ''ops'')] = Inr [] \<and>
     validate out [(''amount'', JNum 4), (''to'', JStr ''ops'')] \<noteq> Inr []"
proof -
  let ?a = "[(''amount'', sample_max 5)]" and ?b = "[(''amount'', sample_max 3), (''to'', CScalar (SStr ''ops''))]"
  have h: "distinct (map fst ?a)" "plain_names ?a" "distinct (map fst ?b)" "plain_names ?b"
    by (simp_all add: plain_names_def object_prototype_def)
  have "isl (intersect ?a ?b) = False" by code_simp
  then obtain out where out: "intersect ?a ?b = Inr out" by (cases "intersect ?a ?b") auto
  have E: "validate out args = Inr [] \<longleftrightarrow> validate ?a args = Inr [] \<and> validate ?b args = Inr []" for args
    using intersect_exact [OF h, of args] out by simp
  have v: "validate ?a [(''amount'', JNum 2), (''to'', JStr ''ops'')] = Inr []"
    "validate ?b [(''amount'', JNum 2), (''to'', JStr ''ops'')] = Inr []"
    "validate ?b [(''amount'', JNum 4), (''to'', JStr ''ops'')] \<noteq> Inr []" by code_simp+
  show ?thesis
    by (rule exI [of _ out]) (simp only: out E v simp_thms)
qed

text \<open>
  Without that restriction the intersection widens: \<open>a\<close> does not mention the field
  \<^verbatim>\<open>constructor\<close>, \<open>b\<close> requires one exact value for it, and the intersection accepts every value,
  because the lookup in \<open>a\<close> finds the inherited constructor function.
\<close>

lemma intersect_widens_inherited:
  "\<exists>out. intersect [] [(''constructor'', CScalar (SStr ''x''))] = Inr out \<and>
     validate out [(''constructor'', JStr ''y'')] = Inr [] \<and>
     validate [(''constructor'', CScalar (SStr ''x''))] [(''constructor'', JStr ''y'')] \<noteq> Inr []"
proof -
  have "intersect [] [(''constructor'', CScalar (SStr ''x''))] = Inr [(''constructor'', CObject no_ops)]"
    "validate [(''constructor'', CObject no_ops)] [(''constructor'', JStr ''y'')] = Inr []"
    "validate [(''constructor'', CScalar (SStr ''x''))] [(''constructor'', JStr ''y'')] \<noteq> Inr []"
    by code_simp+
  then show ?thesis by blast
qed

end
