(* ===== verification/Ip_Address.thy ===== *)
theory Ip_Address
  imports Js_Text "HOL-Library.Word"
begin

text \<open>
  \<^verbatim>\<open>auth/ipGuard.ts\<close>, the address classifier of the JWKS fetch, and \<^verbatim>\<open>server/ipFilter.ts\<close>, the
  client address filter.  An IPv4 address is a 32 bit word, as the bit operations of JavaScript
  make it.
\<close>

unbundle bit_operations_syntax

section \<open>IPv4 addresses and prefixes\<close>

text \<open>The fold \<open>value * 256 + n\<close>; each part is at most 255.\<close>

definition ip_word :: "nat list \<Rightarrow> 32 word" where
  "ip_word ns = of_nat (foldl (\<lambda>v n. v * 256 + n) 0 ns)"

fun all_some :: "'a option list \<Rightarrow> 'a list option" where
  "all_some [] = Some []"
| "all_some (None # xs) = None"
| "all_some (Some a # xs) = map_option (\<lambda>as. a # as) (all_some xs)"

definition guard_octet :: "string \<Rightarrow> nat option" where
  "guard_octet part =
     (if list_all is_digit_char part \<and> 1 \<le> length part \<and> length part \<le> 3 \<and> digits_value 0 part \<le> 255
      then Some (digits_value 0 part) else None)"

definition ipv4ToInt :: "string \<Rightarrow> 32 word option" where
  "ipv4ToInt ip =
     (let parts = split_at CHR ''.'' ip in
      if length parts \<noteq> 4 then None else map_option ip_word (all_some (map guard_octet parts)))"

definition net_mask :: "nat \<Rightarrow> 32 word" where
  "net_mask bits = (if bits = 0 then 0 else push_bit (32 - bits) (- 1))"

definition inRange :: "32 word \<Rightarrow> string \<Rightarrow> nat \<Rightarrow> bool" where
  "inRange ip cidrBase bits =
     (case ipv4ToInt cidrBase of
        None \<Rightarrow> False
      | Some base \<Rightarrow> ip AND net_mask bits = base AND net_mask bits)"

definition BLOCKED_RANGES :: "(string \<times> nat) list" where
  "BLOCKED_RANGES =
     [(''0.0.0.0'', 8), (''10.0.0.0'', 8), (''100.64.0.0'', 10), (''127.0.0.0'', 8), (''169.254.0.0'', 16),
      (''172.16.0.0'', 12), (''192.0.0.0'', 24), (''192.168.0.0'', 16), (''198.18.0.0'', 15),
      (''224.0.0.0'', 4), (''240.0.0.0'', 4)]"

definition isBlockedIpv4 :: "string \<Rightarrow> bool" where
  "isBlockedIpv4 ip =
     (case ipv4ToInt ip of
        None \<Rightarrow> True
      | Some n \<Rightarrow> list_ex (\<lambda>(base, bits). inRange n base bits) BLOCKED_RANGES)"

section \<open>IPv6\<close>

text \<open>The pattern of four groups of digits separated by dots.\<close>

definition is_dotted_quad :: "string \<Rightarrow> bool" where
  "is_dotted_quad s \<longleftrightarrow>
     (let parts = split_at CHR ''.'' s in
      length parts = 4 \<and> list_all (\<lambda>p. p \<noteq> [] \<and> list_all is_digit_char p) parts)"

definition mapped_ipv4 :: "string \<Rightarrow> string option" where
  "mapped_ipv4 addr =
     (if starts_with ''::ffff:'' addr \<and> is_dotted_quad (drop 7 addr) then Some (drop 7 addr)
      else if starts_with ''::'' addr \<and> is_dotted_quad (drop 2 addr) then Some (drop 2 addr)
      else None)"

text \<open>\<open>parseInt(s, 16)\<close>: the longest prefix that is a hexadecimal number.\<close>

definition parse_hex :: "string \<Rightarrow> int option" where
  "parse_hex s =
     (let (neg, t) = strip_sign (dropWhile is_space s);
          u = (if map ascii_lower (take 2 t) = ''0x'' then drop 2 t else t);
          ds = takeWhile (\<lambda>c. hex_value c \<noteq> None) u
      in if ds = [] then None
         else map_option (\<lambda>n. if neg then - int n else int n) (radix_value 16 0 ds))"

definition isBlockedIpv6 :: "string \<Rightarrow> bool" where
  "isBlockedIpv6 ip =
     (let addr = hd (split_at CHR ''%'' (map ascii_lower ip)) in
      case mapped_ipv4 addr of
        Some v4 \<Rightarrow> isBlockedIpv4 v4
      | None \<Rightarrow>
          if addr = ''::1'' \<or> addr = ''::'' \<or> addr = '''' then True
          else let head = hd (split_at CHR '':'' addr) in
               case parse_hex (if head = [] then ''0'' else head) of
                 None \<Rightarrow> True
               | Some n \<Rightarrow>
                   let first = of_int n :: 32 word in
                   first AND 0xfe00 = 0xfc00 \<or> first AND 0xffc0 = 0xfe80 \<or> first AND 0xff00 = 0xff00)"

definition isBlockedAddress :: "string \<Rightarrow> bool" where
  "isBlockedAddress ip = (if CHR '':'' \<in> set ip then isBlockedIpv6 ip else isBlockedIpv4 ip)"

section \<open>The client address filter\<close>

datatype filter_mode = AllowMode | DenyMode

record ip_filter_config =
  if_enabled :: bool
  if_mode :: filter_mode
  if_entries :: "string list"

definition filter_octet :: "string \<Rightarrow> nat option" where
  "filter_octet p =
     (case Option.bind (js_number p) rat_int of
        None \<Rightarrow> None
      | Some n \<Rightarrow> if n < 0 \<or> 255 < n then None else Some (nat n))"

definition filter_toInt :: "string \<Rightarrow> 32 word option" where
  "filter_toInt s =
     (let parts = split_at CHR ''.'' s in
      if length parts \<noteq> 4 then None else map_option ip_word (all_some (map filter_octet parts)))"

definition matchesEntry :: "string \<Rightarrow> string \<Rightarrow> bool" where
  "matchesEntry ip entry =
     (if ip = entry then True
      else if CHR ''/'' \<notin> set entry then False
      else let base = takeWhile (\<lambda>c. c \<noteq> CHR ''/'') entry in
           case Option.bind (js_number (drop (length base + 1) entry)) rat_int of
             None \<Rightarrow> False
           | Some bits \<Rightarrow>
               if bits < 0 \<or> 32 < bits then False
               else case (filter_toInt ip, filter_toInt base) of
                      (Some i, Some b) \<Rightarrow> i AND net_mask (nat bits) = b AND net_mask (nat bits)
                    | _ \<Rightarrow> False)"

definition ipFilter :: "ip_filter_config \<Rightarrow> string \<Rightarrow> fault + unit" where
  "ipFilter cfg ip =
     (if \<not> if_enabled cfg \<or> if_entries cfg = [] then Inr ()
      else let listed = list_ex (matchesEntry ip) (if_entries cfg);
               blocked = (case if_mode cfg of AllowMode \<Rightarrow> \<not> listed | DenyMode \<Rightarrow> listed)
           in if blocked then Inl (err Unauthorized ''client IP is not permitted'' 403) else Inr ())"

section \<open>Prefixes as arithmetic\<close>

definition dotted :: "nat list \<Rightarrow> string" where
  "dotted ns = join_strings ''.'' (map dec ns)"

lemma no_dot_dec: "CHR ''.'' \<notin> set (dec n)"
proof (rule dec_not_special)
  show "\<not> is_digit_char (CHR ''.'')" by code_simp
qed

lemma split_dotted: "split_at CHR ''.'' (dotted [a, b, c, e]) = [dec a, dec b, dec c, dec e]"
  by (simp add: dotted_def split_at_append split_at_no_sep no_dot_dec)

lemma guard_octet_dec: "n \<le> 255 \<Longrightarrow> guard_octet (dec n) = Some n"
  using dec_length [of n] by (auto simp: guard_octet_def dec_digits digits_value_dec Suc_le_eq)

lemma filter_octet_dec: "n \<le> 255 \<Longrightarrow> filter_octet (dec n) = Some n"
  by (simp add: filter_octet_def js_number_dec)

lemma ipv4ToInt_dotted:
  "a \<le> 255 \<Longrightarrow> b \<le> 255 \<Longrightarrow> c \<le> 255 \<Longrightarrow> e \<le> 255 \<Longrightarrow>
    ipv4ToInt (dotted [a, b, c, e]) = Some (ip_word [a, b, c, e])"
  by (simp add: ipv4ToInt_def split_dotted guard_octet_dec)

lemma filter_toInt_dotted:
  "a \<le> 255 \<Longrightarrow> b \<le> 255 \<Longrightarrow> c \<le> 255 \<Longrightarrow> e \<le> 255 \<Longrightarrow>
    filter_toInt (dotted [a, b, c, e]) = Some (ip_word [a, b, c, e])"
  by (simp add: filter_toInt_def split_dotted filter_octet_dec)

lemma unat_ip_word:
  assumes "a \<le> 255" "b \<le> 255" "c \<le> 255" "e \<le> 255"
  shows "unat (ip_word [a, b, c, e]) = ((a * 256 + b) * 256 + c) * 256 + e"
proof -
  let ?n = "((a * 256 + b) * 256 + c) * 256 + e"
  have "?n < 2 ^ LENGTH(32)" using assms by simp
  then have "unat (of_nat ?n :: 32 word) = ?n"
    by (simp only: unat_of_nat mod_less)
  moreover have "ip_word [a, b, c, e] = of_nat ?n"
    unfolding ip_word_def by (rule arg_cong [where f = of_nat]) simp
  ultimately show ?thesis by simp
qed

lemma masked_eq_iff:
  assumes "bits \<le> 32"
  shows "x AND net_mask bits = y AND net_mask bits \<longleftrightarrow> unat x div 2 ^ (32 - bits) = unat y div 2 ^ (32 - bits)"
proof -
  have m: "z AND net_mask bits = push_bit (32 - bits) (drop_bit (32 - bits) z)" for z :: "32 word"
  proof (cases "bits = 0")
    case True
    have "drop_bit 32 z = 0" by (rule bit_word_eqI) (simp add: bit_drop_bit_eq bit_imp_le_length)
    then show ?thesis using True by (simp add: net_mask_def)
  next
    case False
    then show ?thesis
      by (intro bit_word_eqI) (auto simp: net_mask_def bit_and_iff bit_push_bit_iff bit_drop_bit_eq bit_not_iff bit_mask_iff)
  qed
  have shift: "drop_bit (32 - bits) (push_bit (32 - bits) (drop_bit (32 - bits) z)) = drop_bit (32 - bits) z"
    for z :: "32 word"
    by (rule bit_word_eqI) (auto simp: bit_push_bit_iff bit_drop_bit_eq dest: bit_imp_le_length)
  have "push_bit (32 - bits) (drop_bit (32 - bits) x) = push_bit (32 - bits) (drop_bit (32 - bits) y) \<longleftrightarrow>
      drop_bit (32 - bits) x = drop_bit (32 - bits) y"
    by (metis shift)
  moreover have "drop_bit (32 - bits) x = drop_bit (32 - bits) y \<longleftrightarrow>
      drop_bit (32 - bits) (unat x) = drop_bit (32 - bits) (unat y)"
    by (simp only: word_unat_eq_iff unat_drop_bit_eq)
  ultimately show ?thesis
    unfolding m by (simp only: drop_bit_eq_div)
qed

section \<open>What is blocked\<close>

definition addr_value :: "nat \<Rightarrow> nat \<Rightarrow> nat \<Rightarrow> nat \<Rightarrow> nat" where
  "addr_value a b c e = ((a * 256 + b) * 256 + c) * 256 + e"

lemma addr_value_div:
  assumes "b \<le> 255" "c \<le> 255" "e \<le> 255"
  shows "addr_value a b c e div 2 ^ 24 = a" and "addr_value a b c e div 2 ^ 16 = a * 256 + b"
    and "addr_value a b c e div 2 ^ 8 = (a * 256 + b) * 256 + c"
    and "addr_value a b c e div 2 ^ 28 = a div 16" and "addr_value a b c e div 2 ^ 22 = (a * 256 + b) div 64"
    and "addr_value a b c e div 2 ^ 20 = (a * 256 + b) div 16"
    and "addr_value a b c e div 2 ^ 17 = (a * 256 + b) div 2"
proof -
  have 1: "addr_value a b c e div 256 = (a * 256 + b) * 256 + c" using assms by (simp add: addr_value_def)
  have 2: "((a * 256 + b) * 256 + c) div 256 = a * 256 + b" using assms by simp
  have 3: "(a * 256 + b) div 256 = a" using assms by simp
  show "addr_value a b c e div 2 ^ 8 = (a * 256 + b) * 256 + c" using 1 by simp
  show s16: "addr_value a b c e div 2 ^ 16 = a * 256 + b"
    using 1 2 by (simp add: div_mult2_eq [of _ 256 256, simplified])
  show s24: "addr_value a b c e div 2 ^ 24 = a"
    using s16 3 by (simp add: div_mult2_eq [of _ 65536 256, simplified])
  show "addr_value a b c e div 2 ^ 28 = a div 16"
    using s24 by (simp add: div_mult2_eq [of _ 16777216 16, simplified])
  show "addr_value a b c e div 2 ^ 22 = (a * 256 + b) div 64"
    using s16 by (simp add: div_mult2_eq [of _ 65536 64, simplified])
  show "addr_value a b c e div 2 ^ 20 = (a * 256 + b) div 16"
    using s16 by (simp add: div_mult2_eq [of _ 65536 16, simplified])
  show "addr_value a b c e div 2 ^ 17 = (a * 256 + b) div 2"
    using s16 by (simp add: div_mult2_eq [of _ 65536 2, simplified])
qed

lemma inRange_dotted:
  assumes "a \<le> 255" "b \<le> 255" "c \<le> 255" "e \<le> 255"
    and "p \<le> 255" "q \<le> 255" "r \<le> 255" "s \<le> 255" "bits \<le> 32"
  shows "inRange (ip_word [a, b, c, e]) (dotted [p, q, r, s]) bits \<longleftrightarrow>
    addr_value a b c e div 2 ^ (32 - bits) = addr_value p q r s div 2 ^ (32 - bits)"
  using assms by (simp add: inRange_def masked_eq_iff unat_ip_word addr_value_def ipv4ToInt_dotted)

lemma pair_eq_iff:
  fixes a b p q :: nat
  assumes "b \<le> 255" "q \<le> 255"
  shows "a * 256 + b = p * 256 + q \<longleftrightarrow> a = p \<and> b = q"
proof
  assume e: "a * 256 + b = p * 256 + q"
  have "a = (a * 256 + b) div 256" "p = (p * 256 + q) div 256" using assms by simp_all
  with e have "a = p" by simp
  with e show "a = p \<and> b = q" by simp
qed simp

lemma pair_div:
  fixes a b k m :: nat
  assumes "256 = m * k" "0 < k"
  shows "(a * 256 + b) div k = a * m + b div k"
  using assms by (metis div_mult_self3 less_numeral_extra(3) mult.assoc add.commute)

lemma digit_pair_iff:
  fixes a p x y m :: nat
  assumes "x < m" "y < m"
  shows "a * m + x = p * m + y \<longleftrightarrow> a = p \<and> x = y"
proof
  assume e: "a * m + x = p * m + y"
  have "a = (a * m + x) div m" "p = (p * m + y) div m" using assms by simp_all
  with e have "a = p" by simp
  with e show "a = p \<and> x = y" by simp
qed simp

lemma inRange_prefixes:
  assumes o: "a \<le> 255" "b \<le> 255" "c \<le> 255" "e \<le> 255" and p: "p \<le> 255" and q: "q \<le> 255"
  shows "inRange (ip_word [a, b, c, e]) (dotted [p, 0, 0, 0]) 8 \<longleftrightarrow> a = p"
    and "inRange (ip_word [a, b, c, e]) (dotted [p, 0, 0, 0]) 4 \<longleftrightarrow> a div 16 = p div 16"
    and "inRange (ip_word [a, b, c, e]) (dotted [p, q, 0, 0]) 16 \<longleftrightarrow> a = p \<and> b = q"
    and "inRange (ip_word [a, b, c, e]) (dotted [p, q, 0, 0]) 10 \<longleftrightarrow> a = p \<and> b div 64 = q div 64"
    and "inRange (ip_word [a, b, c, e]) (dotted [p, q, 0, 0]) 12 \<longleftrightarrow> a = p \<and> b div 16 = q div 16"
    and "inRange (ip_word [a, b, c, e]) (dotted [p, q, 0, 0]) 15 \<longleftrightarrow> a = p \<and> b div 2 = q div 2"
    and "inRange (ip_word [a, b, c, e]) (dotted [p, q, 0, 0]) 24 \<longleftrightarrow> a = p \<and> b = q \<and> c = 0"
proof -
  note R = inRange_dotted [OF o p _ _ _]
  have z: "(0::nat) \<le> 255" by simp
  note V = addr_value_div [OF o(2-4)] and W = addr_value_div [OF q z z] and W0 = addr_value_div [OF z z z]
  show "inRange (ip_word [a, b, c, e]) (dotted [p, 0, 0, 0]) 8 \<longleftrightarrow> a = p"
    using R [OF z z z, of 8] V(1) W0(1) by simp
  show "inRange (ip_word [a, b, c, e]) (dotted [p, 0, 0, 0]) 4 \<longleftrightarrow> a div 16 = p div 16"
    using R [OF z z z, of 4] V(4) W0(4) by simp
  show "inRange (ip_word [a, b, c, e]) (dotted [p, q, 0, 0]) 16 \<longleftrightarrow> a = p \<and> b = q"
    using R [OF q z z, of 16] V(2) W(2) pair_eq_iff [OF o(2) q] by simp
  have "b div 64 < 4" "q div 64 < 4" "b div 16 < 16" "q div 16 < 16" "b div 2 < 128" "q div 2 < 128"
    using o(2) q by auto
  note lt = this
  show "inRange (ip_word [a, b, c, e]) (dotted [p, q, 0, 0]) 10 \<longleftrightarrow> a = p \<and> b div 64 = q div 64"
    using R [OF q z z, of 10] V(5) W(5) digit_pair_iff [OF lt(1,2)] by (simp add: pair_div [of 4 64])
  show "inRange (ip_word [a, b, c, e]) (dotted [p, q, 0, 0]) 12 \<longleftrightarrow> a = p \<and> b div 16 = q div 16"
    using R [OF q z z, of 12] V(6) W(6) digit_pair_iff [OF lt(3,4)] by (simp add: pair_div [of 16 16])
  show "inRange (ip_word [a, b, c, e]) (dotted [p, q, 0, 0]) 15 \<longleftrightarrow> a = p \<and> b div 2 = q div 2"
    using R [OF q z z, of 15] V(7) W(7) digit_pair_iff [OF lt(5,6)] by (simp add: pair_div [of 128 2])
  have "inRange (ip_word [a, b, c, e]) (dotted [p, q, 0, 0]) 24 \<longleftrightarrow>
      (a * 256 + b) * 256 + c = (p * 256 + q) * 256 + 0"
    using R [OF q z z, of 24] V(3) W(3) by simp
  also have "\<dots> \<longleftrightarrow> a = p \<and> b = q \<and> c = 0"
    unfolding pair_eq_iff [OF o(3) z] pair_eq_iff [OF o(2) q] by blast
  finally show "inRange (ip_word [a, b, c, e]) (dotted [p, q, 0, 0]) 24 \<longleftrightarrow> a = p \<and> b = q \<and> c = 0" .
qed

definition unsafe_octets :: "nat \<Rightarrow> nat \<Rightarrow> nat \<Rightarrow> bool" where
  "unsafe_octets a b c \<longleftrightarrow>
     a = 0 \<or> a = 10 \<or> a = 127 \<or> (a = 100 \<and> 64 \<le> b \<and> b \<le> 127) \<or> (a = 169 \<and> b = 254) \<or>
     (a = 172 \<and> 16 \<le> b \<and> b \<le> 31) \<or> (a = 192 \<and> b = 0 \<and> c = 0) \<or> (a = 192 \<and> b = 168) \<or>
     (a = 198 \<and> (b = 18 \<or> b = 19)) \<or> 224 \<le> a"

lemma div_eq_nat_iff: "0 < k \<Longrightarrow> b div k = q \<longleftrightarrow> q * k \<le> b \<and> b < Suc q * k" for b k q :: nat
  using less_eq_div_iff_mult_less_eq [of k q b] div_less_iff_less_mult [of k b "Suc q"] by linarith
lemma octet_blocks:
  fixes a b :: nat
  assumes "a \<le> 255"
  shows "b div 64 = 1 \<longleftrightarrow> 64 \<le> b \<and> b \<le> 127" "b div 16 = 1 \<longleftrightarrow> 16 \<le> b \<and> b \<le> 31"
    "b div 2 = 9 \<longleftrightarrow> b = 18 \<or> b = 19" "a div 16 = 14 \<or> a div 16 = 15 \<longleftrightarrow> 224 \<le> a"
proof -
  show "b div 64 = 1 \<longleftrightarrow> 64 \<le> b \<and> b \<le> 127" using div_eq_nat_iff [of 64 b 1] by auto
  show "b div 16 = 1 \<longleftrightarrow> 16 \<le> b \<and> b \<le> 31" using div_eq_nat_iff [of 16 b 1] by auto
  show "b div 2 = 9 \<longleftrightarrow> b = 18 \<or> b = 19" using div_eq_nat_iff [of 2 b 9] by auto
  show "a div 16 = 14 \<or> a div 16 = 15 \<longleftrightarrow> 224 \<le> a"
    using div_eq_nat_iff [of 16 a 14] div_eq_nat_iff [of 16 a 15] assms by auto
qed
lemma blocked_ranges_dotted:
  "BLOCKED_RANGES =
     [(dotted [0, 0, 0, 0], 8), (dotted [10, 0, 0, 0], 8), (dotted [100, 64, 0, 0], 10),
      (dotted [127, 0, 0, 0], 8), (dotted [169, 254, 0, 0], 16), (dotted [172, 16, 0, 0], 12),
      (dotted [192, 0, 0, 0], 24), (dotted [192, 168, 0, 0], 16), (dotted [198, 18, 0, 0], 15),
      (dotted [224, 0, 0, 0], 4), (dotted [240, 0, 0, 0], 4)]"
  by code_simp

lemma isBlockedIpv4_octets:
  assumes "a \<le> 255" "b \<le> 255" "c \<le> 255" "e \<le> 255"
  shows "isBlockedIpv4 (dotted [a, b, c, e]) \<longleftrightarrow> unsafe_octets a b c"
proof -
  have "isBlockedIpv4 (dotted [a, b, c, e]) \<longleftrightarrow>
      list_ex (\<lambda>(base, bits). inRange (ip_word [a, b, c, e]) base bits) BLOCKED_RANGES"
    using assms by (simp add: isBlockedIpv4_def ipv4ToInt_dotted)
  moreover have "list_ex (\<lambda>(base, bits). inRange (ip_word [a, b, c, e]) base bits) BLOCKED_RANGES \<longleftrightarrow>
      unsafe_octets a b c"
    unfolding blocked_ranges_dotted unsafe_octets_def
    using octet_blocks(4) [OF assms(1)]
    by (simp add: inRange_prefixes(1,2) [OF assms, where q = 0] inRange_prefixes(3-7) [OF assms]
        octet_blocks(1-3) [OF assms(1), unfolded One_nat_def]) blast
  ultimately show ?thesis by simp
qed

text \<open>
  C31: For an IPv4 address in dotted notation the classifier blocks exactly the loopback, private,
  link-local, carrier-grade, assigned, benchmarking, multicast and reserved networks it names.
\<close>

lemma isBlockedAddress_ipv4:
  assumes "a \<le> 255" "b \<le> 255" "c \<le> 255" "e \<le> 255"
  shows "isBlockedAddress (dotted [a, b, c, e]) \<longleftrightarrow> unsafe_octets a b c"
proof -
  have colon: "\<not> is_digit_char (CHR '':'')" by code_simp
  have "CHR '':'' \<notin> set (dotted [a, b, c, e])"
    using dec_not_special [OF colon] by (simp add: dotted_def)
  then show ?thesis by (simp add: isBlockedAddress_def isBlockedIpv4_octets [OF assms])
qed

lemma isBlockedAddress_ipv4_witness:
  "isBlockedAddress (dotted [169, 254, 169, 254]) \<and> \<not> isBlockedAddress (dotted [8, 8, 8, 8])"
  using isBlockedAddress_ipv4 [of 169 254 169 254] isBlockedAddress_ipv4 [of 8 8 8 8]
  by (simp add: unsafe_octets_def)

text \<open>
  The same loopback address written in IPv6 is blocked in its dotted form, but not in the
  equivalent hexadecimal form, nor is the IPv6 loopback address when it is written in full.
\<close>

lemma ipv6_loopback_forms:
  "isBlockedAddress ''::ffff:127.0.0.1'' \<and> isBlockedAddress ''::1'' \<and>
   \<not> isBlockedAddress ''::ffff:7f00:1'' \<and> \<not> isBlockedAddress ''0:0:0:0:0:0:0:1''"
proof (intro conjI)
  have quad: "mapped_ipv4 ''::ffff:127.0.0.1'' = Some (dotted [127, 0, 0, 1])" by code_simp
  have "hd (split_at CHR ''%'' (map ascii_lower ''::ffff:127.0.0.1'')) = ''::ffff:127.0.0.1''" by code_simp
  moreover have "isBlockedIpv4 (dotted [127, 0, 0, 1])"
    by (rule isBlockedIpv4_octets [THEN iffD2]) (simp_all add: unsafe_octets_def)
  ultimately show "isBlockedAddress ''::ffff:127.0.0.1''"
    by (simp add: isBlockedAddress_def isBlockedIpv6_def quad)
qed code_simp+

section \<open>Entries of the client filter\<close>

lemma no_slash_dotted: "CHR ''/'' \<notin> set (dotted [a, b, c, e])"
proof -
  have "\<not> is_digit_char (CHR ''/'')" by code_simp
  then show ?thesis using dec_not_special by (simp add: dotted_def)
qed

lemma matchesEntry_split:
  assumes "CHR ''/'' \<notin> set ip" and "CHR ''/'' \<notin> set base"
  shows "matchesEntry ip (base @ CHR ''/'' # n) =
    (case Option.bind (js_number n) rat_int of
       None \<Rightarrow> False
     | Some bits \<Rightarrow>
         if bits < 0 \<or> 32 < bits then False
         else case (filter_toInt ip, filter_toInt base) of
                (Some i, Some b) \<Rightarrow> i AND net_mask (nat bits) = b AND net_mask (nat bits)
              | _ \<Rightarrow> False)"
proof -
  have "ip \<noteq> base @ CHR ''/'' # n" using assms(1) by auto
  moreover have "takeWhile (\<lambda>c. c \<noteq> CHR ''/'') (base @ CHR ''/'' # n) = base"
    using assms(2) by (subst takeWhile_append2) auto
  ultimately show ?thesis by (simp add: matchesEntry_def)
qed

text \<open>
  C32: An entry of the client filter in prefix notation matches an IPv4 address exactly when the two
  agree on the leading bits, for every prefix length from 0 to 32.
\<close>

lemma matchesEntry_cidr:
  assumes "a \<le> 255" "b \<le> 255" "c \<le> 255" "e \<le> 255" "p \<le> 255" "q \<le> 255" "r \<le> 255" "s \<le> 255"
    and "bits \<le> 32"
  shows "matchesEntry (dotted [a, b, c, e]) (dotted [p, q, r, s] @ CHR ''/'' # dec bits) \<longleftrightarrow>
    addr_value a b c e div 2 ^ (32 - bits) = addr_value p q r s div 2 ^ (32 - bits)"
  using assms
  by (simp add: matchesEntry_split no_slash_dotted js_number_dec filter_toInt_dotted masked_eq_iff
      unat_ip_word addr_value_def)

lemma matchesEntry_cidr_witness:
  "matchesEntry (dotted [10, 1, 2, 3]) (dotted [10, 0, 0, 0] @ CHR ''/'' # dec 8) \<and>
   \<not> matchesEntry (dotted [11, 1, 2, 3]) (dotted [10, 0, 0, 0] @ CHR ''/'' # dec 8)"
  using matchesEntry_cidr [of 10 1 2 3 10 0 0 0 8] matchesEntry_cidr [of 11 1 2 3 10 0 0 0 8]
  by (simp add: addr_value_def)

text \<open>
  An entry whose prefix length is missing after the slash matches every IPv4 address, since the
  empty text converts to the number 0: such an entry in a list of admitted addresses admits all.
\<close>

lemma matchesEntry_missing_length:
  assumes "a \<le> 255" "b \<le> 255" "c \<le> 255" "e \<le> 255" "p \<le> 255" "q \<le> 255" "r \<le> 255" "s \<le> 255"
  shows "matchesEntry (dotted [a, b, c, e]) (dotted [p, q, r, s] @ ''/'')"
proof -
  have "js_number [] = Some 0" "rat_int 0 = Some 0"
    by (simp_all add: js_number_def js_trim_def rat_int_def)
  then show ?thesis
    using matchesEntry_split [OF no_slash_dotted no_slash_dotted, of a b c e p q r s "[]"] assms
    by (simp add: filter_toInt_dotted net_mask_def)
qed

lemma matchesEntry_missing_length_witness:
  "ipFilter \<lparr>if_enabled = True, if_mode = AllowMode, if_entries = [dotted [10, 0, 0, 0] @ ''/'']\<rparr>
     (dotted [203, 0, 113, 9]) = Inr ()"
  using matchesEntry_missing_length [of 203 0 113 9 10 0 0 0] by (simp add: ipFilter_def)

end
