(* ===== verification/Jwks_Resolver.thy ===== *)
theory Jwks_Resolver
  imports Crypto_Jwt Ip_Address
begin

text \<open>
  \<^verbatim>\<open>auth/jwksResolver.ts\<close>: fetching the keys of a principal that registered a URL.  Name
  resolution, the HTTPS request to the pinned address and the URL parser are parameters.
\<close>

record url =
  u_protocol :: string
  u_username :: string
  u_password :: string
  u_hostname :: string

record jwks_env =
  jw_parse_url :: "string \<Rightarrow> url option"
  jw_lookup :: "string \<Rightarrow> fault + string list"
  jw_httpGet :: "string \<Rightarrow> url \<Rightarrow> int \<Rightarrow> int \<Rightarrow> fault + string"
  jw_json :: json_text
  jw_allowPrivate :: bool
  jw_ttlSeconds :: int
  jw_timeoutMs :: int
  jw_maxBytes :: int
  jw_maxKeys :: nat

text \<open>The shape of one usable key; the other members of the entry are dropped, except \<open>kid\<close>.\<close>

definition jwk_of_entry :: "json \<Rightarrow> fault + jwk option" where
  "jwk_of_entry k =
     (case member_of k ''kty'' of
        Inl e \<Rightarrow> Inl e
      | Inr kty \<Rightarrow>
          let get = (\<lambda>f. case member_of k f of Inr v \<Rightarrow> v | Inl e \<Rightarrow> None) in
          if kty = Some (JStr ''OKP'') \<and> get ''crv'' = Some (JStr ''Ed25519'')
          then (case get ''x'' of
                  Some (JStr x) \<Rightarrow>
                    Inr (Some \<lparr>jwk_kty = ''OKP'', jwk_crv = ''Ed25519'', jwk_x = x,
                       jwk_kid = (case get ''kid'' of Some (JStr i) \<Rightarrow> Some i | _ \<Rightarrow> None),
                       jwk_use = None, jwk_alg = None\<rparr>)
                | _ \<Rightarrow> Inr None)
          else Inr None)"

fun usable_keys :: "json list \<Rightarrow> fault + jwk list" where
  "usable_keys [] = Inr []"
| "usable_keys (k # ks) =
     (case jwk_of_entry k of
        Inl e \<Rightarrow> Inl e
      | Inr found \<Rightarrow>
          (case usable_keys ks of
             Inl e \<Rightarrow> Inl e
           | Inr out \<Rightarrow> Inr (case found of None \<Rightarrow> out | Some j \<Rightarrow> j # out)))"

definition validateJwks :: "json_text \<Rightarrow> string \<Rightarrow> nat \<Rightarrow> fault + jwk list" where
  "validateJwks J body maxKeys =
     (case jt_parse J body of
        None \<Rightarrow> Inl (OtherError ''JWKS is not valid JSON'')
      | Some parsed \<Rightarrow>
          (case member_of parsed ''keys'' of
             Inl e \<Rightarrow> Inl e
           | Inr (Some (JArr keys)) \<Rightarrow>
               if maxKeys < length keys then Inl (OtherError ''JWKS has too many keys'')
               else (case usable_keys keys of
                       Inl e \<Rightarrow> Inl e
                     | Inr out \<Rightarrow>
                         if out = [] then Inl (OtherError ''JWKS contains no usable Ed25519 keys'')
                         else Inr out)
           | Inr _ \<Rightarrow> Inl (OtherError ''JWKS missing \"keys\" array'')))"

definition fetchKeys :: "jwks_env \<Rightarrow> string \<Rightarrow> fault + jwk list" where
  "fetchKeys env jwksUrl =
     (case jw_parse_url env jwksUrl of
        None \<Rightarrow> Inl (err InvalidRequest ''jwks_uri is not a valid URL'' 400)
      | Some url \<Rightarrow>
          if u_protocol url \<noteq> ''https:'' then Inl (err InvalidRequest ''jwks_uri must be https'' 400)
          else if u_username url \<noteq> [] \<or> u_password url \<noteq> []
          then Inl (err InvalidRequest ''jwks_uri must not contain credentials'' 400)
          else (case jw_lookup env (u_hostname url) of
                  Inl e \<Rightarrow> Inl e
                | Inr ips \<Rightarrow>
                    if ips = [] then Inl (err InvalidRequest ''jwks_uri host did not resolve'' 400)
                    else if \<not> jw_allowPrivate env \<and> list_ex isBlockedAddress ips
                    then Inl (err InvalidRequest ''jwks_uri resolves to a blocked address'' 400)
                    else (case jw_httpGet env (hd ips) url (jw_timeoutMs env) (jw_maxBytes env) of
                            Inl e \<Rightarrow> Inl e
                          | Inr body \<Rightarrow> validateJwks (jw_json env) body (jw_maxKeys env))))"

record jwks_entry =
  je_keys :: "jwk list"
  je_expiresAt :: millis

type_synonym jwks_cache = "string \<Rightarrow> jwks_entry option"

text \<open>
  \<open>resolve\<close>: the clock is read when the cache is consulted and again when the fetched keys are
  stored.  A \<open>kid\<close> that is empty or absent takes the first key.
\<close>

definition pick_key :: "json option \<Rightarrow> jwk list \<Rightarrow> jwk option" where
  "pick_key kid keys =
     (if member_truthy kid
      then List.find (\<lambda>k. map_option JStr (jwk_kid k) = kid) keys
      else case keys of [] \<Rightarrow> None | k # ks \<Rightarrow> Some k)"

definition jwks_resolve ::
  "jwks_env \<Rightarrow> millis \<Rightarrow> millis \<Rightarrow> string \<Rightarrow> json option \<Rightarrow> (fault, jwks_cache, jwk) eff" where
  "jwks_resolve env now1 now2 jwksUrl kid cache =
     (let pick = (\<lambda>keys c. case pick_key kid keys of
                    None \<Rightarrow> (Inl (err InvalidJwt ''no matching key in JWKS'' 401), c)
                  | Some k \<Rightarrow> (Inr k, c));
          fetch = (case fetchKeys env jwksUrl of
                     Inl e \<Rightarrow> (Inl e, cache)
                   | Inr keys \<Rightarrow>
                       pick keys (cache(jwksUrl := Some \<lparr>je_keys = keys,
                                    je_expiresAt = now2 + jw_ttlSeconds env * 1000\<rparr>)))
      in case cache jwksUrl of
           None \<Rightarrow> fetch
         | Some en \<Rightarrow> if now1 < je_expiresAt en then pick (je_keys en) cache else fetch)"

section \<open>What is fetched and returned\<close>

lemma jwk_of_entry_shape: "jwk_of_entry k = Inr (Some j) \<Longrightarrow> jwk_kty j = ''OKP'' \<and> jwk_crv j = ''Ed25519''"
  by (auto simp: jwk_of_entry_def Let_def split: sum.splits if_splits option.splits json.splits)

lemma usable_keys_shape:
  "usable_keys ks = Inr out \<Longrightarrow> length out \<le> length ks \<and>
    (\<forall>j \<in> set out. jwk_kty j = ''OKP'' \<and> jwk_crv j = ''Ed25519'')"
proof (induction ks arbitrary: out)
  case (Cons k ks)
  then obtain found rest where f: "jwk_of_entry k = Inr found" and r: "usable_keys ks = Inr rest"
    and out: "out = (case found of None \<Rightarrow> rest | Some j \<Rightarrow> j # rest)"
    by (auto split: sum.splits)
  from Cons.IH [OF r] f jwk_of_entry_shape show ?case
    unfolding out by (cases found) auto
qed simp

lemma validateJwks_shape:
  "validateJwks J body n = Inr keys \<Longrightarrow> keys \<noteq> [] \<and> length keys \<le> n \<and>
    (\<forall>j \<in> set keys. jwk_kty j = ''OKP'' \<and> jwk_crv j = ''Ed25519'')"
  by (auto simp: validateJwks_def split: option.splits sum.splits json.splits if_splits
      dest!: usable_keys_shape)

text \<open>
  C30: The keys of a principal are never fetched from a blocked address: two gateways whose HTTP
  clients differ only in what they would get from blocked addresses resolve every URL to the same
  result, as long as private hosts are not allowed.
\<close>

lemma fetchKeys_ignores_blocked:
  assumes "\<not> jw_allowPrivate env"
    and "\<And>ip u t m. \<not> isBlockedAddress ip \<Longrightarrow> get' ip u t m = jw_httpGet env ip u t m"
  shows "fetchKeys (env\<lparr>jw_httpGet := get'\<rparr>) jwksUrl = fetchKeys env jwksUrl"
proof -
  have "get' (hd ips) u t m = jw_httpGet env (hd ips) u t m"
    if "ips \<noteq> []" "\<not> list_ex isBlockedAddress ips" for ips u t m
    using that assms(2) [of "hd ips"] by (cases ips) auto
  with assms(1) show ?thesis by (simp add: fetchKeys_def split: option.split sum.split)
qed

definition sample_jwks_env :: "string list \<Rightarrow> jwks_env" where
  "sample_jwks_env ips =
    \<lparr>jw_parse_url = (\<lambda>s. Some \<lparr>u_protocol = ''https:'', u_username = [], u_password = [], u_hostname = s\<rparr>),
     jw_lookup = (\<lambda>h. Inr ips),
     jw_httpGet = (\<lambda>ip u t m. Inr ''keys''),
     jw_json = sample_json_text\<lparr>jt_parse := (\<lambda>s. Some (JObj [(''keys'', JArr
        [JObj [(''kty'', JStr ''OKP''), (''crv'', JStr ''Ed25519''), (''x'', JStr ''k1'')]])]))\<rparr>,
     jw_allowPrivate = False, jw_ttlSeconds = 300, jw_timeoutMs = 3000, jw_maxBytes = 100000, jw_maxKeys = 20\<rparr>"

lemma fetchKeys_ignores_blocked_witness:
  "fetchKeys ((sample_jwks_env [dotted [10, 0, 0, 1]])\<lparr>jw_httpGet := (\<lambda>ip u t m.
      if isBlockedAddress ip then Inl (OtherError ''fetched'') else Inr ''keys'')\<rparr>) ''internal'' =
   Inl (err InvalidRequest ''jwks_uri resolves to a blocked address'' 400)"
proof -
  have "isBlockedAddress (dotted [10, 0, 0, 1])"
    unfolding isBlockedAddress_def using isBlockedIpv4_octets [of 10 0 0 1]
    by (simp add: unsafe_octets_def dotted_def dec_not_special is_digit_char_def)
  then have "fetchKeys (sample_jwks_env [dotted [10, 0, 0, 1]]) ''internal'' =
      Inl (err InvalidRequest ''jwks_uri resolves to a blocked address'' 400)"
    by (simp add: fetchKeys_def sample_jwks_env_def)
  then show ?thesis
    using fetchKeys_ignores_blocked [of "sample_jwks_env [dotted [10, 0, 0, 1]]"
        "\<lambda>ip u t m. if isBlockedAddress ip then Inl (OtherError ''fetched'') else Inr ''keys''" "''internal''"]
    by (simp add: sample_jwks_env_def)
qed

lemma jwks_resolve_key:
  assumes "jwks_resolve env now1 now2 url kid cache = (Inr k, cache')"
    and "\<And>u en. cache u = Some en \<Longrightarrow> \<forall>j \<in> set (je_keys en). jwk_crv j = ''Ed25519''"
  shows "jwk_crv k = ''Ed25519'' \<and>
    (\<forall>u en. cache' u = Some en \<longrightarrow> (\<forall>j \<in> set (je_keys en). jwk_crv j = ''Ed25519''))"
proof -
  have pick: "pick_key kid keys = Some k \<Longrightarrow> k \<in> set keys" for keys
    by (auto simp: pick_key_def find_Some_iff split: if_splits list.splits)
  have fetched: "fetchKeys env url = Inr keys \<Longrightarrow> j \<in> set keys \<Longrightarrow> jwk_crv j = ''Ed25519''" for keys j
    by (auto simp: fetchKeys_def split: option.splits sum.splits if_splits dest!: validateJwks_shape)
  from assms(1) consider en where "cache url = Some en" "pick_key kid (je_keys en) = Some k" "cache' = cache"
    | keys x where "fetchKeys env url = Inr keys" "pick_key kid keys = Some k"
        "cache' = cache(url := Some \<lparr>je_keys = keys, je_expiresAt = x\<rparr>)"
    by (auto simp: jwks_resolve_def Let_def split: option.splits sum.splits if_splits)
  then show ?thesis
  proof cases
    case 1
    then show ?thesis using assms(2) pick by blast
  next
    case 2
    then show ?thesis using assms(2) pick fetched by (auto split: if_splits)
  qed
qed

end
