(* ===== verification/Auth_Pipeline.thy ===== *)
theory Auth_Pipeline
  imports State_Machine Constraint_Engine Jwks_Resolver
begin

text \<open>
  \<^verbatim>\<open>auth/authContext.ts\<close>, \<^verbatim>\<open>auth/jwtPipeline.ts\<close> and \<^verbatim>\<open>auth/stages\<close>: the five stages that a
  request with an agent token passes (four for a host token), threaded through a context.  Claims
  stay JSON values, as nothing checks their types before they are used.
\<close>

record auth_context =
  ax_token :: string
  ax_expectedTyp :: jwt_typ
  ax_capability :: "string option"
  ax_args :: "json_object option"
  ax_decodedTyp :: "jwt_typ option"
  ax_claims :: "json option"
  ax_host :: "host option"
  ax_agent :: "agent option"
  ax_grant :: "capability_grant option"

record auth_state =
  as_db :: db
  as_jwks :: jwks_cache

text \<open>What the stages are constructed with; the resolver is optional.\<close>

record pipeline_deps =
  pd_codec :: codec
  pd_crypto :: node_crypto
  pd_json :: json_text
  pd_issuer :: string
  pd_clockSkewSeconds :: int
  pd_jwks :: "jwks_env option"

text \<open>The values of \<open>Date.now()\<close> at the places that read it.\<close>

record request_clock =
  ck_jwks :: millis
  ck_jwks_fetched :: millis
  ck_claims :: millis
  ck_state :: millis

type_synonym stage = "auth_context \<Rightarrow> (fault, auth_state, auth_context) eff"

definition on_db :: "'a db_op \<Rightarrow> (fault, auth_state, 'a) eff" where
  "on_db = eff_lift as_db (\<lambda>d s. s\<lparr>as_db := d\<rparr>)"

definition on_jwks :: "(fault, jwks_cache, 'a) eff \<Rightarrow> (fault, auth_state, 'a) eff" where
  "on_jwks = eff_lift as_jwks (\<lambda>c s. s\<lparr>as_jwks := c\<rparr>)"

section \<open>The stages\<close>

definition typCheck :: "pipeline_deps \<Rightarrow> stage" where
  "typCheck P ctx =
     (case decodeJwt (pd_json P) (ax_token ctx) of
        Inl e \<Rightarrow> eff_throw (err InvalidJwt ''malformed JWT'' 401)
      | Inr dj \<Rightarrow>
          if dj_typ dj \<noteq> Some (JStr (jwt_typ_wire (ax_expectedTyp ctx)))
          then eff_throw (err InvalidJwt
                 (''unexpected token type: '' @
                  (case dj_typ dj of None \<Rightarrow> ''none'' | Some JNull \<Rightarrow> ''none'' | Some j \<Rightarrow> jt_text (pd_json P) j)) 401)
          else eff_return (ctx\<lparr>ax_decodedTyp := Some (ax_expectedTyp ctx)\<rparr>))"

definition resolveKey ::
  "pipeline_deps \<Rightarrow> request_clock \<Rightarrow> jwk option \<Rightarrow> string option \<Rightarrow> json option \<Rightarrow> string
     \<Rightarrow> (fault, auth_state, jwk) eff" where
  "resolveKey P ck inlineKey jwksUrl kid who =
     (case inlineKey of
        Some key \<Rightarrow> eff_return key
      | None \<Rightarrow>
          (case (jwksUrl, pd_jwks P) of
             (Some u, Some env) \<Rightarrow>
               if u \<noteq> [] then on_jwks (jwks_resolve env (ck_jwks ck) (ck_jwks_fetched ck) u kid)
               else eff_throw (err InvalidJwt (who @ '' has no verifiable key'') 401)
           | _ \<Rightarrow> eff_throw (err InvalidJwt (who @ '' has no verifiable key'') 401)))"

definition verifyWith :: "pipeline_deps \<Rightarrow> string \<Rightarrow> jwk \<Rightarrow> (fault, auth_state, unit) eff" where
  "verifyWith P token key =
     (case jwt_verify (pd_crypto P) (pd_json P) token key of
        Inl e \<Rightarrow> eff_throw (err InvalidJwt ''signature verification failed'' 401)
      | Inr v \<Rightarrow> eff_return ())"

definition header_kid :: "decoded_jwt \<Rightarrow> json option" where
  "header_kid dj = (case member_of (dj_header dj) ''kid'' of Inl e \<Rightarrow> None | Inr v \<Rightarrow> v)"

text \<open>A claim that names a principal: it has to be truthy, and is sent as a statement parameter.\<close>

definition principal_claim ::
  "pipeline_deps \<Rightarrow> decoded_jwt \<Rightarrow> string \<Rightarrow> string \<Rightarrow> (fault, auth_state, string) eff" where
  "principal_claim P dj field missing =
     eff_bind (eff_sum (member_of (dj_claims dj) field)) (\<lambda>v.
       if member_truthy v then eff_return (jt_param (pd_json P) (the v))
       else eff_throw (err InvalidJwt missing 401))"

definition signatureVerify_agent :: "pipeline_deps \<Rightarrow> request_clock \<Rightarrow> decoded_jwt \<Rightarrow> stage" where
  "signatureVerify_agent P ck dj ctx =
     eff_bind (principal_claim P dj ''sub'' ''agent JWT missing sub'') (\<lambda>sub.
     eff_bind (on_db (agents_findBySubject (pd_codec P) sub)) (\<lambda>found.
     eff_bind (eff_some found (err AgentNotFound ''agent not found'' 401)) (\<lambda>agent.
     eff_bind (resolveKey P ck (a_publicKeyJwk agent) (a_jwksUrl agent) (header_kid dj) ''agent'') (\<lambda>key.
     eff_bind (verifyWith P (ax_token ctx) key) (\<lambda>_.
     eff_bind (on_db (hosts_findById (a_hostId agent))) (\<lambda>host.
     eff_return (ctx\<lparr>ax_agent := Some agent,
                    ax_host := (case host of None \<Rightarrow> ax_host ctx | Some h \<Rightarrow> Some h),
                    ax_claims := Some (dj_claims dj)\<rparr>)))))))"

definition signatureVerify_host :: "pipeline_deps \<Rightarrow> request_clock \<Rightarrow> decoded_jwt \<Rightarrow> stage" where
  "signatureVerify_host P ck dj ctx =
     eff_bind (principal_claim P dj ''iss'' ''host JWT missing iss'') (\<lambda>iss.
     eff_bind (on_db (hosts_findByThumbprint iss)) (\<lambda>found.
     eff_bind (eff_some found (err HostNotFound ''host not found'' 401)) (\<lambda>host.
     eff_bind (resolveKey P ck (h_publicKeyJwk host) (h_jwksUrl host) (header_kid dj) ''host'') (\<lambda>key.
     eff_bind (verifyWith P (ax_token ctx) key) (\<lambda>_.
     eff_return (ctx\<lparr>ax_host := Some host, ax_claims := Some (dj_claims dj)\<rparr>))))))"

definition signatureVerify :: "pipeline_deps \<Rightarrow> request_clock \<Rightarrow> stage" where
  "signatureVerify P ck ctx =
     (case decodeJwt (pd_json P) (ax_token ctx) of
        Inl e \<Rightarrow> eff_throw e
      | Inr dj \<Rightarrow>
          (case ax_expectedTyp ctx of
             AgentJwt \<Rightarrow> signatureVerify_agent P ck dj ctx
           | HostJwt \<Rightarrow> signatureVerify_host P ck dj ctx))"

text \<open>\<open>new Date(ms)\<close>: fractions are cut off, and a time beyond the range makes the statement fail.\<close>

definition date_of_seconds :: "rat \<Rightarrow> fault + millis" where
  "date_of_seconds s =
     (let q = s * 1000; ms = (if 0 \<le> q then \<lfloor>q\<rfloor> else \<lceil>q\<rceil>) in
      if \<bar>q\<bar> \<le> 8640000000000000 then Inr ms else Inl (OtherError ''invalid date''))"

definition claim :: "json \<Rightarrow> string \<Rightarrow> json option" where
  "claim c field = (case member_of c field of Inl e \<Rightarrow> None | Inr v \<Rightarrow> v)"

definition claim_number :: "json \<Rightarrow> string \<Rightarrow> rat option" where
  "claim_number c field = (case claim c field of Some (JNum n) \<Rightarrow> Some n | _ \<Rightarrow> None)"

definition claimValidation :: "pipeline_deps \<Rightarrow> millis \<Rightarrow> stage" where
  "claimValidation P now ctx =
     (let nowSec = now div 1000; skew = pd_clockSkewSeconds P in
      case ax_claims ctx of
        None \<Rightarrow> eff_throw (err InvalidJwt ''claims were not decoded'' 401)
      | Some cl \<Rightarrow>
          eff_bind (eff_require (claim cl ''aud'' = Some (JStr (pd_issuer P)))
            (err InvalidJwt ''aud does not match issuer'' 401)) (\<lambda>_.
          case claim_number cl ''exp'' of
            None \<Rightarrow> eff_throw (err InvalidJwt ''token expired'' 401)
          | Some ex \<Rightarrow>
              eff_bind (eff_require (of_int nowSec \<le> ex + of_int skew)
                (err InvalidJwt ''token expired'' 401)) (\<lambda>_.
              eff_bind (eff_require
                (case claim_number cl ''iat'' of None \<Rightarrow> False | Some iat \<Rightarrow> iat \<le> of_int (nowSec + skew))
                (err InvalidJwt ''iat is too far in the future'' 401)) (\<lambda>_.
              eff_bind (eff_require (member_truthy (claim cl ''jti''))
                (err InvalidJwt ''missing jti'' 401)) (\<lambda>_.
              eff_bind (eff_sum (date_of_seconds (ex + of_int skew))) (\<lambda>expiresAt.
              eff_bind (on_db (jti_put (jt_param (pd_json P) (the (claim cl ''jti''))) expiresAt)) (\<lambda>fresh.
              eff_bind (eff_require fresh (err InvalidJwt ''jti replay detected'' 401)) (\<lambda>_.
              eff_return ctx))))))))"

fun agent_state_fault :: "agent_state \<Rightarrow> fault option" where
  "agent_state_fault AgentActive = None"
| "agent_state_fault AgentPending = Some (err AgentPendingError ''agent pending approval'' 403)"
| "agent_state_fault AgentExpired = Some (err AgentExpiredError ''agent expired'' 403)"
| "agent_state_fault AgentRevoked = Some (err AgentRevokedError ''agent revoked'' 403)"
| "agent_state_fault AgentRejected = Some (err AgentRejectedError ''agent rejected'' 403)"
| "agent_state_fault AgentClaimed = Some (err AgentClaimedError ''agent claimed'' 403)"

fun host_state_fault :: "host_state \<Rightarrow> fault option" where
  "host_state_fault HostActive = None"
| "host_state_fault HostRevoked = Some (err HostRevokedError ''host revoked'' 403)"
| "host_state_fault HostPending = Some (err HostPendingError ''host pending approval'' 403)"
| "host_state_fault HostRejected = Some (err Unauthorized ''host not active: rejected'' 403)"

definition elapsed :: "millis \<Rightarrow> millis option \<Rightarrow> bool" where
  "elapsed now e = (case e of None \<Rightarrow> False | Some t \<Rightarrow> t < now)"

definition stateCheck :: "millis \<Rightarrow> stage" where
  "stateCheck now ctx =
     (case ax_host ctx of
        None \<Rightarrow> eff_throw (err HostNotFound ''host not resolved'' 401)
      | Some host \<Rightarrow>
          (case host_state_fault (h_status host) of
             Some e \<Rightarrow> eff_throw e
           | None \<Rightarrow>
               if ax_expectedTyp ctx = HostJwt then eff_return ctx
               else (case ax_agent ctx of
                       None \<Rightarrow> eff_throw (err AgentNotFound ''agent not resolved'' 401)
                     | Some agent \<Rightarrow>
                         (case agent_state_fault (a_status agent) of
                            Some e \<Rightarrow> eff_throw e
                          | None \<Rightarrow>
                              if elapsed now (a_absoluteExpiresAt agent)
                              then eff_throw (err AbsoluteLifetimeExceeded ''absolute lifetime exceeded'' 403)
                              else if elapsed now (a_maxLifetimeExpiresAt agent)
                              then eff_throw (err AgentExpiredError ''max lifetime exceeded'' 403)
                              else if elapsed now (a_sessionExpiresAt agent)
                              then eff_throw (err AgentExpiredError ''session expired'' 403)
                              else eff_return ctx))))"

text \<open>
  \<open>jwtCaps.includes(capability)\<close>: a list of capabilities, or the substring test if the claim is
  a string; other values have no such method.
\<close>

definition caps_permit :: "json option \<Rightarrow> string \<Rightarrow> fault + bool" where
  "caps_permit caps capability =
     (if \<not> member_truthy caps then Inr True
      else case the caps of
             JArr xs \<Rightarrow> Inr (JStr capability \<in> set xs)
           | JStr s \<Rightarrow> Inr (contains capability s)
           | _ \<Rightarrow> Inl (OtherError ''jwtCaps.includes is not a function''))"

definition violation_json :: "violation \<Rightarrow> json" where
  "violation_json v =
     JObj ([(''field'', JStr (vi_field v)), (''constraint'', constraint_json (vi_constraint v))] @
           (case vi_actual v of None \<Rightarrow> [] | Some j \<Rightarrow> [(''actual'', j)]))"

definition capabilityConstraint :: stage where
  "capabilityConstraint ctx =
     (if \<not> truthy (ax_capability ctx) then eff_return ctx
      else let capability = the (ax_capability ctx) in
        eff_bind (eff_some (ax_agent ctx) (err Unauthorized ''agent not resolved'' 401)) (\<lambda>agent.
        eff_bind (eff_sum (caps_permit (Option.bind (ax_claims ctx) (\<lambda>c. claim c ''capabilities'')) capability)) (\<lambda>ok.
        eff_bind (eff_require ok (err CapabilityNotGranted ''capability not permitted by this JWT'' 403)) (\<lambda>_.
        eff_bind (on_db (grants_findActive (a_id agent) capability)) (\<lambda>found.
        eff_bind (eff_some found
          (err CapabilityNotGranted (''capability not granted: '' @ capability) 403)) (\<lambda>grant.
        eff_bind (eff_sum (validate (g_constraints grant) (nullish (ax_args ctx) []))) (\<lambda>violations.
        eff_bind (eff_require (violations = [])
          (conduit_err ConstraintViolated ''constraint violated'' 403
             [(''violations'', JArr (map violation_json violations))])) (\<lambda>_.
        eff_return (ctx\<lparr>ax_grant := Some grant\<rparr>)))))))))"

section \<open>The pipelines\<close>

text \<open>\<open>JwtPipeline.run\<close>: the stages in order; the first exception ends the run.\<close>

fun run_stages :: "stage list \<Rightarrow> stage" where
  "run_stages [] ctx = eff_return ctx"
| "run_stages (st # sts) ctx = eff_bind (st ctx) (run_stages sts)"

definition buildAgentPipeline :: "pipeline_deps \<Rightarrow> request_clock \<Rightarrow> stage list" where
  "buildAgentPipeline P ck =
     [typCheck P, signatureVerify P ck, claimValidation P (ck_claims ck), stateCheck (ck_state ck),
      capabilityConstraint]"

definition buildHostPipeline :: "pipeline_deps \<Rightarrow> request_clock \<Rightarrow> stage list" where
  "buildHostPipeline P ck =
     [typCheck P, signatureVerify P ck, claimValidation P (ck_claims ck), stateCheck (ck_state ck)]"

definition start_context :: "string \<Rightarrow> jwt_typ \<Rightarrow> string option \<Rightarrow> json_object option \<Rightarrow> auth_context" where
  "start_context token typ capability args =
    \<lparr>ax_token = token, ax_expectedTyp = typ, ax_capability = capability, ax_args = args,
     ax_decodedTyp = None, ax_claims = None, ax_host = None, ax_agent = None, ax_grant = None\<rparr>"

end
