(* ===== verification/Identity_Service.thy ===== *)
theory Identity_Service
  imports State_Machine Js_Text
begin

text \<open>
  \<^verbatim>\<open>identity/identityService.ts\<close>: the operations on hosts, agents, grants, tasks and projects, each
  a composition of repository calls and transitions.  A value of \<open>Date.now()\<close> is an argument, one
  per place that reads the clock; the lifetimes, the issuer and the verifier are what the service
  is constructed with.
\<close>

section \<open>Inputs and results\<close>

record introspection_result =
  ir_active :: bool
  ir_sub :: "json option"
  ir_iss :: "json option"
  ir_aud :: "json option"
  ir_exp :: "json option"
  ir_iat :: "json option"
  ir_jti :: "json option"
  ir_typ :: "string option"
  ir_agent_status :: "string option"
  ir_mode :: "string option"
  ir_capabilities :: "string list option"

record register_agent_input =
  ra_publicKeyJwk :: jwk
  ra_mode :: agent_mode
  ra_requestedCapabilities :: "string list"
  ra_name :: "string option"
  ra_description :: "string option"
  ra_projectId :: "uuid option"

record agent_lifetime_config =
  lc_sessionTtlSeconds :: int
  lc_maxLifetimeSeconds :: int
  lc_absoluteLifetimeSeconds :: int

record grant_capability_input =
  gc_agentId :: uuid
  gc_capability :: string
  gc_connectionId :: "uuid option"
  gc_operation :: "string option"
  gc_constraints :: constraints

record capability_request =
  cq_name :: string
  cq_constraints :: constraints

record task_capability_spec =
  ts_capability :: string
  ts_connectionId :: "uuid option"
  ts_operation :: "string option"
  ts_constraints :: constraints

record create_task_input =
  ct_agentId :: uuid
  ct_name :: string
  ct_purpose :: "string option"
  ct_ttlSeconds :: int
  ct_capabilities :: "task_capability_spec list"

record task_with_grants =
  tg_task :: task
  tg_grants :: "capability_grant list"

record identity_deps =
  id_codec :: codec
  id_crypto :: node_crypto
  id_json :: json_text
  id_lifetimes :: agent_lifetime_config
  id_issuer :: string

section \<open>Shared steps\<close>

definition auditProject :: "uuid \<Rightarrow> string \<Rightarrow> uuid option \<Rightarrow> unit db_op" where
  "auditProject hostId eventType agentId =
     audit_append
       \<lparr>ne_agentId = agentId, ne_hostId = Some hostId, ne_eventType = eventType, ne_capability = None,
        ne_connectionId = None, ne_operation = None, ne_taskId = None, ne_outcome = OutcomeSuccess,
        ne_argsHash = None, ne_durationMs = None\<rparr>"

text \<open>The check every operation on an agent of a host starts with.\<close>

definition owned_agent :: "uuid \<Rightarrow> uuid \<Rightarrow> agent db_op" where
  "owned_agent hostId agentId =
     eff_bind (agents_findById agentId) (\<lambda>found.
     eff_bind (eff_some found (err AgentNotFound ''agent not found'' 404)) (\<lambda>agent.
     eff_bind (eff_require (a_hostId agent = hostId)
       (err Unauthorized ''agent does not belong to this host'' 403)) (\<lambda>_.
     eff_return agent)))"

section \<open>Agents\<close>

definition registerAgent :: "identity_deps \<Rightarrow> millis \<Rightarrow> uuid \<Rightarrow> register_agent_input \<Rightarrow> agent db_op" where
  "registerAgent I now hostId input =
     eff_bind (hosts_findById hostId) (\<lambda>found.
     eff_bind (eff_some found (err HostNotFound ''host not found'' 404)) (\<lambda>host.
     eff_bind (eff_require (h_status host = HostActive)
       (err HostPendingError ''host is not active'' 403)) (\<lambda>_.
     eff_bind (agents_create
       \<lparr>na_hostId = hostId, na_projectId = ra_projectId input,
        na_publicKeyJwk = Some (ra_publicKeyJwk input), na_jwksUrl = None,
        na_name = ra_name input, na_description = ra_description input,
        na_mode = ra_mode input, na_status = AgentPending\<rparr>) (\<lambda>created.
     eff_bind (transitionAgent (id_codec I) (a_id created) AgentActive) (\<lambda>_.
     eff_bind (agents_applyLifetimes (a_id created)
       \<lparr>lt_activatedAt = Some now,
        lt_sessionExpiresAt = Some (now + lc_sessionTtlSeconds (id_lifetimes I) * 1000),
        lt_maxLifetimeExpiresAt = Some (now + lc_maxLifetimeSeconds (id_lifetimes I) * 1000),
        lt_absoluteExpiresAt = Some (now + lc_absoluteLifetimeSeconds (id_lifetimes I) * 1000)\<rparr>) (\<lambda>_.
     eff_bind (agents_findById (a_id created)) (\<lambda>activated.
     eff_some activated (err InternalError ''agent disappeared after activation'' 500))))))))"

definition getAgentStatus :: "uuid \<Rightarrow> agent db_op" where
  "getAgentStatus agentId =
     eff_bind (agents_findById agentId) (\<lambda>found.
     eff_some found (err AgentNotFound ''agent not found'' 404))"

definition revokeAgent :: "identity_deps \<Rightarrow> uuid \<Rightarrow> uuid \<Rightarrow> unit db_op" where
  "revokeAgent I hostId agentId =
     eff_bind (owned_agent hostId agentId) (\<lambda>agent.
     if a_status agent = AgentRevoked then eff_return ()
     else eff_bind (transitionAgent (id_codec I) agentId AgentRevoked) (\<lambda>_. eff_return ()))"

definition updateAgentMetadata ::
  "uuid \<Rightarrow> uuid \<Rightarrow> string option \<Rightarrow> string option \<Rightarrow> unit db_op" where
  "updateAgentMetadata hostId agentId nm descr =
     eff_bind (owned_agent hostId agentId) (\<lambda>_. agents_updateMetadata agentId nm descr)"

definition reactivateAgent :: "identity_deps \<Rightarrow> millis \<Rightarrow> millis \<Rightarrow> uuid \<Rightarrow> uuid \<Rightarrow> agent db_op" where
  "reactivateAgent I now1 now2 hostId agentId =
     eff_bind (owned_agent hostId agentId) (\<lambda>agent.
     eff_bind (eff_require (case a_absoluteExpiresAt agent of None \<Rightarrow> True | Some e \<Rightarrow> \<not> e \<le> now1)
       (err InvalidRequest ''agent has passed its absolute lifetime and cannot be reactivated'' 409)) (\<lambda>_.
     eff_bind (transitionAgent (id_codec I) agentId AgentActive) (\<lambda>_.
     eff_bind (agents_applyLifetimes agentId
       \<lparr>lt_activatedAt = Some now2,
        lt_sessionExpiresAt = Some (now2 + lc_sessionTtlSeconds (id_lifetimes I) * 1000),
        lt_maxLifetimeExpiresAt = Some (now2 + lc_maxLifetimeSeconds (id_lifetimes I) * 1000),
        lt_absoluteExpiresAt = a_absoluteExpiresAt agent\<rparr>) (\<lambda>_.
     eff_bind (agents_findById agentId) (\<lambda>updated.
     eff_some updated (err InternalError ''agent disappeared after reactivation'' 500))))))"

definition rotateAgentKey :: "uuid \<Rightarrow> uuid \<Rightarrow> jwk \<Rightarrow> agent db_op" where
  "rotateAgentKey hostId agentId publicKeyJwk =
     eff_bind (owned_agent hostId agentId) (\<lambda>_.
     eff_bind (agents_updatePublicKey agentId publicKeyJwk) (\<lambda>_.
     eff_bind (agents_findById agentId) (\<lambda>updated.
     eff_some updated (err InternalError ''agent disappeared after key rotation'' 500))))"

section \<open>Grants\<close>

definition crosses_project :: "agent \<Rightarrow> connection option \<Rightarrow> bool" where
  "crosses_project agent conn =
     (case conn of
        None \<Rightarrow> False
      | Some c \<Rightarrow> c_projectId c \<noteq> None \<and> c_projectId c \<noteq> a_projectId agent)"

definition grantCapability :: "uuid \<Rightarrow> grant_capability_input \<Rightarrow> capability_grant db_op" where
  "grantCapability hostId input =
     eff_bind (owned_agent hostId (gc_agentId input)) (\<lambda>agent.
     eff_bind
       (case gc_connectionId input of
          None \<Rightarrow> eff_return ()
        | Some cid \<Rightarrow>
            eff_bind (connections_findById cid) (\<lambda>conn.
            eff_require (\<not> crosses_project agent conn)
              (err InvalidRequest (''connection \"'' @ c_name (the conn) @
                 ''\" belongs to a different project than this agent'') 400))) (\<lambda>_.
     grants_upsert
       \<lparr>ng_agentId = gc_agentId input, ng_capability = gc_capability input,
        ng_connectionId = gc_connectionId input, ng_operation = gc_operation input,
        ng_taskId = None, ng_status = GrantActive, ng_constraints = gc_constraints input,
        ng_grantedBy = Some hostId, ng_expiresAt = None\<rparr>))"

definition request_one :: "uuid \<Rightarrow> capability_request \<Rightarrow> capability_grant db_op" where
  "request_one agentId request =
     eff_bind (grants_findActive agentId (cq_name request)) (\<lambda>active.
     case active of
       Some g \<Rightarrow> eff_return g
     | None \<Rightarrow>
         grants_upsert
           \<lparr>ng_agentId = agentId, ng_capability = cq_name request, ng_connectionId = None,
            ng_operation = None, ng_taskId = None, ng_status = GrantPending,
            ng_constraints = cq_constraints request, ng_grantedBy = None, ng_expiresAt = None\<rparr>)"

definition requestCapability :: "uuid \<Rightarrow> capability_request list \<Rightarrow> capability_grant list db_op" where
  "requestCapability agentId requests =
     eff_bind (agents_findById agentId) (\<lambda>found.
     eff_bind (eff_some found (err AgentNotFound ''agent not found'' 404)) (\<lambda>_.
     eff_mapM (request_one agentId) requests))"

definition listGrants :: "uuid \<Rightarrow> capability_grant list db_op" where
  "listGrants agentId = grants_findForAgent agentId"

section \<open>Hosts\<close>

text \<open>The cascade transitions the agents that were listed as active or expired, one by one.\<close>

definition revoke_listed :: "codec \<Rightarrow> agent \<Rightarrow> unit db_op" where
  "revoke_listed k agent =
     (if a_status agent = AgentActive \<or> a_status agent = AgentExpired
      then eff_bind (transitionAgent k (a_id agent) AgentRevoked) (\<lambda>_. eff_return ())
      else eff_return ())"

definition revokeHost :: "identity_deps \<Rightarrow> uuid \<Rightarrow> unit db_op" where
  "revokeHost I hostId =
     eff_bind (hosts_findById hostId) (\<lambda>found.
     eff_bind (eff_some found (err HostNotFound ''host not found'' 404)) (\<lambda>host.
     if h_status host = HostRevoked then eff_return ()
     else
       eff_bind (transitionHost (id_codec I) hostId HostRevoked) (\<lambda>_.
       eff_bind (agents_listByHost hostId) (\<lambda>agents.
       eff_bind (eff_mapM (revoke_listed (id_codec I)) agents) (\<lambda>_. eff_return ())))))"

definition rotateHostKey :: "identity_deps \<Rightarrow> uuid \<Rightarrow> jwk \<Rightarrow> host db_op" where
  "rotateHostKey I hostId publicKeyJwk =
     eff_bind (hosts_findById hostId) (\<lambda>found.
     eff_bind (eff_some found (err HostNotFound ''host not found'' 404)) (\<lambda>_.
     eff_bind (hosts_updatePublicKey (id_crypto I) hostId publicKeyJwk) (\<lambda>_.
     eff_bind (hosts_findById hostId) (\<lambda>updated.
     eff_some updated (err InternalError ''host disappeared after key rotation'' 500)))))"

section \<open>Introspection\<close>

definition inactive_result :: introspection_result where
  "inactive_result =
    \<lparr>ir_active = False, ir_sub = None, ir_iss = None, ir_aud = None, ir_exp = None, ir_iat = None,
     ir_jti = None, ir_typ = None, ir_agent_status = None, ir_mode = None, ir_capabilities = None\<rparr>"

text \<open>\<open>decoded.claims[field]\<close>, once the claims are known to be no \<^verbatim>\<open>null\<close>.\<close>

definition claim_of :: "decoded_jwt \<Rightarrow> string \<Rightarrow> json option" where
  "claim_of dj field = (case member_of (dj_claims dj) field of Inl e \<Rightarrow> None | Inr v \<Rightarrow> v)"

text \<open>\<open>typeof claims.exp === 'number' && claims.exp <= nowSec\<close>.\<close>

definition introspect_stale :: "identity_deps \<Rightarrow> millis \<Rightarrow> millis \<Rightarrow> decoded_jwt \<Rightarrow> agent \<Rightarrow> bool" where
  "introspect_stale I now1 now2 dj agent \<longleftrightarrow>
     claim_of dj ''aud'' \<noteq> Some (JStr (id_issuer I)) \<or>
     (case claim_of dj ''exp'' of Some (JNum e) \<Rightarrow> e \<le> of_int (now1 div 1000) | _ \<Rightarrow> False) \<or>
     a_status agent \<noteq> AgentActive \<or>
     (case a_sessionExpiresAt agent of None \<Rightarrow> False | Some t \<Rightarrow> t \<le> now2)"

definition introspect_result :: "decoded_jwt \<Rightarrow> agent \<Rightarrow> capability_grant list \<Rightarrow> introspection_result" where
  "introspect_result dj agent grants =
    \<lparr>ir_active = True, ir_sub = claim_of dj ''sub'', ir_iss = claim_of dj ''iss'',
     ir_aud = claim_of dj ''aud'', ir_exp = claim_of dj ''exp'', ir_iat = claim_of dj ''iat'',
     ir_jti = claim_of dj ''jti'', ir_typ = Some ''agent+jwt'',
     ir_agent_status = Some (agent_state_wire (a_status agent)),
     ir_mode = Some (agent_mode_wire (a_mode agent)),
     ir_capabilities = Some (map g_capability (filter (\<lambda>g. g_status g = GrantActive) grants))\<rparr>"

definition introspect :: "identity_deps \<Rightarrow> millis \<Rightarrow> millis \<Rightarrow> string \<Rightarrow> introspection_result db_op" where
  "introspect I now1 now2 token =
     eff_catch
       (eff_bind (eff_sum (decodeJwt (id_json I) token)) (\<lambda>dj.
        if dj_typ dj \<noteq> Some (JStr ''agent+jwt'') then eff_return inactive_result
        else
          eff_bind (eff_sum (member_of (dj_claims dj) ''sub'')) (\<lambda>sub.
          if \<not> member_truthy sub then eff_return inactive_result
          else
            eff_bind (agents_findBySubject (id_codec I) (jt_param (id_json I) (the sub))) (\<lambda>found.
            case found of
              None \<Rightarrow> eff_return inactive_result
            | Some agent \<Rightarrow>
                (case a_publicKeyJwk agent of
                   None \<Rightarrow> eff_return inactive_result
                 | Some key \<Rightarrow>
                     eff_bind (eff_sum (jwt_verify (id_crypto I) (id_json I) token key)) (\<lambda>_.
                     if introspect_stale I now1 now2 dj agent then eff_return inactive_result
                     else
                       eff_bind (grants_findForAgent (a_id agent)) (\<lambda>grants.
                       eff_return (introspect_result dj agent grants))))))))
       (\<lambda>_. eff_return inactive_result)"

section \<open>Tasks\<close>

definition task_expiry :: "millis \<Rightarrow> int \<Rightarrow> millis option" where
  "task_expiry now ttlSeconds = (if 0 < ttlSeconds then Some (now + ttlSeconds * 1000) else None)"

definition grant_for_task ::
  "uuid \<Rightarrow> uuid \<Rightarrow> uuid \<Rightarrow> millis option \<Rightarrow> task_capability_spec \<Rightarrow> capability_grant db_op" where
  "grant_for_task hostId agentId taskId expiresAt spec =
     grants_upsert
       \<lparr>ng_agentId = agentId, ng_capability = ts_capability spec, ng_connectionId = ts_connectionId spec,
        ng_operation = ts_operation spec, ng_taskId = Some taskId, ng_status = GrantActive,
        ng_constraints = ts_constraints spec, ng_grantedBy = Some hostId, ng_expiresAt = expiresAt\<rparr>"

definition createTask :: "millis \<Rightarrow> uuid \<Rightarrow> create_task_input \<Rightarrow> task_with_grants db_op" where
  "createTask now hostId input =
     eff_bind (owned_agent hostId (ct_agentId input)) (\<lambda>_.
     let expiresAt = task_expiry now (ct_ttlSeconds input) in
     eff_bind (tasks_create
       \<lparr>nt_agentId = ct_agentId input, nt_hostId = hostId, nt_name = ct_name input,
        nt_purpose = ct_purpose input, nt_expiresAt = expiresAt\<rparr>) (\<lambda>task.
     eff_bind (eff_mapM (grant_for_task hostId (ct_agentId input) (t_id task) expiresAt)
       (ct_capabilities input)) (\<lambda>grants.
     eff_return \<lparr>tg_task = task, tg_grants = grants\<rparr>)))"

definition completeTask :: "millis \<Rightarrow> uuid \<Rightarrow> uuid \<Rightarrow> task db_op" where
  "completeTask now hostId taskId =
     eff_bind (tasks_findById taskId) (\<lambda>found.
     eff_bind (eff_some found (err InvalidRequest ''task not found'' 404)) (\<lambda>task.
     eff_bind (eff_require (t_hostId task = hostId)
       (err Unauthorized ''task does not belong to this host'' 403)) (\<lambda>_.
     eff_bind (grants_revokeByTask taskId) (\<lambda>_.
     eff_bind (tasks_setStatus taskId TaskCompleted (Some now)) (\<lambda>_.
     eff_bind (tasks_findById taskId) (\<lambda>updated.
     eff_some updated (err InternalError ''task disappeared after completion'' 500)))))))"

definition shown_task :: "millis \<Rightarrow> task \<Rightarrow> task" where
  "shown_task now t =
     (if t_status t = TaskActive \<and> (case t_expiresAt t of None \<Rightarrow> False | Some e \<Rightarrow> e \<le> now)
      then t\<lparr>t_status := TaskExpired\<rparr> else t)"

definition listTasks :: "millis \<Rightarrow> task list db_op" where
  "listTasks now =
     eff_bind (tasks_list \<lparr>q_cursor = None, q_limit = Some 200\<rparr>) (\<lambda>pg.
     eff_return (map (shown_task now) (pg_items pg)))"

section \<open>Projects\<close>

definition createProject :: "uuid \<Rightarrow> string \<Rightarrow> string option \<Rightarrow> project db_op" where
  "createProject hostId nm descr =
     eff_bind (projects_create \<lparr>np_name = nm, np_description = descr\<rparr>) (\<lambda>project.
     eff_bind (auditProject hostId ''project.create'' None) (\<lambda>_. eff_return project))"

definition listProjects :: "project list db_op" where
  "listProjects = projects_list"

definition listed_members :: "uuid \<Rightarrow> agent page \<Rightarrow> connection page \<Rightarrow> nat \<times> nat" where
  "listed_members i agentsPage connsPage =
     (length (filter (\<lambda>a. a_projectId a = Some i) (pg_items agentsPage)),
      length (filter (\<lambda>c. c_projectId c = Some i) (pg_items connsPage)))"

definition members_error :: "nat \<Rightarrow> nat \<Rightarrow> fault" where
  "members_error agentCount connCount =
     err InvalidRequest
       (''project still has '' @ dec agentCount @ '' agent(s) and '' @ dec connCount @
        '' connection(s); reassign them before deleting (delete would make their credentials global)'') 409"

definition deleteProject :: "identity_deps \<Rightarrow> uuid \<Rightarrow> uuid \<Rightarrow> unit db_op" where
  "deleteProject I hostId i =
     eff_bind (agents_list (id_codec I) \<lparr>q_cursor = None, q_limit = Some 1000\<rparr>) (\<lambda>agentsPage.
     eff_bind (connections_list (id_codec I) \<lparr>q_cursor = None, q_limit = Some 1000\<rparr>) (\<lambda>connsPage.
     let (agentCount, connCount) = listed_members i agentsPage connsPage in
     eff_bind (eff_require (agentCount + connCount = 0) (members_error agentCount connCount)) (\<lambda>_.
     eff_bind (projects_delete i) (\<lambda>_.
     auditProject hostId ''project.delete'' None))))"

definition setAgentProject :: "uuid \<Rightarrow> uuid \<Rightarrow> uuid option \<Rightarrow> unit db_op" where
  "setAgentProject hostId agentId projectId =
     eff_bind (owned_agent hostId agentId) (\<lambda>_.
     eff_bind (agents_setProject agentId projectId) (\<lambda>_.
     auditProject hostId ''agent.reassign'' (Some agentId)))"

section \<open>The schema's constraints hold after every operation\<close>

lemma auditProject_keeps [wf_intros]: "evolves (keeps db_wf) (auditProject h e a)"
  unfolding auditProject_def by (intro wf_intros)

end
