(* ===== verification/Credential_Cipher.thy ===== *)
theory Credential_Cipher
  imports Crypto_Jwt
begin

text \<open>
  \<^verbatim>\<open>connections/credentialCipher.ts\<close>: credentials at rest under AES-256-GCM, packed as
  \<open>iv || tag || ciphertext\<close>, and the master key.  The cipher of \<^verbatim>\<open>node:crypto\<close> is a parameter:
  \<open>gcm_seal key iv plaintext\<close> is the tag with the ciphertext, \<open>gcm_open\<close> is \<open>None\<close> when
  the deciphering throws.  A random initialisation vector is an argument.
\<close>

record aes_gcm =
  gcm_seal :: "string \<Rightarrow> string \<Rightarrow> string \<Rightarrow> string \<times> string"
  gcm_open :: "string \<Rightarrow> string \<Rightarrow> string \<Rightarrow> string \<Rightarrow> string option"

definition IV_LEN :: nat where
  "IV_LEN = 12"

definition TAG_LEN :: nat where
  "TAG_LEN = 16"

text \<open>The cipher is its primitive with its key.\<close>

record credential_cipher =
  cc_gcm :: aes_gcm
  cc_key :: string

definition createCredentialCipher :: "aes_gcm \<Rightarrow> string \<Rightarrow> fault + credential_cipher" where
  "createCredentialCipher G masterKey =
     (if length masterKey \<noteq> 32
      then Inl (OtherError ''credential cipher master key must be 32 bytes (AES-256)'')
      else Inr \<lparr>cc_gcm = G, cc_key = masterKey\<rparr>)"

definition cipher_encrypt :: "credential_cipher \<Rightarrow> string \<Rightarrow> string \<Rightarrow> string" where
  "cipher_encrypt C iv plaintext =
     (case gcm_seal (cc_gcm C) (cc_key C) iv plaintext of (tag, enc) \<Rightarrow> iv @ tag @ enc)"

definition cipher_decrypt :: "credential_cipher \<Rightarrow> string \<Rightarrow> fault + string" where
  "cipher_decrypt C buf =
     (let iv = take IV_LEN buf; tag = take TAG_LEN (drop IV_LEN buf); enc = drop (IV_LEN + TAG_LEN) buf in
      case gcm_open (cc_gcm C) (cc_key C) iv tag enc of
        None \<Rightarrow> Inl (OtherError ''Unsupported state or unable to authenticate data'')
      | Some plaintext \<Rightarrow> Inr plaintext)"

text \<open>The value of the environment variable is base64; without one, a fixed development key is derived.\<close>

definition resolveMasterKey :: "node_crypto \<Rightarrow> string \<Rightarrow> string option \<Rightarrow> fault + string" where
  "resolveMasterKey N varName raw =
     (if truthy raw \<and> js_trim (the raw) \<noteq> [] then
        let decoded = from_base64url (js_trim (the raw)) in
        if length decoded \<noteq> 32
        then Inl (OtherError (varName @ '' must be base64-encoded 32 bytes (got '' @ dec (length decoded) @ '')''))
        else Inr decoded
      else Inr (nc_sha256 N ''conduit-dev-master-key-do-not-use-in-production''))"

section \<open>Round trip and integrity\<close>

text \<open>
  What AES-GCM promises: a tag has 16 bytes, what was sealed opens, and with a full vector and a
  full tag only what was sealed under the same key and vector opens.  (\<^verbatim>\<open>node:crypto\<close> also takes
  shorter tags, which a stored value of less than 28 bytes would have.)
\<close>

definition gcm_ok :: "aes_gcm \<Rightarrow> bool" where
  "gcm_ok G \<longleftrightarrow>
     (\<forall>k iv p. length (fst (gcm_seal G k iv p)) = TAG_LEN) \<and>
     (\<forall>k iv p tag enc. length iv = IV_LEN \<longrightarrow> length tag = TAG_LEN \<longrightarrow>
        (gcm_open G k iv tag enc = Some p \<longleftrightarrow> gcm_seal G k iv p = (tag, enc)))"

lemma created_cipher: "createCredentialCipher G k = Inr C \<Longrightarrow> C = \<lparr>cc_gcm = G, cc_key = k\<rparr>"
  by (simp add: createCredentialCipher_def split: if_splits)

lemma decrypt_encrypt_raw:
  assumes "gcm_ok G" and "createCredentialCipher G k = Inr C" and "length iv = IV_LEN"
  shows "cipher_decrypt C (cipher_encrypt C iv p) = Inr p"
proof -
  obtain tag enc where s: "gcm_seal G k iv p = (tag, enc)" by (cases "gcm_seal G k iv p")
  have t: "length tag = TAG_LEN" using assms(1) s unfolding gcm_ok_def by (metis fst_conv)
  then have "gcm_open G k iv tag enc = Some p" using assms(1,3) s unfolding gcm_ok_def by blast
  with assms(3) s t created_cipher [OF assms(2)] show ?thesis
    by (simp add: cipher_encrypt_def cipher_decrypt_def)
qed

lemma decrypt_only_encrypted_raw:
  assumes "gcm_ok G" and "createCredentialCipher G k = Inr C" and "cipher_decrypt C buf = Inr p"
    and "IV_LEN + TAG_LEN \<le> length buf"
  shows "buf = cipher_encrypt C (take IV_LEN buf) p"
proof -
  let ?iv = "take IV_LEN buf" and ?tag = "take TAG_LEN (drop IV_LEN buf)" and ?enc = "drop (IV_LEN + TAG_LEN) buf"
  have "gcm_open G k ?iv ?tag ?enc = Some p"
    using assms(3) created_cipher [OF assms(2)] by (simp add: cipher_decrypt_def Let_def split: option.splits)
  moreover have "length ?iv = IV_LEN" "length ?tag = TAG_LEN" using assms(4) by simp_all
  ultimately have "gcm_seal G k ?iv p = (?tag, ?enc)" using assms(1) unfolding gcm_ok_def by blast
  then have "cipher_encrypt C ?iv p = ?iv @ ?tag @ ?enc"
    using created_cipher [OF assms(2)] by (simp add: cipher_encrypt_def)
  also have "?tag @ ?enc = drop IV_LEN buf" by (metis append_take_drop_id drop_drop add.commute)
  finally show ?thesis by simp
qed

text \<open>
  A stored credential decrypts to what was encrypted, and whatever decrypts at all is, byte for
  byte, an encryption of the result under the gateway's key: a changed vector, tag or ciphertext
  is refused.
\<close>

lemma cipher_roundtrip:
  assumes "gcm_ok G" and "createCredentialCipher G k = Inr C"
  shows "(length iv = IV_LEN \<longrightarrow> cipher_decrypt C (cipher_encrypt C iv p) = Inr p) \<and>
    (IV_LEN + TAG_LEN \<le> length buf \<longrightarrow> cipher_decrypt C buf = Inr q \<longrightarrow>
       buf = cipher_encrypt C (take IV_LEN buf) q)"
  using decrypt_encrypt_raw [OF assms] decrypt_only_encrypted_raw [OF assms] by blast

text \<open>A closed instance that meets the promises: the tag is a padded checksum of all inputs.\<close>

definition sample_gcm :: aes_gcm where
  "sample_gcm =
    \<lparr>gcm_seal = (\<lambda>k iv p. (take TAG_LEN (k @ replicate TAG_LEN CHR ''x''), p)),
     gcm_open = (\<lambda>k iv tag enc. if tag = take TAG_LEN (k @ replicate TAG_LEN CHR ''x'') then Some enc else None)\<rparr>"

lemma sample_gcm_ok: "gcm_ok sample_gcm"
  by (auto simp: gcm_ok_def sample_gcm_def)

definition sample_master_key :: string where
  "sample_master_key = replicate 32 CHR ''k''"

definition sample_cipher :: credential_cipher where
  "sample_cipher = \<lparr>cc_gcm = sample_gcm, cc_key = sample_master_key\<rparr>"

lemma sample_cipher_created: "createCredentialCipher sample_gcm sample_master_key = Inr sample_cipher"
  by (simp add: createCredentialCipher_def sample_master_key_def sample_cipher_def)

lemma cipher_roundtrip_witness:
  "cipher_decrypt sample_cipher (cipher_encrypt sample_cipher (replicate 12 CHR ''i'') ''secret'') = Inr ''secret''"
  using cipher_roundtrip [OF sample_gcm_ok sample_cipher_created] by (simp add: IV_LEN_def)

end
