(* ===== verification/Connector_Drivers.thy ===== *)
theory Connector_Drivers
  imports Constraint_Engine Crypto_Jwt
begin

text \<open>
  \<^verbatim>\<open>packages/connectors\<close>: the driver interface, the registry and the three hand-written drivers.
  \<open>fetch\<close> and the JSON functions are parameters; a request is the text handed to \<open>new URL\<close>, the
  search parameters set on it, and the \<open>init\<close> record, so a text that is no URL is a failure of
  \<open>fetch\<close>.  A credential has the shape the registry service writes: the secret is an object of
  strings, absent when the decrypted value has none.
\<close>

record connector_field =
  cf_key :: string
  cf_label :: string
  cf_secret :: bool
  cf_required :: bool
  cf_placeholder :: "string option"
  cf_help :: "string option"

record operation_descriptor =
  od_name :: string
  od_description :: string
  od_input :: "json_object option"

type_synonym secret = "(string \<times> string) list"

record platform_credential =
  pc_authMethod :: "string option"
  pc_secret :: "secret option"

record execution_context =
  xc_operation :: string
  xc_args :: json_object
  xc_credential :: platform_credential
  xc_options :: json_object

datatype execution_status = StatusOk | StatusError

record execution_result =
  er_status :: execution_status
  er_data :: "json option"

datatype test_depth = Structure | Live

record credential_test =
  tr_ok :: bool
  tr_checked :: test_depth
  tr_detail :: string

record platform_driver =
  dv_platform :: string
  dv_label :: "string option"
  dv_credentialFields :: "connector_field list option"
  dv_docsUrl :: "string option"
  dv_supportedOperations :: "operation_descriptor list"
  dv_supportedAuthMethods :: "string list"
  dv_validateCredential :: "platform_credential \<Rightarrow> fault + bool"
  dv_testCredential :: "(platform_credential \<Rightarrow> fault + credential_test) option"
  dv_execute :: "execution_context \<Rightarrow> fault + execution_result"
  dv_mapError :: "fault \<Rightarrow> fault"

section \<open>Requests\<close>

record http_request =
  rq_url :: string
  rq_params :: "(string \<times> string) list"
  rq_method :: string
  rq_headers :: "(string \<times> string) list"
  rq_body :: "string option"

record http_response =
  rs_status :: nat
  rs_text :: string

record platform_io =
  io_fetch :: "http_request \<Rightarrow> fault + http_response"
  io_json :: json_text

text \<open>\<open>o[k]\<close> and \<open>o[k] = v\<close> on an object of strings; \<open>searchParams.set\<close> works the same.\<close>

definition text_at :: "(string \<times> string) list \<Rightarrow> string \<Rightarrow> string option" where
  "text_at kvs k = map_of (rev kvs) k"

definition put_text :: "string \<Rightarrow> string \<Rightarrow> (string \<times> string) list \<Rightarrow> (string \<times> string) list" where
  "put_text k v kvs = assoc_put k v kvs"

text \<open>\<open>String(v)\<close>.\<close>

definition js_String :: "json_text \<Rightarrow> json \<Rightarrow> string" where
  "js_String J v = (case v of JStr s \<Rightarrow> s | _ \<Rightarrow> jt_text J v)"

definition args_params :: "json_text \<Rightarrow> json_object \<Rightarrow> (string \<times> string) list \<Rightarrow> (string \<times> string) list" where
  "args_params J args ps = fold (\<lambda>(k, v). put_text k (js_String J v)) args ps"

definition response_ok :: "http_response \<Rightarrow> bool" where
  "response_ok r \<longleftrightarrow> 200 \<le> rs_status r \<and> rs_status r \<le> 299"

definition response_data :: "json_text \<Rightarrow> string \<Rightarrow> json" where
  "response_data J txt =
     (if txt = [] then JNull else case jt_parse J txt of None \<Rightarrow> JStr txt | Some j \<Rightarrow> j)"

definition strip_slashes :: "string \<Rightarrow> string" where
  "strip_slashes s = rev (dropWhile (\<lambda>c. c = CHR ''/'') (rev s))"

definition join_url :: "string \<Rightarrow> string \<Rightarrow> string" where
  "join_url baseUrl path = (if starts_with ''/'' path then baseUrl @ path else baseUrl @ ''/'' @ path)"

definition ascii_upper :: "char \<Rightarrow> char" where
  "ascii_upper c = (let n = of_char c :: nat in if 97 \<le> n \<and> n \<le> 122 then char_of (n - 32) else c)"

definition is_letter :: "char \<Rightarrow> bool" where
  "is_letter c \<longleftrightarrow> (let n = of_char (ascii_upper c) :: nat in 65 \<le> n \<and> n \<le> 90)"

text \<open>\<open>Buffer.from(s).toString('base64')\<close>: the standard alphabet, padded.\<close>

definition base64 :: "string \<Rightarrow> string" where
  "base64 s =
     (let t = map (\<lambda>c. if c = CHR ''-'' then CHR ''+'' else if c = CHR ''_'' then CHR ''/'' else c) (base64url s)
      in t @ replicate ((4 - length t mod 4) mod 4) CHR ''='')"

fun fault_message :: "fault \<Rightarrow> string" where
  "fault_message (ConduitError e) = ce_message e"
| "fault_message (OtherError m) = m"

text \<open>\<open>mapError\<close> of the drivers that keep a \<^verbatim>\<open>ConduitError\<close> as it is.\<close>

fun map_driver_error :: "string \<Rightarrow> fault \<Rightarrow> fault" where
  "map_driver_error what (ConduitError e) = ConduitError e"
| "map_driver_error what (OtherError m) = err InternalError (what @ '' request failed: '' @ m) 502"

definition no_secret :: fault where
  "no_secret = OtherError ''Cannot read properties of undefined''"

section \<open>The mock driver\<close>

definition mock_execute :: "execution_context \<Rightarrow> fault + execution_result" where
  "mock_execute ctx =
     Inr \<lparr>er_status = StatusOk,
          er_data = Some (JObj
            [(''operation'', JStr (xc_operation ctx)), (''echo'', JObj (xc_args ctx)),
             (''credentialInjected'', JBool (pc_secret (xc_credential ctx) \<noteq> None))])\<rparr>"

definition mock_mapError :: "fault \<Rightarrow> fault" where
  "mock_mapError e = err InternalError (fault_message e) 502"

definition MockDriver :: platform_driver where
  "MockDriver =
    \<lparr>dv_platform = ''mock'', dv_label = None,
     dv_credentialFields = Some
       [\<lparr>cf_key = ''token'', cf_label = ''Token (any value)'', cf_secret = True, cf_required = True,
         cf_placeholder = Some ''any'', cf_help = None\<rparr>],
     dv_docsUrl = None,
     dv_supportedOperations =
       [\<lparr>od_name = ''echo'', od_description = ''Echo the provided args back (testing connector).'', od_input = None\<rparr>],
     dv_supportedAuthMethods = [''apiKey'', ''bearer'', ''basic'', ''customHeader''],
     dv_validateCredential = (\<lambda>c. Inr True), dv_testCredential = None,
     dv_execute = mock_execute, dv_mapError = mock_mapError\<rparr>"

section \<open>The generic REST driver\<close>

text \<open>\<open>s.split(/\s+/)\<close>.\<close>

function words :: "string \<Rightarrow> string list" where
  "words s =
     (let w = takeWhile (\<lambda>c. \<not> is_space c) s; rest = dropWhile (\<lambda>c. \<not> is_space c) s in
      w # (if rest = [] then [] else words (dropWhile is_space rest)))"
  by pat_completeness auto

termination words
proof (relation "measure length")
  fix s w rest :: string
  assume w: "w = takeWhile (\<lambda>c. \<not> is_space c) s" and r: "rest = dropWhile (\<lambda>c. \<not> is_space c) s" and ne: "rest \<noteq> []"
  from ne obtain c cs where rest: "rest = c # cs" by (meson neq_Nil_conv)
  with r hd_dropWhile [of "\<lambda>c. \<not> is_space c" s] have "is_space c" by (metis list.distinct(1) list.sel(1))
  with rest have "length (dropWhile is_space rest) < length rest"
    by (simp add: le_imp_less_Suc length_dropWhile_le)
  also have "length rest \<le> length s" unfolding r by (rule length_dropWhile_le)
  finally show "(dropWhile is_space rest, s) \<in> measure length" by simp
qed simp

declare words.simps [simp del]

fun join_spaces :: "string list \<Rightarrow> string" where
  "join_spaces [] = []"
| "join_spaces [w] = w"
| "join_spaces (w # ws) = w @ '' '' @ join_spaces ws"

definition parseOperation :: "string \<Rightarrow> string \<times> string" where
  "parseOperation operation =
     (let trimmed = js_trim operation; parts = words trimmed; verb = hd parts in
      if 2 \<le> length parts \<and> verb \<noteq> [] \<and> list_all is_letter verb
      then (map ascii_upper verb, join_spaces (tl parts))
      else (''POST'', trimmed))"

definition first_some :: "'a option \<Rightarrow> 'a option \<Rightarrow> 'a option" where
  "first_some x y = (case x of None \<Rightarrow> y | Some a \<Rightarrow> Some a)"

definition applyAuth :: "string option \<Rightarrow> secret \<Rightarrow> (string \<times> string) list \<Rightarrow> (string \<times> string) list" where
  "applyAuth authMethod s headers =
     (if authMethod = Some ''bearer'' then
        (case first_some (text_at s ''token'') (text_at s ''accessToken'') of
           Some token \<Rightarrow> if token \<noteq> [] then put_text ''authorization'' (''Bearer '' @ token) headers else headers
         | None \<Rightarrow> headers)
      else if authMethod = Some ''apiKey'' then
        (case first_some (text_at s ''value'') (text_at s ''apiKey'') of
           Some v \<Rightarrow> if v \<noteq> [] then put_text (nullish (text_at s ''header'') ''x-api-key'') v headers else headers
         | None \<Rightarrow> headers)
      else if authMethod = Some ''basic'' then
        (case text_at s ''username'' of
           Some username \<Rightarrow>
             put_text ''authorization''
               (''Basic '' @ base64 (username @ '':'' @ nullish (text_at s ''password'') [])) headers
         | None \<Rightarrow> headers)
      else if authMethod = Some ''customHeader'' then
        (if truthy (text_at s ''header'') \<and> truthy (text_at s ''value'')
         then put_text (the (text_at s ''header'')) (the (text_at s ''value'')) headers else headers)
      else headers)"

definition rest_base :: "secret \<Rightarrow> string option" where
  "rest_base s = first_some (text_at s ''baseUrl'') (text_at s ''base_url'')"

definition rest_validateCredential :: "platform_credential \<Rightarrow> fault + bool" where
  "rest_validateCredential c =
     (case pc_secret c of None \<Rightarrow> Inl no_secret | Some s \<Rightarrow> Inr (truthy (rest_base s)))"

definition rest_request :: "json_text \<Rightarrow> execution_context \<Rightarrow> fault + http_request" where
  "rest_request J ctx =
     (case pc_secret (xc_credential ctx) of
        None \<Rightarrow> Inl no_secret
      | Some s \<Rightarrow>
          let baseUrl = strip_slashes (nullish (rest_base s) []) in
          if baseUrl = [] then Inl (err InvalidRequest ''REST connection is missing a baseUrl'' 400)
          else
            let (meth, path) = parseOperation (xc_operation ctx);
                bodyless = (meth = ''GET'' \<or> meth = ''HEAD'')
            in Inr \<lparr>rq_url = join_url baseUrl path,
                    rq_params = (if bodyless then args_params J (xc_args ctx) [] else []),
                    rq_method = meth,
                    rq_headers = applyAuth (pc_authMethod (xc_credential ctx)) s
                      [(''content-type'', ''application/json''), (''accept'', ''application/json''),
                       (''user-agent'', ''agent-conduit'')],
                    rq_body = (if bodyless then None else Some (jt_stringify J (JObj (xc_args ctx))))\<rparr>)"

definition rest_execute :: "platform_io \<Rightarrow> execution_context \<Rightarrow> fault + execution_result" where
  "rest_execute io ctx =
     (case rest_request (io_json io) ctx of
        Inl e \<Rightarrow> Inl e
      | Inr rq \<Rightarrow>
          (case io_fetch io rq of
             Inl e \<Rightarrow> Inl e
           | Inr rs \<Rightarrow>
               Inr \<lparr>er_status = (if response_ok rs then StatusOk else StatusError),
                    er_data = Some (response_data (io_json io) (rs_text rs))\<rparr>))"

definition RestDriver :: "platform_io \<Rightarrow> platform_driver" where
  "RestDriver io =
    \<lparr>dv_platform = ''rest'', dv_label = None,
     dv_credentialFields = Some
       [\<lparr>cf_key = ''baseUrl'', cf_label = ''Base URL'', cf_secret = False, cf_required = True,
         cf_placeholder = Some ''https://api.example.com'', cf_help = None\<rparr>,
        \<lparr>cf_key = ''token'', cf_label = ''Bearer token / API key'', cf_secret = True, cf_required = False,
         cf_placeholder = None, cf_help = Some ''Sent per the selected auth method.''\<rparr>,
        \<lparr>cf_key = ''header'', cf_label = ''Custom header name (apiKey/customHeader)'', cf_secret = False,
         cf_required = False, cf_placeholder = Some ''x-api-key'', cf_help = None\<rparr>,
        \<lparr>cf_key = ''value'', cf_label = ''Custom header value'', cf_secret = True, cf_required = False,
         cf_placeholder = None, cf_help = None\<rparr>],
     dv_docsUrl = None,
     dv_supportedOperations =
       [\<lparr>od_name = ''<METHOD> <path>'',
         od_description = ''Perform a configured HTTP request. The operation is \"METHOD /path\"; args become the JSON body (or query for GET).'',
         od_input = None\<rparr>],
     dv_supportedAuthMethods = [''apiKey'', ''bearer'', ''basic'', ''customHeader''],
     dv_validateCredential = rest_validateCredential, dv_testCredential = None,
     dv_execute = rest_execute io, dv_mapError = map_driver_error ''REST''\<rparr>"

section \<open>The Slack driver\<close>

text \<open>
  The table of methods is a plain object, so the name of a member of \<^verbatim>\<open>Object.prototype\<close> finds a
  function without a method; the request made of it is refused by \<open>fetch\<close> (a body without a
  method).
\<close>

definition SLACK_METHODS :: "(string \<times> string \<times> string) list" where
  "SLACK_METHODS =
     [(''post_message'', ''POST'', ''chat.postMessage''),
      (''list_channels'', ''GET'', ''conversations.list''),
      (''add_reaction'', ''POST'', ''reactions.add'')]"

definition SLACK_API_BASE :: string where
  "SLACK_API_BASE = ''https://slack.com/api''"

definition inherited_name :: "string \<Rightarrow> bool" where
  "inherited_name k \<longleftrightarrow> k \<in> set object_prototype \<or> k = ''__proto__''"

definition slack_request :: "json_text \<Rightarrow> execution_context \<Rightarrow> fault + http_request" where
  "slack_request J ctx =
     (let found = map_of SLACK_METHODS (xc_operation ctx) in
      if found = None \<and> \<not> inherited_name (xc_operation ctx)
      then Inl (err InvalidRequest (''unsupported Slack operation: '' @ xc_operation ctx) 400)
      else case pc_secret (xc_credential ctx) of
             None \<Rightarrow> Inl no_secret
           | Some s \<Rightarrow>
               if \<not> truthy (text_at s ''token'')
               then Inl (err InvalidRequest ''Slack connection is missing a bot token'' 400)
               else case found of
                      None \<Rightarrow> Inl (OtherError ''Request with GET/HEAD method cannot have body.'')
                    | Some (httpMethod, apiMethod) \<Rightarrow>
                        Inr \<lparr>rq_url = SLACK_API_BASE @ ''/'' @ apiMethod,
                             rq_params = (if httpMethod = ''GET'' then args_params J (xc_args ctx) [] else []),
                             rq_method = httpMethod,
                             rq_headers =
                               [(''authorization'', ''Bearer '' @ the (text_at s ''token'')),
                                (''content-type'', ''application/json; charset=utf-8'')],
                             rq_body = (if httpMethod = ''GET'' then None
                                        else Some (jt_stringify J (JObj (xc_args ctx))))\<rparr>)"

definition slack_execute :: "platform_io \<Rightarrow> execution_context \<Rightarrow> fault + execution_result" where
  "slack_execute io ctx =
     (case slack_request (io_json io) ctx of
        Inl e \<Rightarrow> Inl e
      | Inr rq \<Rightarrow>
          (case io_fetch io rq of
             Inl e \<Rightarrow> Inl e
           | Inr rs \<Rightarrow>
               let data = (case jt_parse (io_json io) (rs_text rs) of
                             None \<Rightarrow> JObj [(''ok'', JBool False), (''error'', JStr ''invalid_json'')]
                           | Some j \<Rightarrow> j)
               in case member_of data ''ok'' of
                    Inl e \<Rightarrow> Inl e
                  | Inr v \<Rightarrow>
                      Inr \<lparr>er_status = (if member_truthy v then StatusOk else StatusError),
                           er_data = Some data\<rparr>))"

definition slack_validateCredential :: "platform_credential \<Rightarrow> fault + bool" where
  "slack_validateCredential c =
     (case pc_secret c of None \<Rightarrow> Inl no_secret | Some s \<Rightarrow> Inr (truthy (text_at s ''token'')))"

definition slack_test_detail :: "json_text \<Rightarrow> json \<Rightarrow> string" where
  "slack_test_detail J data =
     (let field = (\<lambda>k. case member_of data k of Inl e \<Rightarrow> None | Inr v \<Rightarrow> v) in
      if member_truthy (field ''ok'')
      then ''authenticated'' @ (if member_truthy (field ''team'') then '' as '' @ js_String J (the (field ''team'')) else [])
      else ''auth.test failed: '' @
           (case field ''error'' of None \<Rightarrow> ''unknown'' | Some JNull \<Rightarrow> ''unknown'' | Some v \<Rightarrow> js_String J v))"

definition slack_testCredential :: "platform_io \<Rightarrow> platform_credential \<Rightarrow> fault + credential_test" where
  "slack_testCredential io c =
     (case pc_secret c of
        None \<Rightarrow> Inl no_secret
      | Some s \<Rightarrow>
          if \<not> truthy (text_at s ''token'')
          then Inr \<lparr>tr_ok = False, tr_checked = Structure, tr_detail = ''missing bot token''\<rparr>
          else case io_fetch io
                 \<lparr>rq_url = SLACK_API_BASE @ ''/auth.test'', rq_params = [], rq_method = ''POST'',
                  rq_headers = [(''authorization'', ''Bearer '' @ the (text_at s ''token''))], rq_body = None\<rparr> of
                 Inl e \<Rightarrow> Inr \<lparr>tr_ok = False, tr_checked = Live, tr_detail = fault_message e\<rparr>
               | Inr rs \<Rightarrow>
                   let data = (case jt_parse (io_json io) (rs_text rs) of
                                 None \<Rightarrow> JObj [(''ok'', JBool False)] | Some j \<Rightarrow> j)
                   in case member_of data ''ok'' of
                        Inl e \<Rightarrow> Inr \<lparr>tr_ok = False, tr_checked = Live, tr_detail = fault_message e\<rparr>
                      | Inr v \<Rightarrow>
                          Inr \<lparr>tr_ok = member_truthy v, tr_checked = Live,
                               tr_detail = slack_test_detail (io_json io) data\<rparr>)"

definition SlackDriver :: "platform_io \<Rightarrow> platform_driver" where
  "SlackDriver io =
    \<lparr>dv_platform = ''slack'', dv_label = None,
     dv_credentialFields = Some
       [\<lparr>cf_key = ''token'', cf_label = ''Bot token'', cf_secret = True, cf_required = True,
         cf_placeholder = Some ''xoxb-...'', cf_help = Some ''Bot User OAuth Token from your Slack app.''\<rparr>],
     dv_docsUrl = Some ''https://api.slack.com/apps'',
     dv_supportedOperations =
       [\<lparr>od_name = ''post_message'', od_description = ''Post a message to a channel (args: channel, text).'', od_input = None\<rparr>,
        \<lparr>od_name = ''list_channels'', od_description = ''List channels visible to the credential.'', od_input = None\<rparr>,
        \<lparr>od_name = ''add_reaction'', od_description = ''Add an emoji reaction (args: channel, timestamp, name).'', od_input = None\<rparr>],
     dv_supportedAuthMethods = [''bearer''],
     dv_validateCredential = slack_validateCredential,
     dv_testCredential = Some (slack_testCredential io),
     dv_execute = slack_execute io, dv_mapError = map_driver_error ''Slack''\<rparr>"

section \<open>The registry\<close>

text \<open>A \<^verbatim>\<open>Map\<close> in insertion order: registering a platform again replaces its driver in place.\<close>

type_synonym connector_registry = "platform_driver list"

definition registry_register :: "platform_driver \<Rightarrow> connector_registry \<Rightarrow> connector_registry" where
  "registry_register d ds =
     (if dv_platform d \<in> set (map dv_platform ds)
      then map (\<lambda>x. if dv_platform x = dv_platform d then d else x) ds else ds @ [d])"

definition registry_get :: "connector_registry \<Rightarrow> string \<Rightarrow> platform_driver option" where
  "registry_get ds platform = find (\<lambda>d. dv_platform d = platform) ds"

definition registry_list :: "connector_registry \<Rightarrow> platform_driver list" where
  "registry_list ds = ds"

definition coreDrivers :: "platform_io \<Rightarrow> platform_driver list" where
  "coreDrivers io = [MockDriver, RestDriver io, SlackDriver io]"

end
