(* ===== verification/Connection_Service.thy ===== *)
theory Connection_Service
  imports Storage_Repos Credential_Cipher Connector_Drivers
begin

text \<open>
  \<^verbatim>\<open>connections/connectionRegistry.ts\<close>: the administration of platform credentials and of the
  authorizations of agents to use them.  The connector registry is optional, as in the source; the
  initialisation vector an encryption draws and the time of a test are arguments.
\<close>

record register_connection_input =
  rc_name :: string
  rc_platform :: string
  rc_authMethod :: "string option"
  rc_secret :: secret
  rc_allowedOperations :: "string list"
  rc_projectId :: "uuid option"

record update_connection_input =
  uc_name :: "string option"
  uc_allowedOperations :: "string list option"
  uc_authMethod :: "string option"
  uc_secret :: "secret option"
  uc_projectId :: "uuid option option"

record connection_deps =
  kd_codec :: codec
  kd_cipher :: credential_cipher
  kd_json :: json_text
  kd_connectors :: "connector_registry option"

section \<open>Credentials\<close>

definition credential_json :: "string option \<Rightarrow> secret \<Rightarrow> json" where
  "credential_json authMethod s =
     JObj [(''authMethod'', JStr (nullish authMethod ''bearer'')),
           (''secret'', JObj (map (\<lambda>(k, v). (k, JStr v)) s))]"

definition seal_credential :: "connection_deps \<Rightarrow> string \<Rightarrow> string option \<Rightarrow> secret \<Rightarrow> string" where
  "seal_credential D iv authMethod s =
     cipher_encrypt (kd_cipher D) iv (jt_stringify (kd_json D) (credential_json authMethod s))"

text \<open>
  \<open>JSON.parse(\<dots>) as PlatformCredential\<close>: the cast checks nothing; only what the service wrote is
  stored, and other shapes leave the member they lack undefined.
\<close>

definition as_credential :: "json \<Rightarrow> platform_credential" where
  "as_credential j =
    \<lparr>pc_authMethod = (case member_of j ''authMethod'' of Inr (Some (JStr m)) \<Rightarrow> Some m | _ \<Rightarrow> None),
     pc_secret = (case member_of j ''secret'' of
         Inr (Some (JObj kvs)) \<Rightarrow> Some (concat (map (\<lambda>(k, v). case v of JStr t \<Rightarrow> [(k, t)] | _ \<Rightarrow> []) kvs))
       | _ \<Rightarrow> None)\<rparr>"

definition open_credential :: "credential_cipher \<Rightarrow> json_text \<Rightarrow> string \<Rightarrow> fault + platform_credential" where
  "open_credential C J encrypted =
     (case cipher_decrypt C encrypted of
        Inl e \<Rightarrow> Inl e
      | Inr txt \<Rightarrow> (case jt_parse J txt of None \<Rightarrow> Inl (OtherError ''SyntaxError'') | Some j \<Rightarrow> Inr (as_credential j)))"

definition connection_missing :: fault where
  "connection_missing = err InvalidRequest ''connection not found'' 404"

definition existing_connection :: "uuid \<Rightarrow> connection db_op" where
  "existing_connection i =
     eff_bind (connections_findById i) (\<lambda>found. eff_some found connection_missing)"

section \<open>Connections\<close>

definition registerConnection :: "connection_deps \<Rightarrow> string \<Rightarrow> register_connection_input \<Rightarrow> connection db_op" where
  "registerConnection D iv input =
     connections_create
       \<lparr>nn_name = rc_name input, nn_projectId = rc_projectId input, nn_platform = rc_platform input,
        nn_credentialEncrypted = seal_credential D iv (rc_authMethod input) (rc_secret input),
        nn_allowedOperations = rc_allowedOperations input\<rparr>"

definition listConnections :: "connection_deps \<Rightarrow> connection list db_op" where
  "listConnections D =
     eff_bind (connections_list (kd_codec D) \<lparr>q_cursor = None, q_limit = Some 200\<rparr>) (\<lambda>page.
     eff_return (pg_items page))"

definition updateConnection ::
  "connection_deps \<Rightarrow> string \<Rightarrow> uuid \<Rightarrow> update_connection_input \<Rightarrow> connection db_op" where
  "updateConnection D iv i input =
     eff_bind (existing_connection i) (\<lambda>_.
     eff_bind (connections_update i
       \<lparr>cu_name = uc_name input, cu_allowedOperations = uc_allowedOperations input,
        cu_credentialEncrypted = map_option (seal_credential D iv (uc_authMethod input)) (uc_secret input),
        cu_projectId = uc_projectId input\<rparr>) (\<lambda>updated.
     eff_some updated (err InternalError ''connection update failed'' 500)))"

definition deleteConnection :: "uuid \<Rightarrow> unit db_op" where
  "deleteConnection i = eff_bind (existing_connection i) (\<lambda>_. connections_delete i)"

definition driver_for :: "connector_registry option \<Rightarrow> string \<Rightarrow> platform_driver option" where
  "driver_for reg platform = Option.bind reg (\<lambda>ds. registry_get ds platform)"

definition no_driver :: "string \<Rightarrow> fault" where
  "no_driver platform = err InvalidRequest (''no driver for platform \"'' @ platform @ ''\"'') 400"

text \<open>A driver without a test of its own is tested by its structural validation.\<close>

definition run_credential_test :: "platform_driver \<Rightarrow> platform_credential \<Rightarrow> fault + credential_test" where
  "run_credential_test driver credential =
     (case dv_testCredential driver of
        Some test \<Rightarrow> test credential
      | None \<Rightarrow>
          (case dv_validateCredential driver credential of
             Inl e \<Rightarrow> Inl e
           | Inr ok \<Rightarrow>
               Inr \<lparr>tr_ok = ok, tr_checked = Structure,
                    tr_detail = (if ok then ''credential fields present''
                                 else ''missing required credential fields'')\<rparr>))"

definition testConnection :: "connection_deps \<Rightarrow> millis \<Rightarrow> uuid \<Rightarrow> credential_test db_op" where
  "testConnection D now i =
     eff_bind (existing_connection i) (\<lambda>conn.
     eff_bind (eff_some (driver_for (kd_connectors D) (c_platform conn)) (no_driver (c_platform conn))) (\<lambda>driver.
     eff_bind (connections_getEncryptedCredential i) (\<lambda>encrypted.
     eff_bind (eff_some encrypted (err InternalError ''connection credential missing'' 500)) (\<lambda>bytes.
     eff_bind (eff_sum (open_credential (kd_cipher D) (kd_json D) bytes)) (\<lambda>credential.
     eff_bind (eff_sum (run_credential_test driver credential)) (\<lambda>result.
     eff_bind (connections_recordTest i (tr_ok result) (tr_detail result) now) (\<lambda>_.
     eff_return result)))))))"

section \<open>Authorizations\<close>

definition connection_audit :: "string \<Rightarrow> uuid \<Rightarrow> uuid \<Rightarrow> uuid \<Rightarrow> unit db_op" where
  "connection_audit eventType hostId agentId connectionId =
     audit_append
       \<lparr>ne_agentId = Some agentId, ne_hostId = Some hostId, ne_eventType = eventType, ne_capability = None,
        ne_connectionId = Some connectionId, ne_operation = None, ne_taskId = None,
        ne_outcome = OutcomeSuccess, ne_argsHash = None, ne_durationMs = None\<rparr>"

definition hosted_agent :: "uuid \<Rightarrow> uuid \<Rightarrow> agent db_op" where
  "hosted_agent hostId agentId =
     eff_bind (agents_findById agentId) (\<lambda>found.
     eff_bind (eff_some found (err AgentNotFound ''agent not found'' 404)) (\<lambda>agent.
     eff_bind (eff_require (a_hostId agent = hostId)
       (err Unauthorized ''agent does not belong to this host'' 403)) (\<lambda>_.
     eff_return agent)))"

text \<open>
  What the operations of an authorization are checked against: the list of the connection, or the
  concrete operations of its driver; nothing if both are empty.
\<close>

definition operation_universe :: "connector_registry option \<Rightarrow> connection \<Rightarrow> string list" where
  "operation_universe reg conn =
     (if c_allowedOperations conn \<noteq> [] then c_allowedOperations conn
      else case driver_for reg (c_platform conn) of
             None \<Rightarrow> []
           | Some driver \<Rightarrow> filter (\<lambda>n. CHR ''<'' \<notin> set n) (map od_name (dv_supportedOperations driver)))"

definition unknown_operations :: "connector_registry option \<Rightarrow> connection \<Rightarrow> string list \<Rightarrow> string list" where
  "unknown_operations reg conn ops =
     (let universe = operation_universe reg conn in
      if universe = [] then [] else filter (\<lambda>op. op \<notin> set universe) ops)"

fun join_commas :: "string list \<Rightarrow> string" where
  "join_commas [] = []"
| "join_commas [w] = w"
| "join_commas (w # ws) = w @ '', '' @ join_commas ws"

definition other_project :: "connection \<Rightarrow> agent \<Rightarrow> bool" where
  "other_project conn agent \<longleftrightarrow> c_projectId conn \<noteq> None \<and> c_projectId conn \<noteq> a_projectId agent"

definition attachConnection ::
  "connection_deps \<Rightarrow> uuid \<Rightarrow> uuid \<Rightarrow> uuid \<Rightarrow> string list \<Rightarrow> int option \<Rightarrow> connection_grant db_op" where
  "attachConnection D hostId agentId connectionId allowedOperations rateLimit =
     eff_bind (hosted_agent hostId agentId) (\<lambda>agent.
     eff_bind (existing_connection connectionId) (\<lambda>conn.
     eff_bind (eff_require (\<not> other_project conn agent)
       (err InvalidRequest (''connection \"'' @ c_name conn @
          ''\" belongs to a different project than this agent'') 400)) (\<lambda>_.
     let invalid = unknown_operations (kd_connectors D) conn allowedOperations in
     eff_bind (eff_require (invalid = [])
       (err InvalidRequest (''unknown operation(s) for \"'' @ c_platform conn @ ''\": '' @ join_commas invalid) 400)) (\<lambda>_.
     eff_bind (connGrants_upsert agentId connectionId allowedOperations rateLimit) (\<lambda>grant.
     eff_bind (connection_audit ''connection.attach'' hostId agentId connectionId) (\<lambda>_.
     eff_return grant))))))"

definition detachConnection :: "uuid \<Rightarrow> uuid \<Rightarrow> uuid \<Rightarrow> unit db_op" where
  "detachConnection hostId agentId connectionId =
     eff_bind (hosted_agent hostId agentId) (\<lambda>_.
     eff_bind (connGrants_delete agentId connectionId) (\<lambda>_.
     connection_audit ''connection.detach'' hostId agentId connectionId))"

text \<open>The grant, with the name and the platform of its connection.\<close>

definition shown_connection :: "connection_grant \<Rightarrow> (connection_grant \<times> string \<times> string) db_op" where
  "shown_connection g =
     eff_bind (connections_findById (cg_connectionId g)) (\<lambda>conn.
     eff_return (g, case conn of None \<Rightarrow> (''unknown'', ''rest'') | Some c \<Rightarrow> (c_name c, c_platform c)))"

definition listAgentConnections :: "uuid \<Rightarrow> (connection_grant \<times> string \<times> string) list db_op" where
  "listAgentConnections agentId =
     eff_bind (connGrants_listByAgent agentId) (\<lambda>grants. eff_mapM shown_connection grants)"

end
