(* ===== verification/Rate_Limiter.thy ===== *)
theory Rate_Limiter
  imports Core_Types
begin

text \<open>
  \<^verbatim>\<open>server/rateLimiter.ts\<close>: the in-memory fixed-window rate limiter and its middleware.  The
  locale \<open>fixed_window\<close> states what a fixed window counts; it is interpreted here for the limiter
  of the HTTP middleware, and again for the per-connection counters of the proxy.
\<close>

record bucket =
  b_count :: nat
  b_resetAt :: millis

type_synonym 'k buckets = "'k \<Rightarrow> bucket option"

record 'k limiter =
  lm_buckets :: "'k buckets"
  lm_lastSweep :: millis

definition sweep_buckets :: "millis \<Rightarrow> 'k buckets \<Rightarrow> 'k buckets" where
  "sweep_buckets t m =
     (\<lambda>k. case m k of None \<Rightarrow> None | Some b \<Rightarrow> if b_resetAt b \<le> t then None else Some b)"

text \<open>The bucket a hit at time \<open>t\<close> is counted in.\<close>

definition current_bucket :: "millis \<Rightarrow> millis \<Rightarrow> bucket option \<Rightarrow> bucket" where
  "current_bucket window t b =
     (case b of
        None \<Rightarrow> \<lparr>b_count = 0, b_resetAt = t + window\<rparr>
      | Some b' \<Rightarrow> if b_resetAt b' \<le> t then \<lparr>b_count = 0, b_resetAt = t + window\<rparr> else b')"

definition hit :: "bucket \<Rightarrow> bucket" where
  "hit b = b\<lparr>b_count := b_count b + 1\<rparr>"

definition retry_after :: "millis \<Rightarrow> bucket \<Rightarrow> int" where
  "retry_after t b = max 1 (ceil_div (b_resetAt b - t) 1000)"

definition createRateLimiter :: "millis \<Rightarrow> 'k limiter" where
  "createRateLimiter now = \<lparr>lm_buckets = (\<lambda>k. None), lm_lastSweep = now\<rparr>"

definition limiter_check ::
  "millis \<Rightarrow> int \<Rightarrow> 'k \<Rightarrow> millis \<Rightarrow> 'k limiter \<Rightarrow> (bool \<times> int) \<times> 'k limiter" where
  "limiter_check windowMs limit key t lm =
     (let lm1 = (if windowMs < t - lm_lastSweep lm
                 then \<lparr>lm_buckets = sweep_buckets t (lm_buckets lm), lm_lastSweep = t\<rparr> else lm);
          bucket = hit (current_bucket windowMs t (lm_buckets lm1 key));
          lm2 = lm1\<lparr>lm_buckets := (lm_buckets lm1)(key := Some bucket)\<rparr>
      in if limit < int (b_count bucket) then ((False, retry_after t bucket), lm2) else ((True, 0), lm2))"

text \<open>
  The middleware: an exempted request passes uncounted, a refused one gets the \<^verbatim>\<open>Retry-After\<close>
  value in the error.
\<close>

definition rateLimit ::
  "millis \<Rightarrow> int \<Rightarrow> bool \<Rightarrow> 'k \<Rightarrow> millis \<Rightarrow> (fault, 'k limiter, unit) eff" where
  "rateLimit windowMs limit skip key t lm =
     (if skip then (Inr (), lm)
      else case limiter_check windowMs limit key t lm of
             ((allowed, retryAfterSeconds), lm') \<Rightarrow>
               if \<not> allowed
               then (Inl (conduit_err RateLimited ''rate limit exceeded'' 429
                       [(''retry_after'', jint retryAfterSeconds)]), lm')
               else (Inr (), lm'))"

section \<open>The contract of a fixed window\<close>

definition live_bucket :: "millis \<Rightarrow> bucket option \<Rightarrow> bucket option" where
  "live_bucket t b = (case b of None \<Rightarrow> None | Some b' \<Rightarrow> if b_resetAt b' \<le> t then None else Some b')"

lemma live_bucket_Some: "live_bucket t x = Some b \<longleftrightarrow> x = Some b \<and> t < b_resetAt b"
  by (auto simp: live_bucket_def split: option.splits if_splits)

lemma live_bucket_mono: "live_bucket t x = None \<Longrightarrow> t \<le> t' \<Longrightarrow> live_bucket t' x = None"
  by (auto simp: live_bucket_def split: option.splits if_splits)

lemma current_bucket_live:
  "current_bucket w t b =
    (case live_bucket t b of None \<Rightarrow> \<lparr>b_count = 0, b_resetAt = t + w\<rparr> | Some b' \<Rightarrow> b')"
  by (auto simp: current_bucket_def live_bucket_def split: option.splits)

lemma hit_simps [simp]: "b_count (hit b) = b_count b + 1" "b_resetAt (hit b) = b_resetAt b"
  by (simp_all add: hit_def)

locale fixed_window =
  fixes check :: "int \<Rightarrow> 'k \<Rightarrow> millis \<Rightarrow> 's \<Rightarrow> bool \<times> 's"
    and view :: "'s \<Rightarrow> 'k \<Rightarrow> bucket option"
    and window :: millis
  assumes window_pos: "0 < window"
    and check_self: "check l k t s = (ok, s') \<Longrightarrow>
        view s' k = Some (hit (current_bucket window t (view s k))) \<and>
        (ok \<longleftrightarrow> int (b_count (current_bucket window t (view s k))) + 1 \<le> l)"
    and check_other: "check l k t s = (ok, s') \<Longrightarrow> k' \<noteq> k \<Longrightarrow> t \<le> t' \<Longrightarrow>
        live_bucket t' (view s' k') = live_bucket t' (view s k')"
begin

text \<open>The number of admitted requests of one key in a sequence of requests.\<close>

fun admitted :: "int \<Rightarrow> 'k \<Rightarrow> ('k \<times> millis) list \<Rightarrow> 's \<Rightarrow> nat" where
  "admitted l k [] s = 0"
| "admitted l k ((k', t) # es) s =
     (if k' = k \<and> fst (check l k' t s) then 1 else 0) + admitted l k es (snd (check l k' t s))"

lemma admitted_in_bucket:
  assumes "view s k = Some b" and "\<forall>e \<in> set es. snd e < b_resetAt b"
  shows "admitted l k es s \<le> nat l - b_count b"
  using assms
proof (induction es arbitrary: s b)
  case (Cons e es)
  obtain k' t where e: "e = (k', t)" by (cases e)
  obtain ok s' where run: "check l k' t s = (ok, s')" by (cases "check l k' t s")
  have t: "t < b_resetAt b" using Cons.prems(2) e by simp
  show ?case
  proof (cases "k' = k")
    case True
    have cur: "current_bucket window t (view s k) = b" using Cons.prems(1) t by (simp add: current_bucket_def)
    have s': "view s' k = Some (hit b)" and ok: "ok \<longleftrightarrow> int (b_count b) + 1 \<le> l"
      using check_self [OF run] True cur by auto
    have "admitted l k es s' \<le> nat l - b_count (hit b)"
      by (rule Cons.IH [OF s']) (use Cons.prems(2) in simp)
    with run True ok show ?thesis by (auto simp: e)
  next
    case False
    have "live_bucket t (view s' k) = live_bucket t (view s k)"
      by (rule check_other [OF run]) (use False in auto)
    also have "\<dots> = Some b" using Cons.prems(1) t by (simp add: live_bucket_Some)
    finally have "view s' k = Some b" by (simp add: live_bucket_Some)
    then have "admitted l k es s' \<le> nat l - b_count b"
      by (rule Cons.IH) (use Cons.prems(2) in simp)
    with run False show ?thesis by (simp add: e)
  qed
qed simp

lemma admitted_fresh:
  assumes "live_bucket t0 (view s k) = None" and "sorted (map snd es)"
    and "\<forall>e \<in> set es. t0 \<le> snd e \<and> T \<le> snd e \<and> snd e < T + window"
  shows "admitted l k es s \<le> nat l"
  using assms
proof (induction es arbitrary: s t0)
  case (Cons e es)
  obtain k' t where e: "e = (k', t)" by (cases e)
  obtain ok s' where run: "check l k' t s = (ok, s')" by (cases "check l k' t s")
  have none: "live_bucket t (view s k) = None"
    by (rule live_bucket_mono [OF Cons.prems(1)]) (use Cons.prems(3) e in simp)
  show ?case
  proof (cases "k' = k")
    case True
    have cur: "current_bucket window t (view s k) = \<lparr>b_count = 0, b_resetAt = t + window\<rparr>"
      using none by (simp add: current_bucket_live)
    have s': "view s' k = Some (hit \<lparr>b_count = 0, b_resetAt = t + window\<rparr>)" and ok: "ok \<longleftrightarrow> 1 \<le> l"
      using check_self [OF run] True cur by auto
    have "T \<le> t" using Cons.prems(3) e by simp
    then have "admitted l k es s' \<le> nat l - 1"
      using admitted_in_bucket [OF s', of es l] Cons.prems(3) by fastforce
    with run True ok show ?thesis by (auto simp: e)
  next
    case False
    have "live_bucket t (view s' k) = None"
      using check_other [OF run, of k t] False none by simp
    moreover have "\<forall>e \<in> set es. t \<le> snd e" using Cons.prems(2) e by auto
    ultimately have "admitted l k es s' \<le> nat l"
      using Cons.IH [of t s'] Cons.prems(2,3) by simp
    with run False show ?thesis by (simp add: e)
  qed
qed simp

lemma admitted_in_window:
  assumes "sorted (map snd es)" and "\<forall>e \<in> set es. T \<le> snd e \<and> snd e < T + window"
  shows "admitted l k es s \<le> 2 * nat l"
proof -
  have "admitted l k es s \<le> (nat l - b_count b) + nat l" if "view s k = Some b" "T < b_resetAt b" for b
    using assms that
  proof (induction es arbitrary: s b)
    case (Cons e es)
    obtain k' t where e: "e = (k', t)" by (cases e)
    obtain ok s' where run: "check l k' t s = (ok, s')" by (cases "check l k' t s")
    show ?case
    proof (cases "b_resetAt b \<le> t")
      case True
      then have "live_bucket t (view s k) = None" using Cons.prems(3) by (simp add: live_bucket_def)
      then have "admitted l k (e # es) s \<le> nat l"
        by (rule admitted_fresh [where T = T]) (use Cons.prems(1,2) e in auto)
      then show ?thesis by simp
    next
      case False
      show ?thesis
      proof (cases "k' = k")
        case True
        have cur: "current_bucket window t (view s k) = b" using Cons.prems(3) False by (simp add: current_bucket_def)
        have s': "view s' k = Some (hit b)" and ok: "ok \<longleftrightarrow> int (b_count b) + 1 \<le> l"
          using check_self [OF run] True cur by auto
        have "admitted l k es s' \<le> (nat l - b_count (hit b)) + nat l"
          by (rule Cons.IH [OF _ _ s']) (use Cons.prems in auto)
        with run True ok show ?thesis by (auto simp: e)
      next
        case other: False
        have "live_bucket t (view s' k) = live_bucket t (view s k)"
          by (rule check_other [OF run]) (use other in auto)
        also have "\<dots> = Some b" using Cons.prems(3) False by (simp add: live_bucket_Some)
        finally have s': "view s' k = Some b" by (simp add: live_bucket_Some)
        have "admitted l k es s' \<le> (nat l - b_count b) + nat l"
          by (rule Cons.IH [OF _ _ s']) (use Cons.prems in auto)
        with run other show ?thesis by (simp add: e)
      qed
    qed
  qed simp
  moreover have "admitted l k es s \<le> nat l" if "live_bucket T (view s k) = None"
    by (rule admitted_fresh [OF that assms(1), where T = T]) (use assms(2) in auto)
  ultimately show ?thesis
    using live_bucket_Some [of T "view s k"] by (cases "live_bucket T (view s k)") force+
qed

text \<open>A refused request that waits as long as it is told to is admitted, whatever the other keys do meanwhile.\<close>

lemma others_keep_view:
  assumes "\<forall>e \<in> set es. fst e \<noteq> k \<and> snd e \<le> t'"
  shows "live_bucket t' (view (fold (\<lambda>(j, u) s. snd (check l j u s)) es s) k) = live_bucket t' (view s k)"
  using assms
proof (induction es arbitrary: s)
  case (Cons e es)
  obtain j u where e: "e = (j, u)" by (cases e)
  have "live_bucket t' (view (snd (check l j u s)) k) = live_bucket t' (view s k)"
    by (rule check_other [of l j u s "fst (check l j u s)"]) (use Cons.prems e in auto)
  with Cons e show ?case by simp
qed simp

lemma retry_suffices:
  assumes "check l k t s = (False, s')" and "0 < l"
    and "t + retry_after t (hit (current_bucket window t (view s k))) * 1000 \<le> t'"
    and "\<forall>e \<in> set es. fst e \<noteq> k \<and> snd e \<le> t'"
    and "check l k t' (fold (\<lambda>(j, u) s. snd (check l j u s)) es s') = (ok, s2)"
  shows ok
proof -
  let ?b = "current_bucket window t (view s k)"
  have s': "view s' k = Some (hit ?b)" using check_self [OF assms(1)] by simp
  have "b_resetAt ?b - t \<le> retry_after t (hit ?b) * 1000"
    using ceil_div_bounds(1) [of 1000 "b_resetAt ?b - t"] by (simp add: retry_after_def max_def)
  then have "b_resetAt ?b \<le> t'" using assms(3) by linarith
  then have "live_bucket t' (view s' k) = None" using s' by (simp add: live_bucket_def)
  then have "current_bucket window t' (view (fold (\<lambda>(j, u) s. snd (check l j u s)) es s') k) =
      \<lparr>b_count = 0, b_resetAt = t' + window\<rparr>"
    using others_keep_view [OF assms(4)] by (simp add: current_bucket_live)
  with check_self [OF assms(5)] assms(2) show ok by simp
qed

end

section \<open>The limiter of the middleware\<close>

definition limiter_admits :: "millis \<Rightarrow> int \<Rightarrow> 'k \<Rightarrow> millis \<Rightarrow> 'k limiter \<Rightarrow> bool \<times> 'k limiter" where
  "limiter_admits w l k t lm = (fst (fst (limiter_check w l k t lm)), snd (limiter_check w l k t lm))"

lemma sweep_live: "t \<le> t' \<Longrightarrow> live_bucket t' (sweep_buckets t m k) = live_bucket t' (m k)"
  by (auto simp: sweep_buckets_def live_bucket_def split: option.splits)

lemma sweep_current: "current_bucket w t (sweep_buckets t m k) = current_bucket w t (m k)"
  by (simp add: current_bucket_live sweep_live)

lemma limiter_contract:
  "0 < w \<Longrightarrow> fixed_window (limiter_admits w) lm_buckets w"
  by unfold_locales
    (auto simp: limiter_admits_def limiter_check_def Let_def sweep_current sweep_live split: if_splits)

interpretation http_limit: fixed_window "limiter_admits 60000" lm_buckets 60000
  by (rule limiter_contract) simp

interpretation register_limit: fixed_window "limiter_admits 3600000" lm_buckets 3600000
  by (rule limiter_contract) simp

text \<open>
  C18: The per-address limiter of the HTTP surface admits at most twice its limit within any
  minute, and at most its limit from the first request of a window on, whatever the other clients
  do in between.
\<close>

lemma http_limit_bound:
  assumes "sorted (map snd es)" and "\<forall>e \<in> set es. T \<le> snd e \<and> snd e < T + 60000"
  shows "http_limit.admitted l k es lm \<le> 2 * nat l \<and>
    (live_bucket T (lm_buckets lm k) = None \<longrightarrow> http_limit.admitted l k es lm \<le> nat l)"
  using http_limit.admitted_in_window [OF assms] http_limit.admitted_fresh [OF _ assms(1), where T = T] assms(2)
  by blast

lemma http_limit_bound_witness:
  "http_limit.admitted 1 ''a'' [(''a'', 59000), (''a'', 59500), (''b'', 60000), (''a'', 60500)]
     (createRateLimiter 0\<lparr>lm_buckets := [''a'' \<mapsto> \<lparr>b_count = 0, b_resetAt = 60000\<rparr>]\<rparr>) = 2"
proof -
  let ?es = "[(''a'', 59000), (''a'', 59500), (''b'', 60000), (''a'', 60500 :: millis)]"
  let ?lm = "createRateLimiter 0\<lparr>lm_buckets := [''a'' \<mapsto> \<lparr>b_count = 0, b_resetAt = 60000\<rparr>]\<rparr>"
  have "sorted (map snd ?es)" "\<forall>e \<in> set ?es. 59000 \<le> snd e \<and> snd e < (59000::int) + 60000" by simp_all
  from http_limit_bound [OF this, of 1 "''a''" ?lm]
  have "http_limit.admitted 1 ''a'' ?es ?lm \<le> 2" by simp
  moreover have "http_limit.admitted 1 ''a'' ?es ?lm = 2"
    by (simp add: limiter_admits_def limiter_check_def Let_def createRateLimiter_def current_bucket_def
        sweep_buckets_def hit_def)
  ultimately show ?thesis by simp
qed




end
