(* ===== verification/Policy_Engine.thy ===== *)
theory Policy_Engine
  imports Js_Text
begin

text \<open>
  \<^verbatim>\<open>policy/risk.ts\<close> and \<^verbatim>\<open>policy/policyEngine.ts\<close>: the risk level of a request, from the verbs in
  the operation and the capability name, and the ordered rule set.
\<close>

section \<open>Risk\<close>

definition WRITE :: "string list" where
  "WRITE = [''create'', ''send'', ''post'', ''delete'', ''update'', ''write'', ''rotate'', ''revoke'',
    ''remove'', ''put'', ''patch'', ''add'', ''merge'', ''deploy'']"

definition READ :: "string list" where
  "READ = [''list'', ''get'', ''search'', ''read'', ''describe'', ''fetch'', ''query'', ''status'', ''view'']"

text \<open>\<open>re.test(text)\<close> for an alternation of words, ignoring case.\<close>

definition mentions :: "string list \<Rightarrow> string \<Rightarrow> bool" where
  "mentions ws t = list_ex (\<lambda>w. contains w (map ascii_lower t)) ws"

definition riskLevel :: "string option \<Rightarrow> string \<Rightarrow> risk_level" where
  "riskLevel operation capability =
     (let txt = nullish operation '''' @ '' '' @ capability in
      if mentions WRITE txt then RiskHigh else if mentions READ txt then RiskLow else RiskMed)"

section \<open>Rules\<close>

definition listMatches :: "string list option \<Rightarrow> string \<Rightarrow> bool" where
  "listMatches vs actual =
     (case vs of
        None \<Rightarrow> True
      | Some xs \<Rightarrow> xs = [] \<or> ''*'' \<in> set xs \<or> actual \<in> set xs)"

definition ruleMatches :: "policy_rule \<Rightarrow> policy_context \<Rightarrow> bool" where
  "ruleMatches rule ctx \<longleftrightarrow>
     listMatches (pr_agentModes rule) (px_agentMode ctx) \<and>
     listMatches (pr_capabilities rule) (px_capability ctx) \<and>
     listMatches (pr_platforms rule) (px_platform ctx) \<and>
     listMatches (pr_operations rule) (px_operation ctx) \<and>
     (case pr_minRisk rule of None \<Rightarrow> True | Some m \<Rightarrow> riskRank m \<le> riskRank (px_risk ctx))"

fun first_match :: "policy_rule list \<Rightarrow> policy_context \<Rightarrow> policy_decision option" where
  "first_match [] ctx = None"
| "first_match (rule # rs) ctx =
     (if ruleMatches rule ctx then Some \<lparr>pd_effect = pr_effect rule, pd_ruleId = Some (pr_id rule)\<rparr>
      else first_match rs ctx)"

definition evaluate :: "policy_config \<Rightarrow> policy_context \<Rightarrow> policy_decision" where
  "evaluate config ctx =
     (if \<not> pc_enabled config then \<lparr>pd_effect = Allow, pd_ruleId = None\<rparr>
      else case first_match (pc_rules config) ctx of
             Some verdict \<Rightarrow> verdict
           | None \<Rightarrow> \<lparr>pd_effect = pc_defaultEffect config, pd_ruleId = None\<rparr>)"

section \<open>Lemmas\<close>

text \<open>A word without the separator that occurs in two texts joined by it occurs in one of them.\<close>

lemma contains_sep:
  assumes "sep \<notin> set p"
  shows "contains p (s @ sep # t) \<longleftrightarrow> contains p s \<or> contains p t"
proof (cases "p = []")
  case True
  then show ?thesis by (auto simp: contains_iff)
next
  case False
  show ?thesis
    unfolding contains_iff
  proof
    assume "\<exists>u v. s @ sep # t = u @ p @ v"
    then obtain u v where e: "s @ sep # t = u @ p @ v" by blast
    from e obtain us where "s = u @ us \<and> us @ sep # t = p @ v \<or> s @ us = u \<and> sep # t = us @ p @ v"
      by (auto simp: append_eq_append_conv2)
    then show "(\<exists>u v. s = u @ p @ v) \<or> (\<exists>u v. t = u @ p @ v)"
    proof (elim disjE conjE)
      assume s: "s = u @ us" and "us @ sep # t = p @ v"
      then obtain ws where "us = p @ ws \<and> ws @ sep # t = v \<or> us @ ws = p \<and> sep # t = ws @ v"
        by (auto simp: append_eq_append_conv2)
      moreover have "\<not> (us @ ws = p \<and> sep # t = ws @ v \<and> ws \<noteq> [])"
        using assms by (auto simp: Cons_eq_append_conv)
      ultimately have "\<exists>ws. us = p @ ws" by auto
      with s show ?thesis by auto
    next
      assume "s @ us = u" and e: "sep # t = us @ p @ v"
      show ?thesis
      proof (cases us)
        case Nil
        with e False assms show ?thesis by (auto simp: Cons_eq_append_conv)
      next
        case (Cons x xs)
        with e show ?thesis by auto
      qed
    qed
  next
    assume "(\<exists>u v. s = u @ p @ v) \<or> (\<exists>u v. t = u @ p @ v)"
    then show "\<exists>u v. s @ sep # t = u @ p @ v"
      by (elim disjE exE) (metis append.assoc append_Cons)+
  qed
qed

lemma mentions_sep:
  assumes "\<forall>w \<in> set ws. CHR '' '' \<notin> set w"
  shows "mentions ws (s @ '' '' @ t) \<longleftrightarrow> mentions ws s \<or> mentions ws t"
proof -
  have "ascii_lower (CHR '' '') = CHR '' ''" by code_simp
  then have "map ascii_lower (s @ '' '' @ t) = map ascii_lower s @ CHR '' '' # map ascii_lower t" by simp
  then show ?thesis using assms by (auto simp: mentions_def list_ex_iff contains_sep)
qed

lemma riskLevel_split:
  "riskLevel operation capability =
    (if mentions WRITE (nullish operation '''') \<or> mentions WRITE capability then RiskHigh
     else if mentions READ (nullish operation '''') \<or> mentions READ capability then RiskLow else RiskMed)"
proof -
  have "\<forall>w \<in> set WRITE. CHR '' '' \<notin> set w" "\<forall>w \<in> set READ. CHR '' '' \<notin> set w" by code_simp+
  from this [THEN mentions_sep] show ?thesis by (simp add: riskLevel_def Let_def)
qed

text \<open>
  A request ranks high exactly when its operation or its capability name contains one of the
  write verbs, in any case; a read verb in the other name, or in the same one, does not lower it,
  and no verb is found across the seam between the two names.
\<close>

lemma risk_high_iff:
  "riskLevel operation capability = RiskHigh \<longleftrightarrow>
     (\<exists>w \<in> set WRITE. contains w (map ascii_lower (nullish operation '''')) \<or>
        contains w (map ascii_lower capability))"
  unfolding riskLevel_split by (auto simp: mentions_def list_ex_iff)

lemma first_match_split:
  "first_match rs ctx = (case List.find (\<lambda>r. ruleMatches r ctx) rs of None \<Rightarrow> None
     | Some r \<Rightarrow> Some \<lparr>pd_effect = pr_effect r, pd_ruleId = Some (pr_id r)\<rparr>)"
  by (induction rs) simp_all

lemma find_split:
  "List.find p xs = Some x \<Longrightarrow> \<exists>pre post. xs = pre @ x # post \<and> p x \<and> (\<forall>y \<in> set pre. \<not> p y)"
proof (induction xs)
  case (Cons y ys)
  show ?case
  proof (cases "p y")
    case True
    with Cons.prems have "y # ys = [] @ x # ys \<and> p x \<and> (\<forall>z \<in> set []. \<not> p z)" by simp
    then show ?thesis by blast
  next
    case False
    with Cons obtain pre post where "ys = pre @ x # post" "p x" "\<forall>z \<in> set pre. \<not> p z" by auto
    with False have "y # ys = (y # pre) @ x # post \<and> p x \<and> (\<forall>z \<in> set (y # pre). \<not> p z)" by simp
    then show ?thesis by blast
  qed
qed simp

text \<open>
  C33: An enabled policy is decided by the first rule that matches and by the default effect when none
  does: rules after the first match, and rules that do not match, have no influence.
\<close>

lemma evaluate_first_match:
  assumes "pc_enabled config"
  shows "evaluate config ctx = verdict \<longleftrightarrow>
    (\<exists>pre r post. pc_rules config = pre @ r # post \<and> ruleMatches r ctx \<and>
       (\<forall>q \<in> set pre. \<not> ruleMatches q ctx) \<and> verdict = \<lparr>pd_effect = pr_effect r, pd_ruleId = Some (pr_id r)\<rparr>) \<or>
    (\<forall>q \<in> set (pc_rules config). \<not> ruleMatches q ctx) \<and>
       verdict = \<lparr>pd_effect = pc_defaultEffect config, pd_ruleId = None\<rparr>"
proof (cases "List.find (\<lambda>r. ruleMatches r ctx) (pc_rules config)")
  case None
  then have none: "\<forall>q \<in> set (pc_rules config). \<not> ruleMatches q ctx" by (auto simp: find_None_iff)
  with None assms show ?thesis by (auto simp: evaluate_def first_match_split)
next
  case (Some r)
  then obtain pre post where split: "pc_rules config = pre @ r # post"
    and m: "ruleMatches r ctx" and pre: "\<forall>q \<in> set pre. \<not> ruleMatches q ctx"
    using find_split [OF Some] by blast
  have uniq: "r' = r" if "pc_rules config = pre' @ r' # post'" "ruleMatches r' ctx"
    "\<forall>q \<in> set pre'. \<not> ruleMatches q ctx" for pre' r' post'
  proof -
    have "List.find (\<lambda>r. ruleMatches r ctx) (pc_rules config) = Some r'"
      unfolding that(1) using that(2,3) by (induction pre') auto
    with Some show ?thesis by simp
  qed
  from Some assms have ev: "evaluate config ctx = \<lparr>pd_effect = pr_effect r, pd_ruleId = Some (pr_id r)\<rparr>"
    by (simp add: evaluate_def first_match_split)
  have none: "\<not> (\<forall>q \<in> set (pc_rules config). \<not> ruleMatches q ctx)" using split m by simp
  show ?thesis
    unfolding ev
  proof (rule iffI)
    assume "\<lparr>pd_effect = pr_effect r, pd_ruleId = Some (pr_id r)\<rparr> = verdict"
    with split m pre show "(\<exists>pre r post. pc_rules config = pre @ r # post \<and> ruleMatches r ctx \<and>
       (\<forall>q \<in> set pre. \<not> ruleMatches q ctx) \<and> verdict = \<lparr>pd_effect = pr_effect r, pd_ruleId = Some (pr_id r)\<rparr>) \<or>
      (\<forall>q \<in> set (pc_rules config). \<not> ruleMatches q ctx) \<and>
       verdict = \<lparr>pd_effect = pc_defaultEffect config, pd_ruleId = None\<rparr>" by blast
  next
    assume "(\<exists>pre r post. pc_rules config = pre @ r # post \<and> ruleMatches r ctx \<and>
       (\<forall>q \<in> set pre. \<not> ruleMatches q ctx) \<and> verdict = \<lparr>pd_effect = pr_effect r, pd_ruleId = Some (pr_id r)\<rparr>) \<or>
      (\<forall>q \<in> set (pc_rules config). \<not> ruleMatches q ctx) \<and>
       verdict = \<lparr>pd_effect = pc_defaultEffect config, pd_ruleId = None\<rparr>"
    with none uniq show "\<lparr>pd_effect = pr_effect r, pd_ruleId = Some (pr_id r)\<rparr> = verdict" by blast
  qed
qed

definition sample_rule :: "string \<Rightarrow> policy_effect \<Rightarrow> risk_level option \<Rightarrow> policy_rule" where
  "sample_rule i e m =
    \<lparr>pr_id = i, pr_description = None, pr_effect = e, pr_agentModes = None, pr_capabilities = None,
     pr_platforms = Some [''slack''], pr_operations = None, pr_minRisk = m\<rparr>"

definition sample_policy :: policy_config where
  "sample_policy =
    \<lparr>pc_enabled = True, pc_defaultEffect = Allow,
     pc_rules = [sample_rule ''hi'' RequireApproval (Some RiskHigh), sample_rule ''all'' Deny None]\<rparr>"

definition sample_context :: "risk_level \<Rightarrow> policy_context" where
  "sample_context r =
    \<lparr>px_agentMode = ''delegated'', px_capability = ''c'', px_platform = ''slack'', px_operation = ''o'', px_risk = r\<rparr>"

lemma evaluate_first_match_witness:
  "evaluate sample_policy (sample_context RiskLow) = \<lparr>pd_effect = Deny, pd_ruleId = Some ''all''\<rparr>"
proof -
  have e: "pc_enabled sample_policy" by code_simp
  have "pc_rules sample_policy = [sample_rule ''hi'' RequireApproval (Some RiskHigh)] @ sample_rule ''all'' Deny None # []"
    by code_simp
  moreover have "ruleMatches (sample_rule ''all'' Deny None) (sample_context RiskLow)"
    "\<forall>q \<in> set [sample_rule ''hi'' RequireApproval (Some RiskHigh)]. \<not> ruleMatches q (sample_context RiskLow)"
    "\<lparr>pd_effect = Deny, pd_ruleId = Some ''all''\<rparr> =
       \<lparr>pd_effect = pr_effect (sample_rule ''all'' Deny None), pd_ruleId = Some (pr_id (sample_rule ''all'' Deny None))\<rparr>"
    by code_simp+
  ultimately show ?thesis
    unfolding evaluate_first_match [OF e] by (intro disjI1 exI conjI)
qed

end
