(* ===== verification/Connection_Proxy.thy ===== *)
theory Connection_Proxy
  imports Connection_Service Rate_Limiter Policy_Engine
begin

text \<open>
  \<^verbatim>\<open>connections/connectionProxy.ts\<close>: the execution of a capability once the pipeline has let the
  request through.  The state is the database and the per-process counters of the connection rate
  limits, keyed by agent and connection; a run is the sequence of checks of the source, and the
  \<open>finally\<close> block writes the audit entry whatever the driver did.
\<close>

record proxy_deps =
  xd_crypto :: node_crypto
  xd_json :: json_text
  xd_cipher :: credential_cipher
  xd_connectors :: connector_registry
  xd_policy :: "policy_config option"

record proxy_state =
  xs_db :: db
  xs_limiter :: "(uuid \<times> uuid) limiter"

text \<open>The values of \<open>Date.now()\<close> at the start, in the rate limit and in the \<open>finally\<close> block.\<close>

record execute_clock =
  ek_start :: millis
  ek_rate :: millis
  ek_end :: millis

type_synonym 'a proxy_op = "(fault, proxy_state, 'a) eff"

definition on_xdb :: "'a db_op \<Rightarrow> 'a proxy_op" where
  "on_xdb = eff_lift xs_db (\<lambda>d s. s\<lparr>xs_db := d\<rparr>)"

definition on_limiter :: "(fault, (uuid \<times> uuid) limiter, 'a) eff \<Rightarrow> 'a proxy_op" where
  "on_limiter = eff_lift xs_limiter (\<lambda>l s. s\<lparr>xs_limiter := l\<rparr>)"

text \<open>\<open>digest('hex')\<close>.\<close>

definition hex_text :: "string \<Rightarrow> string" where
  "hex_text s = concat (map (\<lambda>c. let n = of_char c :: nat in
     map (\<lambda>d. if d < 10 then char_of (48 + d) else char_of (87 + d)) [n div 16, n mod 16]) s)"

definition hashArgs :: "node_crypto \<Rightarrow> json_text \<Rightarrow> json_object \<Rightarrow> string" where
  "hashArgs N J args = hex_text (nc_sha256 N (jt_stringify J (JObj args)))"

section \<open>The rate limit of a connection grant\<close>

definition proxy_sweep :: "millis \<Rightarrow> 'k limiter \<Rightarrow> 'k limiter" where
  "proxy_sweep now lm =
     (if now - lm_lastSweep lm < 60000 then lm
      else \<lparr>lm_buckets = sweep_buckets now (lm_buckets lm), lm_lastSweep = now\<rparr>)"

definition proxy_limit :: "int \<Rightarrow> 'k \<Rightarrow> millis \<Rightarrow> (fault, 'k limiter, unit) eff" where
  "proxy_limit limit key now lm =
     (let lm1 = proxy_sweep now lm;
          bucket = hit (current_bucket 60000 now (lm_buckets lm1 key));
          lm2 = lm1\<lparr>lm_buckets := (lm_buckets lm1)(key := Some bucket)\<rparr>
      in if limit < int (b_count bucket)
         then (Inl (conduit_err RateLimited ''connection rate limit exceeded'' 429
                 [(''retry_after'', jint (retry_after now bucket))]), lm2)
         else (Inr (), lm2))"

section \<open>The checks\<close>

definition not_granted :: "string \<Rightarrow> fault" where
  "not_granted m = err CapabilityNotGranted m 403"

definition check_connection :: "agent \<Rightarrow> string \<Rightarrow> connection \<Rightarrow> unit proxy_op" where
  "check_connection agent operation conn =
     eff_bind (eff_require (\<not> other_project conn agent)
       (not_granted (''connection \"'' @ c_name conn @ ''\" belongs to a different project''))) (\<lambda>_.
     eff_require (c_allowedOperations conn = [] \<or> operation \<in> set (c_allowedOperations conn))
       (not_granted (''operation \"'' @ operation @ ''\" is not in the allowed set for connection \"'' @
          c_name conn @ ''\"'')))"

definition check_connector_grant :: "millis \<Rightarrow> agent \<Rightarrow> uuid \<Rightarrow> string \<Rightarrow> connection \<Rightarrow> unit proxy_op" where
  "check_connector_grant now agent connectionId operation conn =
     eff_bind (on_xdb (connGrants_listByAgent (a_id agent))) (\<lambda>connectorGrants.
     if connectorGrants = [] then eff_return ()
     else
       eff_bind (eff_some (find (\<lambda>g. cg_connectionId g = connectionId) connectorGrants)
         (not_granted (''agent is not authorized to use connection \"'' @ c_name conn @ ''\"''))) (\<lambda>authz.
       eff_bind (eff_require (cg_allowedOperations authz = [] \<or> operation \<in> set (cg_allowedOperations authz))
         (not_granted (''operation \"'' @ operation @ ''\" is not permitted on connection \"'' @
            c_name conn @ ''\" for this agent''))) (\<lambda>_.
       case cg_rateLimit authz of
         None \<Rightarrow> eff_return ()
       | Some limit \<Rightarrow>
           if 0 < limit then on_limiter (proxy_limit limit (a_id agent, connectionId) now) else eff_return ())))"

fun risk_wire :: "risk_level \<Rightarrow> string" where
  "risk_wire RiskLow = ''low''"
| "risk_wire RiskMed = ''med''"
| "risk_wire RiskHigh = ''high''"

definition request_context :: "agent \<Rightarrow> string \<Rightarrow> string \<Rightarrow> connection \<Rightarrow> policy_context" where
  "request_context agent capability operation conn =
    \<lparr>px_agentMode = agent_mode_wire (a_mode agent), px_capability = capability,
     px_platform = c_platform conn, px_operation = operation,
     px_risk = riskLevel (Some operation) capability\<rparr>"

definition policy_fault :: "policy_decision \<Rightarrow> risk_level \<Rightarrow> fault" where
  "policy_fault verdict risk =
     conduit_err (if pd_effect verdict = RequireApproval then ApprovalRequired else PolicyDenied)
       (''blocked by policy'' @
        (if truthy (pd_ruleId verdict) then '' (rule '' @ the (pd_ruleId verdict) @ '')'' else '' (default effect)''))
       403
       ((if truthy (pd_ruleId verdict) then [(''rule_id'', JStr (the (pd_ruleId verdict)))] else []) @
        [(''risk'', JStr (risk_wire risk))])"

definition check_policy ::
  "policy_config option \<Rightarrow> agent \<Rightarrow> string \<Rightarrow> string \<Rightarrow> connection \<Rightarrow> unit proxy_op" where
  "check_policy policy agent capability operation conn =
     (case policy of
        None \<Rightarrow> eff_return ()
      | Some config \<Rightarrow>
          let ctx = request_context agent capability operation conn; verdict = evaluate config ctx in
          eff_require (pd_effect verdict = Allow) (policy_fault verdict (px_risk ctx)))"

section \<open>The driver run\<close>

definition run_outcome :: "fault + execution_result \<Rightarrow> audit_outcome" where
  "run_outcome r =
     (case r of Inl e \<Rightarrow> OutcomeError | Inr x \<Rightarrow> if er_status x = StatusOk then OutcomeSuccess else OutcomeError)"

definition execute_entry ::
  "proxy_deps \<Rightarrow> execute_clock \<Rightarrow> agent \<Rightarrow> capability_grant \<Rightarrow> json_object \<Rightarrow> audit_outcome \<Rightarrow> new_audit_entry" where
  "execute_entry X ck agent grant args outcome =
    \<lparr>ne_agentId = Some (a_id agent), ne_hostId = Some (a_hostId agent), ne_eventType = ''capability.execute'',
     ne_capability = Some (g_capability grant), ne_connectionId = g_connectionId grant,
     ne_operation = g_operation grant, ne_taskId = g_taskId grant, ne_outcome = outcome,
     ne_argsHash = Some (hashArgs (xd_crypto X) (xd_json X) args),
     ne_durationMs = Some (ek_end ck - ek_start ck)\<rparr>"

text \<open>\<open>try { \<dots> } catch { throw driver.mapError(err) } finally { await append(\<dots>) }\<close>.\<close>

definition run_driver ::
  "proxy_deps \<Rightarrow> execute_clock \<Rightarrow> agent \<Rightarrow> capability_grant \<Rightarrow> json_object \<Rightarrow> platform_driver
     \<Rightarrow> execution_context \<Rightarrow> execution_result proxy_op" where
  "run_driver X ck agent grant args driver ctx =
     (let r = dv_execute driver ctx in
      eff_bind (on_xdb (audit_append (execute_entry X ck agent grant args (run_outcome r)))) (\<lambda>_.
      case r of Inl e \<Rightarrow> eff_throw (dv_mapError driver e) | Inr x \<Rightarrow> eff_return x))"

definition execute ::
  "proxy_deps \<Rightarrow> execute_clock \<Rightarrow> agent \<Rightarrow> capability_grant \<Rightarrow> json_object \<Rightarrow> execution_result proxy_op" where
  "execute X ck agent grant args =
     (case (g_connectionId grant, g_operation grant) of
        (Some connectionId, Some operation) \<Rightarrow>
          if operation = [] then eff_throw (err InvalidRequest ''capability has no connection/operation mapping'' 400)
          else
            eff_bind (on_xdb (existing_connection connectionId)) (\<lambda>conn.
            eff_bind (check_connection agent operation conn) (\<lambda>_.
            eff_bind (check_connector_grant (ek_rate ck) agent connectionId operation conn) (\<lambda>_.
            eff_bind (check_policy (xd_policy X) agent (g_capability grant) operation conn) (\<lambda>_.
            eff_bind (eff_some (registry_get (xd_connectors X) (c_platform conn)) (no_driver (c_platform conn))) (\<lambda>driver.
            eff_bind (on_xdb (connections_getEncryptedCredential connectionId)) (\<lambda>encrypted.
            eff_bind (eff_some encrypted (err InternalError ''connection credential missing'' 500)) (\<lambda>bytes.
            eff_bind (eff_sum (open_credential (xd_cipher X) (xd_json X) bytes)) (\<lambda>credential.
            run_driver X ck agent grant args driver
              \<lparr>xc_operation = operation, xc_args = args, xc_credential = credential, xc_options = []\<rparr>))))))))
      | _ \<Rightarrow> eff_throw (err InvalidRequest ''capability has no connection/operation mapping'' 400))"

end
