(* ===== verification/Runtime_Settings.thy ===== *)
theory Runtime_Settings
  imports Ip_Address Policy_Engine
begin

text \<open>
  \<^verbatim>\<open>server/runtimeSettings.ts\<close>: the settings an operator changes at run time.  A patch is the body
  of a request, so it is a JSON value; everything in it is checked and falls back to the current
  value.
\<close>

record rate_limit_settings =
  rl_enabled :: bool
  rl_perIpPerMinute :: int
  rl_registerPerHourPerIp :: int

record runtime_settings =
  st_rateLimit :: rate_limit_settings
  st_ipFilter :: ip_filter_config
  st_allowPrivateHosts :: bool
  st_dpop :: bool
  st_mtls :: bool
  st_policy :: policy_config

text \<open>\<open>v?.[k]\<close>: members of values that are no objects are undefined.\<close>

definition jget :: "json \<Rightarrow> string \<Rightarrow> json option" where
  "jget v k = (case v of JObj kvs \<Rightarrow> field_of kvs k | _ \<Rightarrow> None)"

definition clampInt :: "json option \<Rightarrow> int \<Rightarrow> int" where
  "clampInt v fallback = (case v of Some (JNum q) \<Rightarrow> if 0 \<le> \<lfloor>q\<rfloor> then \<lfloor>q\<rfloor> else fallback | _ \<Rightarrow> fallback)"

definition bool_or :: "json option \<Rightarrow> bool \<Rightarrow> bool" where
  "bool_or v fallback = (case v of Some (JBool b) \<Rightarrow> b | _ \<Rightarrow> fallback)"

definition text_of :: "json option \<Rightarrow> string option" where
  "text_of v = (case v of Some (JStr s) \<Rightarrow> Some s | _ \<Rightarrow> None)"

section \<open>Rules\<close>

definition effect_of :: "json option \<Rightarrow> policy_effect option" where
  "effect_of v =
     (if v = Some (JStr ''allow'') then Some Allow else if v = Some (JStr ''deny'') then Some Deny
      else if v = Some (JStr ''require_approval'') then Some RequireApproval else None)"

definition risk_of :: "json option \<Rightarrow> risk_level option" where
  "risk_of v =
     (if v = Some (JStr ''low'') then Some RiskLow else if v = Some (JStr ''med'') then Some RiskMed
      else if v = Some (JStr ''high'') then Some RiskHigh else None)"

definition texts_in :: "json list \<Rightarrow> string list" where
  "texts_in xs = concat (map (\<lambda>x. case x of JStr s \<Rightarrow> [s] | _ \<Rightarrow> []) xs)"

definition strArray :: "json option \<Rightarrow> string list option" where
  "strArray v = (case v of Some (JArr xs) \<Rightarrow> Some (texts_in xs) | _ \<Rightarrow> None)"

definition sanitizeRule :: "json \<Rightarrow> policy_rule option" where
  "sanitizeRule raw =
     (case (text_of (jget raw ''id''), effect_of (jget raw ''effect'')) of
        (Some i, Some e) \<Rightarrow>
          Some \<lparr>pr_id = i, pr_description = text_of (jget raw ''description''), pr_effect = e,
                pr_agentModes = strArray (jget raw ''agentModes''),
                pr_capabilities = strArray (jget raw ''capabilities''),
                pr_platforms = strArray (jget raw ''platforms''),
                pr_operations = strArray (jget raw ''operations''),
                pr_minRisk = risk_of (jget raw ''minRisk'')\<rparr>
      | _ \<Rightarrow> None)"

definition sanitizeRules :: "json \<Rightarrow> policy_rule list" where
  "sanitizeRules input = (case input of JArr xs \<Rightarrow> List.map_filter sanitizeRule xs | _ \<Rightarrow> [])"

section \<open>The update\<close>

definition merge_rateLimit :: "json \<Rightarrow> rate_limit_settings \<Rightarrow> rate_limit_settings" where
  "merge_rateLimit p c =
    \<lparr>rl_enabled = bool_or (jget p ''enabled'') (rl_enabled c),
     rl_perIpPerMinute = clampInt (jget p ''perIpPerMinute'') (rl_perIpPerMinute c),
     rl_registerPerHourPerIp = clampInt (jget p ''registerPerHourPerIp'') (rl_registerPerHourPerIp c)\<rparr>"

definition merge_ipFilter :: "json \<Rightarrow> ip_filter_config \<Rightarrow> ip_filter_config" where
  "merge_ipFilter p c =
    \<lparr>if_enabled = bool_or (jget p ''enabled'') (if_enabled c),
     if_mode = (if jget p ''mode'' = Some (JStr ''allow'') then AllowMode
                else if jget p ''mode'' = Some (JStr ''deny'') then DenyMode else if_mode c),
     if_entries = (case jget p ''entries'' of
         Some (JArr xs) \<Rightarrow> filter (\<lambda>e. e \<noteq> []) (map js_trim (texts_in xs))
       | _ \<Rightarrow> if_entries c)\<rparr>"

definition merge_policy :: "json \<Rightarrow> policy_config \<Rightarrow> policy_config" where
  "merge_policy p c =
    \<lparr>pc_enabled = bool_or (jget p ''enabled'') (pc_enabled c),
     pc_defaultEffect = (if jget p ''defaultEffect'' = Some (JStr ''deny'') then Deny
                         else if jget p ''defaultEffect'' = Some (JStr ''allow'') then Allow
                         else pc_defaultEffect c),
     pc_rules = (case jget p ''rules'' of Some r \<Rightarrow> sanitizeRules r | None \<Rightarrow> pc_rules c)\<rparr>"

text \<open>A section of the patch counts when it is truthy.\<close>

definition patch_section :: "json \<Rightarrow> string \<Rightarrow> (json \<Rightarrow> 'a \<Rightarrow> 'a) \<Rightarrow> 'a \<Rightarrow> 'a" where
  "patch_section patch k merge c =
     (if member_truthy (jget patch k) then merge (the (jget patch k)) c else c)"

definition settings_update :: "json \<Rightarrow> runtime_settings \<Rightarrow> runtime_settings" where
  "settings_update patch c =
    \<lparr>st_rateLimit = patch_section patch ''rateLimit'' merge_rateLimit (st_rateLimit c),
     st_ipFilter = patch_section patch ''ipFilter'' merge_ipFilter (st_ipFilter c),
     st_allowPrivateHosts =
       patch_section patch ''jwks'' (\<lambda>p. bool_or (jget p ''allowPrivateHosts'')) (st_allowPrivateHosts c),
     st_dpop = patch_section patch ''dpop'' (\<lambda>p. bool_or (jget p ''enabled'')) (st_dpop c),
     st_mtls = patch_section patch ''mtls'' (\<lambda>p. bool_or (jget p ''enabled'')) (st_mtls c),
     st_policy = patch_section patch ''policy'' merge_policy (st_policy c)\<rparr>"

text \<open>\<open>defaultSettings\<close> of the gateway: everything off.\<close>

definition defaultSettings :: runtime_settings where
  "defaultSettings =
    \<lparr>st_rateLimit = \<lparr>rl_enabled = False, rl_perIpPerMinute = 6000, rl_registerPerHourPerIp = 600\<rparr>,
     st_ipFilter = \<lparr>if_enabled = False, if_mode = DenyMode, if_entries = []\<rparr>,
     st_allowPrivateHosts = False, st_dpop = False, st_mtls = False,
     st_policy = \<lparr>pc_enabled = False, pc_defaultEffect = Allow, pc_rules = []\<rparr>\<rparr>"

section \<open>Settings are sanitized\<close>

definition clean_settings :: "runtime_settings \<Rightarrow> bool" where
  "clean_settings c \<longleftrightarrow>
     0 \<le> rl_perIpPerMinute (st_rateLimit c) \<and> 0 \<le> rl_registerPerHourPerIp (st_rateLimit c) \<and>
     list_all (\<lambda>e. e \<noteq> [] \<and> js_trim e = e) (if_entries (st_ipFilter c))"

lemma js_trim_idem: "js_trim (js_trim s) = js_trim s"
proof -
  let ?p = "dropWhile is_space"
  define u where "u = ?p s"
  have u: "u = [] \<or> \<not> is_space (hd u)" unfolding u_def by (metis hd_dropWhile)
  define w where "w = ?p (rev u)"
  have w: "w = [] \<or> \<not> is_space (hd w)" unfolding w_def by (metis hd_dropWhile)
  obtain pre where "rev u = pre @ w" unfolding w_def by (metis takeWhile_dropWhile_id)
  then have split: "u = rev w @ rev pre" by (metis rev_append rev_rev_ident)
  have "rev w = [] \<or> \<not> is_space (hd (rev w))"
    using u split by (cases "rev w = []") (auto simp: hd_append)
  then have "?p (rev w) = rev w" by (cases "rev w") auto
  moreover have "?p w = w" using w by (cases w) auto
  ultimately have "rev (?p (rev (?p (rev w)))) = rev w" by simp
  then show ?thesis by (simp add: js_trim_def u_def [symmetric] w_def [symmetric])
qed

lemma clampInt_nonneg: "0 \<le> d \<Longrightarrow> 0 \<le> clampInt v d"
  by (auto simp: clampInt_def split: option.split json.split)

lemma settings_update_clean_raw:
  assumes "clean_settings c" shows "clean_settings (settings_update patch c)"
  using assms
  by (auto simp: clean_settings_def settings_update_def patch_section_def merge_rateLimit_def merge_ipFilter_def
      clampInt_nonneg list_all_iff js_trim_idem split: option.split json.split)

section \<open>Reading the settings and writing them back\<close>

definition opt_entry :: "string \<Rightarrow> ('a \<Rightarrow> json) \<Rightarrow> 'a option \<Rightarrow> json_object" where
  "opt_entry k f v = (case v of None \<Rightarrow> [] | Some a \<Rightarrow> [(k, f a)])"

fun effect_wire :: "policy_effect \<Rightarrow> string" where
  "effect_wire Allow = ''allow''"
| "effect_wire Deny = ''deny''"
| "effect_wire RequireApproval = ''require_approval''"

fun risk_level_wire :: "risk_level \<Rightarrow> string" where
  "risk_level_wire RiskLow = ''low''"
| "risk_level_wire RiskMed = ''med''"
| "risk_level_wire RiskHigh = ''high''"

definition rule_json :: "policy_rule \<Rightarrow> json" where
  "rule_json r = JObj
    ([(''id'', JStr (pr_id r)), (''effect'', JStr (effect_wire (pr_effect r)))] @
     opt_entry ''description'' JStr (pr_description r) @ opt_entry ''agentModes'' jstrs (pr_agentModes r) @
     opt_entry ''capabilities'' jstrs (pr_capabilities r) @ opt_entry ''platforms'' jstrs (pr_platforms r) @
     opt_entry ''operations'' jstrs (pr_operations r) @
     opt_entry ''minRisk'' (\<lambda>m. JStr (risk_level_wire m)) (pr_minRisk r))"

text \<open>\<open>res.json(settings.get())\<close>, what the dashboard reads and sends back.\<close>

definition settings_json :: "runtime_settings \<Rightarrow> json" where
  "settings_json c = JObj
    [(''rateLimit'', JObj [(''enabled'', JBool (rl_enabled (st_rateLimit c))),
        (''perIpPerMinute'', jint (rl_perIpPerMinute (st_rateLimit c))),
        (''registerPerHourPerIp'', jint (rl_registerPerHourPerIp (st_rateLimit c)))]),
     (''ipFilter'', JObj [(''enabled'', JBool (if_enabled (st_ipFilter c))),
        (''mode'', JStr (case if_mode (st_ipFilter c) of AllowMode \<Rightarrow> ''allow'' | DenyMode \<Rightarrow> ''deny'')),
        (''entries'', jstrs (if_entries (st_ipFilter c)))]),
     (''jwks'', JObj [(''allowPrivateHosts'', JBool (st_allowPrivateHosts c))]),
     (''dpop'', JObj [(''enabled'', JBool (st_dpop c))]),
     (''mtls'', JObj [(''enabled'', JBool (st_mtls c))]),
     (''policy'', JObj [(''enabled'', JBool (pc_enabled (st_policy c))),
        (''defaultEffect'', JStr (effect_wire (pc_defaultEffect (st_policy c)))),
        (''rules'', JArr (map rule_json (pc_rules (st_policy c))))])]"

lemma texts_in_jstrs: "texts_in (map JStr ss) = ss"
  by (induction ss) (simp_all add: texts_in_def)

lemma strArray_jstrs: "strArray (Some (jstrs ss)) = Some ss"
  by (simp add: strArray_def jstrs_def texts_in_jstrs)

lemma field_of_Cons: "field_of ((k, v) # kvs) k' = (case field_of kvs k' of Some w \<Rightarrow> Some w | None \<Rightarrow> if k' = k then Some v else None)"
  by (simp add: field_of_def map_add_def split: option.split)

lemma field_of_append: "field_of (kvs @ kvs') k = (case field_of kvs' k of Some v \<Rightarrow> Some v | None \<Rightarrow> field_of kvs k)"
  by (simp add: field_of_def map_add_def split: option.split)

lemma field_of_opt_entry: "field_of (opt_entry k f v) k' = (if k' = k then map_option f v else None)"
  by (cases v) (simp_all add: opt_entry_def field_of_Cons)

lemma effect_of_wire: "effect_of (Some (JStr (effect_wire e))) = Some e"
  by (cases e) (simp_all add: effect_of_def)

lemma risk_of_wire: "risk_of (case m of None \<Rightarrow> None | Some r \<Rightarrow> Some (JStr (risk_level_wire r))) = m"
proof (cases m)
  case (Some r) then show ?thesis by (cases r) (simp_all add: risk_of_def)
qed (simp add: risk_of_def)

lemma text_of_option: "text_of (case v of None \<Rightarrow> None | Some t \<Rightarrow> Some (JStr t)) = v"
  by (cases v) (simp_all add: text_of_def)

lemma strArray_option: "strArray (case v of None \<Rightarrow> None | Some ss \<Rightarrow> Some (jstrs ss)) = v"
  by (cases v) (simp add: strArray_def, simp add: strArray_jstrs)

lemma text_of_JStr: "text_of (Some (JStr s)) = Some s"
  by (simp add: text_of_def)

lemma option_case_id: "(case x of None \<Rightarrow> None | Some y \<Rightarrow> Some y) = x"
  by (cases x) simp_all

lemma sanitizeRule_json: "sanitizeRule (rule_json r) = Some r"
  by (simp add: sanitizeRule_def rule_json_def jget_def field_of_append field_of_opt_entry field_of_Cons text_of_option
      strArray_option risk_of_wire effect_of_wire text_of_JStr option_case_id
      cong: option.case_cong)

lemma sanitizeRules_json: "sanitizeRules (JArr (map rule_json rs)) = rs"
  by (induction rs) (simp_all add: sanitizeRules_def List.map_filter_simps sanitizeRule_json)

lemma clampInt_jint: "0 \<le> n \<Longrightarrow> clampInt (Some (jint n)) d = n"
  by (simp add: clampInt_def jint_def)

lemma trim_entries: "list_all (\<lambda>e. e \<noteq> [] \<and> js_trim e = e) es \<Longrightarrow> filter (\<lambda>e. e \<noteq> []) (map js_trim es) = es"
  by (induction es) auto

lemma patch_section_present:
  "jget p k = Some v \<Longrightarrow> json_truthy v \<Longrightarrow> patch_section p k merge c = merge v c"
  by (simp add: patch_section_def member_truthy_def)

lemma settings_sections:
  "jget (settings_json c) ''rateLimit'' = Some (JObj [(''enabled'', JBool (rl_enabled (st_rateLimit c))),
        (''perIpPerMinute'', jint (rl_perIpPerMinute (st_rateLimit c))),
        (''registerPerHourPerIp'', jint (rl_registerPerHourPerIp (st_rateLimit c)))])"
  "jget (settings_json c) ''ipFilter'' = Some (JObj [(''enabled'', JBool (if_enabled (st_ipFilter c))),
        (''mode'', JStr (case if_mode (st_ipFilter c) of AllowMode \<Rightarrow> ''allow'' | DenyMode \<Rightarrow> ''deny'')),
        (''entries'', jstrs (if_entries (st_ipFilter c)))])"
  "jget (settings_json c) ''jwks'' = Some (JObj [(''allowPrivateHosts'', JBool (st_allowPrivateHosts c))])"
  "jget (settings_json c) ''dpop'' = Some (JObj [(''enabled'', JBool (st_dpop c))])"
  "jget (settings_json c) ''mtls'' = Some (JObj [(''enabled'', JBool (st_mtls c))])"
  "jget (settings_json c) ''policy'' = Some (JObj [(''enabled'', JBool (pc_enabled (st_policy c))),
        (''defaultEffect'', JStr (effect_wire (pc_defaultEffect (st_policy c)))),
        (''rules'', JArr (map rule_json (pc_rules (st_policy c))))])"
  by (simp_all add: settings_json_def jget_def field_of_Cons)

lemma merge_own:
  "0 \<le> rl_perIpPerMinute r \<Longrightarrow> 0 \<le> rl_registerPerHourPerIp r \<Longrightarrow>
    merge_rateLimit (JObj [(''enabled'', JBool (rl_enabled r)), (''perIpPerMinute'', jint (rl_perIpPerMinute r)),
        (''registerPerHourPerIp'', jint (rl_registerPerHourPerIp r))]) r' = r"
  "list_all (\<lambda>e. e \<noteq> [] \<and> js_trim e = e) (if_entries f) \<Longrightarrow>
    merge_ipFilter (JObj [(''enabled'', JBool (if_enabled f)),
        (''mode'', JStr (case if_mode f of AllowMode \<Rightarrow> ''allow'' | DenyMode \<Rightarrow> ''deny'')),
        (''entries'', jstrs (if_entries f))]) f' = f"
  "merge_policy (JObj [(''enabled'', JBool (pc_enabled p)), (''defaultEffect'', JStr (effect_wire (pc_defaultEffect p))),
        (''rules'', JArr (map rule_json (pc_rules p)))]) p' =
    p\<lparr>pc_defaultEffect := if pc_defaultEffect p = RequireApproval then pc_defaultEffect p' else pc_defaultEffect p\<rparr>"
proof -
  show "0 \<le> rl_perIpPerMinute r \<Longrightarrow> 0 \<le> rl_registerPerHourPerIp r \<Longrightarrow>
    merge_rateLimit (JObj [(''enabled'', JBool (rl_enabled r)), (''perIpPerMinute'', jint (rl_perIpPerMinute r)),
        (''registerPerHourPerIp'', jint (rl_registerPerHourPerIp r))]) r' = r"
    by (simp add: merge_rateLimit_def jget_def field_of_Cons bool_or_def clampInt_jint)
  show "list_all (\<lambda>e. e \<noteq> [] \<and> js_trim e = e) (if_entries f) \<Longrightarrow>
    merge_ipFilter (JObj [(''enabled'', JBool (if_enabled f)),
        (''mode'', JStr (case if_mode f of AllowMode \<Rightarrow> ''allow'' | DenyMode \<Rightarrow> ''deny'')),
        (''entries'', jstrs (if_entries f))]) f' = f"
    by (cases "if_mode f")
      (simp_all add: merge_ipFilter_def jget_def field_of_Cons bool_or_def jstrs_def texts_in_jstrs trim_entries)
  show "merge_policy (JObj [(''enabled'', JBool (pc_enabled p)), (''defaultEffect'', JStr (effect_wire (pc_defaultEffect p))),
        (''rules'', JArr (map rule_json (pc_rules p)))]) p' =
    p\<lparr>pc_defaultEffect := if pc_defaultEffect p = RequireApproval then pc_defaultEffect p' else pc_defaultEffect p\<rparr>"
    by (cases "pc_defaultEffect p") (simp_all add: merge_policy_def jget_def field_of_Cons bool_or_def sanitizeRules_json)
qed

lemma settings_roundtrip:
  assumes "clean_settings c"
  shows "settings_update (settings_json c) d =
    c\<lparr>st_policy := (st_policy c)\<lparr>pc_defaultEffect :=
       if pc_defaultEffect (st_policy c) = RequireApproval then pc_defaultEffect (st_policy d)
       else pc_defaultEffect (st_policy c)\<rparr>\<rparr>"
  using assms
  by (simp add: settings_update_def patch_section_present settings_sections merge_own clean_settings_def)
    (simp add: jget_def field_of_Cons bool_or_def)

text \<open>
  C40: Run-time settings stay sane and read back.  Whatever JSON an operator sends, the rate limits stay
  non-negative whole numbers and the filter entries trimmed and non-empty; and sending back what the
  settings page shows restores exactly those settings, from any state - unless the default effect
  is \<open>require_approval\<close>, which an update never sets.
\<close>

lemma settings_sane_and_restorable:
  assumes "clean_settings c"
  shows "clean_settings (settings_update patch c) \<and>
    settings_update (settings_json c) d =
      c\<lparr>st_policy := (st_policy c)\<lparr>pc_defaultEffect :=
         if pc_defaultEffect (st_policy c) = RequireApproval then pc_defaultEffect (st_policy d)
         else pc_defaultEffect (st_policy c)\<rparr>\<rparr>"
  using settings_update_clean_raw [OF assms] settings_roundtrip [OF assms] by (intro conjI)

lemma settings_sane_and_restorable_witness:
  "clean_settings (settings_update (JObj [(''rateLimit'', JObj [(''perIpPerMinute'', JNum (- 5))])]) defaultSettings) \<and>
   settings_update (settings_json defaultSettings)
     (settings_update (JObj [(''dpop'', JObj [(''enabled'', JBool True)])]) defaultSettings) = defaultSettings"
proof -
  have "clean_settings defaultSettings" by code_simp
  from settings_sane_and_restorable [OF this, of _ "settings_update (JObj [(''dpop'', JObj [(''enabled'', JBool True)])]) defaultSettings"]
  show ?thesis by (auto simp: defaultSettings_def)
qed

end
