(* ===== verification/Observability.thy ===== *)
theory Observability
  imports Runtime_Settings
begin

text \<open>
  \<^verbatim>\<open>observability/metrics.ts\<close>, \<^verbatim>\<open>compliance.ts\<close> and \<^verbatim>\<open>securityEventStream.ts\<close>: the in-memory
  telemetry, the control report computed from the running settings, and the publication of security
  events.  A \<^verbatim>\<open>Map\<close> is the list of its entries in insertion order.
\<close>

section \<open>Metrics\<close>

record latency_acc =
  la_count :: nat
  la_totalMs :: int
  la_maxMs :: int

record latency_stat = latency_acc +
  la_avgMs :: int

record token_stat =
  tk_calls :: nat
  tk_totalTokens :: nat

record metrics =
  mt_counters :: "(string \<times> nat) list"
  mt_latency :: "(string \<times> latency_acc) list"
  mt_tokens :: "(string \<times> token_stat) list"

record metrics_snapshot =
  ms_counters :: "(string \<times> nat) list"
  ms_latency :: "(string \<times> latency_stat) list"
  ms_tokensByTool :: "(string \<times> token_stat) list"

definition createMetrics :: metrics where
  "createMetrics = \<lparr>mt_counters = [], mt_latency = [], mt_tokens = []\<rparr>"

definition recordLatency :: "string \<Rightarrow> int \<Rightarrow> metrics \<Rightarrow> metrics" where
  "recordLatency route ms m =
     (let stat = nullish (map_of (mt_latency m) route) \<lparr>la_count = 0, la_totalMs = 0, la_maxMs = 0\<rparr>;
          stat' = \<lparr>la_count = la_count stat + 1, la_totalMs = la_totalMs stat + ms, la_maxMs = max (la_maxMs stat) ms\<rparr>
      in m\<lparr>mt_latency := assoc_put route stat' (mt_latency m)\<rparr>)"

definition recordTokenEstimate :: "string \<Rightarrow> nat \<Rightarrow> metrics \<Rightarrow> metrics" where
  "recordTokenEstimate tool n m =
     (let stat = nullish (map_of (mt_tokens m) tool) \<lparr>tk_calls = 0, tk_totalTokens = 0\<rparr>;
          stat' = \<lparr>tk_calls = tk_calls stat + 1, tk_totalTokens = tk_totalTokens stat + n\<rparr>
      in m\<lparr>mt_tokens := assoc_put tool stat' (mt_tokens m)\<rparr>)"

fun label_text :: "(string \<times> string) list \<Rightarrow> string" where
  "label_text [] = []"
| "label_text [(k, v)] = k @ ''='' @ v"
| "label_text ((k, v) # ls) = k @ ''='' @ v @ '','' @ label_text ls"

definition counter_key :: "string \<Rightarrow> (string \<times> string) list option \<Rightarrow> string" where
  "counter_key nm labels = (case labels of None \<Rightarrow> nm | Some ls \<Rightarrow> nm @ ''{'' @ label_text ls @ ''}'')"

definition incrementCounter :: "string \<Rightarrow> (string \<times> string) list option \<Rightarrow> metrics \<Rightarrow> metrics" where
  "incrementCounter nm labels m =
     (let key = counter_key nm labels in
      m\<lparr>mt_counters := assoc_put key (nullish (map_of (mt_counters m) key) 0 + 1) (mt_counters m)\<rparr>)"

text \<open>\<open>Math.round(a / b)\<close>: half rounds up.\<close>

definition round_div :: "int \<Rightarrow> nat \<Rightarrow> int" where
  "round_div a b = (2 * a + int b) div (2 * int b)"

definition shown_latency :: "latency_acc \<Rightarrow> latency_stat" where
  "shown_latency s =
    \<lparr>la_count = la_count s, la_totalMs = la_totalMs s, la_maxMs = la_maxMs s,
     la_avgMs = (if la_count s \<noteq> 0 then round_div (la_totalMs s) (la_count s) else 0)\<rparr>"

definition metrics_snapshot_of :: "metrics \<Rightarrow> metrics_snapshot" where
  "metrics_snapshot_of m =
    \<lparr>ms_counters = mt_counters m, ms_latency = map (\<lambda>(r, s). (r, shown_latency s)) (mt_latency m),
     ms_tokensByTool = mt_tokens m\<rparr>"

section \<open>Compliance\<close>

datatype control_status = Met | Partial | Gap

record control =
  ctl_id :: string
  ctl_title :: string
  ctl_status :: control_status
  ctl_detail :: string

record control_domain =
  cd_domain :: string
  cd_controls :: "control list"

definition control :: "string \<Rightarrow> string \<Rightarrow> control_status \<Rightarrow> string \<Rightarrow> control" where
  "control i title status detail = \<lparr>ctl_id = i, ctl_title = title, ctl_status = status, ctl_detail = detail\<rparr>"

definition section_sign :: string where
  "section_sign = [CHR 0xC2, CHR 0xA7]"

definition tlsServed :: bool where
  "tlsServed = False"

definition buildComplianceReport :: "runtime_settings \<Rightarrow> control_domain list" where
  "buildComplianceReport s =
     [\<lparr>cd_domain = ''Identity & authority'',
       cd_controls =
        [control ''ID-1'' ''Cryptographic per-agent identity'' Met
          (''Ed25519 agent/host JWTs (AAP); private keys never leave the client.''),
         control ''ID-2'' ''Short-lived credentials'' Met
          (''Agent JWTs are short-lived; session/max/absolute lifetime clocks enforced.''),
         control ''ID-3'' ''Key rotation'' Met
          (''Agent + host key rotation endpoints; old keys stop verifying.''),
         control ''ID-4'' ''Replay protection'' Met
          (''jti cache in the JWT pipeline (stage 3).''),
         control ''ID-5'' ''Proof-of-possession (DPoP/mTLS)'' (if st_dpop s \<or> st_mtls s then Partial else Gap)
          (''Toggle present; binding enforcement not yet wired.'')]\<rparr>,
      \<lparr>cd_domain = ''Authorization & least privilege'',
       cd_controls =
        [control ''AZ-1'' ''Capability-gated access'' Met
          (''Grant required to pass pipeline stage 5; otherwise 403.''),
         control ''AZ-2'' ''Constraint enforcement'' Met
          (''max/min/in/not_in checked per request; violations audited.''),
         control ''AZ-3'' ''Zero standing access (tasks)'' Met
          (''Task-scoped grants auto-revoke on completion/TTL.''),
         control ''AZ-4'' ''Connection operation allowlist'' Met
          (''Non-empty allowlist bounds what any grant may execute.''),
         control ''AZ-5'' ''Declarative policy engine'' (if pc_enabled (st_policy s) then Met else Partial)
          ((if pc_enabled (st_policy s) then ''Active with '' @ dec (length (pc_rules (st_policy s))) @ '' rule(s), default \"'' @ effect_wire (pc_defaultEffect (st_policy s)) @ ''\".'' else ''Available (ordered allow/deny/require_approval rules); currently disabled.'')),
         control ''AZ-6'' ''Human approval workflow'' Partial
          (''Device-authorization approval; richer routing / CIBA pending.'')]\<rparr>,
      \<lparr>cd_domain = ''Credential & connection control'',
       cd_controls =
        [control ''CR-1'' ''Credentials encrypted at rest'' Met
          (''AES-256-GCM; DB stores ciphertext only.''),
         control ''CR-2'' ''Server-side injection'' Met
          (''Raw credentials never returned to the agent or any listing.''),
         control ''CR-3'' ''Credential health testing'' Met
          (''Live/structural credential test with persisted health.''),
         control ''CR-4'' ''KMS-backed key management'' Gap
          (''Single env-derived master key; KMS/envelope encryption pending.'')]\<rparr>,
      \<lparr>cd_domain = ''Action guardrails & content safety'',
       cd_controls =
        [control ''GR-1'' ''Args never logged raw'' Met
          (''Audit stores an args hash only.''),
         control ''GR-2'' ''DLP / redaction'' Gap
          (''Content inspection/redaction of args + responses not yet implemented.''),
         control ''GR-3'' ''Prompt-injection detection'' Gap
          (''No input/output injection heuristics yet.'')]\<rparr>,
      \<lparr>cd_domain = ''Runtime instrumentation & monitoring'',
       cd_controls =
        [control ''RT-1'' ''Per-agent audit trail'' Met
          (''Every action attributed to agent (+ task); queryable.''),
         control ''RT-2'' ''Security event stream'' Met
          (''Live SSE feed of replay/constraint/rate-limit/revocation events.''),
         control ''RT-3'' ''Rate limiting'' (if rl_enabled (st_rateLimit s) then Met else Gap)
          ((if rl_enabled (st_rateLimit s) then ''Per-IP + registration caps active (429 + Retry-After).'' else ''Rate limiting is currently disabled in runtime settings.'')),
         control ''RT-4'' ''IP allow/deny filter'' (if if_enabled (st_ipFilter s) then Met else Partial)
          ((if if_enabled (st_ipFilter s) then ''Client-IP filter active.'' else ''Available but currently disabled.'')),
         control ''RT-5'' ''Anomaly detection'' Gap
          (''Behavioral baselining not yet implemented.'')]\<rparr>,
      \<lparr>cd_domain = ''Transport & network'',
       cd_controls =
        [control ''NW-1'' ''JWKS SSRF protection'' Met
          (''IP-filtered, pinned, https-only, redirect/size/time capped ('' @ section_sign @ ''8.12).''),
         control ''NW-2'' ''TLS in transit'' (if tlsServed then Met else Gap)
          ((if tlsServed then ''TLS enabled.'' else ''Gateway serves HTTP; terminate TLS at a proxy (native TLS/ACME pending).'')),
         control ''NW-3'' ''Security headers'' Met
          (''Helmet applied to all responses.'')]\<rparr>]"

record compliance_counts =
  cc_met :: nat
  cc_partial :: nat
  cc_gap :: nat
  cc_total :: nat

fun count_status :: "control_status \<Rightarrow> nat \<times> nat \<times> nat \<Rightarrow> nat \<times> nat \<times> nat" where
  "count_status Met (m, p, g) = (m + 1, p, g)"
| "count_status Partial (m, p, g) = (m, p + 1, g)"
| "count_status Gap (m, p, g) = (m, p, g + 1)"

definition complianceSummary :: "control_domain list \<Rightarrow> compliance_counts" where
  "complianceSummary ds =
     (case fold (\<lambda>d acc. fold (\<lambda>c. count_status (ctl_status c)) (cd_controls d) acc) ds (0, 0, 0) of
        (m, p, g) \<Rightarrow> \<lparr>cc_met = m, cc_partial = p, cc_gap = g, cc_total = m + p + g\<rparr>)"

section \<open>Security events\<close>

text \<open>
  The listeners are numbered; \<open>run l e\<close> is what listener \<open>l\<close> does with an event, which may throw.
  A delivery is the listener and whether it threw.
\<close>

record security_event =
  se_id :: uuid
  se_type :: security_event_type
  se_agentId :: "uuid option"
  se_hostId :: "uuid option"
  se_detail :: json_object
  se_createdAt :: millis

type_synonym event_stream = "nat list"

definition subscribe :: "nat \<Rightarrow> event_stream \<Rightarrow> event_stream" where
  "subscribe l ls = (if l \<in> set ls then ls else ls @ [l])"

definition unsubscribe :: "nat \<Rightarrow> event_stream \<Rightarrow> event_stream" where
  "unsubscribe l ls = filter (\<lambda>x. x \<noteq> l) ls"

fun publish :: "(nat \<Rightarrow> security_event \<Rightarrow> fault + unit) \<Rightarrow> security_event \<Rightarrow> event_stream \<Rightarrow> (nat \<times> bool) list" where
  "publish run e [] = []"
| "publish run e (l # ls) =
     (case run l e of
        Inl x \<Rightarrow> (l, True) # publish run e ls
      | Inr _ \<Rightarrow> (l, False) # publish run e ls)"

section \<open>Laws\<close>

text \<open>A failing subscriber does not keep an event from the others.\<close>

lemma publish_reaches_all: "map fst (publish run e ls) = ls"
  by (induction ls) (simp_all split: sum.split)

text \<open>The measurements of one route in a sequence of measurements.\<close>

definition route_times :: "string \<Rightarrow> (string \<times> int) list \<Rightarrow> int list" where
  "route_times r xs = map snd (filter (\<lambda>x. fst x = r) xs)"

definition record_all :: "(string \<times> int) list \<Rightarrow> metrics \<Rightarrow> metrics" where
  "record_all xs m = fold (\<lambda>(r, t). recordLatency r t) xs m"

lemma record_all_at:
  "map_of (mt_latency (record_all xs createMetrics)) r =
     (let ts = route_times r xs in
      if ts = [] then None
      else Some \<lparr>la_count = length ts, la_totalMs = sum_list ts, la_maxMs = fold max ts 0\<rparr>)"
proof (induction xs rule: rev_induct)
  case Nil
  show ?case by (simp add: record_all_def createMetrics_def route_times_def)
next
  case (snoc x xs)
  obtain q t where x: "x = (q, t)" by (cases x)
  have step: "record_all (xs @ [x]) createMetrics = recordLatency q t (record_all xs createMetrics)"
    by (simp add: record_all_def x)
  show ?case
    using snoc unfolding step
    by (cases "q = r") (auto simp: recordLatency_def Let_def map_of_assoc_put route_times_def x nullish_def)
qed

lemma sum_list_le_max: "sum_list ts \<le> int (length ts) * fold max ts (m::int)"
proof -
  have m: "m \<le> fold max ts m \<and> (\<forall>t \<in> set ts. t \<le> fold max ts m)" for m
  proof (induction ts arbitrary: m)
    case (Cons t ts)
    from Cons [of "max t m"] show ?case by auto
  qed simp
  have "sum_list ts \<le> int (length ts) * b" if "\<forall>t \<in> set ts. t \<le> b" for b
    using that by (induction ts) (auto simp: algebra_simps)
  with m [of m] show ?thesis by blast
qed

lemma round_div_le: "0 < n \<Longrightarrow> a \<le> int n * b \<Longrightarrow> round_div a n \<le> b"
proof -
  assume n: "0 < n" and a: "a \<le> int n * b"
  have "2 * a + int n < (b + 1) * (2 * int n)" using n a by (simp add: algebra_simps)
  moreover have "(2 * a + int n) div (2 * int n) * (2 * int n) \<le> 2 * a + int n"
    using n by (simp add: minus_mod_eq_div_mult [symmetric])
  ultimately have "(2 * a + int n) div (2 * int n) * (2 * int n) < (b + 1) * (2 * int n)" by linarith
  then have "(2 * a + int n) div (2 * int n) < b + 1" using n by (simp add: mult_less_cancel_right)
  then show ?thesis by (simp add: round_div_def)
qed

text \<open>
  What the latency page shows for a route is the truth about the measurements of that route: their
  number, their sum, their maximum (at least 0), and an average that never exceeds the maximum;
  a route without measurements is not shown.
\<close>

lemma latency_snapshot:
  "map_of (ms_latency (metrics_snapshot_of (record_all xs createMetrics))) r =
     (let ts = route_times r xs in
      if ts = [] then None
      else Some \<lparr>la_count = length ts, la_totalMs = sum_list ts, la_maxMs = fold max ts 0,
                 la_avgMs = round_div (sum_list ts) (length ts)\<rparr>) \<and>
   (route_times r xs = [] \<or> round_div (sum_list (route_times r xs)) (length (route_times r xs)) \<le> fold max (route_times r xs) 0)"
proof
  have "map_of (ms_latency (metrics_snapshot_of m)) r = map_option shown_latency (map_of (mt_latency m) r)" for m
    by (simp add: metrics_snapshot_of_def map_of_map)
  then show "map_of (ms_latency (metrics_snapshot_of (record_all xs createMetrics))) r =
     (let ts = route_times r xs in
      if ts = [] then None
      else Some \<lparr>la_count = length ts, la_totalMs = sum_list ts, la_maxMs = fold max ts 0,
                 la_avgMs = round_div (sum_list ts) (length ts)\<rparr>)"
    by (simp add: record_all_at Let_def shown_latency_def)
  show "route_times r xs = [] \<or> round_div (sum_list (route_times r xs)) (length (route_times r xs)) \<le> fold max (route_times r xs) 0"
    using round_div_le [OF _ sum_list_le_max] by (cases "route_times r xs = []") simp_all
qed

lemma count_status_fold:
  "fold (\<lambda>c. count_status (ctl_status c)) cs (m, p, g) =
     (m + length (filter (\<lambda>c. ctl_status c = Met) cs), p + length (filter (\<lambda>c. ctl_status c = Partial) cs),
      g + length (filter (\<lambda>c. ctl_status c = Gap) cs))"
proof (induction cs arbitrary: m p g)
  case (Cons c cs)
  then show ?case by (cases "ctl_status c") simp_all
qed simp

lemma complianceSummary_counts:
  "complianceSummary ds =
     (let cs = concat (map cd_controls ds) in
      \<lparr>cc_met = length (filter (\<lambda>c. ctl_status c = Met) cs), cc_partial = length (filter (\<lambda>c. ctl_status c = Partial) cs),
       cc_gap = length (filter (\<lambda>c. ctl_status c = Gap) cs), cc_total = length cs\<rparr>)"
proof -
  have all: "fold (\<lambda>d acc. fold (\<lambda>c. count_status (ctl_status c)) (cd_controls d) acc) ds a =
      fold (\<lambda>c. count_status (ctl_status c)) (concat (map cd_controls ds)) a" for a
    by (induction ds arbitrary: a) simp_all
  have "length (filter (\<lambda>c. ctl_status c = Met) cs) + length (filter (\<lambda>c. ctl_status c = Partial) cs) +
      length (filter (\<lambda>c. ctl_status c = Gap) cs) = length cs" for cs
  proof (induction cs)
    case (Cons c cs)
    then show ?case by (cases "ctl_status c") simp_all
  qed simp
  then show ?thesis by (simp add: complianceSummary_def all count_status_fold Let_def)
qed

end
