(* ===== verification/Tool_Router.thy ===== *)
theory Tool_Router
  imports Storage_Laws Observability
begin

text \<open>
  \<^verbatim>\<open>packages/adapters\<close>, \<^verbatim>\<open>router/schemaCache.ts\<close>, \<^verbatim>\<open>router/tokenRouter.ts\<close> and the registration
  of tools in \<^verbatim>\<open>routes/toolRoutes.ts\<close>: native tool descriptions normalized to one schema, the
  per-tool cache, and the identity-scoped lookup.  A native description is JSON that the code casts
  to its declared shape: a scalar member of another type than declared counts as absent.
\<close>

section \<open>Adapters\<close>

record tool_adapter =
  ta_type :: adapter_type
  ta_fetchSchema :: "json_object \<Rightarrow> fault + json"
  ta_normalize :: "json \<Rightarrow> fault + canonical_schema"

definition text_or :: "json option \<Rightarrow> string \<Rightarrow> string" where
  "text_or v d = nullish (text_of v) d"

text \<open>\<open>x ?? d\<close> for a value that may also be \<^verbatim>\<open>null\<close>.\<close>

definition nullish_json :: "json option \<Rightarrow> json \<Rightarrow> json" where
  "nullish_json v d = (case v of None \<Rightarrow> d | Some j \<Rightarrow> if j = JNull then d else j)"

definition fields_of :: "json \<Rightarrow> json_object" where
  "fields_of j = (case j of JObj kvs \<Rightarrow> kvs | _ \<Rightarrow> [])"

text \<open>\<open>for (const x of v ?? [])\<close>: something else than a list is not iterable.\<close>

definition items_of :: "json option \<Rightarrow> fault + json list" where
  "items_of v =
     (case nullish_json v (JArr []) of
        JArr xs \<Rightarrow> Inr xs
      | _ \<Rightarrow> Inl (OtherError ''is not iterable''))"

definition object_input :: "json_object \<Rightarrow> json list \<Rightarrow> json" where
  "object_input properties required =
     JObj ([(''type'', JStr ''object''), (''properties'', JObj properties)] @
           (if required \<noteq> [] then [(''required'', JArr required)] else []))"

subsection \<open>MCP\<close>

definition mcp_fetchSchema :: "json_object \<Rightarrow> fault + json" where
  "mcp_fetchSchema config = Inr (nullish_json (field_of config ''tool'') (JObj config))"

definition mcp_normalize :: "json \<Rightarrow> fault + canonical_schema" where
  "mcp_normalize raw =
     Inr \<lparr>cs_name = text_or (jget raw ''name'') [], cs_description = text_or (jget raw ''description'') [],
          cs_input = nullish_json (jget raw ''inputSchema'') (JObj [(''type'', JStr ''object'')]),
          cs_output = (if member_truthy (jget raw ''outputSchema'') then jget raw ''outputSchema'' else None)\<rparr>"

definition McpAdapter :: tool_adapter where
  "McpAdapter = \<lparr>ta_type = Mcp, ta_fetchSchema = mcp_fetchSchema, ta_normalize = mcp_normalize\<rparr>"

subsection \<open>OpenAPI\<close>

definition described :: "json_object \<Rightarrow> json \<Rightarrow> json" where
  "described base p =
     JObj (if member_truthy (jget p ''description'')
           then put_field ''description'' (the (jget p ''description'')) base else base)"

text \<open>One parameter: its name has to be truthy; an entry that is \<^verbatim>\<open>null\<close> throws.\<close>

definition add_param :: "json \<Rightarrow> json_object \<times> json list \<Rightarrow> fault + (json_object \<times> json list)" where
  "add_param p acc =
     (if p = JNull then Inl (OtherError ''Cannot read properties of null'')
      else if \<not> member_truthy (jget p ''name'') then Inr acc
      else
        let nm = text_or (jget p ''name'') [];
            base = fields_of (nullish_json (jget p ''schema'') (JObj [(''type'', JStr ''string'')]))
        in Inr (put_field nm (described base p) (fst acc),
                if member_truthy (jget p ''required'') then snd acc @ [JStr nm] else snd acc))"

fun add_all :: "(json \<Rightarrow> 'a \<Rightarrow> fault + 'a) \<Rightarrow> json list \<Rightarrow> 'a \<Rightarrow> fault + 'a" where
  "add_all f [] acc = Inr acc"
| "add_all f (x # xs) acc = (case f x acc of Inl e \<Rightarrow> Inl e | Inr acc' \<Rightarrow> add_all f xs acc')"

definition opt_jget :: "json option \<Rightarrow> string \<Rightarrow> json option" where
  "opt_jget v k = Option.bind v (\<lambda>j. jget j k)"

definition body_schema :: "json \<Rightarrow> json option" where
  "body_schema op =
     opt_jget (opt_jget (opt_jget (jget op ''requestBody'') ''content'') ''application/json'') ''schema''"

definition add_body :: "json option \<Rightarrow> json_object \<times> json list \<Rightarrow> fault + (json_object \<times> json list)" where
  "add_body schema acc =
     (if member_truthy (opt_jget schema ''properties'') then
        (case items_of (opt_jget schema ''required'') of
           Inl e \<Rightarrow> Inl e
         | Inr reqs \<Rightarrow>
             Inr (fold (\<lambda>(k, v). put_field k v) (fields_of (the (opt_jget schema ''properties''))) (fst acc),
                  snd acc @ reqs))
      else Inr acc)"

definition openapi_normalize :: "json \<Rightarrow> fault + canonical_schema" where
  "openapi_normalize raw =
     (let op = nullish_json (jget raw ''operation'') (JObj []) in
      case items_of (jget op ''parameters'') of
        Inl e \<Rightarrow> Inl e
      | Inr params \<Rightarrow>
          (case add_all add_param params ([], []) of
             Inl e \<Rightarrow> Inl e
           | Inr acc \<Rightarrow>
               (case add_body (body_schema op) acc of
                  Inl e \<Rightarrow> Inl e
                | Inr (properties, required) \<Rightarrow>
                    Inr \<lparr>cs_name = text_or (jget raw ''name'') (text_or (jget op ''operationId'') []),
                         cs_description = text_or (jget op ''summary'') (text_or (jget op ''description'') []),
                         cs_input = object_input properties required, cs_output = None\<rparr>)))"

definition OpenApiAdapter :: tool_adapter where
  "OpenApiAdapter =
    \<lparr>ta_type = OpenApi, ta_fetchSchema = (\<lambda>config. Inr (JObj config)), ta_normalize = openapi_normalize\<rparr>"

subsection \<open>CLI\<close>

definition add_option :: "json \<Rightarrow> json_object \<times> json list \<Rightarrow> fault + (json_object \<times> json list)" where
  "add_option p acc =
     (if p = JNull then Inl (OtherError ''Cannot read properties of null'')
      else if \<not> member_truthy (jget p ''name'') then Inr acc
      else
        let nm = text_or (jget p ''name'') [];
            base = [(''type'', nullish_json (jget p ''type'') (JStr ''string''))]
        in Inr (put_field nm (described base p) (fst acc),
                if member_truthy (jget p ''required'') then snd acc @ [JStr nm] else snd acc))"

definition cli_normalize :: "json \<Rightarrow> fault + canonical_schema" where
  "cli_normalize raw =
     (case items_of (jget raw ''options'') of
        Inl e \<Rightarrow> Inl e
      | Inr opts \<Rightarrow>
          (case add_all add_option opts ([], []) of
             Inl e \<Rightarrow> Inl e
           | Inr (properties, required) \<Rightarrow>
               Inr \<lparr>cs_name = text_or (jget raw ''command'') [], cs_description = text_or (jget raw ''description'') [],
                    cs_input = object_input properties required, cs_output = None\<rparr>))"

definition CliAdapter :: tool_adapter where
  "CliAdapter =
    \<lparr>ta_type = Cli, ta_fetchSchema = (\<lambda>config. Inr (JObj config)), ta_normalize = cli_normalize\<rparr>"

type_synonym adapter_registry = "adapter_type \<Rightarrow> tool_adapter option"

definition adapter_register :: "tool_adapter \<Rightarrow> adapter_registry \<Rightarrow> adapter_registry" where
  "adapter_register a reg = reg(ta_type a := Some a)"

definition createAdapterRegistry :: adapter_registry where
  "createAdapterRegistry = fold adapter_register [McpAdapter, OpenApiAdapter, CliAdapter] (\<lambda>t. None)"

section \<open>The schema cache\<close>

record cache_entry =
  ce_schema :: canonical_schema
  ce_expiresAt :: millis

type_synonym schema_cache = "string \<Rightarrow> cache_entry option"

definition cache_get :: "millis \<Rightarrow> string \<Rightarrow> schema_cache \<Rightarrow> canonical_schema option \<times> schema_cache" where
  "cache_get now nm c =
     (case c nm of
        None \<Rightarrow> (None, c)
      | Some e \<Rightarrow> if ce_expiresAt e \<le> now then (None, c(nm := None)) else (Some (ce_schema e), c))"

definition cache_set :: "int \<Rightarrow> millis \<Rightarrow> string \<Rightarrow> canonical_schema \<Rightarrow> schema_cache \<Rightarrow> schema_cache" where
  "cache_set ttlSeconds now nm sc c =
     (if ttlSeconds \<le> 0 then c else c(nm \<mapsto> \<lparr>ce_schema = sc, ce_expiresAt = now + ttlSeconds * 1000\<rparr>))"

definition cache_invalidate :: "string \<Rightarrow> schema_cache \<Rightarrow> schema_cache" where
  "cache_invalidate nm c = c(nm := None)"

definition cache_flush :: "schema_cache \<Rightarrow> schema_cache" where
  "cache_flush c = (\<lambda>nm. None)"

section \<open>The router\<close>

record router_state =
  ts_db :: db
  ts_cache :: schema_cache
  ts_metrics :: metrics

record router_deps =
  td_json :: json_text
  td_adapters :: adapter_registry
  td_ttlSeconds :: int

record tool_schema_result =
  tsr_schema :: canonical_schema
  tsr_tokenEstimate :: nat
  tsr_cached :: bool

type_synonym 'a router_op = "(fault, router_state, 'a) eff"

definition on_tdb :: "'a db_op \<Rightarrow> 'a router_op" where
  "on_tdb = eff_lift ts_db (\<lambda>d s. s\<lparr>ts_db := d\<rparr>)"

definition schema_json :: "canonical_schema \<Rightarrow> json" where
  "schema_json sc = JObj
    ([(''name'', JStr (cs_name sc)), (''description'', JStr (cs_description sc)), (''input'', cs_input sc)] @
     (case cs_output sc of None \<Rightarrow> [] | Some j \<Rightarrow> [(''output'', j)]))"

text \<open>\<open>Math.ceil(text.length / 4)\<close>, the text counted in bytes.\<close>

definition estimateTokens :: "json_text \<Rightarrow> canonical_schema \<Rightarrow> nat" where
  "estimateTokens J sc = (length (jt_stringify J (schema_json sc)) + 3) div 4"

definition resolve_schema :: "router_deps \<Rightarrow> tool \<Rightarrow> fault + canonical_schema" where
  "resolve_schema R tool =
     (case td_adapters R (tl_adapterType tool) of
        None \<Rightarrow> Inl (err InternalError (''no adapter for type \"'' @ adapter_type_wire (tl_adapterType tool) @ ''\"'') 500)
      | Some adapter \<Rightarrow>
          (case ta_fetchSchema adapter (tl_adapterConfig tool) of
             Inl e \<Rightarrow> Inl e
           | Inr raw \<Rightarrow> ta_normalize adapter raw))"

text \<open>The times of the lookup, of the storing and of the database note are separate readings.\<close>

definition cached_schema :: "millis \<Rightarrow> string \<Rightarrow> canonical_schema option router_op" where
  "cached_schema now toolName s =
     (case cache_get now toolName (ts_cache s) of (found, c) \<Rightarrow> (Inr found, s\<lparr>ts_cache := c\<rparr>))"

definition load_schema :: "router_deps \<Rightarrow> millis \<Rightarrow> millis \<Rightarrow> string \<Rightarrow> canonical_schema router_op" where
  "load_schema R now1 now2 toolName =
     eff_bind (on_tdb (tools_findByName toolName)) (\<lambda>found.
     eff_bind (eff_some found (err InvalidRequest (''tool \"'' @ toolName @ ''\" is not registered'') 404)) (\<lambda>tool.
     eff_bind (eff_sum (resolve_schema R tool)) (\<lambda>sc.
     eff_bind (eff_write (\<lambda>s. s\<lparr>ts_cache := cache_set (td_ttlSeconds R) now1 toolName sc (ts_cache s)\<rparr>)) (\<lambda>_.
     eff_bind (on_tdb (tools_cacheSchema toolName (Some sc) now2)) (\<lambda>_.
     eff_return sc)))))"

definition getToolSchema ::
  "router_deps \<Rightarrow> millis \<Rightarrow> millis \<Rightarrow> millis \<Rightarrow> uuid \<Rightarrow> string \<Rightarrow> tool_schema_result router_op" where
  "getToolSchema R now0 now1 now2 agentId toolName =
     eff_bind (on_tdb (grants_findActive agentId toolName)) (\<lambda>grant.
     eff_bind (eff_require (grant \<noteq> None)
       (err CapabilityNotGranted (''capability \"'' @ toolName @ ''\" is not granted'') 403)) (\<lambda>_.
     eff_bind (cached_schema now0 toolName) (\<lambda>found.
     eff_bind (case found of Some sc \<Rightarrow> eff_return sc | None \<Rightarrow> load_schema R now1 now2 toolName) (\<lambda>sc.
     let tokenEstimate = estimateTokens (td_json R) sc in
     eff_bind (on_tdb (audit_append
       \<lparr>ne_agentId = Some agentId, ne_hostId = None, ne_eventType = ''tool.schema'', ne_capability = Some toolName,
        ne_connectionId = None, ne_operation = None, ne_taskId = None, ne_outcome = OutcomeSuccess,
        ne_argsHash = None, ne_durationMs = None\<rparr>)) (\<lambda>_.
     eff_bind (eff_write (\<lambda>s. s\<lparr>ts_metrics := recordTokenEstimate toolName tokenEstimate (ts_metrics s)\<rparr>)) (\<lambda>_.
     eff_return \<lparr>tsr_schema = sc, tsr_tokenEstimate = tokenEstimate, tsr_cached = (found \<noteq> None)\<rparr>))))))"

section \<open>The registration of tools\<close>

definition ADAPTER_TYPES :: "adapter_type list" where
  "ADAPTER_TYPES = [Mcp, OpenApi, Cli]"

definition adapter_type_of :: "json option \<Rightarrow> adapter_type option" where
  "adapter_type_of v = find (\<lambda>t. v = Some (JStr (adapter_type_wire t))) ADAPTER_TYPES"

text \<open>\<open>POST /tools\<close> once the host is authenticated; the result is the body of the answer.\<close>

definition post_tool :: "json \<Rightarrow> json_object router_op" where
  "post_tool body =
     eff_bind (eff_require (member_truthy (jget body ''name'') \<and> member_truthy (jget body ''adapter_type''))
       (err InvalidRequest ''name and adapter_type are required'' 400)) (\<lambda>_.
     eff_bind (eff_some (adapter_type_of (jget body ''adapter_type''))
       (err InvalidRequest ''adapter_type must be one of mcp, openapi, cli'' 400)) (\<lambda>typ.
     eff_bind (on_tdb (tools_upsert
       \<lparr>nl_name = text_or (jget body ''name'') [], nl_adapterType = typ,
        nl_adapterConfig = fields_of (nullish_json (jget body ''adapter_config'') (JObj []))\<rparr>)) (\<lambda>tool.
     eff_bind (eff_write (\<lambda>s. s\<lparr>ts_cache := cache_invalidate (tl_name tool) (ts_cache s)\<rparr>)) (\<lambda>_.
     eff_return [(''name'', JStr (tl_name tool)), (''adapter_type'', JStr (adapter_type_wire (tl_adapterType tool)))]))))"

definition flush_tools :: "json_object router_op" where
  "flush_tools =
     eff_bind (eff_write (\<lambda>s. s\<lparr>ts_cache := cache_flush (ts_cache s)\<rparr>)) (\<lambda>_.
     eff_return [(''flushed'', JBool True)])"

definition list_tools :: "codec \<Rightarrow> json_object router_op" where
  "list_tools k =
     eff_bind (on_tdb (tools_list \<lparr>q_cursor = None, q_limit = None\<rparr>)) (\<lambda>page.
     eff_return
       [(''tools'', JArr (map (\<lambda>t. JObj
           [(''name'', JStr (tl_name t)), (''adapter_type'', JStr (adapter_type_wire (tl_adapterType t))),
            (''schema_cached_at'', nullable (\<lambda>m. JStr (k_iso k m)) (tl_schemaCachedAt t))]) (pg_items page))),
        (''has_more'', JBool (pg_hasMore page))])"

end
