(* ===== verification/Gateway_Http.thy ===== *)
theory Gateway_Http
  imports Auth_Pipeline Identity_Service Connection_Proxy Tool_Router
begin

text \<open>
  What every route of the gateway shares: the state of the process, the services it is wired from
  (\<^verbatim>\<open>index.ts\<close>), the JWT middleware of \<^verbatim>\<open>server/authMiddleware.ts\<close>, the error middleware of
  \<^verbatim>\<open>server/errorHandler.ts\<close> and the guards \<^verbatim>\<open>server/gatewayApp.ts\<close> puts before the routes.  Express
  itself is not modelled: a request is what it hands to a handler - a matched route with a body of
  the declared type - and a reply is what the handler gives back.
\<close>

section \<open>State, wiring, requests\<close>

record gateway_state =
  gw_db :: db
  gw_jwks :: jwks_cache
  gw_proxy_limiter :: "(uuid \<times> uuid) limiter"
  gw_cache :: schema_cache
  gw_metrics :: metrics
  gw_settings :: runtime_settings
  gw_ip_limiter :: "string limiter"
  gw_register_limiter :: "string limiter"
  gw_listeners :: event_stream
  gw_published :: "(security_event \<times> (nat \<times> bool) list) list"

record gateway_deps =
  gd_pipeline :: pipeline_deps
  gd_identity :: identity_deps
  gd_connections :: connection_deps
  gd_proxy :: proxy_deps
  gd_router :: router_deps
  gd_codec :: codec
  gd_json :: json_text
  gd_connectors :: connector_registry
  gd_baseUrl :: string
  gd_collate :: "string \<Rightarrow> nat"
  gd_listener :: "nat \<Rightarrow> security_event \<Rightarrow> fault + unit"

text \<open>
  \<open>gd_collate\<close> is the collation key \<open>localeCompare\<close> orders by.  The request without its route, and what the handling of it reads from outside: the clock at each
  place, random bytes and numbers, a fresh event id, whether the database answers.
\<close>

record request_env =
  ev_ip :: string
  ev_path :: string
  ev_authorization :: "string option"
  ev_auth_clock :: request_clock
  ev_now1 :: millis
  ev_now2 :: millis
  ev_lookup_clock :: "millis \<times> millis \<times> millis"
  ev_execute_clock :: execute_clock
  ev_limit_clock :: "millis \<times> millis"
  ev_iv :: string
  ev_random :: "nat \<Rightarrow> nat"
  ev_event_id :: uuid
  ev_event_time :: millis
  ev_health :: "fault + bool"

record http_reply =
  re_status :: nat
  re_headers :: "(string \<times> string) list"
  re_body :: json

type_synonym 'a gateway_op = "(fault, gateway_state, 'a) eff"

definition on_gdb :: "'a db_op \<Rightarrow> 'a gateway_op" where
  "on_gdb = eff_lift gw_db (\<lambda>d s. s\<lparr>gw_db := d\<rparr>)"

definition on_auth :: "(fault, auth_state, 'a) eff \<Rightarrow> 'a gateway_op" where
  "on_auth = eff_lift (\<lambda>s. \<lparr>as_db = gw_db s, as_jwks = gw_jwks s\<rparr>)
     (\<lambda>a s. s\<lparr>gw_db := as_db a, gw_jwks := as_jwks a\<rparr>)"

definition on_proxy :: "'a proxy_op \<Rightarrow> 'a gateway_op" where
  "on_proxy = eff_lift (\<lambda>s. \<lparr>xs_db = gw_db s, xs_limiter = gw_proxy_limiter s\<rparr>)
     (\<lambda>x s. s\<lparr>gw_db := xs_db x, gw_proxy_limiter := xs_limiter x\<rparr>)"

definition on_router :: "'a router_op \<Rightarrow> 'a gateway_op" where
  "on_router = eff_lift (\<lambda>s. \<lparr>ts_db = gw_db s, ts_cache = gw_cache s, ts_metrics = gw_metrics s\<rparr>)
     (\<lambda>t s. s\<lparr>gw_db := ts_db t, gw_cache := ts_cache t, gw_metrics := ts_metrics t\<rparr>)"

definition reply :: "nat \<Rightarrow> json_object \<Rightarrow> http_reply" where
  "reply st body = \<lparr>re_status = st, re_headers = [], re_body = JObj body\<rparr>"

definition ok_reply :: "json_object \<Rightarrow> http_reply gateway_op" where
  "ok_reply body = eff_return (reply 200 body)"

definition created_reply :: "json_object \<Rightarrow> http_reply gateway_op" where
  "created_reply body = eff_return (reply 201 body)"

text \<open>How ids and dates appear in a body.\<close>

definition juuid :: "gateway_deps \<Rightarrow> uuid \<Rightarrow> json" where
  "juuid D i = JStr (k_uuid (gd_codec D) i)"

definition jdate :: "gateway_deps \<Rightarrow> millis \<Rightarrow> json" where
  "jdate D t = JStr (k_iso (gd_codec D) t)"

text \<open>An id in a request is text; the statement it is a parameter of fails on text that is none.\<close>

definition uuid_param :: "gateway_deps \<Rightarrow> string \<Rightarrow> uuid gateway_op" where
  "uuid_param D t = eff_some (k_to_uuid (gd_codec D) t) (OtherError ''invalid input syntax for type uuid'')"

text \<open>The same for an optional id that is first used after \<open>before\<close> has run.\<close>

definition late_uuid_param :: "gateway_deps \<Rightarrow> unit gateway_op \<Rightarrow> string option \<Rightarrow> uuid option gateway_op" where
  "late_uuid_param D before t =
     (case t of
        None \<Rightarrow> eff_return None
      | Some x \<Rightarrow>
          (case k_to_uuid (gd_codec D) x of
             Some i \<Rightarrow> eff_return (Some i)
           | None \<Rightarrow> eff_bind before (\<lambda>_. eff_throw (OtherError ''invalid input syntax for type uuid''))))"

definition forget :: "'a gateway_op \<Rightarrow> unit gateway_op" where
  "forget m = eff_bind m (\<lambda>_. eff_return ())"

section \<open>The live settings\<close>

text \<open>The policy of the proxy and the private-host switch of the JWKS resolver are read per request.\<close>

definition live_proxy :: "gateway_deps \<Rightarrow> gateway_state \<Rightarrow> proxy_deps" where
  "live_proxy D s = (gd_proxy D)\<lparr>xd_policy := Some (st_policy (gw_settings s))\<rparr>"

definition live_pipeline :: "gateway_deps \<Rightarrow> gateway_state \<Rightarrow> pipeline_deps" where
  "live_pipeline D s = (gd_pipeline D)
    \<lparr>pd_jwks := map_option (\<lambda>e. e\<lparr>jw_allowPrivate := st_allowPrivateHosts (gw_settings s)\<rparr>)
                  (pd_jwks (gd_pipeline D))\<rparr>"

section \<open>Authentication\<close>

definition BEARER :: string where
  "BEARER = ''Bearer ''"

definition bearerToken :: "string option \<Rightarrow> string option" where
  "bearerToken header =
     (case header of
        None \<Rightarrow> None
      | Some h \<Rightarrow> if h \<noteq> [] \<and> starts_with BEARER h then Some (drop (length BEARER) h) else None)"

definition missing_token :: fault where
  "missing_token = err AuthenticationRequired ''missing bearer token'' 401"

definition request_token :: "request_env \<Rightarrow> string gateway_op" where
  "request_token ev =
     eff_bind (eff_require (truthy (bearerToken (ev_authorization ev))) missing_token) (\<lambda>_.
     eff_return (the (bearerToken (ev_authorization ev))))"

definition pipeline_stages :: "gateway_deps \<Rightarrow> request_env \<Rightarrow> jwt_typ \<Rightarrow> gateway_state \<Rightarrow> stage list" where
  "pipeline_stages D ev typ s =
     (case typ of
        HostJwt \<Rightarrow> buildHostPipeline (live_pipeline D s) (ev_auth_clock ev)
      | AgentJwt \<Rightarrow> buildAgentPipeline (live_pipeline D s) (ev_auth_clock ev))"

definition run_pipeline :: "gateway_deps \<Rightarrow> request_env \<Rightarrow> jwt_typ \<Rightarrow> auth_context \<Rightarrow> auth_context gateway_op" where
  "run_pipeline D ev typ ctx s = on_auth (run_stages (pipeline_stages D ev typ s) ctx) s"

definition requireJwt :: "gateway_deps \<Rightarrow> request_env \<Rightarrow> jwt_typ \<Rightarrow> auth_context gateway_op" where
  "requireJwt D ev typ =
     eff_bind (request_token ev) (\<lambda>token. run_pipeline D ev typ (start_context token typ None None))"

text \<open>\<open>getAuth(res).host\<close> of the routes that act for a host, and the agent of an agent route.\<close>

definition auth_host :: "gateway_deps \<Rightarrow> request_env \<Rightarrow> host gateway_op" where
  "auth_host D ev =
     eff_bind (requireJwt D ev HostJwt) (\<lambda>ctx.
     eff_some (ax_host ctx) (err Unauthorized ''host not resolved'' 401))"

definition agent_not_resolved :: fault where
  "agent_not_resolved = err InternalError ''agent not resolved'' 500"

text \<open>
  The run of a pipeline on a context the caller can still see after a failure: the assignments of
  the stages that completed are visible, as no stage fails after it has assigned.
\<close>

fun run_tracked :: "stage list \<Rightarrow> auth_context \<Rightarrow> auth_state \<Rightarrow> (fault option \<times> auth_context) \<times> auth_state" where
  "run_tracked [] ctx s = ((None, ctx), s)"
| "run_tracked (st # sts) ctx s =
     (case st ctx s of
        (Inl e, t) \<Rightarrow> ((Some e, ctx), t)
      | (Inr ctx', t) \<Rightarrow> run_tracked sts ctx' t)"

lemma run_tracked_run_stages:
  "run_stages sts ctx s =
     (case run_tracked sts ctx s of
        ((Some e, ctx'), t) \<Rightarrow> (Inl e, t)
      | ((None, ctx'), t) \<Rightarrow> (Inr ctx', t))"
  by (induction sts arbitrary: ctx s) (auto simp: eff_bind_def eff_return_def split: prod.split sum.split)

section \<open>Errors\<close>

fun SECURITY_EVENT_BY_CODE :: "error_code \<Rightarrow> security_event_type option" where
  "SECURITY_EVENT_BY_CODE ConstraintViolated = Some ConstraintViolatedEvent"
| "SECURITY_EVENT_BY_CODE InvalidJwt = Some SignatureInvalid"
| "SECURITY_EVENT_BY_CODE AgentRevokedError = Some RevokedPrincipalDenied"
| "SECURITY_EVENT_BY_CODE HostRevokedError = Some RevokedPrincipalDenied"
| "SECURITY_EVENT_BY_CODE RateLimited = Some RateLimitExceeded"
| "SECURITY_EVENT_BY_CODE LimitExceeded = Some RateLimitExceeded"
| "SECURITY_EVENT_BY_CODE c = None"

definition error_event :: "request_env \<Rightarrow> conduit_error \<Rightarrow> security_event_type \<Rightarrow> security_event" where
  "error_event ev e typ =
    \<lparr>se_id = ev_event_id ev, se_type = typ, se_agentId = None, se_hostId = None,
     se_detail = [(''code'', JStr (error_wire (ce_code e))), (''path'', JStr (ev_path ev)),
                  (''message'', JStr (ce_message e))],
     se_createdAt = ev_event_time ev\<rparr>"

definition retry_header :: "json_text \<Rightarrow> conduit_error \<Rightarrow> (string \<times> string) list" where
  "retry_header J e =
     (case field_of (ce_fields e) ''retry_after'' of
        Some (JNum n) \<Rightarrow> if 0 < n then [(''Retry-After'', jt_text J (JNum n))] else []
      | _ \<Rightarrow> [])"

definition errorHandler :: "gateway_deps \<Rightarrow> request_env \<Rightarrow> fault \<Rightarrow> gateway_state \<Rightarrow> http_reply \<times> gateway_state" where
  "errorHandler D ev f s =
     (case f of
        OtherError m \<Rightarrow>
          (reply 500 [(''error'', JStr (error_wire InternalError)), (''message'', JStr ''internal error'')], s)
      | ConduitError e \<Rightarrow>
          (\<lparr>re_status = ce_httpStatus e, re_headers = retry_header (gd_json D) e, re_body = JObj (toEnvelope e)\<rparr>,
           case SECURITY_EVENT_BY_CODE (ce_code e) of
             None \<Rightarrow> s
           | Some typ \<Rightarrow>
               let event = error_event ev e typ in
               s\<lparr>gw_published := gw_published s @ [(event, publish (gd_listener D) event (gw_listeners s))]\<rparr>))"

definition respond :: "gateway_deps \<Rightarrow> request_env \<Rightarrow> http_reply gateway_op \<Rightarrow> gateway_state \<Rightarrow> http_reply \<times> gateway_state" where
  "respond D ev handler s =
     (case handler s of
        (Inr r, t) \<Rightarrow> (r, t)
      | (Inl f, t) \<Rightarrow> errorHandler D ev f t)"

section \<open>The guards before the routes\<close>

definition HEALTH_PATHS :: "string list" where
  "HEALTH_PATHS = [''/healthz'', ''/readyz'']"

definition skipInfra :: "string \<Rightarrow> bool" where
  "skipInfra path \<longleftrightarrow> path \<in> set HEALTH_PATHS \<or> path = ''/events'' \<or> path = ''/admin/config''"

definition ip_guard :: "request_env \<Rightarrow> unit gateway_op" where
  "ip_guard ev s =
     (if skipInfra (ev_path ev) then (Inr (), s) else (ipFilter (st_ipFilter (gw_settings s)) (ev_ip ev), s))"

definition ip_limit :: "request_env \<Rightarrow> unit gateway_op" where
  "ip_limit ev s =
     (let limits = st_rateLimit (gw_settings s) in
      eff_lift gw_ip_limiter (\<lambda>l t. t\<lparr>gw_ip_limiter := l\<rparr>)
        (rateLimit 60000 (rl_perIpPerMinute limits) (skipInfra (ev_path ev) \<or> \<not> rl_enabled limits)
           (ev_ip ev) (fst (ev_limit_clock ev))) s)"

definition register_limit :: "request_env \<Rightarrow> unit gateway_op" where
  "register_limit ev s =
     (let limits = st_rateLimit (gw_settings s) in
      eff_lift gw_register_limiter (\<lambda>l t. t\<lparr>gw_register_limiter := l\<rparr>)
        (rateLimit 3600000 (rl_registerPerHourPerIp limits) (\<not> rl_enabled limits)
           (ev_ip ev) (snd (ev_limit_clock ev))) s)"

definition guards :: "request_env \<Rightarrow> bool \<Rightarrow> unit gateway_op" where
  "guards ev registering =
     eff_bind (ip_guard ev) (\<lambda>_.
     eff_bind (ip_limit ev) (\<lambda>_.
     if registering then register_limit ev else eff_return ()))"

end
