(* ===== verification/Agent_Routes.thy ===== *)
theory Agent_Routes
  imports Gateway_Http
begin

text \<open>
  \<^verbatim>\<open>routes/capabilityRoutes.ts\<close>, \<^verbatim>\<open>routes/grantView.ts\<close> and the schema route
  of \<^verbatim>\<open>routes/toolRoutes.ts\<close>.  A body has the type its handler casts it to; an absent
  member and \<^verbatim>\<open>null\<close> are both \<open>None\<close>, as no handler here tells them apart.
\<close>

section \<open>Views\<close>

definition constraints_json :: "constraints \<Rightarrow> json" where
  "constraints_json cs = JObj (map (\<lambda>(f, c). (f, constraint_json c)) cs)"

definition serializeGrant :: "gateway_deps \<Rightarrow> capability_grant \<Rightarrow> json" where
  "serializeGrant D g =
     (case g_status g of
        GrantActive \<Rightarrow> JObj
          [(''capability'', JStr (g_capability g)), (''status'', JStr ''active''),
           (''granted_by'', nullable (juuid D) (g_grantedBy g)),
           (''constraints'', constraints_json (g_constraints g)),
           (''connection_id'', nullable (juuid D) (g_connectionId g)),
           (''operation'', nullable JStr (g_operation g))]
      | GrantDenied \<Rightarrow> JObj
          [(''capability'', JStr (g_capability g)), (''status'', JStr ''denied''),
           (''reason'', nullable JStr (g_reason g))]
      | GrantPending \<Rightarrow> JObj
          [(''capability'', JStr (g_capability g)), (''status'', JStr ''pending'')])"

definition LETTERS :: string where
  "LETTERS = ''ABCDEFGHJKLMNPQRSTUVWXYZ''"

definition DIGITS :: string where
  "DIGITS = ''23456789''"

text \<open>\<open>randomInt(n)\<close> for the \<open>i\<close>-th character is the \<open>i\<close>-th draw modulo \<open>n\<close>.\<close>

definition pick_chars :: "(nat \<Rightarrow> nat) \<Rightarrow> string \<Rightarrow> nat \<Rightarrow> nat \<Rightarrow> string" where
  "pick_chars draw alphabet start n = map (\<lambda>i. alphabet ! (draw i mod length alphabet)) [start ..< start + n]"

definition makeUserCode :: "(nat \<Rightarrow> nat) \<Rightarrow> string" where
  "makeUserCode draw = pick_chars draw LETTERS 0 4 @ ''-'' @ pick_chars draw DIGITS 4 4"

section \<open>Granting\<close>

record grant_body =
  gb_agent_id :: "string option"
  gb_capability :: "string option"
  gb_connection_id :: "string option"
  gb_operation :: "string option"
  gb_constraints :: "constraints option"

text \<open>
  A connection id that is no uuid fails where the service first sends it: when it looks the
  connection up or, as it does not look up an empty id, when it inserts the grant.
\<close>

definition before_grant_connection :: "uuid \<Rightarrow> uuid \<Rightarrow> string \<Rightarrow> string option \<Rightarrow> unit gateway_op" where
  "before_grant_connection hostId agentId capability connection =
     eff_bind (on_gdb (owned_agent hostId agentId)) (\<lambda>_.
     if connection = Some [] then on_gdb (grants_delete_prior agentId capability) else eff_return ())"

definition post_grant :: "gateway_deps \<Rightarrow> request_env \<Rightarrow> grant_body \<Rightarrow> http_reply gateway_op" where
  "post_grant D ev body =
     eff_bind (auth_host D ev) (\<lambda>host.
     eff_bind (eff_require (truthy (gb_agent_id body) \<and> truthy (gb_capability body))
       (err InvalidRequest ''agent_id and capability are required'' 400)) (\<lambda>_.
     let capability = the (gb_capability body) in
     eff_bind (uuid_param D (the (gb_agent_id body))) (\<lambda>agentId.
     eff_bind (late_uuid_param D (before_grant_connection (h_id host) agentId capability (gb_connection_id body))
       (gb_connection_id body)) (\<lambda>connectionId.
     eff_bind (on_gdb (grantCapability (h_id host)
       \<lparr>gc_agentId = agentId, gc_capability = capability, gc_connectionId = connectionId,
        gc_operation = gb_operation body, gc_constraints = nullish (gb_constraints body) []\<rparr>)) (\<lambda>grant.
     created_reply
       [(''grant_id'', juuid D (g_id grant)), (''capability'', JStr (g_capability grant)),
        (''status'', JStr (grant_status_wire (g_status grant)))])))))"

section \<open>Tasks\<close>

record task_capability_body =
  tc_capability :: "string option"
  tc_connection_id :: "string option"
  tc_operation :: "string option"
  tc_constraints :: "constraints option"

record task_body =
  tb_agent_id :: "string option"
  tb_name :: "string option"
  tb_purpose :: "string option"
  tb_ttl_seconds :: "int option"
  tb_capabilities :: "task_capability_body list option"

text \<open>The grants of a task up to the first one whose connection id is no uuid.\<close>

fun task_specs :: "codec \<Rightarrow> task_capability_body list \<Rightarrow> task_capability_spec list \<times> string option" where
  "task_specs k [] = ([], None)"
| "task_specs k (c # cs) =
     (case tc_capability c of
        None \<Rightarrow> task_specs k cs
      | Some capability \<Rightarrow>
          (case (tc_connection_id c, Option.bind (tc_connection_id c) (k_to_uuid k)) of
             (Some t, None) \<Rightarrow> ([], Some capability)
           | (_, connectionId) \<Rightarrow>
               (case task_specs k cs of (specs, bad) \<Rightarrow>
                  (\<lparr>ts_capability = capability, ts_connectionId = connectionId,
                    ts_operation = tc_operation c, ts_constraints = nullish (tc_constraints c) []\<rparr> # specs, bad))))"

definition create_task_or_fail ::
  "millis \<Rightarrow> uuid \<Rightarrow> create_task_input \<Rightarrow> string option \<Rightarrow> task_with_grants db_op" where
  "create_task_or_fail now hostId input bad =
     eff_bind (createTask now hostId input) (\<lambda>made.
     case bad of
       None \<Rightarrow> eff_return made
     | Some capability \<Rightarrow>
         eff_bind (grants_delete_prior (ct_agentId input) capability) (\<lambda>_.
         eff_throw (OtherError ''invalid input syntax for type uuid'')))"

definition post_task :: "gateway_deps \<Rightarrow> request_env \<Rightarrow> task_body \<Rightarrow> http_reply gateway_op" where
  "post_task D ev body =
     eff_bind (auth_host D ev) (\<lambda>host.
     eff_bind (eff_require (truthy (tb_agent_id body) \<and> truthy (tb_name body))
       (err InvalidRequest ''agent_id and name are required'' 400)) (\<lambda>_.
     let (specs, bad) = task_specs (gd_codec D) (nullish (tb_capabilities body) []) in
     eff_bind (uuid_param D (the (tb_agent_id body))) (\<lambda>agentId.
     eff_bind (on_gdb (create_task_or_fail (ev_now1 ev) (h_id host)
       \<lparr>ct_agentId = agentId, ct_name = the (tb_name body), ct_purpose = tb_purpose body,
        ct_ttlSeconds = nullish (tb_ttl_seconds body) 3600, ct_capabilities = specs\<rparr> bad)) (\<lambda>made.
     created_reply
       [(''task_id'', juuid D (t_id (tg_task made))),
        (''status'', JStr (task_status_wire (t_status (tg_task made)))),
        (''expires_at'', nullable (jdate D) (t_expiresAt (tg_task made))),
        (''granted'', JArr (map (\<lambda>g. JStr (g_capability g)) (tg_grants made)))]))))"

definition post_task_complete :: "gateway_deps \<Rightarrow> request_env \<Rightarrow> string \<Rightarrow> http_reply gateway_op" where
  "post_task_complete D ev taskId =
     eff_bind (auth_host D ev) (\<lambda>host.
     eff_bind (uuid_param D taskId) (\<lambda>i.
     eff_bind (on_gdb (completeTask (ev_now1 ev) (h_id host) i)) (\<lambda>task.
     ok_reply
       [(''task_id'', juuid D (t_id task)), (''status'', JStr (task_status_wire (t_status task))),
        (''completed_at'', nullable (jdate D) (t_completedAt task))])))"

definition get_tasks :: "gateway_deps \<Rightarrow> request_env \<Rightarrow> http_reply gateway_op" where
  "get_tasks D ev =
     eff_bind (on_gdb (listTasks (ev_now1 ev))) (\<lambda>tasks.
     ok_reply
       [(''tasks'', JArr (map (\<lambda>t. JObj
           [(''id'', juuid D (t_id t)), (''agent_id'', juuid D (t_agentId t)), (''name'', JStr (t_name t)),
            (''purpose'', nullable JStr (t_purpose t)), (''status'', JStr (task_status_wire (t_status t))),
            (''expires_at'', nullable (jdate D) (t_expiresAt t)), (''created_at'', jdate D (t_createdAt t)),
            (''completed_at'', nullable (jdate D) (t_completedAt t))]) tasks))])"

section \<open>What an agent asks for itself\<close>

definition agent_request :: "gateway_deps \<Rightarrow> request_env \<Rightarrow> string \<Rightarrow> agent gateway_op" where
  "agent_request D ev token =
     eff_bind (run_pipeline D ev AgentJwt (start_context token AgentJwt None None)) (\<lambda>ctx.
     eff_some (ax_agent ctx) agent_not_resolved)"

record request_capability_body =
  qb_capabilities :: "(string option \<times> constraints option) list option"
  qb_binding_message :: "string option"

definition wanted_capabilities :: "request_capability_body \<Rightarrow> capability_request list" where
  "wanted_capabilities body =
     List.map_filter (\<lambda>(nm, cs). map_option (\<lambda>n. \<lparr>cq_name = n, cq_constraints = nullish cs []\<rparr>) nm)
       (nullish (qb_capabilities body) [])"

definition approval_json :: "gateway_deps \<Rightarrow> request_env \<Rightarrow> request_capability_body \<Rightarrow> json" where
  "approval_json D ev body =
     (let userCode = makeUserCode (ev_random ev) in
      JObj ([(''method'', JStr ''device_authorization''),
             (''verification_uri'', JStr (gd_baseUrl D @ ''/approvals'')),
             (''verification_uri_complete'', JStr (gd_baseUrl D @ ''/approvals?user_code='' @ userCode)),
             (''user_code'', JStr userCode), (''expires_in'', jint 300), (''interval'', jint 5)] @
            (if truthy (qb_binding_message body)
             then [(''binding_message'', JStr (the (qb_binding_message body)))] else [])))"

definition post_request_capability ::
  "gateway_deps \<Rightarrow> request_env \<Rightarrow> request_capability_body \<Rightarrow> http_reply gateway_op" where
  "post_request_capability D ev body =
     eff_bind (request_token ev) (\<lambda>token.
     eff_bind (eff_require (wanted_capabilities body \<noteq> [])
       (err InvalidRequest ''capabilities[] is required'' 400)) (\<lambda>_.
     eff_bind (agent_request D ev token) (\<lambda>agent.
     eff_bind (on_gdb (requestCapability (a_id agent) (wanted_capabilities body))) (\<lambda>grants.
     let pendingApproval = list_ex (\<lambda>g. g_status g \<noteq> GrantActive) grants in
     eff_return (reply (if pendingApproval then 202 else 200)
       ([(''agent_id'', juuid D (a_id agent)),
         (''agent_capability_grants'', JArr (map (serializeGrant D) grants))] @
        (if pendingApproval then [(''approval'', approval_json D ev body)] else [])))))))"

definition grant_description :: "capability_grant \<Rightarrow> string" where
  "grant_description g =
     (if truthy (g_operation g) then ''Executes \"'' @ the (g_operation g) @ ''\"'' else ''Awaiting operator mapping'')"

definition grant_status_text :: "capability_grant \<Rightarrow> string" where
  "grant_status_text g = (if g_status g = GrantActive then ''granted'' else ''not_granted'')"

definition get_capability_list :: "gateway_deps \<Rightarrow> request_env \<Rightarrow> http_reply gateway_op" where
  "get_capability_list D ev =
     eff_bind (request_token ev) (\<lambda>token.
     eff_bind (agent_request D ev token) (\<lambda>agent.
     eff_bind (on_gdb (listGrants (a_id agent))) (\<lambda>grants.
     ok_reply
       [(''capabilities'', JArr (map (\<lambda>g. JObj
           [(''name'', JStr (g_capability g)), (''description'', JStr (grant_description g)),
            (''grant_status'', JStr (grant_status_text g))]) grants)),
        (''next_cursor'', JNull), (''has_more'', JBool False)])))"

definition describe_json :: "string \<Rightarrow> capability_grant option \<Rightarrow> json_object" where
  "describe_json nm found =
     (case found of
        None \<Rightarrow>
          [(''name'', JStr nm), (''description'', JStr ''Not granted to this agent.''),
           (''grant_status'', JStr ''not_granted'')]
      | Some g \<Rightarrow>
          [(''name'', JStr nm), (''description'', JStr (grant_description g)),
           (''input'', JObj [(''type'', JStr ''object''), (''constraints'', constraints_json (g_constraints g))]),
           (''grant_status'', JStr (grant_status_text g))])"

definition get_capability_describe :: "gateway_deps \<Rightarrow> request_env \<Rightarrow> string option \<Rightarrow> http_reply gateway_op" where
  "get_capability_describe D ev query_name =
     eff_bind (request_token ev) (\<lambda>token.
     let nm = nullish query_name [] in
     eff_bind (eff_require (nm \<noteq> []) (err InvalidRequest ''name query parameter is required'' 400)) (\<lambda>_.
     eff_bind (agent_request D ev token) (\<lambda>agent.
     eff_bind (on_gdb (listGrants (a_id agent))) (\<lambda>grants.
     ok_reply (describe_json nm (find (\<lambda>g. g_capability g = nm) grants))))))"

definition get_tool_schema :: "gateway_deps \<Rightarrow> request_env \<Rightarrow> string \<Rightarrow> http_reply gateway_op" where
  "get_tool_schema D ev nm =
     eff_bind (request_token ev) (\<lambda>token.
     eff_bind (eff_require (nm \<noteq> []) (err InvalidRequest ''tool name is required'' 400)) (\<lambda>_.
     eff_bind (agent_request D ev token) (\<lambda>agent.
     eff_bind (case ev_lookup_clock ev of (t0, t1, t2) \<Rightarrow>
       on_router (getToolSchema (gd_router D) t0 t1 t2 (a_id agent) nm)) (\<lambda>result.
     ok_reply (fields_of (schema_json (tsr_schema result)) @
       [(''token_estimate'', jint (int (tsr_tokenEstimate result))), (''cached'', JBool (tsr_cached result))])))))"

section \<open>Execution\<close>

record execute_body =
  xb_capability :: "string option"
  xb_args :: "json_object option"

definition tracked_pipeline :: "gateway_deps \<Rightarrow> request_env \<Rightarrow> auth_context \<Rightarrow> (fault option \<times> auth_context) gateway_op" where
  "tracked_pipeline D ev ctx s =
     (case run_tracked (pipeline_stages D ev AgentJwt s) ctx \<lparr>as_db = gw_db s, as_jwks = gw_jwks s\<rparr> of
        (r, a) \<Rightarrow> (Inr r, s\<lparr>gw_db := as_db a, gw_jwks := as_jwks a\<rparr>))"

definition run_proxy ::
  "gateway_deps \<Rightarrow> request_env \<Rightarrow> agent \<Rightarrow> capability_grant \<Rightarrow> json_object \<Rightarrow> execution_result gateway_op" where
  "run_proxy D ev agent grant args s =
     on_proxy (execute (live_proxy D s) (ev_execute_clock ev) agent grant args) s"

definition run_capability :: "gateway_deps \<Rightarrow> request_env \<Rightarrow> fault option \<times> auth_context \<Rightarrow> http_reply gateway_op" where
  "run_capability D ev r =
     (case r of (failed, ctx) \<Rightarrow>
      case failed of
        Some e \<Rightarrow> eff_throw e
      | None \<Rightarrow>
          (case (ax_agent ctx, ax_grant ctx) of
             (Some agent, Some grant) \<Rightarrow>
               eff_bind (run_proxy D ev agent grant (nullish (ax_args ctx) [])) (\<lambda>result.
               ok_reply (case er_data result of None \<Rightarrow> [] | Some j \<Rightarrow> [(''data'', j)]))
           | _ \<Rightarrow> eff_throw (err InternalError ''authorization incomplete'' 500)))"

definition denial_entry :: "gateway_deps \<Rightarrow> auth_context \<Rightarrow> agent \<Rightarrow> new_audit_entry" where
  "denial_entry D ctx agent =
    \<lparr>ne_agentId = Some (a_id agent), ne_hostId = Some (a_hostId agent), ne_eventType = ''capability.denied'',
     ne_capability = ax_capability ctx, ne_connectionId = Option.bind (ax_grant ctx) g_connectionId,
     ne_operation = Option.bind (ax_grant ctx) g_operation, ne_taskId = Option.bind (ax_grant ctx) g_taskId,
     ne_outcome = OutcomeDenied,
     ne_argsHash = Some (hashArgs (xd_crypto (gd_proxy D)) (gd_json D) (nullish (ax_args ctx) [])),
     ne_durationMs = None\<rparr>"

text \<open>The audit of a denial is best effort: its own failure is swallowed.\<close>

definition audit_denial :: "gateway_deps \<Rightarrow> auth_context \<Rightarrow> fault \<Rightarrow> unit gateway_op" where
  "audit_denial D ctx f =
     (case (f, ax_agent ctx) of
        (ConduitError e, Some agent) \<Rightarrow>
          if ce_httpStatus e = 403 \<or> ce_httpStatus e = 429
          then eff_catch (on_gdb (audit_append (denial_entry D ctx agent))) (\<lambda>_. eff_return ())
          else eff_return ()
      | _ \<Rightarrow> eff_return ())"

definition post_execute :: "gateway_deps \<Rightarrow> request_env \<Rightarrow> execute_body \<Rightarrow> http_reply gateway_op" where
  "post_execute D ev body =
     eff_bind (request_token ev) (\<lambda>token.
     eff_bind (eff_require (truthy (xb_capability body)) (err InvalidRequest ''capability is required'' 400)) (\<lambda>_.
     eff_bind (tracked_pipeline D ev
       (start_context token AgentJwt (xb_capability body) (Some (nullish (xb_args body) [])))) (\<lambda>r.
     eff_catch (run_capability D ev r) (\<lambda>e.
       eff_bind (audit_denial D (snd r) e) (\<lambda>_. eff_throw e)))))"

end
