(* ===== verification/Identity_Routes.thy ===== *)
theory Identity_Routes
  imports Agent_Routes
begin

text \<open>
  \<^verbatim>\<open>routes/identityRoutes.ts\<close>: registration and lifecycle of agents and hosts, introspection and
  projects.  All but the project list and \<open>/agent/status\<close> act for the host of a host token.
\<close>

text \<open>\<open>typeof t === 'string' && t.trim()\<close>, trimmed.\<close>

definition trimmed :: "string option \<Rightarrow> string option" where
  "trimmed t = (case t of None \<Rightarrow> None | Some x \<Rightarrow> if js_trim x \<noteq> [] then Some (js_trim x) else None)"

text \<open>The start of the handlers that act on the agent named in the body.\<close>

definition host_and_agent_text :: "gateway_deps \<Rightarrow> request_env \<Rightarrow> string option \<Rightarrow> (host \<times> string) gateway_op" where
  "host_and_agent_text D ev agent_id =
     eff_bind (auth_host D ev) (\<lambda>host.
     eff_bind (eff_require (truthy agent_id) (err InvalidRequest ''agent_id is required'' 400)) (\<lambda>_.
     eff_return (host, the agent_id)))"

section \<open>Agents\<close>

record register_body =
  rb_agent_public_key :: "jwk option"
  rb_mode :: "string option"
  rb_capabilities :: "string list option"
  rb_name :: "string option"
  rb_description :: "string option"
  rb_project_id :: "string option"

definition register_mode :: "string option \<Rightarrow> agent_mode" where
  "register_mode m = (if m = Some ''autonomous'' then Autonomous else Delegated)"

text \<open>A project id that is no uuid fails at the insertion, after the host has been checked.\<close>

definition before_register_insert :: "uuid \<Rightarrow> unit gateway_op" where
  "before_register_insert hostId =
     eff_bind (on_gdb (hosts_findById hostId)) (\<lambda>found.
     eff_bind (eff_some found (err HostNotFound ''host not found'' 404)) (\<lambda>host.
     eff_require (h_status host = HostActive) (err HostPendingError ''host is not active'' 403)))"

definition post_register :: "gateway_deps \<Rightarrow> request_env \<Rightarrow> register_body \<Rightarrow> http_reply gateway_op" where
  "post_register D ev body =
     eff_bind (auth_host D ev) (\<lambda>host.
     eff_bind (eff_some (rb_agent_public_key body)
       (err InvalidRequest ''agent_public_key is required'' 400)) (\<lambda>key.
     eff_bind (late_uuid_param D (before_register_insert (h_id host)) (rb_project_id body)) (\<lambda>projectId.
     eff_bind (on_gdb (registerAgent (gd_identity D) (ev_now1 ev) (h_id host)
       \<lparr>ra_publicKeyJwk = key, ra_mode = register_mode (rb_mode body),
        ra_requestedCapabilities = nullish (rb_capabilities body) [], ra_name = trimmed (rb_name body),
        ra_description = trimmed (rb_description body), ra_projectId = projectId\<rparr>)) (\<lambda>agent.
     created_reply
       [(''agent_id'', juuid D (a_id agent)), (''status'', JStr (agent_state_wire (a_status agent))),
        (''mode'', JStr (agent_mode_wire (a_mode agent))), (''name'', nullable JStr (a_name agent))]))))"

definition post_agent_revoke :: "gateway_deps \<Rightarrow> request_env \<Rightarrow> string option \<Rightarrow> http_reply gateway_op" where
  "post_agent_revoke D ev agent_id =
     eff_bind (host_and_agent_text D ev agent_id) (\<lambda>(host, t).
     eff_bind (uuid_param D t) (\<lambda>i.
     eff_bind (on_gdb (revokeAgent (gd_identity D) (h_id host) i)) (\<lambda>_.
     ok_reply [(''agent_id'', JStr t), (''status'', JStr ''revoked'')])))"

definition post_agent_update ::
  "gateway_deps \<Rightarrow> request_env \<Rightarrow> string option \<Rightarrow> string option \<Rightarrow> string option \<Rightarrow> http_reply gateway_op" where
  "post_agent_update D ev agent_id nm descr =
     eff_bind (host_and_agent_text D ev agent_id) (\<lambda>(host, t).
     eff_bind (uuid_param D t) (\<lambda>i.
     eff_bind (on_gdb (updateAgentMetadata (h_id host) i (trimmed nm) (trimmed descr))) (\<lambda>_.
     ok_reply
       [(''agent_id'', JStr t), (''name'', nullable JStr (trimmed nm)),
        (''description'', nullable JStr (trimmed descr))])))"

definition post_agent_reactivate :: "gateway_deps \<Rightarrow> request_env \<Rightarrow> string option \<Rightarrow> http_reply gateway_op" where
  "post_agent_reactivate D ev agent_id =
     eff_bind (host_and_agent_text D ev agent_id) (\<lambda>(host, t).
     eff_bind (uuid_param D t) (\<lambda>i.
     eff_bind (on_gdb (reactivateAgent (gd_identity D) (ev_now1 ev) (ev_now2 ev) (h_id host) i)) (\<lambda>agent.
     ok_reply
       [(''agent_id'', juuid D (a_id agent)), (''status'', JStr (agent_state_wire (a_status agent))),
        (''session_expires_at'', nullable (jdate D) (a_sessionExpiresAt agent))])))"

definition post_agent_rotate_key ::
  "gateway_deps \<Rightarrow> request_env \<Rightarrow> string option \<Rightarrow> jwk option \<Rightarrow> http_reply gateway_op" where
  "post_agent_rotate_key D ev agent_id key =
     eff_bind (auth_host D ev) (\<lambda>host.
     eff_bind (eff_require (truthy agent_id \<and> key \<noteq> None)
       (err InvalidRequest ''agent_id and agent_public_key are required'' 400)) (\<lambda>_.
     eff_bind (uuid_param D (the agent_id)) (\<lambda>i.
     eff_bind (on_gdb (rotateAgentKey (h_id host) i (the key))) (\<lambda>agent.
     ok_reply [(''agent_id'', juuid D (a_id agent)), (''rotated'', JBool True)]))))"

definition post_agent_project ::
  "gateway_deps \<Rightarrow> request_env \<Rightarrow> string option \<Rightarrow> string option \<Rightarrow> http_reply gateway_op" where
  "post_agent_project D ev agent_id project_id =
     eff_bind (host_and_agent_text D ev agent_id) (\<lambda>(host, t).
     eff_bind (uuid_param D t) (\<lambda>i.
     eff_bind (late_uuid_param D (forget (on_gdb (owned_agent (h_id host) i))) (trimmed project_id)) (\<lambda>projectId.
     eff_bind (on_gdb (setAgentProject (h_id host) i projectId)) (\<lambda>_.
     ok_reply [(''agent_id'', JStr t), (''project_id'', nullable JStr (trimmed project_id))]))))"

section \<open>Hosts\<close>

definition post_host_revoke :: "gateway_deps \<Rightarrow> request_env \<Rightarrow> http_reply gateway_op" where
  "post_host_revoke D ev =
     eff_bind (auth_host D ev) (\<lambda>host.
     eff_bind (on_gdb (revokeHost (gd_identity D) (h_id host))) (\<lambda>_.
     ok_reply [(''host_id'', juuid D (h_id host)), (''status'', JStr ''revoked'')]))"

definition post_host_rotate_key :: "gateway_deps \<Rightarrow> request_env \<Rightarrow> jwk option \<Rightarrow> http_reply gateway_op" where
  "post_host_rotate_key D ev key =
     eff_bind (auth_host D ev) (\<lambda>host.
     eff_bind (eff_some key (err InvalidRequest ''host_public_key is required'' 400)) (\<lambda>k.
     eff_bind (on_gdb (rotateHostKey (gd_identity D) (h_id host) k)) (\<lambda>updated.
     ok_reply [(''host_id'', juuid D (h_id updated)), (''rotated'', JBool True)])))"

section \<open>Introspection\<close>

definition introspection_json :: "introspection_result \<Rightarrow> json_object" where
  "introspection_json r =
     [(''active'', JBool (ir_active r))] @ member ''sub'' (ir_sub r) @ member ''iss'' (ir_iss r) @
     member ''aud'' (ir_aud r) @ member ''exp'' (ir_exp r) @ member ''iat'' (ir_iat r) @
     member ''jti'' (ir_jti r) @ member ''typ'' (map_option JStr (ir_typ r)) @
     member ''agent_status'' (map_option JStr (ir_agent_status r)) @
     member ''mode'' (map_option JStr (ir_mode r)) @
     member ''capabilities'' (map_option jstrs (ir_capabilities r))"

definition post_introspect :: "gateway_deps \<Rightarrow> request_env \<Rightarrow> string option \<Rightarrow> http_reply gateway_op" where
  "post_introspect D ev token =
     eff_bind (requireJwt D ev HostJwt) (\<lambda>_.
     eff_bind (eff_require (truthy token) (err InvalidRequest ''token is required'' 400)) (\<lambda>_.
     eff_bind (on_gdb (introspect (gd_identity D) (ev_now1 ev) (ev_now2 ev) (the token))) (\<lambda>r.
     ok_reply (introspection_json r))))"

section \<open>Projects\<close>

definition get_projects :: "gateway_deps \<Rightarrow> http_reply gateway_op" where
  "get_projects D =
     eff_bind (on_gdb listProjects) (\<lambda>projects.
     ok_reply
       [(''projects'', JArr (map (\<lambda>p. JObj
           [(''id'', juuid D (p_id p)), (''name'', JStr (p_name p)),
            (''description'', nullable JStr (p_description p)), (''created_at'', jdate D (p_createdAt p))])
          projects))])"

definition post_project ::
  "gateway_deps \<Rightarrow> request_env \<Rightarrow> string option \<Rightarrow> string option \<Rightarrow> http_reply gateway_op" where
  "post_project D ev nm descr =
     eff_bind (auth_host D ev) (\<lambda>host.
     eff_bind (eff_some (trimmed nm) (err InvalidRequest ''name is required'' 400)) (\<lambda>n.
     eff_bind (on_gdb (createProject (h_id host) n (trimmed descr))) (\<lambda>p.
     created_reply [(''id'', juuid D (p_id p)), (''name'', JStr (p_name p))])))"

text \<open>
  The service compares the text of the request with the ids of the members' projects, but the
  database compares ids: an id in another notation (upper case) counts no members.
\<close>

definition delete_project_text :: "gateway_deps \<Rightarrow> uuid \<Rightarrow> string \<Rightarrow> uuid \<Rightarrow> unit db_op" where
  "delete_project_text D hostId t i =
     (if k_uuid (gd_codec D) i = t then deleteProject (gd_identity D) hostId i
      else eff_bind (projects_delete i) (\<lambda>_. auditProject hostId ''project.delete'' None))"

definition delete_project :: "gateway_deps \<Rightarrow> request_env \<Rightarrow> string \<Rightarrow> http_reply gateway_op" where
  "delete_project D ev t =
     eff_bind (auth_host D ev) (\<lambda>host.
     eff_bind (uuid_param D t) (\<lambda>i.
     eff_bind (on_gdb (delete_project_text D (h_id host) t i)) (\<lambda>_.
     ok_reply [(''deleted'', JBool True)])))"

section \<open>The status of an agent\<close>

definition get_agent_status :: "gateway_deps \<Rightarrow> request_env \<Rightarrow> http_reply gateway_op" where
  "get_agent_status D ev =
     eff_bind (requireJwt D ev AgentJwt) (\<lambda>ctx.
     eff_bind (eff_some (ax_agent ctx) (err AgentNotFound ''agent not resolved'' 401)) (\<lambda>agent.
     eff_bind (on_gdb (listGrants (a_id agent))) (\<lambda>grants.
     ok_reply
       [(''agent_id'', juuid D (a_id agent)), (''host_id'', juuid D (a_hostId agent)),
        (''name'', nullable JStr (a_name agent)), (''status'', JStr (agent_state_wire (a_status agent))),
        (''mode'', JStr (agent_mode_wire (a_mode agent))),
        (''agent_capability_grants'', JArr (map (serializeGrant D) grants)),
        (''created_at'', jdate D (a_createdAt agent)), (''last_used_at'', JNull),
        (''expires_at'', nullable (jdate D) (a_sessionExpiresAt agent)),
        (''absolute_expires_at'', nullable (jdate D) (a_absoluteExpiresAt agent))])))"

end
