(* ===== verification/Admin_Routes.thy ===== *)
theory Admin_Routes
  imports Identity_Routes
begin

text \<open>
  \<^verbatim>\<open>routes/adminRoutes.ts\<close>: what the dashboard reads and changes - agents, connections, the wiring
  between them, the audit log, the compliance report and the run-time settings.  The listings need
  no token.
\<close>

section \<open>Page parameters\<close>

text \<open>
  \<open>Number(limit)\<close>, clamped by the repository to 1..200; what is then no whole number makes the
  statement fail.
\<close>

definition limit_param :: "string option \<Rightarrow> fault + int option" where
  "limit_param t =
     (case t of
        None \<Rightarrow> Inr None
      | Some x \<Rightarrow>
          if js_trim x \<in> {''Infinity'', ''+Infinity''} then Inr (Some 200)
          else if js_trim x = ''-Infinity'' then Inr (Some 1)
          else (case js_number x of
                  None \<Rightarrow> Inl (OtherError ''invalid input syntax for type bigint'')
                | Some q \<Rightarrow>
                    if q \<le> 1 then Inr (Some 1) else if 200 \<le> q then Inr (Some 200)
                    else (case rat_int q of
                            Some n \<Rightarrow> Inr (Some n)
                          | None \<Rightarrow> Inl (OtherError ''invalid input syntax for type bigint''))))"

text \<open>A page of a list operation; a malformed cursor is found before the limit is sent.\<close>

definition list_page :: "(int option \<Rightarrow> 'a page db_op) \<Rightarrow> string option \<Rightarrow> 'a page gateway_op" where
  "list_page query limit =
     (case limit_param limit of
        Inr n \<Rightarrow> on_gdb (query n)
      | Inl e \<Rightarrow> eff_bind (on_gdb (query None)) (\<lambda>_. eff_throw e))"

definition page_json :: "string \<Rightarrow> ('a \<Rightarrow> json) \<Rightarrow> 'a page \<Rightarrow> json_object" where
  "page_json nm f page =
     [(nm, JArr (map f (pg_items page))), (''next_cursor'', nullable JStr (pg_nextCursor page)),
      (''has_more'', JBool (pg_hasMore page))]"

section \<open>Agents\<close>

definition agent_json :: "gateway_deps \<Rightarrow> agent \<Rightarrow> json" where
  "agent_json D a = JObj
    [(''id'', juuid D (a_id a)), (''host_id'', juuid D (a_hostId a)),
     (''project_id'', nullable (juuid D) (a_projectId a)), (''name'', nullable JStr (a_name a)),
     (''description'', nullable JStr (a_description a)), (''status'', JStr (agent_state_wire (a_status a))),
     (''mode'', JStr (agent_mode_wire (a_mode a))), (''created_at'', jdate D (a_createdAt a)),
     (''activated_at'', nullable (jdate D) (a_activatedAt a)),
     (''session_expires_at'', nullable (jdate D) (a_sessionExpiresAt a))]"

definition get_agents :: "gateway_deps \<Rightarrow> string option \<Rightarrow> string option \<Rightarrow> http_reply gateway_op" where
  "get_agents D limit cursor =
     eff_bind (list_page (\<lambda>n. agents_list (gd_codec D) \<lparr>q_cursor = cursor, q_limit = n\<rparr>) limit) (\<lambda>page.
     ok_reply (page_json ''agents'' (agent_json D) page))"

definition grant_risk :: "capability_grant \<Rightarrow> risk_level" where
  "grant_risk g = riskLevel (g_operation g) (g_capability g)"

definition blast_level :: "int \<Rightarrow> string" where
  "blast_level n = (if 8 \<le> n then ''high'' else if 3 \<le> n then ''med'' else ''low'')"

definition agent_risk :: "gateway_deps \<Rightarrow> agent \<Rightarrow> json db_op" where
  "agent_risk D a =
     eff_bind (grants_findForAgent (a_id a)) (\<lambda>grants.
     let active = filter (\<lambda>g. g_status g = GrantActive) grants;
         blast = fold (\<lambda>g s. s + riskRank (grant_risk g)) active 0
     in eff_return (JObj
          [(''agent_id'', juuid D (a_id a)), (''active_grants'', jint (int (length active))),
           (''blast_radius'', jint blast), (''level'', JStr (blast_level blast))]))"

definition get_agents_risk :: "gateway_deps \<Rightarrow> http_reply gateway_op" where
  "get_agents_risk D =
     eff_bind (on_gdb (agents_list (gd_codec D) \<lparr>q_cursor = None, q_limit = Some 500\<rparr>)) (\<lambda>page.
     eff_bind (on_gdb (eff_mapM (agent_risk D) (pg_items page))) (\<lambda>rows.
     ok_reply [(''agents'', JArr rows)]))"

section \<open>Connections\<close>

record connection_body =
  nb_name :: "string option"
  nb_platform :: "string option"
  nb_auth_method :: "string option"
  nb_secret :: "secret option"
  nb_allowed_operations :: "string list option"
  nb_project_id :: "string option"

definition post_connection :: "gateway_deps \<Rightarrow> request_env \<Rightarrow> connection_body \<Rightarrow> http_reply gateway_op" where
  "post_connection D ev body =
     eff_bind (requireJwt D ev HostJwt) (\<lambda>_.
     eff_bind (eff_require (truthy (nb_name body) \<and> truthy (nb_platform body) \<and> nb_secret body \<noteq> None)
       (err InvalidRequest ''name, platform, and secret are required'' 400)) (\<lambda>_.
     eff_bind (late_uuid_param D (eff_return ()) (nb_project_id body)) (\<lambda>projectId.
     eff_bind (on_gdb (registerConnection (gd_connections D) (ev_iv ev)
       \<lparr>rc_name = the (nb_name body), rc_platform = the (nb_platform body),
        rc_authMethod = (if truthy (nb_auth_method body) then nb_auth_method body else None),
        rc_secret = the (nb_secret body), rc_allowedOperations = nullish (nb_allowed_operations body) [],
        rc_projectId = projectId\<rparr>)) (\<lambda>c.
     created_reply
       [(''connection_id'', juuid D (c_id c)), (''name'', JStr (c_name c)), (''platform'', JStr (c_platform c))]))))"

text \<open>In a patch an absent project id is left alone, and \<^verbatim>\<open>null\<close> clears it.\<close>

record connection_patch =
  np_name :: "string option"
  np_allowed_operations :: "string list option"
  np_auth_method :: "string option"
  np_secret :: "secret option"
  np_project_id :: "string option option"

definition patch_connection ::
  "gateway_deps \<Rightarrow> request_env \<Rightarrow> string \<Rightarrow> connection_patch \<Rightarrow> http_reply gateway_op" where
  "patch_connection D ev t body =
     eff_bind (requireJwt D ev HostJwt) (\<lambda>_.
     eff_bind (uuid_param D t) (\<lambda>i.
     eff_bind (late_uuid_param D (forget (on_gdb (existing_connection i)))
       (Option.bind (np_project_id body) id)) (\<lambda>projectId.
     eff_bind (on_gdb (updateConnection (gd_connections D) (ev_iv ev) i
       \<lparr>uc_name = np_name body, uc_allowedOperations = np_allowed_operations body,
        uc_authMethod = np_auth_method body, uc_secret = np_secret body,
        uc_projectId = map_option (\<lambda>_. projectId) (np_project_id body)\<rparr>)) (\<lambda>c.
     ok_reply
       [(''connection_id'', juuid D (c_id c)), (''name'', JStr (c_name c)), (''platform'', JStr (c_platform c)),
        (''allowed_operations'', jstrs (c_allowedOperations c))]))))"

definition delete_connection :: "gateway_deps \<Rightarrow> request_env \<Rightarrow> string \<Rightarrow> http_reply gateway_op" where
  "delete_connection D ev t =
     eff_bind (requireJwt D ev HostJwt) (\<lambda>_.
     eff_bind (uuid_param D t) (\<lambda>i.
     eff_bind (on_gdb (deleteConnection i)) (\<lambda>_.
     ok_reply [(''deleted'', JBool True)])))"

fun depth_wire :: "test_depth \<Rightarrow> string" where
  "depth_wire Structure = ''structure''"
| "depth_wire Live = ''live''"

definition post_connection_test :: "gateway_deps \<Rightarrow> request_env \<Rightarrow> string \<Rightarrow> http_reply gateway_op" where
  "post_connection_test D ev t =
     eff_bind (requireJwt D ev HostJwt) (\<lambda>_.
     eff_bind (uuid_param D t) (\<lambda>i.
     eff_bind (on_gdb (testConnection (gd_connections D) (ev_now1 ev) i)) (\<lambda>r.
     ok_reply
       [(''ok'', JBool (tr_ok r)), (''checked'', JStr (depth_wire (tr_checked r))),
        (''detail'', JStr (tr_detail r))])))"

definition connection_json :: "gateway_deps \<Rightarrow> connection \<Rightarrow> json" where
  "connection_json D c = JObj
    [(''id'', juuid D (c_id c)), (''name'', JStr (c_name c)),
     (''project_id'', nullable (juuid D) (c_projectId c)), (''platform'', JStr (c_platform c)),
     (''allowed_operations'', jstrs (c_allowedOperations c)), (''created_at'', jdate D (c_createdAt c)),
     (''last_test_ok'', nullable JBool (c_lastTestOk c)),
     (''last_test_at'', nullable (jdate D) (c_lastTestAt c)),
     (''last_test_detail'', nullable JStr (c_lastTestDetail c))]"

definition get_connections :: "gateway_deps \<Rightarrow> http_reply gateway_op" where
  "get_connections D =
     eff_bind (on_gdb (listConnections (gd_connections D))) (\<lambda>conns.
     ok_reply [(''connections'', JArr (map (connection_json D) conns))])"

section \<open>The audit log\<close>

definition outcome_of :: "string \<Rightarrow> audit_outcome option" where
  "outcome_of t = find (\<lambda>oc. audit_outcome_wire oc = t) [OutcomeSuccess, OutcomeDenied, OutcomeError]"

text \<open>An empty filter is none, and an unknown outcome matches no entry.\<close>

definition query_audit ::
  "gateway_deps \<Rightarrow> uuid option \<Rightarrow> string option \<Rightarrow> string option \<Rightarrow> int option \<Rightarrow> audit_entry page db_op" where
  "query_audit D agentId outcome cursor limit d =
     (let q = \<lparr>q_cursor = cursor, q_limit = limit, aq_agentId = agentId,
               aq_outcome = Option.bind outcome outcome_of, aq_from = None, aq_to = None\<rparr> in
      if truthy outcome \<and> outcome_of (the outcome) = None
      then (fst (audit_query_page (gd_codec D) q (d\<lparr>db_audit := []\<rparr>)), d)
      else audit_query_page (gd_codec D) q d)"

definition entry_json :: "gateway_deps \<Rightarrow> audit_entry \<Rightarrow> json" where
  "entry_json D e = JObj
    [(''id'', juuid D (ae_id e)), (''agent_id'', nullable (juuid D) (ae_agentId e)),
     (''event_type'', JStr (ae_eventType e)), (''capability'', nullable JStr (ae_capability e)),
     (''connection_id'', nullable (juuid D) (ae_connectionId e)),
     (''operation'', nullable JStr (ae_operation e)), (''task_id'', nullable (juuid D) (ae_taskId e)),
     (''outcome'', JStr (audit_outcome_wire (ae_outcome e))), (''args_hash'', nullable JStr (ae_argsHash e)),
     (''duration_ms'', nullable jint (ae_durationMs e)), (''created_at'', jdate D (ae_createdAt e))]"

definition get_audit ::
  "gateway_deps \<Rightarrow> string option \<Rightarrow> string option \<Rightarrow> string option \<Rightarrow> string option \<Rightarrow> http_reply gateway_op" where
  "get_audit D agent_id outcome limit cursor =
     eff_bind (late_uuid_param D
       (forget (list_page (query_audit D None outcome cursor) None))
       (if truthy agent_id then agent_id else None)) (\<lambda>agentId.
     eff_bind (list_page (query_audit D agentId outcome cursor) limit) (\<lambda>page.
     ok_reply (page_json ''entries'' (entry_json D) page)))"

section \<open>The wiring of agents and connections\<close>

definition get_agent_connections :: "gateway_deps \<Rightarrow> string \<Rightarrow> http_reply gateway_op" where
  "get_agent_connections D t =
     eff_bind (uuid_param D t) (\<lambda>i.
     eff_bind (on_gdb (listAgentConnections i)) (\<lambda>items.
     ok_reply
       [(''connections'', JArr (map (\<lambda>(g, nm, platform). JObj
           [(''connection_id'', juuid D (cg_connectionId g)), (''name'', JStr nm), (''platform'', JStr platform),
            (''allowed_operations'', jstrs (cg_allowedOperations g)),
            (''rate_limit'', nullable jint (cg_rateLimit g))]) items))]))"

record attach_body =
  at_connection_id :: "string option"
  at_allowed_operations :: "string list option"
  at_rate_limit :: "int option"

definition post_agent_connection ::
  "gateway_deps \<Rightarrow> request_env \<Rightarrow> string \<Rightarrow> attach_body \<Rightarrow> http_reply gateway_op" where
  "post_agent_connection D ev t body =
     eff_bind (auth_host D ev) (\<lambda>host.
     eff_bind (eff_require (truthy (at_connection_id body))
       (err InvalidRequest ''connection_id is required'' 400)) (\<lambda>_.
     eff_bind (uuid_param D t) (\<lambda>i.
     eff_bind (late_uuid_param D (forget (on_gdb (hosted_agent (h_id host) i))) (at_connection_id body)) (\<lambda>c.
     eff_bind (on_gdb (attachConnection (gd_connections D) (h_id host) i (the c)
       (nullish (at_allowed_operations body) []) (at_rate_limit body))) (\<lambda>g.
     created_reply
       [(''connection_id'', juuid D (cg_connectionId g)),
        (''allowed_operations'', jstrs (cg_allowedOperations g)),
        (''rate_limit'', nullable jint (cg_rateLimit g))])))))"

definition delete_agent_connection :: "gateway_deps \<Rightarrow> request_env \<Rightarrow> string \<Rightarrow> string \<Rightarrow> http_reply gateway_op" where
  "delete_agent_connection D ev t connectionId =
     eff_bind (auth_host D ev) (\<lambda>host.
     eff_bind (uuid_param D t) (\<lambda>i.
     eff_bind (late_uuid_param D (forget (on_gdb (hosted_agent (h_id host) i))) (Some connectionId)) (\<lambda>c.
     eff_bind (on_gdb (detachConnection (h_id host) i (the c))) (\<lambda>_.
     ok_reply [(''detached'', JBool True)]))))"

text \<open>A grant is shown as blocked when the authorizations of its agent would refuse it.\<close>

definition grant_blocked :: "connection_grant list \<Rightarrow> capability_grant \<Rightarrow> bool" where
  "grant_blocked connGrants g =
     (if connGrants = [] then False
      else case g_connectionId g of
             None \<Rightarrow> False
           | Some c \<Rightarrow>
               (case find (\<lambda>a. cg_connectionId a = c) connGrants of
                  None \<Rightarrow> True
                | Some a \<Rightarrow>
                    cg_allowedOperations a \<noteq> [] \<and>
                    (case g_operation g of None \<Rightarrow> False | Some op \<Rightarrow> op \<notin> set (cg_allowedOperations a))))"

definition shown_grant :: "gateway_deps \<Rightarrow> connection_grant list \<Rightarrow> capability_grant \<Rightarrow> json" where
  "shown_grant D connGrants g = JObj
    [(''capability'', JStr (g_capability g)), (''connection_id'', nullable (juuid D) (g_connectionId g)),
     (''operation'', nullable JStr (g_operation g)), (''task_id'', nullable (juuid D) (g_taskId g)),
     (''status'', JStr (grant_status_wire (g_status g))), (''risk'', JStr (risk_wire (grant_risk g))),
     (''blocked'', JBool (grant_blocked connGrants g))]"

definition get_agent_grants :: "gateway_deps \<Rightarrow> string \<Rightarrow> http_reply gateway_op" where
  "get_agent_grants D t =
     eff_bind (uuid_param D t) (\<lambda>i.
     eff_bind (on_gdb (grants_findForAgent i)) (\<lambda>grants.
     eff_bind (on_gdb (connGrants_listByAgent i)) (\<lambda>connGrants.
     ok_reply [(''grants'', JArr (map (shown_grant D connGrants) grants))])))"

section \<open>Compliance, connectors, settings\<close>

fun status_wire :: "control_status \<Rightarrow> string" where
  "status_wire Met = ''met''"
| "status_wire Partial = ''partial''"
| "status_wire Gap = ''gap''"

definition compliance_json :: "control_domain list \<Rightarrow> json_object" where
  "compliance_json domains =
     (let n = complianceSummary domains in
      [(''summary'', JObj
          [(''met'', jint (int (cc_met n))), (''partial'', jint (int (cc_partial n))),
           (''gap'', jint (int (cc_gap n))), (''total'', jint (int (cc_total n)))]),
       (''domains'', JArr (map (\<lambda>d. JObj
          [(''domain'', JStr (cd_domain d)),
           (''controls'', JArr (map (\<lambda>c. JObj
              [(''id'', JStr (ctl_id c)), (''title'', JStr (ctl_title c)),
               (''status'', JStr (status_wire (ctl_status c))), (''detail'', JStr (ctl_detail c))])
              (cd_controls d)))]) domains))])"

definition get_compliance :: "http_reply gateway_op" where
  "get_compliance =
     eff_bind (eff_read gw_settings) (\<lambda>settings.
     ok_reply (compliance_json (buildComplianceReport settings)))"

definition field_json :: "connector_field \<Rightarrow> json" where
  "field_json f = JObj
    ([(''key'', JStr (cf_key f)), (''label'', JStr (cf_label f)), (''secret'', JBool (cf_secret f)),
      (''required'', JBool (cf_required f))] @
     member ''placeholder'' (map_option JStr (cf_placeholder f)) @ member ''help'' (map_option JStr (cf_help f)))"

definition driver_label :: "platform_driver \<Rightarrow> string" where
  "driver_label d = nullish (dv_label d) (dv_platform d)"

definition driver_json :: "platform_driver \<Rightarrow> json" where
  "driver_json d = JObj
    [(''platform'', JStr (dv_platform d)), (''label'', JStr (driver_label d)),
     (''auth_methods'', jstrs (dv_supportedAuthMethods d)), (''docs_url'', nullable JStr (dv_docsUrl d)),
     (''fields'', JArr (map field_json (nullish (dv_credentialFields d) []))),
     (''operations'', JArr (map (\<lambda>p. JObj [(''name'', JStr (od_name p)), (''description'', JStr (od_description p))])
        (dv_supportedOperations d)))]"

definition get_connectors :: "gateway_deps \<Rightarrow> http_reply gateway_op" where
  "get_connectors D =
     ok_reply
       [(''connectors'', JArr (map driver_json
          (sort_key (\<lambda>d. gd_collate D (driver_label d)) (gd_connectors D))))]"

definition settings_reply :: "runtime_settings \<Rightarrow> http_reply gateway_op" where
  "settings_reply c = eff_return \<lparr>re_status = 200, re_headers = [], re_body = settings_json c\<rparr>"

definition get_admin_config :: "gateway_deps \<Rightarrow> request_env \<Rightarrow> http_reply gateway_op" where
  "get_admin_config D ev =
     eff_bind (requireJwt D ev HostJwt) (\<lambda>_. eff_bind (eff_read gw_settings) settings_reply)"

definition patch_admin_config :: "gateway_deps \<Rightarrow> request_env \<Rightarrow> json \<Rightarrow> http_reply gateway_op" where
  "patch_admin_config D ev body =
     eff_bind (requireJwt D ev HostJwt) (\<lambda>ctx.
     eff_bind (eff_write (\<lambda>s. s\<lparr>gw_settings := settings_update body (gw_settings s)\<rparr>)) (\<lambda>_.
     eff_bind (eff_read gw_settings) (\<lambda>updated.
     eff_bind (on_gdb (audit_append
       \<lparr>ne_agentId = None, ne_hostId = map_option h_id (ax_host ctx), ne_eventType = ''admin.config.update'',
        ne_capability = None, ne_connectionId = None, ne_operation = None, ne_taskId = None,
        ne_outcome = OutcomeSuccess, ne_argsHash = None, ne_durationMs = None\<rparr>)) (\<lambda>_.
     settings_reply updated))))"

end
