(* ===== verification/Gateway_App.thy ===== *)
theory Gateway_App
  imports Admin_Routes
begin

text \<open>
  \<^verbatim>\<open>server/gatewayApp.ts\<close> with \<^verbatim>\<open>routes/wellKnownRoutes.ts\<close>, \<^verbatim>\<open>routes/observabilityRoutes.ts\<close>
  and the tool registry routes: the matched routes as one datatype, and the way of a request through
  the guards, the handler and the error middleware.
\<close>

section \<open>Discovery, observability, health\<close>

definition cacheable :: "json \<Rightarrow> http_reply gateway_op" where
  "cacheable body =
     eff_return \<lparr>re_status = 200, re_headers = [(''Cache-Control'', ''public, max-age=3600'')], re_body = body\<rparr>"

definition em_dash :: string where
  "em_dash = [CHR 0xE2, CHR 0x80, CHR 0x94]"

definition endpoint_paths :: "(string \<times> string) list" where
  "endpoint_paths =
    [(''register'', ''/agent/register''), (''capabilities'', ''/capability/list''),
     (''describe_capability'', ''/capability/describe''), (''execute'', ''/capability/execute''),
     (''request_capability'', ''/agent/request-capability''), (''status'', ''/agent/status''),
     (''reactivate'', ''/agent/reactivate''), (''revoke'', ''/agent/revoke''),
     (''revoke_host'', ''/host/revoke''), (''rotate_key'', ''/agent/rotate-key''),
     (''rotate_host_key'', ''/host/rotate-key''), (''introspect'', ''/agent/introspect'')]"

definition buildAgentConfiguration :: "string \<Rightarrow> json" where
  "buildAgentConfiguration baseUrl =
     (let issuer = strip_slashes baseUrl in
      JObj
       [(''version'', JStr AAP_VERSION), (''provider_name'', JStr ''agent-conduit''),
        (''description'', JStr (''Agent Conduit '' @ em_dash @
           '' self-hosted unified gateway for AAP identity, governed connections, and tool routing.'')),
        (''issuer'', JStr issuer), (''default_location'', JStr (issuer @ ''/capability/execute'')),
        (''algorithms'', jstrs [''Ed25519'']), (''modes'', jstrs [''delegated'', ''autonomous'']),
        (''approval_methods'', jstrs [''device_authorization'']),
        (''endpoints'', JObj (map (\<lambda>(k, v). (k, JStr v)) endpoint_paths)),
        (''jwks_uri'', JStr (issuer @ ''/.well-known/jwks.json''))])"

definition token_stat_json :: "token_stat \<Rightarrow> json" where
  "token_stat_json t = JObj [(''calls'', jint (int (tk_calls t))), (''totalTokens'', jint (int (tk_totalTokens t)))]"

definition latency_json :: "latency_stat \<Rightarrow> json" where
  "latency_json l = JObj
    [(''count'', jint (int (la_count l))), (''totalMs'', jint (la_totalMs l)),
     (''avgMs'', jint (la_avgMs l)), (''maxMs'', jint (la_maxMs l))]"

definition get_metrics :: "http_reply gateway_op" where
  "get_metrics =
     eff_bind (eff_read (\<lambda>s. metrics_snapshot_of (gw_metrics s))) (\<lambda>m.
     ok_reply
       [(''counters'', JObj (map (\<lambda>(k, n). (k, jint (int n))) (ms_counters m))),
        (''latency'', JObj (map (\<lambda>(k, l). (k, latency_json l)) (ms_latency m))),
        (''tokensByTool'', JObj (map (\<lambda>(k, t). (k, token_stat_json t)) (ms_tokensByTool m)))])"

text \<open>The stream of \<open>/events\<close>: the connection subscribes, and unsubscribes when it is closed.\<close>

definition open_events :: "nat \<Rightarrow> http_reply gateway_op" where
  "open_events listener =
     eff_bind (eff_write (\<lambda>s. s\<lparr>gw_listeners := subscribe listener (gw_listeners s)\<rparr>)) (\<lambda>_.
     eff_return
       \<lparr>re_status = 200,
        re_headers = [(''content-type'', ''text/event-stream''), (''cache-control'', ''no-cache''),
                      (''connection'', ''keep-alive'')],
        re_body = JStr (''retry: 3000'' @ [CHR 0x0A, CHR 0x0A])\<rparr>)"

definition close_events :: "nat \<Rightarrow> gateway_state \<Rightarrow> gateway_state" where
  "close_events listener s = s\<lparr>gw_listeners := unsubscribe listener (gw_listeners s)\<rparr>"

definition get_readyz :: "fault + bool \<Rightarrow> http_reply gateway_op" where
  "get_readyz health =
     eff_return
       (if health = Inr True
        then reply 200 [(''status'', JStr ''ready''), (''checks'', JObj [(''database'', JStr ''ok'')])]
        else reply 503 [(''status'', JStr ''degraded''), (''checks'', JObj [(''database'', JStr ''down'')])])"

section \<open>The tool registry\<close>

definition post_tools :: "gateway_deps \<Rightarrow> request_env \<Rightarrow> json \<Rightarrow> http_reply gateway_op" where
  "post_tools D ev body =
     eff_bind (requireJwt D ev HostJwt) (\<lambda>_. eff_bind (on_router (post_tool body)) created_reply)"

definition get_tools :: "gateway_deps \<Rightarrow> http_reply gateway_op" where
  "get_tools D = eff_bind (on_router (list_tools (gd_codec D))) ok_reply"

definition post_tools_flush :: "gateway_deps \<Rightarrow> request_env \<Rightarrow> http_reply gateway_op" where
  "post_tools_flush D ev =
     eff_bind (requireJwt D ev HostJwt) (\<lambda>_. eff_bind (on_router flush_tools) ok_reply)"

section \<open>Routes\<close>

datatype route =
    GetAgentConfiguration
  | GetJwks
  | PostAgentRegister register_body
  | PostAgentRevoke "string option"
  | PostAgentUpdate "string option" "string option" "string option"
  | PostAgentReactivate "string option"
  | PostAgentRotateKey "string option" "jwk option"
  | PostAgentProject "string option" "string option"
  | PostHostRevoke
  | PostHostRotateKey "jwk option"
  | PostIntrospect "string option"
  | GetProjects
  | PostProjects "string option" "string option"
  | DeleteProjects string
  | GetAgentStatus
  | PostAgentGrant grant_body
  | PostAgentTask task_body
  | PostTaskComplete string
  | GetTasks
  | PostRequestCapability request_capability_body
  | GetCapabilityList
  | GetCapabilityDescribe "string option"
  | PostCapabilityExecute execute_body
  | GetAgents "string option" "string option"
  | GetAgentsRisk
  | PostConnections connection_body
  | PatchConnections string connection_patch
  | DeleteConnections string
  | PostConnectionsTest string
  | GetConnections
  | GetAudit "string option" "string option" "string option" "string option"
  | GetAgentConnections string
  | PostAgentConnections string attach_body
  | DeleteAgentConnections string string
  | GetAgentGrants string
  | GetCompliance
  | GetConnectors
  | GetAdminConfig
  | PatchAdminConfig json
  | PostTools json
  | GetTools
  | PostToolsFlush
  | GetToolSchema string
  | GetEvents nat
  | GetMetrics
  | GetHealthz
  | GetReadyz
  | GetRoot

primrec handle_route :: "gateway_deps \<Rightarrow> request_env \<Rightarrow> route \<Rightarrow> http_reply gateway_op" where
  "handle_route D ev GetAgentConfiguration = cacheable (buildAgentConfiguration (gd_baseUrl D))"
| "handle_route D ev GetJwks = cacheable (JObj [(''keys'', JArr [])])"
| "handle_route D ev (PostAgentRegister body) = post_register D ev body"
| "handle_route D ev (PostAgentRevoke agent) = post_agent_revoke D ev agent"
| "handle_route D ev (PostAgentUpdate agent nm descr) = post_agent_update D ev agent nm descr"
| "handle_route D ev (PostAgentReactivate agent) = post_agent_reactivate D ev agent"
| "handle_route D ev (PostAgentRotateKey agent key) = post_agent_rotate_key D ev agent key"
| "handle_route D ev (PostAgentProject agent project) = post_agent_project D ev agent project"
| "handle_route D ev PostHostRevoke = post_host_revoke D ev"
| "handle_route D ev (PostHostRotateKey key) = post_host_rotate_key D ev key"
| "handle_route D ev (PostIntrospect token) = post_introspect D ev token"
| "handle_route D ev GetProjects = get_projects D"
| "handle_route D ev (PostProjects nm descr) = post_project D ev nm descr"
| "handle_route D ev (DeleteProjects t) = delete_project D ev t"
| "handle_route D ev GetAgentStatus = get_agent_status D ev"
| "handle_route D ev (PostAgentGrant body) = post_grant D ev body"
| "handle_route D ev (PostAgentTask body) = post_task D ev body"
| "handle_route D ev (PostTaskComplete t) = post_task_complete D ev t"
| "handle_route D ev GetTasks = get_tasks D ev"
| "handle_route D ev (PostRequestCapability body) = post_request_capability D ev body"
| "handle_route D ev GetCapabilityList = get_capability_list D ev"
| "handle_route D ev (GetCapabilityDescribe nm) = get_capability_describe D ev nm"
| "handle_route D ev (PostCapabilityExecute body) = post_execute D ev body"
| "handle_route D ev (GetAgents limit cursor) = get_agents D limit cursor"
| "handle_route D ev GetAgentsRisk = get_agents_risk D"
| "handle_route D ev (PostConnections body) = post_connection D ev body"
| "handle_route D ev (PatchConnections t body) = patch_connection D ev t body"
| "handle_route D ev (DeleteConnections t) = delete_connection D ev t"
| "handle_route D ev (PostConnectionsTest t) = post_connection_test D ev t"
| "handle_route D ev GetConnections = get_connections D"
| "handle_route D ev (GetAudit agent outcome limit cursor) = get_audit D agent outcome limit cursor"
| "handle_route D ev (GetAgentConnections t) = get_agent_connections D t"
| "handle_route D ev (PostAgentConnections t body) = post_agent_connection D ev t body"
| "handle_route D ev (DeleteAgentConnections t c) = delete_agent_connection D ev t c"
| "handle_route D ev (GetAgentGrants t) = get_agent_grants D t"
| "handle_route D ev GetCompliance = get_compliance"
| "handle_route D ev GetConnectors = get_connectors D"
| "handle_route D ev GetAdminConfig = get_admin_config D ev"
| "handle_route D ev (PatchAdminConfig body) = patch_admin_config D ev body"
| "handle_route D ev (PostTools body) = post_tools D ev body"
| "handle_route D ev GetTools = get_tools D"
| "handle_route D ev PostToolsFlush = post_tools_flush D ev"
| "handle_route D ev (GetToolSchema nm) = get_tool_schema D ev nm"
| "handle_route D ev (GetEvents listener) = open_events listener"
| "handle_route D ev GetMetrics = get_metrics"
| "handle_route D ev GetHealthz = ok_reply [(''status'', JStr ''ok'')]"
| "handle_route D ev GetReadyz = get_readyz (ev_health ev)"
| "handle_route D ev GetRoot = ok_reply [(''service'', JStr ''agent-conduit''), (''status'', JStr ''running'')]"

definition is_register :: "route \<Rightarrow> bool" where
  "is_register r = (case r of PostAgentRegister body \<Rightarrow> True | _ \<Rightarrow> False)"

definition gateway :: "gateway_deps \<Rightarrow> request_env \<Rightarrow> route \<Rightarrow> gateway_state \<Rightarrow> http_reply \<times> gateway_state" where
  "gateway D ev r = respond D ev (eff_bind (guards ev (is_register r)) (\<lambda>_. handle_route D ev r))"

text \<open>The routes that answer without a token.\<close>

definition public_route :: "route \<Rightarrow> bool" where
  "public_route r =
     (case r of
        GetAgentConfiguration \<Rightarrow> True | GetJwks \<Rightarrow> True | GetProjects \<Rightarrow> True | GetTasks \<Rightarrow> True
      | GetAgents limit cursor \<Rightarrow> True | GetAgentsRisk \<Rightarrow> True | GetConnections \<Rightarrow> True
      | GetAudit agent outcome limit cursor \<Rightarrow> True | GetAgentConnections t \<Rightarrow> True | GetAgentGrants t \<Rightarrow> True
      | GetCompliance \<Rightarrow> True | GetConnectors \<Rightarrow> True | GetTools \<Rightarrow> True | GetEvents l \<Rightarrow> True
      | GetMetrics \<Rightarrow> True | GetHealthz \<Rightarrow> True | GetReadyz \<Rightarrow> True | GetRoot \<Rightarrow> True | _ \<Rightarrow> False)"

text \<open>A history of requests, handled one after another.\<close>

fun serve :: "gateway_deps \<Rightarrow> (request_env \<times> route) list \<Rightarrow> gateway_state \<Rightarrow> gateway_state" where
  "serve D [] s = s"
| "serve D ((ev, r) # reqs) s = serve D reqs (snd (gateway D ev r s))"

end
