(* ===== verification/Auth_Laws.thy ===== *)
theory Auth_Laws
  imports Auth_Pipeline
begin

text \<open>
  What a passed pipeline guarantees, stage by stage and as a whole; what a run can change; and
  replays, inside and at the edge of the window.
\<close>

section \<open>Lifted operations\<close>

lemma on_db_eval: "on_db m s = (fst (m (as_db s)), s\<lparr>as_db := snd (m (as_db s))\<rparr>)"
  by (simp add: on_db_def eff_lift_def split: prod.split)

lemma on_jwks_eval: "on_jwks m s = (fst (m (as_jwks s)), s\<lparr>as_jwks := snd (m (as_jwks s))\<rparr>)"
  by (simp add: on_jwks_def eff_lift_def split: prod.split)

lemma on_db_query: "snd (m (as_db s)) = as_db s \<Longrightarrow> on_db m s = (fst (m (as_db s)), s)"
  by (simp add: on_db_eval)

lemma agents_findBySubject_eval:
  "agents_findBySubject k sub d =
    (case k_to_uuid k sub of
       None \<Rightarrow> Inl (OtherError ''invalid input syntax for type uuid'')
     | Some i \<Rightarrow> Inr (map_option mapAgentRow (row_find ar_id i (db_agents d))), d)"
  by (simp add: agents_findBySubject_def eff_throw_def agents_findById_def eff_read_def split: option.split)

section \<open>What each stage lets through\<close>

definition signed_by :: "pipeline_deps \<Rightarrow> string \<Rightarrow> jwk \<Rightarrow> bool" where
  "signed_by P token key \<longleftrightarrow> (\<exists>v. jwt_verify (pd_crypto P) (pd_json P) token key = Inr v)"

lemma typCheck_pass:
  assumes "typCheck P ctx s = (Inr ctx', s')"
  obtains dj where "decodeJwt (pd_json P) (ax_token ctx) = Inr dj"
    and "dj_typ dj = Some (JStr (jwt_typ_wire (ax_expectedTyp ctx)))"
    and "ctx' = ctx\<lparr>ax_decodedTyp := Some (ax_expectedTyp ctx)\<rparr>" and "s' = s"
  using assms by (auto simp: typCheck_def eff_simps split: sum.splits if_splits)

lemma verifyWith_pass: "verifyWith P token key s = (Inr u, s') \<Longrightarrow> signed_by P token key \<and> s' = s"
  by (auto simp: verifyWith_def signed_by_def eff_simps split: sum.splits)

lemma resolveKey_pass:
  "resolveKey P ck inl u kid who s = (Inr key, s') \<Longrightarrow>
     as_db s' = as_db s \<and> (inl = Some key \<or> inl = None)"
  by (auto simp: resolveKey_def on_jwks_eval eff_simps split: option.splits if_splits)

lemma principal_claim_pass:
  assumes "principal_claim P dj f m s = (Inr x, s')"
  obtains v where "claim (dj_claims dj) f = Some v" and "json_truthy v" and "x = jt_param (pd_json P) v" and "s' = s"
  using assms
  by (auto simp: principal_claim_def claim_def member_truthy_def eff_simps split: sum.splits if_splits option.splits)

lemma signatureVerify_agent_pass:
  assumes "signatureVerify P ck ctx s = (Inr ctx', s')" and "ax_expectedTyp ctx = AgentJwt"
  obtains dj v i r key where "decodeJwt (pd_json P) (ax_token ctx) = Inr dj"
    and "claim (dj_claims dj) ''sub'' = Some v" and "k_to_uuid (pd_codec P) (jt_param (pd_json P) v) = Some i"
    and "row_find ar_id i (db_agents (as_db s)) = Some r"
    and "signed_by P (ax_token ctx) key" and "ar_public_key_jwk r = Some key \<or> ar_public_key_jwk r = None"
    and "as_db s' = as_db s"
    and "ctx' = ctx\<lparr>ax_agent := Some (mapAgentRow r),
        ax_host := (case row_find hr_id (ar_host_id r) (db_hosts (as_db s)) of
                      None \<Rightarrow> ax_host ctx | Some h \<Rightarrow> Some (mapHostRow h)),
        ax_claims := Some (dj_claims dj)\<rparr>"
proof -
  from assms obtain dj where dj: "decodeJwt (pd_json P) (ax_token ctx) = Inr dj"
    and run: "signatureVerify_agent P ck dj ctx s = (Inr ctx', s')"
    by (auto simp: signatureVerify_def eff_simps split: sum.splits)
  from run obtain sub s1 where 1: "principal_claim P dj ''sub'' ''agent JWT missing sub'' s = (Inr sub, s1)"
    and run1: "eff_bind (on_db (agents_findBySubject (pd_codec P) sub)) (\<lambda>found.
     eff_bind (eff_some found (err AgentNotFound ''agent not found'' 401)) (\<lambda>agent.
     eff_bind (resolveKey P ck (a_publicKeyJwk agent) (a_jwksUrl agent) (header_kid dj) ''agent'') (\<lambda>key.
     eff_bind (verifyWith P (ax_token ctx) key) (\<lambda>_.
     eff_bind (on_db (hosts_findById (a_hostId agent))) (\<lambda>host.
     eff_return (ctx\<lparr>ax_agent := Some agent,
                    ax_host := (case host of None \<Rightarrow> ax_host ctx | Some h \<Rightarrow> Some h),
                    ax_claims := Some (dj_claims dj)\<rparr>)))))) s1 = (Inr ctx', s')"
    unfolding signatureVerify_agent_def eff_bind_Inr_iff [where m = "principal_claim P dj ''sub'' ''agent JWT missing sub''"]
    by blast
  from principal_claim_pass [OF 1] obtain v where v: "claim (dj_claims dj) ''sub'' = Some v"
    "sub = jt_param (pd_json P) v" "s1 = s" by metis
  from run1 v(3) obtain i r where i: "k_to_uuid (pd_codec P) sub = Some i"
    and r: "row_find ar_id i (db_agents (as_db s)) = Some r"
    and run2: "eff_bind (resolveKey P ck (ar_public_key_jwk r) (a_jwksUrl (mapAgentRow r)) (header_kid dj) ''agent'') (\<lambda>key.
     eff_bind (verifyWith P (ax_token ctx) key) (\<lambda>_.
     eff_bind (on_db (hosts_findById (ar_host_id r))) (\<lambda>host.
     eff_return (ctx\<lparr>ax_agent := Some (mapAgentRow r),
                    ax_host := (case host of None \<Rightarrow> ax_host ctx | Some h \<Rightarrow> Some h),
                    ax_claims := Some (dj_claims dj)\<rparr>)))) s = (Inr ctx', s')"
    by (auto simp: eff_bind_Inr_iff on_db_eval agents_findBySubject_eval eff_some_def eff_simps
        split: option.splits)
  from run2 obtain key s2 s3 where k: "resolveKey P ck (ar_public_key_jwk r) (a_jwksUrl (mapAgentRow r)) (header_kid dj) ''agent'' s = (Inr key, s2)"
    and ver: "verifyWith P (ax_token ctx) key s2 = (Inr (), s3)"
    and rest: "eff_bind (on_db (hosts_findById (ar_host_id r))) (\<lambda>host.
     eff_return (ctx\<lparr>ax_agent := Some (mapAgentRow r),
                    ax_host := (case host of None \<Rightarrow> ax_host ctx | Some h \<Rightarrow> Some h),
                    ax_claims := Some (dj_claims dj)\<rparr>)) s3 = (Inr ctx', s')"
    by (auto simp: eff_bind_Inr_iff)
  from resolveKey_pass [OF k] verifyWith_pass [OF ver] rest
  have "as_db s' = as_db s" and "signed_by P (ax_token ctx) key"
    and "ar_public_key_jwk r = Some key \<or> ar_public_key_jwk r = None"
    and "ctx' = ctx\<lparr>ax_agent := Some (mapAgentRow r),
        ax_host := (case row_find hr_id (ar_host_id r) (db_hosts (as_db s)) of
                      None \<Rightarrow> ax_host ctx | Some h \<Rightarrow> Some (mapHostRow h)),
        ax_claims := Some (dj_claims dj)\<rparr>"
    by (auto simp: eff_bind_Inr_iff on_db_eval find_ops_eval eff_simps split: option.splits)
  with dj v i r show ?thesis using that by blast
qed

lemma claimValidation_pass:
  assumes "claimValidation P now ctx s = (Inr ctx', s')"
  obtains cl ex iat v e where "ax_claims ctx = Some cl" and "claim cl ''aud'' = Some (JStr (pd_issuer P))"
    and "claim_number cl ''exp'' = Some ex" and "of_int (now div 1000) \<le> ex + of_int (pd_clockSkewSeconds P)"
    and "claim_number cl ''iat'' = Some iat" and "iat \<le> of_int (now div 1000 + pd_clockSkewSeconds P)"
    and "claim cl ''jti'' = Some v" and "date_of_seconds (ex + of_int (pd_clockSkewSeconds P)) = Inr e"
    and "jti_put_run (jt_param (pd_json P) v) e (as_db s) = (True, as_db s')"
    and "ctx' = ctx" and "s' = s\<lparr>as_db := as_db s'\<rparr>"
  using assms
  by (auto simp: claimValidation_def Let_def jti_put_run_def on_db_eval eff_bind_Inr_iff
      eff_simps eff_require_def member_truthy_def eff_sum_def split: option.splits if_splits sum.splits)

lemma agent_state_fault_None: "agent_state_fault st = None \<longleftrightarrow> st = AgentActive"
  by (cases st) simp_all

lemma host_state_fault_None: "host_state_fault st = None \<longleftrightarrow> st = HostActive"
  by (cases st) simp_all

lemma stateCheck_pass:
  assumes "stateCheck now ctx s = (Inr ctx', s')"
  shows "ctx' = ctx \<and> s' = s \<and> (\<exists>h. ax_host ctx = Some h \<and> h_status h = HostActive) \<and>
    (ax_expectedTyp ctx = AgentJwt \<longrightarrow>
      (\<exists>a. ax_agent ctx = Some a \<and> a_status a = AgentActive \<and> \<not> elapsed now (a_absoluteExpiresAt a) \<and>
        \<not> elapsed now (a_maxLifetimeExpiresAt a) \<and> \<not> elapsed now (a_sessionExpiresAt a)))"
  using assms
  by (auto simp: stateCheck_def eff_simps agent_state_fault_None host_state_fault_None
      split: option.splits if_splits)

lemma active_grants_head:
  assumes "active_grants a cap d = r # rs"
  shows "r \<in> set (db_grants d)" "gr_agent_id r = a" "gr_capability r = cap" "grant_live (db_now d) r"
proof -
  have "r \<in> set (active_grants a cap d)" using assms by simp
  then show "r \<in> set (db_grants d)" "gr_agent_id r = a" "gr_capability r = cap" "grant_live (db_now d) r"
    by (simp_all add: active_grants_def)
qed

lemma capabilityConstraint_pass:
  assumes "capabilityConstraint ctx s = (Inr ctx', s')"
  shows "s' = s \<and> (\<not> truthy (ax_capability ctx) \<and> ctx' = ctx \<or>
    (\<exists>cap a r. ax_capability ctx = Some cap \<and> ax_agent ctx = Some a \<and> r \<in> set (db_grants (as_db s)) \<and>
      gr_agent_id r = a_id a \<and> gr_capability r = cap \<and> grant_live (db_now (as_db s)) r \<and>
      caps_permit (Option.bind (ax_claims ctx) (\<lambda>c. claim c ''capabilities'')) cap = Inr True \<and>
      validate (gr_constraints r) (nullish (ax_args ctx) []) = Inr [] \<and>
      ctx' = ctx\<lparr>ax_grant := Some (mapGrantRow r)\<rparr>))"
proof (cases "truthy (ax_capability ctx)")
  case False
  with assms show ?thesis by (simp add: capabilityConstraint_def eff_simps)
next
  case True
  then obtain cap where cap: "ax_capability ctx = Some cap" by (cases "ax_capability ctx") auto
  from assms True cap obtain a where a: "ax_agent ctx = Some a"
    by (auto simp: capabilityConstraint_def Let_def eff_simps split: option.splits)
  from assms True cap a obtain r rs where r: "active_grants (a_id a) cap (as_db s) = r # rs"
    and ok: "caps_permit (Option.bind (ax_claims ctx) (\<lambda>c. claim c ''capabilities'')) cap = Inr True"
      "validate (gr_constraints r) (nullish (ax_args ctx) []) = Inr []"
      "ctx' = ctx\<lparr>ax_grant := Some (mapGrantRow r)\<rparr>" "s' = s"
    by (auto simp: capabilityConstraint_def Let_def eff_bind_Inr_iff on_db_eval find_ops_eval
        eff_simps eff_sum_def eff_require_def split: option.splits list.splits if_splits sum.splits)
  with cap a active_grants_head [OF r] show ?thesis by auto
qed

lemma jti_put_frame:
  "db_grants (snd (jti_put_run j e d)) = db_grants d" "db_agents (snd (jti_put_run j e d)) = db_agents d"
  "db_hosts (snd (jti_put_run j e d)) = db_hosts d" "db_now (snd (jti_put_run j e d)) = db_now d"
  by (simp_all add: jti_put_run_def jti_put_def split: option.split)

section \<open>The agent pipeline\<close>

text \<open>The principal behind an agent token: the agent row, its active host, and its clocks.\<close>

definition usable_agent :: "db \<Rightarrow> millis \<Rightarrow> agent_row \<Rightarrow> bool" where
  "usable_agent d now r \<longleftrightarrow>
     r \<in> set (db_agents d) \<and> ar_status r = AgentActive \<and>
     \<not> elapsed now (map_option js_date (ar_absolute_expires_at r)) \<and>
     \<not> elapsed now (map_option js_date (ar_max_lifetime_expires_at r)) \<and>
     \<not> elapsed now (map_option js_date (ar_session_expires_at r)) \<and>
     (\<exists>h \<in> set (db_hosts d). hr_id h = ar_host_id r \<and> hr_status h = HostActive)"

text \<open>The claims of a token that is bound to this gateway and within its lifetime at \<open>now\<close>.\<close>

definition timely_claims :: "pipeline_deps \<Rightarrow> millis \<Rightarrow> json \<Rightarrow> rat \<Rightarrow> bool" where
  "timely_claims P now cl ex \<longleftrightarrow>
     claim cl ''aud'' = Some (JStr (pd_issuer P)) \<and> claim_number cl ''exp'' = Some ex \<and>
     of_int (now div 1000) \<le> ex + of_int (pd_clockSkewSeconds P) \<and>
     (\<exists>iat. claim_number cl ''iat'' = Some iat \<and> iat \<le> of_int (now div 1000 + pd_clockSkewSeconds P))"

text \<open>The grant under which a capability is used with some arguments.\<close>

definition covering_grant :: "db \<Rightarrow> uuid \<Rightarrow> string \<Rightarrow> json_object \<Rightarrow> grant_row \<Rightarrow> bool" where
  "covering_grant d a cap args g \<longleftrightarrow>
     g \<in> set (db_grants d) \<and> gr_agent_id g = a \<and> gr_capability g = cap \<and> grant_live (db_now d) g \<and>
     validate (gr_constraints g) args = Inr []"

text \<open>An identifier with a record that has not expired yet; the cache takes an identifier only without one.\<close>

definition jti_current :: "string \<Rightarrow> db \<Rightarrow> bool" where
  "jti_current j d \<longleftrightarrow>
     (case row_find jr_jti j (db_jti d) of None \<Rightarrow> False | Some x \<Rightarrow> db_now d \<le> jr_expires_at x)"

lemma jti_put_run_new: "jti_put_run j e d = (True, d') \<Longrightarrow> \<not> jti_current j d \<and> jti_held j e d'"
  by (auto simp: jti_current_def jti_held_def jti_put_run_def row_find_jti_put)
    (auto simp: jti_put_def split: option.splits if_splits)

lemma agent_pipeline_sound_raw:
  assumes "run_stages (buildAgentPipeline P ck) (start_context token AgentJwt capability args) s = (Inr ctx, s')"
  shows "\<exists>dj v i r key ex jti e.
    decodeJwt (pd_json P) token = Inr dj \<and> dj_typ dj = Some (JStr ''agent+jwt'') \<and>
    claim (dj_claims dj) ''sub'' = Some v \<and> k_to_uuid (pd_codec P) (jt_param (pd_json P) v) = Some i \<and>
    ar_id r = i \<and> usable_agent (as_db s) (ck_state ck) r \<and>
    signed_by P token key \<and> (ar_public_key_jwk r = Some key \<or> ar_public_key_jwk r = None) \<and>
    timely_claims P (ck_claims ck) (dj_claims dj) ex \<and> claim (dj_claims dj) ''jti'' = Some jti \<and>
    date_of_seconds (ex + of_int (pd_clockSkewSeconds P)) = Inr e \<and>
    jti_put_run (jt_param (pd_json P) jti) e (as_db s) = (True, as_db s') \<and>
    ax_agent ctx = Some (mapAgentRow r) \<and> ax_claims ctx = Some (dj_claims dj) \<and>
    (truthy capability \<longrightarrow>
      (\<exists>g. covering_grant (as_db s) i (the capability) (nullish args []) g \<and> ax_grant ctx = Some (mapGrantRow g) \<and>
        caps_permit (claim (dj_claims dj) ''capabilities'') (the capability) = Inr True))"
proof -
  let ?c0 = "start_context token AgentJwt capability args"
  from assms obtain c1 s1 c2 s2 c3 s3 c4 s4 where
    1: "typCheck P ?c0 s = (Inr c1, s1)" and 2: "signatureVerify P ck c1 s1 = (Inr c2, s2)" and
    3: "claimValidation P (ck_claims ck) c2 s2 = (Inr c3, s3)" and
    4: "stateCheck (ck_state ck) c3 s3 = (Inr c4, s4)" and
    5: "capabilityConstraint c4 s4 = (Inr ctx, s')"
    by (auto simp: buildAgentPipeline_def eff_bind_Inr_iff eff_return_def)
  from typCheck_pass [OF 1] obtain dj where dj: "decodeJwt (pd_json P) token = Inr dj"
    and ty: "dj_typ dj = Some (JStr ''agent+jwt'')"
    and c1: "c1 = ?c0\<lparr>ax_decodedTyp := Some AgentJwt\<rparr>" and s1: "s1 = s"
    by (auto simp: start_context_def)
  have t1: "ax_expectedTyp c1 = AgentJwt" "ax_token c1 = token" "ax_host c1 = None"
    "ax_capability c1 = capability" "ax_args c1 = args"
    unfolding c1 by (simp_all add: start_context_def)
  from signatureVerify_agent_pass [OF 2 t1(1)] obtain dj' v i r key where
    dj': "decodeJwt (pd_json P) (ax_token c1) = Inr dj'" and
    v: "claim (dj_claims dj') ''sub'' = Some v" "k_to_uuid (pd_codec P) (jt_param (pd_json P) v) = Some i"
    and r: "row_find ar_id i (db_agents (as_db s1)) = Some r" and key: "signed_by P (ax_token c1) key"
      "ar_public_key_jwk r = Some key \<or> ar_public_key_jwk r = None"
    and db2: "as_db s2 = as_db s1" and c2: "c2 = c1\<lparr>ax_agent := Some (mapAgentRow r),
        ax_host := (case row_find hr_id (ar_host_id r) (db_hosts (as_db s1)) of
                      None \<Rightarrow> ax_host c1 | Some h \<Rightarrow> Some (mapHostRow h)),
        ax_claims := Some (dj_claims dj')\<rparr>" by metis
  have same: "dj' = dj" using dj dj' t1(2) by simp
  from claimValidation_pass [OF 3] obtain cl ex iat jti e where
    cl: "ax_claims c2 = Some cl" and aud: "claim cl ''aud'' = Some (JStr (pd_issuer P))"
    and ex: "claim_number cl ''exp'' = Some ex" "of_int (ck_claims ck div 1000) \<le> ex + of_int (pd_clockSkewSeconds P)"
    and iat: "claim_number cl ''iat'' = Some iat" "iat \<le> of_int (ck_claims ck div 1000 + pd_clockSkewSeconds P)"
    and jti: "claim cl ''jti'' = Some jti" "date_of_seconds (ex + of_int (pd_clockSkewSeconds P)) = Inr e"
      "jti_put_run (jt_param (pd_json P) jti) e (as_db s2) = (True, as_db s3)" and c3: "c3 = c2" by metis
  have cl': "cl = dj_claims dj" using cl c2 same by simp
  from stateCheck_pass [OF 4] have c4: "c4 = c3" "s4 = s3" and
    st: "\<exists>h. ax_host c3 = Some h \<and> h_status h = HostActive"
      "\<exists>a. ax_agent c3 = Some a \<and> a_status a = AgentActive \<and> \<not> elapsed (ck_state ck) (a_absoluteExpiresAt a) \<and>
        \<not> elapsed (ck_state ck) (a_maxLifetimeExpiresAt a) \<and> \<not> elapsed (ck_state ck) (a_sessionExpiresAt a)"
    using c3 c2 t1(1) by simp_all
  from st(1) c3 c2 t1(3) s1 obtain h where h: "row_find hr_id (ar_host_id r) (db_hosts (as_db s)) = Some h"
    "hr_status h = HostActive" by (auto split: option.splits)
  have agent: "ax_agent c4 = Some (mapAgentRow r)" "ax_claims c4 = Some (dj_claims dj)"
    "ax_capability c4 = capability" "ax_args c4 = args"
    using c4 c3 c2 same t1(4,5) by simp_all
  have rid: "r \<in> set (db_agents (as_db s))" "ar_id r = i" using row_find_SomeD [OF r] s1 by simp_all
  have usable: "usable_agent (as_db s) (ck_state ck) r"
    using st(2) agent(1) c4 rid row_find_SomeD [OF h(1)] h(2) by (auto simp: usable_agent_def)
  have put: "jti_put_run (jt_param (pd_json P) jti) e (as_db s) = (True, as_db s3)" using jti(3) db2 s1 by simp
  have same_tables: "db_grants (as_db s3) = db_grants (as_db s)" "db_now (as_db s3) = db_now (as_db s)"
    using jti_put_frame [of "jt_param (pd_json P) jti" e "as_db s"] put by simp_all
  note cap = capabilityConstraint_pass [OF 5]
  have s': "as_db s' = as_db s3" using cap c4 by simp
  have ctx: "ax_agent ctx = Some (mapAgentRow r)" "ax_claims ctx = Some (dj_claims dj)"
    using cap agent by auto
  have "truthy capability \<longrightarrow>
      (\<exists>g. covering_grant (as_db s) i (the capability) (nullish args []) g \<and> ax_grant ctx = Some (mapGrantRow g) \<and>
        caps_permit (claim (dj_claims dj) ''capabilities'') (the capability) = Inr True)"
    using cap agent c4(2) rid(2) by (auto simp: covering_grant_def same_tables)
  moreover have "timely_claims P (ck_claims ck) (dj_claims dj) ex"
    using aud ex iat cl' unfolding timely_claims_def by blast
  ultimately show ?thesis
    using dj ty v [unfolded same] rid usable key [unfolded t1(2)] jti(1,2) [unfolded cl'] put [folded s'] ctx
    by - (rule exI [of _ dj], rule exI [of _ v], rule exI [of _ i], rule exI [of _ r], rule exI [of _ key],
        rule exI [of _ ex], rule exI [of _ jti], rule exI [of _ e], intro conjI; assumption)
qed

text \<open>
  C2: Soundness of the agent pipeline.  When it lets a request through, the token is of the agent type
  and signed with the registered key of the agent its subject names (or a key fetched for it), that
  agent and its host are active and none of its three clocks has elapsed, the token is addressed to
  this gateway and within its lifetime up to the skew, and for an execution there is an active,
  unexpired grant of exactly that capability to exactly that agent, permitted by the token itself,
  whose constraints the arguments meet.  The replay cache held no unexpired record of the token's identifier,
  and now holds one up to the end of the lifetime plus skew.
\<close>

lemma agent_pipeline_sound:
  assumes "run_stages (buildAgentPipeline P ck) (start_context token AgentJwt capability args) s = (Inr ctx, s')"
  shows "\<exists>dj v i r key ex jti e.
    decodeJwt (pd_json P) token = Inr dj \<and> dj_typ dj = Some (JStr ''agent+jwt'') \<and>
    claim (dj_claims dj) ''sub'' = Some v \<and> k_to_uuid (pd_codec P) (jt_param (pd_json P) v) = Some i \<and>
    ar_id r = i \<and> usable_agent (as_db s) (ck_state ck) r \<and>
    signed_by P token key \<and> (ar_public_key_jwk r = Some key \<or> ar_public_key_jwk r = None) \<and>
    timely_claims P (ck_claims ck) (dj_claims dj) ex \<and> claim (dj_claims dj) ''jti'' = Some jti \<and>
    date_of_seconds (ex + of_int (pd_clockSkewSeconds P)) = Inr e \<and>
    jti_put_run (jt_param (pd_json P) jti) e (as_db s) = (True, as_db s') \<and>
    \<not> jti_current (jt_param (pd_json P) jti) (as_db s) \<and> jti_held (jt_param (pd_json P) jti) e (as_db s') \<and>
    ax_agent ctx = Some (mapAgentRow r) \<and> ax_claims ctx = Some (dj_claims dj) \<and>
    (truthy capability \<longrightarrow>
      (\<exists>g. covering_grant (as_db s) i (the capability) (nullish args []) g \<and> ax_grant ctx = Some (mapGrantRow g) \<and>
        caps_permit (claim (dj_claims dj) ''capabilities'') (the capability) = Inr True))"
  using agent_pipeline_sound_raw [OF assms] jti_put_run_new by blast

text \<open>A closed run: one agent, one standing grant, and a token that names it.\<close>

definition sample_request_json :: json_text where
  "sample_request_json = sample_json_text\<lparr>jt_parse := (\<lambda>s.
     if s = ''h'' then Some (jwt_header AgentJwt)
     else Some (JObj [(''sub'', JStr ''seventh''), (''aud'', JStr ''https://gw''), (''exp'', JNum 100),
                      (''iat'', JNum 10), (''jti'', JStr ''j1'')]))\<rparr>"

definition sample_pipeline_deps :: pipeline_deps where
  "sample_pipeline_deps =
    \<lparr>pd_codec = unary_codec,
     pd_crypto = \<lparr>nc_sha256 = id, nc_ed_verify = (\<lambda>k m s. Some (s = jwk_x k)), nc_ed_sign = (\<lambda>p m. None)\<rparr>,
     pd_json = sample_request_json, pd_issuer = ''https://gw'', pd_clockSkewSeconds = 30, pd_jwks = None\<rparr>"

definition sample_clock :: request_clock where
  "sample_clock = \<lparr>ck_jwks = 50000, ck_jwks_fetched = 50000, ck_claims = 50000, ck_state = 50000\<rparr>"

definition sample_token :: string where
  "sample_token = base64url ''h'' @ ''.'' @ base64url ''p'' @ ''.'' @ base64url ''k1''"

definition sample_request_state :: auth_state where
  "sample_request_state =
    \<lparr>as_db = snd (grants_upsert (sample_new_grant 7 None) (sample_db [sample_agent_row 7 2000])),
     as_jwks = Map.empty\<rparr>"

lemma agent_pipeline_sound_witness:
  "\<exists>ctx s' g. run_stages (buildAgentPipeline sample_pipeline_deps sample_clock)
       (start_context sample_token AgentJwt (Some ''slack.post'') None) sample_request_state = (Inr ctx, s') \<and>
     covering_grant (as_db sample_request_state) 7 ''slack.post'' [] g \<and> ax_grant ctx = Some (mapGrantRow g)"
proof -
  let ?run = "run_stages (buildAgentPipeline sample_pipeline_deps sample_clock)
       (start_context sample_token AgentJwt (Some ''slack.post'') None) sample_request_state"
  have "\<not> isl (fst ?run)" by code_simp
  from run_returns [OF this] obtain ctx where run: "?run = (Inr ctx, snd ?run)" by blast
  have sub: "(case decodeJwt (pd_json sample_pipeline_deps) sample_token of
      Inl e \<Rightarrow> None | Inr dj \<Rightarrow> map_option (jt_param (pd_json sample_pipeline_deps)) (claim (dj_claims dj) ''sub'')) = Some ''seventh''"
    by code_simp
  have seven: "k_to_uuid (pd_codec sample_pipeline_deps) ''seventh'' = Some 7"
    by (simp add: sample_pipeline_deps_def unary_codec_def)
  from agent_pipeline_sound [OF run] obtain i dj v g where
    "decodeJwt (pd_json sample_pipeline_deps) sample_token = Inr dj" "claim (dj_claims dj) ''sub'' = Some v"
    "k_to_uuid (pd_codec sample_pipeline_deps) (jt_param (pd_json sample_pipeline_deps) v) = Some i"
    "covering_grant (as_db sample_request_state) i ''slack.post'' [] g" "ax_grant ctx = Some (mapGrantRow g)"
    by (auto simp: truthy_def nullish_def)
  then have "covering_grant (as_db sample_request_state) 7 ''slack.post'' [] g" "ax_grant ctx = Some (mapGrantRow g)"
    using sub seven by auto
  then show ?thesis using run by blast
qed

text \<open>
  The window is not closed: the lifetime is compared in whole seconds, the record in the cache with the clock, so
  for up to a second after the record has expired the token is still within its lifetime and passes again.
  Here the lifetime ends at 100 seconds, the skew is 30 seconds, and the same token passes at 100 and at 130.5 seconds.
\<close>

definition sample_pass :: "millis \<Rightarrow> auth_state \<Rightarrow> (fault + auth_context) \<times> auth_state" where
  "sample_pass t s =
     run_stages (buildAgentPipeline sample_pipeline_deps \<lparr>ck_jwks = t, ck_jwks_fetched = t, ck_claims = t, ck_state = t\<rparr>)
       (start_context sample_token AgentJwt (Some ''slack.post'') None)
       (s\<lparr>as_db := (as_db s)\<lparr>db_now := pg_time t\<rparr>\<rparr>)"

lemma replay_at_edge:
  "\<not> isl (fst (sample_pass 100000 sample_request_state))"
  "isl (fst (sample_pass 129500 (snd (sample_pass 100000 sample_request_state))))"
  "\<not> isl (fst (sample_pass 130500 (snd (sample_pass 100000 sample_request_state))))"
  by code_simp+

end
