(* ===== verification/Identity_Laws.thy ===== *)
theory Identity_Laws
  imports Identity_Service
begin

text \<open>
  What the identity service guarantees over any sequence of its calls: the schema's constraints
  hold, an agent keeps its host, mode and absolute clock and moves only along the transition table,
  no call makes an agent expired; and what single calls do: the cascade of a host revocation, the
  end of a task, self-service requests, the deletion of a project.
\<close>

section \<open>Calls and histories\<close>

text \<open>
  The calls that can change the database, and the database's clock between them; times and inputs
  are arbitrary.
\<close>

datatype identity_call =
    RegisterAgent millis uuid register_agent_input
  | RevokeAgent uuid uuid
  | UpdateAgentMetadata uuid uuid "string option" "string option"
  | GrantCapability uuid grant_capability_input
  | RequestCapability uuid "capability_request list"
  | ReactivateAgent millis millis uuid uuid
  | RotateAgentKey uuid uuid jwk
  | RevokeHost uuid
  | RotateHostKey uuid jwk
  | CreateTask millis uuid create_task_input
  | CompleteTask millis uuid uuid
  | CreateProject uuid string "string option"
  | DeleteProject uuid uuid
  | SetAgentProject uuid uuid "uuid option"
  | ClockTick micros

fun identity_step :: "identity_deps \<Rightarrow> identity_call \<Rightarrow> db \<Rightarrow> db" where
  "identity_step I (RegisterAgent now h inp) d = snd (registerAgent I now h inp d)"
| "identity_step I (RevokeAgent h a) d = snd (revokeAgent I h a d)"
| "identity_step I (UpdateAgentMetadata h a nm de) d = snd (updateAgentMetadata h a nm de d)"
| "identity_step I (GrantCapability h inp) d = snd (grantCapability h inp d)"
| "identity_step I (RequestCapability a rs) d = snd (requestCapability a rs d)"
| "identity_step I (ReactivateAgent n1 n2 h a) d = snd (reactivateAgent I n1 n2 h a d)"
| "identity_step I (RotateAgentKey h a k) d = snd (rotateAgentKey h a k d)"
| "identity_step I (RevokeHost h) d = snd (revokeHost I h d)"
| "identity_step I (RotateHostKey h k) d = snd (rotateHostKey I h k d)"
| "identity_step I (CreateTask now h inp) d = snd (createTask now h inp d)"
| "identity_step I (CompleteTask now h t) d = snd (completeTask now h t d)"
| "identity_step I (CreateProject h nm de) d = snd (createProject h nm de d)"
| "identity_step I (DeleteProject h p) d = snd (deleteProject I h p d)"
| "identity_step I (SetAgentProject h a p) d = snd (setAgentProject h a p d)"
| "identity_step I (ClockTick t) d = d\<lparr>db_now := t\<rparr>"

definition identity_run :: "identity_deps \<Rightarrow> identity_call list \<Rightarrow> db \<Rightarrow> db" where
  "identity_run I cs d = foldl (\<lambda>d c. identity_step I c d) d cs"

lemma identity_run_simps [simp]:
  "identity_run I [] d = d" "identity_run I (c # cs) d = identity_run I cs (identity_step I c d)"
  by (simp_all add: identity_run_def)

text \<open>What every step respects, every run respects.\<close>

lemma identity_run_frame:
  assumes step: "\<And>c d. R d (identity_step I c d)"
    and refl: "\<And>d. R d d" and trans: "\<And>a b c. R a b \<Longrightarrow> R b c \<Longrightarrow> R a c"
  shows "R d (identity_run I cs d)"
proof (induction cs arbitrary: d)
  case Nil
  show ?case by (simp add: refl)
next
  case (Cons c cs)
  then show ?case using trans [OF step Cons.IH] by simp
qed

section \<open>Evaluation\<close>

lemma bind_owned [simp]:
  "eff_bind (owned_agent h i) f d =
     (case row_find ar_id i (db_agents d) of
        None \<Rightarrow> (Inl (err AgentNotFound ''agent not found'' 404), d)
      | Some r \<Rightarrow>
          if ar_host_id r = h then f (mapAgentRow r) d
          else (Inl (err Unauthorized ''agent does not belong to this host'' 403), d))"
proof -
  have "owned_agent h i d =
     (case row_find ar_id i (db_agents d) of
        None \<Rightarrow> (Inl (err AgentNotFound ''agent not found'' 404), d)
      | Some r \<Rightarrow>
          if ar_host_id r = h then (Inr (mapAgentRow r), d)
          else (Inl (err Unauthorized ''agent does not belong to this host'' 403), d))"
    by (simp add: owned_agent_def eff_simps split: option.split)
  then show ?thesis by (simp add: eff_bind_def split: option.split)
qed

section \<open>The schema's constraints hold\<close>

lemma owned_agent_keeps [wf_intros]: "evolves (keeps db_wf) (owned_agent h a)"
  unfolding owned_agent_def by (intro keeps.evolves_intros wf_intros)

lemma agent_ops_keep_wf [wf_intros]:
  "evolves (keeps db_wf) (registerAgent I now h inp)"
  "evolves (keeps db_wf) (revokeAgent I h a)"
  "evolves (keeps db_wf) (updateAgentMetadata h a nm de)"
  "evolves (keeps db_wf) (reactivateAgent I now1 now2 h a)"
  "evolves (keeps db_wf) (rotateAgentKey h a k)"
  unfolding registerAgent_def revokeAgent_def updateAgentMetadata_def reactivateAgent_def rotateAgentKey_def
  by (intro keeps.evolves_intros wf_intros)+

lemma grant_service_keep_wf [wf_intros]:
  "evolves (keeps db_wf) (grantCapability h ginp)"
  "evolves (keeps db_wf) (requestCapability a rs)"
  unfolding grantCapability_def requestCapability_def request_one_def
  by (intro keeps.evolves_intros wf_intros)+

lemma host_service_keep_wf [wf_intros]:
  "evolves (keeps db_wf) (revokeHost I h)"
  "evolves (keeps db_wf) (rotateHostKey I h k)"
  unfolding revokeHost_def revoke_listed_def rotateHostKey_def
  by (intro keeps.evolves_intros wf_intros)+

lemma task_service_keep_wf [wf_intros]:
  "evolves (keeps db_wf) (createTask now h tinp)"
  "evolves (keeps db_wf) (completeTask now h t)"
  unfolding createTask_def completeTask_def grant_for_task_def Let_def
  by (intro keeps.evolves_intros wf_intros)+

lemma project_service_keep_wf [wf_intros]:
  "evolves (keeps db_wf) (createProject h nm de)"
  "evolves (keeps db_wf) (deleteProject I h p)"
  "evolves (keeps db_wf) (setAgentProject h a pr)"
  unfolding createProject_def deleteProject_def setAgentProject_def Let_def case_prod_unfold
  by (intro keeps.evolves_intros wf_intros)+

lemma identity_step_wf: "keeps db_wf d (identity_step I c d)"
proof (cases c)
  case (ClockTick t)
  then show ?thesis by (simp add: keeps_def db_wf_defs)
qed (use wf_intros in \<open>simp_all add: evolves_def\<close>)

section \<open>How an agent evolves\<close>

definition row_evolves :: "agent_row \<Rightarrow> agent_row \<Rightarrow> bool" where
  "row_evolves r r' \<longleftrightarrow>
     ar_host_id r' = ar_host_id r \<and> ar_mode r' = ar_mode r \<and> ar_created_at r' = ar_created_at r \<and>
     agents.legal\<^sup>*\<^sup>* (ar_status r) (ar_status r') \<and>
     (\<forall>t. ar_absolute_expires_at r = Some t \<longrightarrow> map_option js_date (ar_absolute_expires_at r') = Some (js_date t))"

text \<open>Agents that a reactivation could act on come from earlier ones.\<close>

definition dormant :: "agent_row \<Rightarrow> bool" where
  "dormant r \<longleftrightarrow> ar_status r = AgentPending \<or> ar_status r = AgentExpired"

definition agents_evolve :: "db \<Rightarrow> db \<Rightarrow> bool" where
  "agents_evolve d d' \<longleftrightarrow>
     (\<forall>i r. row_find ar_id i (db_agents d) = Some r \<longrightarrow>
        (\<exists>r'. row_find ar_id i (db_agents d') = Some r' \<and> row_evolves r r')) \<and>
     (\<forall>r' \<in> set (db_agents d'). dormant r' \<longrightarrow> (\<exists>r \<in> set (db_agents d). dormant r))"

lemma row_evolves_refl: "row_evolves r r"
  by (simp add: row_evolves_def)

lemma row_evolves_trans: "row_evolves r s \<Longrightarrow> row_evolves s t \<Longrightarrow> row_evolves r t"
  by (auto simp: row_evolves_def)

interpretation evolution: effect_frame agents_evolve
proof unfold_locales
  fix s t u
  show "agents_evolve s s" by (auto simp: agents_evolve_def row_evolves_refl)
  assume "agents_evolve s t" "agents_evolve t u"
  then show "agents_evolve s u"
    unfolding agents_evolve_def by (meson row_evolves_trans)
qed

text \<open>Operations on other tables, and updates of an agent's other columns.\<close>

lemma evolve_same: "db_agents d' = db_agents d \<Longrightarrow> agents_evolve d d'"
  by (auto simp: agents_evolve_def row_evolves_refl)

lemma evolve_update:
  assumes "\<And>t r. ar_id (f t r) = ar_id r" and "\<And>r. row_find ar_id i (db_agents d) = Some r \<Longrightarrow> row_evolves r (f (db_now d) r)"
    and "\<And>t r. dormant (f t r) \<Longrightarrow> dormant r"
  shows "agents_evolve d (update_agents i f d)"
proof -
  have "\<exists>r \<in> set (db_agents d). dormant r" if "r' \<in> set (db_agents (update_agents i f d))" "dormant r'" for r'
    using that assms(3) by (auto simp: update_agents_def set_row_update split: if_splits)
  then show ?thesis
    using assms(1,2) by (auto simp: agents_evolve_def table_simps row_evolves_refl)
qed

lemma evolves_sameI: "(\<And>d. db_agents (snd (m d)) = db_agents d) \<Longrightarrow> evolves agents_evolve m"
  by (simp add: evolves_def evolve_same)

text \<open>The tables a repository operation leaves alone.\<close>

lemma grants_upsert_frame [simp]:
  "db_agents (snd (grants_upsert n d)) = db_agents d" "db_hosts (snd (grants_upsert n d)) = db_hosts d"
  "db_tasks (snd (grants_upsert n d)) = db_tasks d" "db_connections (snd (grants_upsert n d)) = db_connections d"
  "db_now (snd (grants_upsert n d)) = db_now d"
  by (simp_all add: grants_upsert_def grants_delete_prior_def grants_insert_def insert_grant_def insert_row_def
      gen_random_uuid_def eff_bind_def eff_simps)

lemma tasks_create_frame [simp]:
  "db_agents (snd (tasks_create n d)) = db_agents d" "db_grants (snd (tasks_create n d)) = db_grants d"
  by (simp_all add: tasks_create_def insert_task_def insert_row_def gen_random_uuid_def eff_bind_def eff_simps)

lemma projects_create_frame [simp]: "db_agents (snd (projects_create n d)) = db_agents d"
  by (simp add: projects_create_def insert_project_def insert_row_def gen_random_uuid_def eff_bind_def eff_simps)

named_theorems evolve_intros "operations that let agents evolve"

lemma evolve_primitives [evolve_intros]:
  "evolves agents_evolve (agents_findById i)" "evolves agents_evolve (hosts_findById h)"
  "evolves agents_evolve (connections_findById c)" "evolves agents_evolve (tasks_findById t)"
  "evolves agents_evolve (grants_findActive a cap)" "evolves agents_evolve (grants_upsert n)"
  "evolves agents_evolve (agents_listByHost h)" "evolves agents_evolve (grants_revokeByTask t)"
  "evolves agents_evolve (tasks_setStatus t st dn)" "evolves agents_evolve (tasks_create tn)"
  "evolves agents_evolve (projects_create pn)" "evolves agents_evolve (audit_append e)"
  "evolves agents_evolve (agents_list k q)" "evolves agents_evolve (connections_list k q)"
  by (rule evolves_sameI, simp add: find_ops_eval agents_listByHost_def grants_revokeByTask_def
      tasks_setStatus_def agents_list_def connections_list_def update_grants_def eff_simps)+

lemma evolve_hosts [evolve_intros]:
  "evolves agents_evolve (transitionHost k h hto)" "evolves agents_evolve (hosts_updatePublicKey c h key)"
  by (rule evolves_sameI, simp add: transitionHost_eval hosts_updatePublicKey_def Let_def eff_simps
      split: option.split)+

lemma evolve_transition:
  "to \<noteq> AgentPending \<Longrightarrow> to \<noteq> AgentExpired \<Longrightarrow> evolves agents_evolve (transitionAgent k i to)"
  unfolding evolves_def
  by (auto simp: transitionAgent_eval evolve_same row_evolves_def agents.legal_def canTransitionAgent_def
      dormant_def split: option.split intro!: evolve_update r_into_rtranclp)

lemma evolve_transitions [evolve_intros]:
  "evolves agents_evolve (transitionAgent k i AgentActive)" "evolves agents_evolve (transitionAgent k i AgentRevoked)"
  by (simp_all add: evolve_transition)

lemma evolve_agent_columns [evolve_intros]:
  "evolves agents_evolve (agents_updateMetadata i nm de)" "evolves agents_evolve (agents_updatePublicKey i key)"
  "evolves agents_evolve (agents_setProject i p)"
  unfolding evolves_def agents_updateMetadata_def agents_updatePublicKey_def agents_setProject_def
  by (auto simp: eff_simps row_evolves_def dormant_def evolve_same intro!: evolve_update)

lemma evolve_projects_delete [evolve_intros]: "evolves agents_evolve (projects_delete p)"
  unfolding evolves_def projects_delete_def agents_evolve_def
  by (auto simp: eff_simps row_find_update row_evolves_def dormant_def set_row_update split: if_splits)

lemma evolve_owned [evolve_intros]: "evolves agents_evolve (owned_agent h a)"
  unfolding owned_agent_def by (intro evolution.evolves_intros evolve_intros)

lemma agents_create_Inr:
  assumes "agents_create n d = (Inr a, d')"
  obtains r where "a = mapAgentRow r" and "ar_id r \<notin> ar_id ` set (db_agents d)"
    and "db_agents d' = db_agents d @ [r]" and "ar_host_id r = na_hostId n" and "ar_status r = na_status n"
    and "ar_mode r = na_mode n" and "ar_public_key_jwk r = na_publicKeyJwk n" and "ar_project_id r = na_projectId n"
    and "db_hosts d' = db_hosts d" and "db_grants d' = db_grants d" and "db_now d' = db_now d"
proof -
  let ?r = "\<lparr>ar_id = db_uuids d (db_draws d), ar_host_id = na_hostId n, ar_project_id = na_projectId n,
    ar_public_key_jwk = na_publicKeyJwk n, ar_jwks_url = na_jwksUrl n, ar_name = na_name n,
    ar_description = na_description n, ar_status = na_status n, ar_mode = na_mode n, ar_activated_at = None,
    ar_session_expires_at = None, ar_max_lifetime_expires_at = None, ar_absolute_expires_at = None,
    ar_created_at = db_now d, ar_updated_at = db_now d\<rparr>"
  from assms have "a = mapAgentRow ?r" "ar_id ?r \<notin> ar_id ` set (db_agents d)"
    "d' = d\<lparr>db_draws := Suc (db_draws d), db_agents := db_agents d @ [?r]\<rparr>"
    by (simp_all add: agents_create_def insert_agent_def insert_row_def gen_random_uuid_def agent_row_ok_def
        agent_exists_def eff_bind_def eff_simps split: if_splits)
  then show ?thesis using that [of ?r] by simp
qed

lemma agents_create_Inl: "agents_create n d = (Inl e, d') \<Longrightarrow> db_agents d' = db_agents d"
  by (auto simp: agents_create_def insert_agent_def insert_row_def gen_random_uuid_def eff_bind_def eff_simps
      split: if_splits)

lemma bind_transition:
  "eff_bind (transitionAgent k i to) f d =
     (case row_find ar_id i (db_agents d) of
        None \<Rightarrow> (Inl (err AgentNotFound (''agent '' @ k_uuid k i @ '' not found'') 404), d)
      | Some r \<Rightarrow>
          if canTransitionAgent (ar_status r) to
          then f (mapAgentRow (r\<lparr>ar_status := to, ar_updated_at := db_now d\<rparr>))
                 (update_agents i (\<lambda>t r. r\<lparr>ar_status := to, ar_updated_at := t\<rparr>) d)
          else (Inl (err InvalidRequest (''illegal agent transition: '' @ agent_state_wire (ar_status r) @
                  '' -> '' @ agent_state_wire to) 409), d))"
  by (simp add: eff_bind_def transitionAgent_eval split: option.split)

lemma bind_applyLifetimes: "eff_bind (agents_applyLifetimes i c) f d = f () (snd (agents_applyLifetimes i c d))"
  by (simp add: agents_applyLifetimes_def eff_simps)

lemma eff_some_state [simp]: "snd (eff_some x e d) = d"
  by (simp add: eff_defs split: option.split)

text \<open>A registration adds one agent, active with all clocks set, or changes no agent.\<close>

lemma update_agents_snoc:
  assumes "db_agents d = rs @ [r]" and "ar_id r = i" and "i \<notin> ar_id ` set rs"
  shows "db_agents (update_agents i f d) = rs @ [f (db_now d) r]"
proof -
  have "row_update (\<lambda>x. ar_id x = i) g rs = rs" for g
    using assms(3) by (induction rs) (auto simp: table_simps)
  then show ?thesis using assms(2) by (simp add: update_agents_def assms(1) row_update_def)
qed

lemma registerAgent_cases:
  assumes "registerAgent I now h inp d = (res, d')"
  shows "(\<exists>e. res = Inl e \<and> db_agents d' = db_agents d) \<or>
    (\<exists>r hr. res = Inr (mapAgentRow r) \<and> ar_id r \<notin> ar_id ` set (db_agents d) \<and>
      db_agents d' = db_agents d @ [r] \<and> row_find hr_id h (db_hosts d) = Some hr \<and> hr_status hr = HostActive \<and>
      ar_host_id r = h \<and> ar_status r = AgentActive \<and> ar_mode r = ra_mode inp \<and>
      ar_public_key_jwk r = Some (ra_publicKeyJwk inp) \<and>
      ar_session_expires_at r = Some (pg_time (now + lc_sessionTtlSeconds (id_lifetimes I) * 1000)) \<and>
      ar_max_lifetime_expires_at r = Some (pg_time (now + lc_maxLifetimeSeconds (id_lifetimes I) * 1000)) \<and>
      ar_absolute_expires_at r = Some (pg_time (now + lc_absoluteLifetimeSeconds (id_lifetimes I) * 1000)))"
proof (cases "row_find hr_id h (db_hosts d)")
  case None
  with assms show ?thesis by (auto simp: registerAgent_def)
next
  case (Some hr)
  let ?new = "\<lparr>na_hostId = h, na_projectId = ra_projectId inp, na_publicKeyJwk = Some (ra_publicKeyJwk inp),
     na_jwksUrl = None, na_name = ra_name inp, na_description = ra_description inp, na_mode = ra_mode inp,
     na_status = AgentPending\<rparr>"
  obtain x d1 where c: "agents_create ?new d = (x, d1)" by (cases "agents_create ?new d")
  show ?thesis
  proof (cases x)
    case (Inl e)
    with assms c Some agents_create_Inl [of ?new d e d1] show ?thesis
      by (auto simp: registerAgent_def eff_simps split: if_splits)
  next
    case (Inr a)
    with c obtain r where r: "a = mapAgentRow r" "ar_id r \<notin> ar_id ` set (db_agents d)"
      "db_agents d1 = db_agents d @ [r]" "ar_host_id r = h" "ar_status r = AgentPending"
      "ar_mode r = ra_mode inp" "ar_public_key_jwk r = Some (ra_publicKeyJwk inp)"
      by (auto elim!: agents_create_Inr)
    have none: "row_find ar_id (ar_id r) (db_agents d) = None" using r(2) by (simp add: row_find_None_iff)
    let ?L = "id_lifetimes I"
    let ?r2 = "r\<lparr>ar_status := AgentActive, ar_activated_at := Some (pg_time now),
      ar_session_expires_at := Some (pg_time (now + lc_sessionTtlSeconds ?L * 1000)),
      ar_max_lifetime_expires_at := Some (pg_time (now + lc_maxLifetimeSeconds ?L * 1000)),
      ar_absolute_expires_at := Some (pg_time (now + lc_absoluteLifetimeSeconds ?L * 1000)),
      ar_updated_at := db_now d1\<rparr>"
    have "(\<exists>e. res = Inl e \<and> d' = d) \<or>
      hr_status hr = HostActive \<and> res = Inr (mapAgentRow ?r2) \<and> db_agents d' = db_agents d @ [?r2]"
      using assms c Some Inr r none
      by (auto simp: registerAgent_def eff_simps bind_transition canTransitionAgent_def agents_applyLifetimes_def
          table_simps update_agents_snoc row_find_append split: if_splits)
    with Some r show ?thesis by (elim disjE conjE) (blast, rule disjI2, rule exI [of _ ?r2], simp)
  qed
qed

lemma evolve_register [evolve_intros]: "evolves agents_evolve (registerAgent I now h inp)"
proof (rule evolvesI)
  fix d res d' assume "registerAgent I now h inp d = (res, d')"
  from registerAgent_cases [OF this]
  consider "db_agents d' = db_agents d" | r where "db_agents d' = db_agents d @ [r]" "ar_status r = AgentActive"
    by blast
  then show "agents_evolve d d'"
  proof cases
    case 2
    then show ?thesis by (auto simp: agents_evolve_def row_find_append row_evolves_refl dormant_def)
  qed (rule evolve_same)
qed

lemma evolve_reactivate [evolve_intros]: "evolves agents_evolve (reactivateAgent I now1 now2 h a)"
proof (rule evolvesI)
  fix d res d2 assume run: "reactivateAgent I now1 now2 h a d = (res, d2)"
  show "agents_evolve d d2"
  proof (cases "row_find ar_id a (db_agents d)")
    case None
    with run show ?thesis by (simp add: reactivateAgent_def evolution.frame_refl)
  next
    case (Some r)
    let ?d1 = "update_agents a (\<lambda>t r. r\<lparr>ar_status := AgentActive, ar_updated_at := t\<rparr>) d"
    have 1: "agents_evolve d (snd (transitionAgent (id_codec I) a AgentActive d))"
      using evolve_transitions(1) unfolding evolves_def by blast
    have "d2 = d \<or> (canTransitionAgent (ar_status r) AgentActive \<and>
        (\<exists>c. lt_absoluteExpiresAt c = map_option js_date (ar_absolute_expires_at r) \<and>
             d2 = snd (agents_applyLifetimes a c ?d1)))"
    proof (rule disjCI)
      assume changed: "\<not> (canTransitionAgent (ar_status r) AgentActive \<and>
        (\<exists>c. lt_absoluteExpiresAt c = map_option js_date (ar_absolute_expires_at r) \<and>
             d2 = snd (agents_applyLifetimes a c ?d1)))"
      then show "d2 = d"
        using arg_cong [OF run, of snd, symmetric] Some
        unfolding reactivateAgent_def
        by (simp add: bind_transition bind_applyLifetimes split: if_split_asm)
          (metis agent_lifetimes.select_convs(4))
    qed
    then show ?thesis
    proof
      assume "canTransitionAgent (ar_status r) AgentActive \<and>
        (\<exists>c. lt_absoluteExpiresAt c = map_option js_date (ar_absolute_expires_at r) \<and>
             d2 = snd (agents_applyLifetimes a c ?d1))"
      then obtain c where ok: "canTransitionAgent (ar_status r) AgentActive"
        and c: "lt_absoluteExpiresAt c = map_option js_date (ar_absolute_expires_at r)"
        and d2: "d2 = snd (agents_applyLifetimes a c ?d1)" by blast
      have "agents_evolve d ?d1" using 1 Some ok by (simp add: transitionAgent_eval)
      moreover have "agents_evolve ?d1 d2"
        unfolding d2 agents_applyLifetimes_def using c Some
        by (auto simp: eff_simps table_simps row_evolves_def dormant_def intro!: evolve_update)
      ultimately show ?thesis by (rule evolution.frame_trans)
    qed (simp add: evolution.frame_refl)
  qed
qed

lemma evolve_services [evolve_intros]:
  "evolves agents_evolve (revokeAgent I h a)" "evolves agents_evolve (updateAgentMetadata h a nm de)"
  "evolves agents_evolve (grantCapability h ginp)" "evolves agents_evolve (requestCapability a rs)"
  "evolves agents_evolve (rotateAgentKey h a key)" "evolves agents_evolve (revokeHost I h)"
  "evolves agents_evolve (rotateHostKey I h key)" "evolves agents_evolve (createTask now h tinp)"
  "evolves agents_evolve (completeTask now h t)" "evolves agents_evolve (createProject h nm' de)"
  "evolves agents_evolve (deleteProject I h p)" "evolves agents_evolve (setAgentProject h a pr)"
  unfolding revokeAgent_def updateAgentMetadata_def grantCapability_def requestCapability_def request_one_def
    rotateAgentKey_def revokeHost_def revoke_listed_def rotateHostKey_def createTask_def grant_for_task_def
    completeTask_def createProject_def deleteProject_def setAgentProject_def auditProject_def Let_def
    case_prod_unfold
  by (intro evolution.evolves_intros evolve_intros)+

lemma identity_step_evolve: "agents_evolve d (identity_step I c d)"
proof (cases c)
  case (ClockTick t)
  then show ?thesis by (simp add: evolve_same)
qed (use evolve_intros in \<open>simp_all add: evolves_def\<close>)

section \<open>Any sequence of calls\<close>

lemma identity_run_evolve: "agents_evolve d (identity_run I cs d)"
  by (rule identity_run_frame [where R = agents_evolve,
        OF identity_step_evolve evolution.frame_refl evolution.frame_trans])

lemma identity_run_agent_raw:
  assumes "row_find ar_id i (db_agents d) = Some r"
  shows "\<exists>r'. row_find ar_id i (db_agents (identity_run I cs d)) = Some r' \<and> row_evolves r r'"
  using identity_run_evolve [of d I cs] assms unfolding agents_evolve_def by blast

text \<open>
  C19: Over any sequence of service calls, an agent keeps its host, its mode and its creation time; its
  status follows the transition table, so that a revoked, rejected or claimed agent stays so; and
  its absolute clock, once set, never moves - not even by a reactivation.
\<close>

lemma identity_agent_evolution:
  assumes "row_find ar_id i (db_agents d) = Some r"
  shows "\<exists>r'. row_find ar_id i (db_agents (identity_run I cs d)) = Some r' \<and>
    ar_host_id r' = ar_host_id r \<and> ar_mode r' = ar_mode r \<and> ar_created_at r' = ar_created_at r \<and>
    agents.legal\<^sup>*\<^sup>* (ar_status r) (ar_status r') \<and>
    (ar_status r \<in> {AgentRevoked, AgentRejected, AgentClaimed} \<longrightarrow> ar_status r' = ar_status r) \<and>
    (\<forall>t. ar_absolute_expires_at r = Some t \<longrightarrow>
       map_option js_date (ar_absolute_expires_at r') = Some (js_date t))"
proof -
  from identity_run_agent_raw [OF assms, of I cs] obtain r'
    where r': "row_find ar_id i (db_agents (identity_run I cs d)) = Some r'" and e: "row_evolves r r'" by blast
  have "ar_status r \<in> {AgentRevoked, AgentRejected, AgentClaimed} \<Longrightarrow> AGENT_TRANSITIONS (ar_status r) = []" by auto
  with r' e agents.terminal_stays show ?thesis unfolding row_evolves_def by blast
qed

definition sample_identity_deps :: identity_deps where
  "sample_identity_deps =
    \<lparr>id_codec = unary_codec, id_crypto = sample_crypto, id_json = sample_json_text,
     id_lifetimes = \<lparr>lc_sessionTtlSeconds = 3600, lc_maxLifetimeSeconds = 86400,
       lc_absoluteLifetimeSeconds = 604800\<rparr>,
     id_issuer = ''https://gw''\<rparr>"

lemma identity_agent_evolution_witness:
  "\<exists>r'. row_find ar_id 7 (db_agents (identity_run sample_identity_deps
      [RevokeAgent 1 7, ReactivateAgent 5 6 1 7] (sample_db [sample_agent_row 7 2000]))) = Some r' \<and>
    ar_host_id r' = 1"
proof -
  have "row_find ar_id 7 (db_agents (sample_db [sample_agent_row 7 2000])) = Some (sample_agent_row 7 2000)"
    by (simp add: sample_db_def table_simps sample_agent_row_def)
  from identity_agent_evolution [OF this, of sample_identity_deps "[RevokeAgent 1 7, ReactivateAgent 5 6 1 7]"]
  show ?thesis by (auto simp: sample_agent_row_def)
qed

text \<open>
  The constraints of the schema - keys, uniqueness and references - hold in every database the
  service can bring about from one in which they hold.
\<close>

lemma identity_run_wf:
  assumes "db_wf d"
  shows "db_wf (identity_run I cs d)"
proof -
  have "keeps db_wf d (identity_run I cs d)"
    by (rule identity_run_frame [where R = "keeps db_wf", OF identity_step_wf keeps.frame_refl keeps.frame_trans])
  with assms show ?thesis by (simp add: keeps_def)
qed

lemma identity_run_wf_witness:
  "db_wf (identity_run sample_identity_deps [RevokeHost 1, CreateProject 1 ''p'' None]
     (sample_db [sample_agent_row 7 2000]))"
  by (rule identity_run_wf, rule sample_db_wf) (auto simp: sample_agent_row_def refs_def)

lemma activatable: "canTransitionAgent st AgentActive \<longleftrightarrow> st = AgentPending \<or> st = AgentExpired"
  by (cases st) (simp_all add: canTransitionAgent_def)

text \<open>
  C35: Reactivation never succeeds: no service call makes an agent expired (and none leaves one
  pending), so in every database the service can bring about from one without such agents, a
  reactivation ends in an error.
\<close>

lemma reactivation_never_succeeds:
  assumes "\<forall>r \<in> set (db_agents d). ar_status r \<notin> {AgentPending, AgentExpired}"
  shows "\<exists>e d'. reactivateAgent I now1 now2 h a (identity_run I cs d) = (Inl e, d')"
proof -
  have "\<forall>r \<in> set (db_agents (identity_run I cs d)). \<not> dormant r"
    using identity_run_evolve [of d I cs] assms unfolding agents_evolve_def dormant_def by blast
  then have stuck: "\<not> canTransitionAgent (ar_status r) AgentActive"
    if "row_find ar_id a (db_agents (identity_run I cs d)) = Some r" for r
    using row_find_SomeD [OF that] activatable unfolding dormant_def by blast
  show ?thesis
  proof (cases "row_find ar_id a (db_agents (identity_run I cs d))")
    case None
    then show ?thesis by (simp add: reactivateAgent_def)
  next
    case (Some r)
    with stuck [OF Some] show ?thesis by (simp add: reactivateAgent_def bind_transition)
  qed
qed

lemma reactivation_never_succeeds_witness:
  "\<exists>e d'. reactivateAgent sample_identity_deps 0 0 1 7
     (identity_run sample_identity_deps [ClockTick 99999999999999999] (sample_db [sample_agent_row 7 2000])) = (Inl e, d')"
  by (rule reactivation_never_succeeds) (simp add: sample_db_def sample_agent_row_def)

section \<open>Revoking a host\<close>

definition revocable :: "agent_state \<Rightarrow> bool" where
  "revocable st \<longleftrightarrow> st = AgentActive \<or> st = AgentExpired"

lemma revocable_can: "revocable st \<Longrightarrow> canTransitionAgent st AgentRevoked"
  by (auto simp: revocable_def canTransitionAgent_def)

text \<open>The effect of the cascade on the table: the rows whose ids are listed.\<close>

definition revoke_rows :: "uuid set \<Rightarrow> db \<Rightarrow> db" where
  "revoke_rows is d = d\<lparr>db_agents := row_update (\<lambda>r. ar_id r \<in> is)
     (\<lambda>r. r\<lparr>ar_status := AgentRevoked, ar_updated_at := db_now d\<rparr>) (db_agents d)\<rparr>"

lemma row_update_never [simp]: "row_update (\<lambda>r. False) f t = t"
  by (simp add: row_update_def)

lemma revoke_rows_empty [simp]: "revoke_rows {} d = d"
  by (simp add: revoke_rows_def row_update_def)

lemma revoke_rows_insert: "revoke_rows js (revoke_rows is d) = revoke_rows (is \<union> js) d"
  by (auto simp: revoke_rows_def row_update_def)

lemma row_find_revoke_other:
  "i \<notin> is \<Longrightarrow> row_find ar_id i (db_agents (revoke_rows is d)) = row_find ar_id i (db_agents d)"
  by (cases "row_find ar_id i (db_agents d)") (auto simp: revoke_rows_def row_find_update dest: row_find_SomeD)

lemma revoke_listed_eval:
  assumes "row_find ar_id (a_id a) (db_agents d) = Some r" and "ar_status r = a_status a"
  shows "revoke_listed k a d = (Inr (), revoke_rows (if revocable (a_status a) then {a_id a} else {}) d)"
  using assms revocable_can [of "a_status a"]
  by (auto simp: revoke_listed_def bind_transition revocable_def revoke_rows_def update_agents_def eff_simps)

lemma cascade_eval:
  assumes "distinct (map a_id as)"
    and "\<And>a. a \<in> set as \<Longrightarrow> \<exists>r. row_find ar_id (a_id a) (db_agents d) = Some r \<and> ar_status r = a_status a"
  shows "\<exists>us. eff_mapM (revoke_listed k) as d =
    (Inr us, revoke_rows (a_id ` {a \<in> set as. revocable (a_status a)}) d)"
  using assms
proof (induction as arbitrary: d)
  case Nil
  show ?case by (simp add: eff_return_def)
next
  case (Cons a as)
  let ?i = "if revocable (a_status a) then {a_id a} else {}"
  obtain r where r: "row_find ar_id (a_id a) (db_agents d) = Some r" "ar_status r = a_status a"
    using Cons.prems(2) [of a] by auto
  have rest: "\<exists>q. row_find ar_id (a_id b) (db_agents (revoke_rows ?i d)) = Some q \<and> ar_status q = a_status b"
    if "b \<in> set as" for b
  proof -
    have "a_id b \<in> a_id ` set as" using that by simp
    then have "a_id b \<notin> ?i" using Cons.prems(1) by auto
    then show ?thesis using Cons.prems(2) [of b] that by (simp add: row_find_revoke_other)
  qed
  have d: "distinct (map a_id as)" using Cons.prems(1) by simp
  have u: "?i \<union> a_id ` {a \<in> set as. revocable (a_status a)} =
      a_id ` {x \<in> set (a # as). revocable (a_status x)}"
    by auto
  from Cons.IH [OF d rest] revoke_listed_eval [OF r, of k]
  show ?case unfolding u [symmetric] by (auto simp: eff_bind_def eff_return_def revoke_rows_insert)
qed

text \<open>
  C34: Revoking an active host succeeds and takes all its usable agents with it: afterwards the host is
  revoked, exactly its active and expired agents have become revoked, and every other agent, and
  every grant, is as before.
\<close>

lemma revokeHost_cascade:
  assumes "db_wf d" and "row_find hr_id h (db_hosts d) = Some hr" and "hr_status hr = HostActive"
  shows "\<exists>d'. revokeHost I h d = (Inr (), d') \<and> host_status d' h = Some HostRevoked \<and>
    db_agents d' = map (\<lambda>r. if ar_host_id r = h \<and> ar_status r \<in> {AgentActive, AgentExpired}
       then r\<lparr>ar_status := AgentRevoked, ar_updated_at := db_now d\<rparr> else r) (db_agents d) \<and>
    db_grants d' = db_grants d"
proof -
  let ?d1 = "update_hosts h (\<lambda>t r. r\<lparr>hr_status := HostRevoked, hr_updated_at := t\<rparr>) d"
  let ?rows = "sort_key (\<lambda>r. (ar_created_at r, ar_id r)) (filter (\<lambda>r. ar_host_id r = h) (db_agents d))"
  let ?as = "map mapAgentRow ?rows"
  let ?is = "a_id ` {a \<in> set ?as. revocable (a_status a)}"
  have ids: "distinct (map ar_id (db_agents d))" using assms(1) by (simp add: db_wf_defs)
  have "distinct (map a_id ?as)"
  proof -
    have "inj_on ar_id (set (db_agents d))" using ids by (simp add: distinct_map)
    then have "inj_on ar_id (set ?rows)" by (rule inj_on_subset) auto
    moreover have "distinct ?rows" using ids by (simp add: distinct_map)
    ultimately show ?thesis by (simp add: distinct_map comp_def)
  qed
  moreover have "\<exists>r. row_find ar_id (a_id a) (db_agents ?d1) = Some r \<and> ar_status r = a_status a" if "a \<in> set ?as" for a
    using that row_find_distinct [OF ids] by auto
  ultimately obtain us where run: "eff_mapM (revoke_listed (id_codec I)) ?as ?d1 = (Inr us, revoke_rows ?is ?d1)"
    using cascade_eval by blast
  let ?d' = "revoke_rows ?is ?d1"
  have "transitionHost (id_codec I) h HostRevoked d = (Inr (mapHostRow (hr\<lparr>hr_status := HostRevoked, hr_updated_at := db_now d\<rparr>)), ?d1)"
    using assms(2,3) by (simp add: transitionHost_eval canTransitionHost_def)
  then have "revokeHost I h d = (Inr (), ?d')"
    using assms(2,3) run by (simp add: revokeHost_def agents_listByHost_def eff_simps)
  moreover have "host_status ?d' h = Some HostRevoked"
    using assms(2) by (simp add: host_status_def revoke_rows_def table_simps)
  moreover have "ar_id r \<in> ?is \<longleftrightarrow> ar_host_id r = h \<and> revocable (ar_status r)" if "r \<in> set (db_agents d)" for r
    using that ids by (force simp: distinct_map inj_on_def)
  then have "db_agents ?d' = map (\<lambda>r. if ar_host_id r = h \<and> ar_status r \<in> {AgentActive, AgentExpired}
       then r\<lparr>ar_status := AgentRevoked, ar_updated_at := db_now d\<rparr> else r) (db_agents d)"
    by (auto simp: revoke_rows_def row_update_def revocable_def)
  moreover have "db_grants ?d' = db_grants d" by (simp add: revoke_rows_def)
  ultimately show ?thesis by blast
qed

lemma revokeHost_cascade_witness:
  "\<exists>d'. revokeHost sample_identity_deps 1 (sample_db [sample_agent_row 7 2000]) = (Inr (), d') \<and>
     map ar_status (db_agents d') = [AgentRevoked]"
proof -
  have "db_wf (sample_db [sample_agent_row 7 2000])" by (rule sample_db_wf) (auto simp: sample_agent_row_def refs_def)
  moreover have "row_find hr_id 1 (db_hosts (sample_db [sample_agent_row 7 2000])) = Some sample_host_row"
    by (simp add: sample_db_def table_simps sample_host_row_def)
  moreover have "hr_status sample_host_row = HostActive" by (simp add: sample_host_row_def)
  ultimately obtain d' where "revokeHost sample_identity_deps 1 (sample_db [sample_agent_row 7 2000]) = (Inr (), d')"
    "db_agents d' = map (\<lambda>r. if ar_host_id r = 1 \<and> ar_status r \<in> {AgentActive, AgentExpired}
       then r\<lparr>ar_status := AgentRevoked, ar_updated_at := db_now (sample_db [sample_agent_row 7 2000])\<rparr> else r)
       (db_agents (sample_db [sample_agent_row 7 2000]))"
    using revokeHost_cascade [of _ 1 sample_host_row sample_identity_deps] by blast
  then show ?thesis by (simp add: sample_db_def sample_agent_row_def)
qed

section \<open>Requests of an agent for itself\<close>

definition only_pending :: "uuid \<Rightarrow> db \<Rightarrow> db \<Rightarrow> bool" where
  "only_pending a d d' \<longleftrightarrow>
     (\<forall>g \<in> set (db_grants d'). gr_status g = GrantActive \<longrightarrow> g \<in> set (db_grants d)) \<and>
     (\<forall>g. gr_agent_id g \<noteq> a \<longrightarrow> g \<in> set (db_grants d') \<longleftrightarrow> g \<in> set (db_grants d)) \<and>
     db_agents d' = db_agents d"

interpretation requests: effect_frame "only_pending a" for a
  by unfold_locales (auto simp: only_pending_def)

lemma only_pending_upsert:
  assumes "ng_agentId n = a" and "ng_status n = GrantPending"
  shows "evolves (only_pending a) (grants_upsert n)"
proof (rule evolvesI)
  fix d res d' assume run: "grants_upsert n d = (res, d')"
  have "db_agents d' = db_agents d" using grants_upsert_frame(1) [of n d] run by simp
  then show "only_pending a d d'"
    by (cases rule: grants_upsert_cases [OF run]) (auto simp: only_pending_def set_row_delete assms)
qed

lemma only_pending_finds: "evolves (only_pending a) (agents_findById i)" "evolves (only_pending a) (grants_findActive b cap)"
  by (auto simp: evolves_def find_ops_eval requests.frame_refl)

lemma requestCapability_frame: "evolves (only_pending a) (requestCapability a rs)"
  unfolding requestCapability_def request_one_def
  by (intro requests.evolves_intros only_pending_finds only_pending_upsert) simp_all

text \<open>
  C36: An agent cannot give itself access: whatever it requests, and however the request ends, every
  active grant afterwards was there before, and the grants of other agents are untouched.
\<close>

lemma requestCapability_no_access:
  assumes "requestCapability a rs d = (res, d')"
  shows "(\<forall>g \<in> set (db_grants d'). gr_status g = GrantActive \<longrightarrow> g \<in> set (db_grants d)) \<and>
    (\<forall>g. gr_agent_id g \<noteq> a \<longrightarrow> g \<in> set (db_grants d') \<longleftrightarrow> g \<in> set (db_grants d))"
  using evolvesD [OF requestCapability_frame assms] by (simp add: only_pending_def)

lemma requestCapability_no_access_witness:
  "\<exists>res d'. requestCapability 7 [\<lparr>cq_name = ''slack.post'', cq_constraints = []\<rparr>]
      (sample_db [sample_agent_row 7 2000]) = (res, d') \<and>
    (\<forall>g \<in> set (db_grants d'). gr_status g \<noteq> GrantActive)"
proof -
  let ?run = "requestCapability 7 [\<lparr>cq_name = ''slack.post'', cq_constraints = []\<rparr>] (sample_db [sample_agent_row 7 2000])"
  have "?run = (fst ?run, snd ?run)" by simp
  from requestCapability_no_access [OF this] show ?thesis
    by (auto simp: sample_db_def empty_db_def intro!: exI [of _ "fst ?run"] exI [of _ "snd ?run"])
qed

section \<open>Tasks\<close>

definition task_only :: "uuid \<Rightarrow> string \<Rightarrow> uuid \<Rightarrow> db \<Rightarrow> bool" where
  "task_only a cap t d \<longleftrightarrow>
     (\<forall>g \<in> set (db_grants d). gr_agent_id g = a \<longrightarrow> gr_capability g = cap \<longrightarrow> gr_task_id g = Some t)"

lemma task_grant_establishes:
  "grant_for_task h a t e sp d = (Inr g, d') \<Longrightarrow> task_only a (ts_capability sp) t d'"
  unfolding grant_for_task_def
  by (erule grants_upsert_cases) (auto simp: task_only_def set_row_delete)

lemma task_grant_keeps:
  "grant_for_task h a t e sp d = (res, d') \<Longrightarrow> task_only a cap t d \<Longrightarrow> task_only a cap t d'"
  unfolding grant_for_task_def
  by (erule grants_upsert_cases) (auto simp: task_only_def set_row_delete)

lemma task_grants_keep: "evolves (keeps (task_only a cap t)) (eff_mapM (grant_for_task h a t e) sps)"
proof (rule keeps.evolves_mapM)
  fix sp
  show "evolves (keeps (task_only a cap t)) (grant_for_task h a t e sp)"
    by (rule evolvesI) (simp add: keeps_def task_grant_keeps)
qed

lemma task_grants_establish:
  "eff_mapM (grant_for_task h a t e) sps d = (Inr gs, d') \<Longrightarrow> sp \<in> set sps \<Longrightarrow> task_only a (ts_capability sp) t d'"
proof (induction sps arbitrary: d gs)
  case (Cons q sps)
  from Cons.prems(1) obtain g d1 gs' where 1: "grant_for_task h a t e q d = (Inr g, d1)"
    and 2: "eff_mapM (grant_for_task h a t e) sps d1 = (Inr gs', d')"
    by (auto simp: eff_bind_Inr_iff eff_return_def)
  show ?case
  proof (cases "sp = q")
    case True
    have "task_only a (ts_capability q) t d1" using task_grant_establishes [OF 1] .
    then show ?thesis using evolvesD [OF task_grants_keep 2] True by (simp add: keeps_def)
  next
    case False
    then show ?thesis using Cons.IH [OF 2] Cons.prems(2) by simp
  qed
qed simp

lemma createTask_Inr:
  assumes "createTask now h inp d = (Inr tg, d')" and "sp \<in> set (ct_capabilities inp)"
  shows "task_only (ct_agentId inp) (ts_capability sp) (t_id (tg_task tg)) d'"
  using assms
  by (auto simp: createTask_def Let_def eff_bind_Inr_iff eff_return_def task_grants_establish
      split: option.splits if_splits)

lemma completeTask_Inr:
  assumes "completeTask now h t d = (Inr tk, d')"
  shows "t_status tk = TaskCompleted" and "t_id tk = t" and "db_agents d' = db_agents d" and
    "db_grants d' = row_update (\<lambda>r. gr_task_id r = Some t \<and> gr_status r \<noteq> GrantDenied)
       (\<lambda>r. r\<lparr>gr_status := GrantDenied\<rparr>) (db_grants d)"
  using assms
  by (auto simp: completeTask_def grants_revokeByTask_def tasks_setStatus_def update_grants_def eff_some_def
      row_find_update eff_simps split: option.splits if_splits dest: row_find_SomeD)

lemma no_active_grants:
  "active_grants a cap d = [] \<longleftrightarrow>
     (\<forall>g \<in> set (db_grants d). gr_agent_id g = a \<longrightarrow> gr_capability g = cap \<longrightarrow> \<not> grant_live (db_now d) g)"
proof -
  have "set (active_grants a cap d) =
      {g \<in> set (db_grants d). gr_agent_id g = a \<and> gr_capability g = cap \<and> grant_live (db_now d) g}"
    by (auto simp: active_grants_def)
  then show ?thesis by (metis (mono_tags, lifting) empty_Collect_eq set_empty)
qed

lemma revoked_by_task:
  "filter (\<lambda>r. gr_agent_id r = a \<and> gr_capability r = cap \<and> grant_live now r)
     (row_update (\<lambda>r. gr_task_id r = Some t \<and> gr_status r \<noteq> GrantDenied) (\<lambda>r. r\<lparr>gr_status := GrantDenied\<rparr>) gs) =
   filter (\<lambda>r. gr_task_id r \<noteq> Some t)
     (filter (\<lambda>r. gr_agent_id r = a \<and> gr_capability r = cap \<and> grant_live now r) gs)"
  by (induction gs) (auto simp: row_update_def grant_live_def)

lemma completeTask_active:
  assumes "completeTask now h t d = (Inr tk, d')"
  shows "active_grants a cap d' = filter (\<lambda>g. gr_task_id g \<noteq> Some t) (active_grants a cap d)"
proof -
  have "db_now d' = db_now d"
    using assms by (auto simp: completeTask_def grants_revokeByTask_def tasks_setStatus_def update_grants_def eff_some_def
        eff_simps split: option.splits if_splits)
  then show ?thesis
    by (simp add: active_grants_def completeTask_Inr(4) [OF assms] revoked_by_task filter_sort rev_filter [symmetric])
qed

text \<open>
  C20: The access of a task ends with it.  When a task has been created, every grant its agent holds for a
  capability of the task is one of the task - also where it held one before, whose place the task's grant took.
  Whatever has happened since, completing the task denies all grants of the task and leaves every agent, for
  every capability, exactly the active grants it had that are not of this task.
\<close>

lemma task_access_ends:
  assumes "createTask now h inp d = (Inr tg, d1)" and "completeTask now' h' (t_id (tg_task tg)) d2 = (Inr tk, d3)"
  shows "t_status tk = TaskCompleted \<and> t_id tk = t_id (tg_task tg) \<and>
    (\<forall>sp \<in> set (ct_capabilities inp). \<forall>g \<in> set (db_grants d1). gr_agent_id g = ct_agentId inp \<longrightarrow>
       gr_capability g = ts_capability sp \<longrightarrow> gr_task_id g = Some (t_id tk)) \<and>
    (\<forall>g \<in> set (db_grants d3). gr_task_id g = Some (t_id tk) \<longrightarrow> gr_status g = GrantDenied) \<and>
    (\<forall>a cap. active_grants a cap d3 = filter (\<lambda>g. gr_task_id g \<noteq> Some (t_id tk)) (active_grants a cap d2))"
proof (intro conjI ballI allI impI)
  note complete = completeTask_Inr [OF assms(2)]
  show "t_status tk = TaskCompleted" "t_id tk = t_id (tg_task tg)" by (rule complete)+
  show "gr_task_id g = Some (t_id tk)" if "sp \<in> set (ct_capabilities inp)" "g \<in> set (db_grants d1)"
    "gr_agent_id g = ct_agentId inp" "gr_capability g = ts_capability sp" for sp g
    using createTask_Inr [OF assms(1) that(1)] that by (simp add: task_only_def complete(2))
  show "gr_status g = GrantDenied" if "g \<in> set (db_grants d3)" "gr_task_id g = Some (t_id tk)" for g
    using that complete(2,4) by (auto simp: set_row_update split: if_splits)
  show "active_grants a cap d3 = filter (\<lambda>g. gr_task_id g \<noteq> Some (t_id tk)) (active_grants a cap d2)" for a cap
    using completeTask_active [OF assms(2)] by (simp add: complete(2))
qed

definition sample_task :: create_task_input where
  "sample_task = \<lparr>ct_agentId = 7, ct_name = ''t'', ct_purpose = None, ct_ttlSeconds = 60,
     ct_capabilities = [\<lparr>ts_capability = ''slack.post'', ts_connectionId = None, ts_operation = None, ts_constraints = []\<rparr>]\<rparr>"

text \<open>
  The agent of this witness has a standing grant before the task; in the second part the host grants the capability
  again while the task runs, and that grant outlives the task.
\<close>

lemma task_access_ends_witness:
  "\<exists>d tg d1 tk d2. active_grants 7 ''slack.post'' d \<noteq> [] \<and> createTask 5000 1 sample_task d = (Inr tg, d1) \<and>
     completeTask 6000 1 (t_id (tg_task tg)) d1 = (Inr tk, d2) \<and> active_grants 7 ''slack.post'' d2 = []"
proof -
  let ?d = "snd (grants_upsert (sample_new_grant 7 None) (sample_db [sample_agent_row 7 2000]))"
  let ?c = "createTask 5000 1 sample_task ?d"
  have a: "active_grants 7 ''slack.post'' ?d \<noteq> []" by code_simp
  have i: "\<not> isl (fst ?c)" by code_simp
  have t: "t_id (tg_task (projr (fst ?c))) = 101" by code_simp
  from run_returns [OF i] obtain tg where c: "?c = (Inr tg, snd ?c)" by blast
  have tid: "t_id (tg_task tg) = 101" using t arg_cong [OF c, of fst] by simp
  have j: "\<not> isl (fst (completeTask 6000 1 101 (snd ?c)))" by code_simp
  from run_returns [OF j] obtain tk
    where k: "completeTask 6000 1 (t_id (tg_task tg)) (snd ?c) = (Inr tk, snd (completeTask 6000 1 101 (snd ?c)))"
    unfolding tid by blast
  have sel: "ct_agentId sample_task = 7"
    "ct_capabilities sample_task = [\<lparr>ts_capability = ''slack.post'', ts_connectionId = None, ts_operation = None, ts_constraints = []\<rparr>]"
    by (simp_all add: sample_task_def)
  note p = task_access_ends [OF c k]
  have "g \<in> set (active_grants 7 ''slack.post'' (snd ?c)) \<Longrightarrow> gr_task_id g = Some (t_id tk)" for g
    using p unfolding sel by (auto simp: active_grants_def)
  with p have "active_grants 7 ''slack.post'' (snd (completeTask 6000 1 101 (snd ?c))) = []"
    by (simp add: filter_empty_conv)
  with a c k show ?thesis by blast
qed

lemma regrant_outlives_task:
  "active_grants 7 ''slack.post''
     (snd (completeTask 6000 1 101
       (snd (grants_upsert (sample_new_grant 7 None)
         (snd (createTask 5000 1 sample_task (snd (grants_upsert (sample_new_grant 7 None) (sample_db [sample_agent_row 7 2000]))))))))) \<noteq> []"
  by code_simp

section \<open>Deleting a project\<close>

text \<open>The rows the deletion looks at: the newest 200 of each list.\<close>

definition newest :: "('r \<Rightarrow> micros \<times> uuid) \<Rightarrow> 'r list \<Rightarrow> 'r list" where
  "newest key t = take 200 (display_order key t)"

definition listed_member :: "uuid \<Rightarrow> db \<Rightarrow> bool" where
  "listed_member i d \<longleftrightarrow>
     (\<exists>r \<in> set (newest (\<lambda>r. (ar_created_at r, ar_id r)) (db_agents d)). ar_project_id r = Some i) \<or>
     (\<exists>r \<in> set (newest (\<lambda>r. (cr_created_at r, cr_id r)) (db_connections d)). cr_project_id r = Some i)"

lemma keyset_page_newest:
  "\<exists>cur more. keyset_page k key mapRow pos \<lparr>q_cursor = None, q_limit = Some 1000\<rparr> t =
     Inr \<lparr>pg_items = map mapRow (newest key t), pg_nextCursor = cur, pg_hasMore = more\<rparr>"
  by (simp add: keyset_page_def Let_def cursor_key_def clampLimit_def keyset_select_filter newest_def)

lemma deleteProject_eval:
  "\<exists>ac cc. deleteProject I h i d =
     (if listed_member i d then (Inl (members_error ac cc), d)
      else eff_bind (projects_delete i) (\<lambda>_. auditProject h ''project.delete'' None) d)"
proof -
  obtain c1 m1 where a: "agents_list (id_codec I) \<lparr>q_cursor = None, q_limit = Some 1000\<rparr> d =
      (Inr \<lparr>pg_items = map mapAgentRow (newest (\<lambda>r. (ar_created_at r, ar_id r)) (db_agents d)),
            pg_nextCursor = c1, pg_hasMore = m1\<rparr>, d)"
    unfolding agents_list_def
    using keyset_page_newest [of "id_codec I" "\<lambda>r. (ar_created_at r, ar_id r)" mapAgentRow
        "\<lambda>a. (a_createdAt a, a_id a)" "db_agents d"] by auto
  obtain c2 m2 where c: "connections_list (id_codec I) \<lparr>q_cursor = None, q_limit = Some 1000\<rparr> d =
      (Inr \<lparr>pg_items = map mapConnectionRow (newest (\<lambda>r. (cr_created_at r, cr_id r)) (db_connections d)),
            pg_nextCursor = c2, pg_hasMore = m2\<rparr>, d)"
    unfolding connections_list_def
    using keyset_page_newest [of "id_codec I" "\<lambda>r. (cr_created_at r, cr_id r)" mapConnectionRow
        "\<lambda>c. (c_createdAt c, c_id c)" "db_connections d"] by auto
  let ?ac = "length (filter (\<lambda>r. ar_project_id r = Some i) (newest (\<lambda>r. (ar_created_at r, ar_id r)) (db_agents d)))"
  let ?cc = "length (filter (\<lambda>r. cr_project_id r = Some i) (newest (\<lambda>r. (cr_created_at r, cr_id r)) (db_connections d)))"
  have zero: "?ac + ?cc = 0 \<longleftrightarrow> \<not> listed_member i d"
    unfolding listed_member_def add_is_0 length_0_conv filter_empty_conv by blast
  have run: "deleteProject I h i d =
     eff_bind (eff_require (?ac + ?cc = 0) (members_error ?ac ?cc)) (\<lambda>_.
     eff_bind (projects_delete i) (\<lambda>_. auditProject h ''project.delete'' None)) d"
    by (simp only: deleteProject_def 
        eff_bind_eval(1) [where m = "agents_list (id_codec I) \<lparr>q_cursor = None, q_limit = Some 1000\<rparr>" and s = d, OF a]
        eff_bind_eval(1) [where m = "connections_list (id_codec I) \<lparr>q_cursor = None, q_limit = Some 1000\<rparr>" and s = d, OF c]
        listed_members_def Let_def
        prod.case page.select_convs filter_map length_map comp_def mapAgentRow_simps mapConnectionRow_simps)
  show ?thesis
    by (rule exI [of _ ?ac], rule exI [of _ ?cc]) (cases "listed_member i d"; simp only: run zero eff_bind_require not_True_eq_False not_False_eq_True if_True if_False)
qed

text \<open>
  C37: A project can be deleted exactly when none of the newest 200 agents and none of the newest 200
  connections belongs to it - the limit of 1000 that is asked for is cut to 200 - so a project
  with an older member is deleted, and each of its connections becomes one that belongs to no
  project, usable by the agents of every project.
\<close>

lemma deleteProject_guard:
  assumes "db_uuids d (db_draws d) \<notin> aur_id ` set (db_audit d)"
  shows "((\<exists>d'. deleteProject I h i d = (Inr (), d')) \<longleftrightarrow> \<not> listed_member i d) \<and>
    (\<forall>d'. deleteProject I h i d = (Inr (), d') \<longrightarrow> \<not> project_exists d' i \<and>
       (\<forall>c \<in> set (db_connections d). cr_project_id c = Some i \<longrightarrow>
          c\<lparr>cr_project_id := None\<rparr> \<in> set (db_connections d')))"
proof -
  obtain ac cc where e: "deleteProject I h i d =
     (if listed_member i d then (Inl (members_error ac cc), d)
      else eff_bind (projects_delete i) (\<lambda>_. auditProject h ''project.delete'' None) d)"
    using deleteProject_eval by blast
  let ?d1 = "snd (projects_delete i d)"
  have "eff_bind (projects_delete i) (\<lambda>_. auditProject h ''project.delete'' None) d =
      auditProject h ''project.delete'' None ?d1"
    by (simp add: projects_delete_def eff_simps)
  moreover have "\<exists>d2. auditProject h ''project.delete'' None ?d1 = (Inr (), d2) \<and>
      db_projects d2 = db_projects ?d1 \<and> db_connections d2 = db_connections ?d1"
    using assms
    by (simp add: auditProject_def audit_append_def insert_audit_def insert_row_def gen_random_uuid_def
        projects_delete_def audit_row_ok_def eff_bind_def eff_simps)
  moreover have "\<not> i \<in> por_id ` set (db_projects ?d1)"
    by (auto simp: projects_delete_def eff_simps set_row_delete)
  moreover have "c\<lparr>cr_project_id := None\<rparr> \<in> set (db_connections ?d1)"
    if "c \<in> set (db_connections d)" "cr_project_id c = Some i" for c
    using that by (force simp: projects_delete_def eff_simps set_row_update)
  ultimately show ?thesis using e by (auto simp: project_exists_def)
qed

text \<open>The oldest of 201 connections is the project's.\<close>

definition crowded_db :: db where
  "crowded_db = empty_db\<lparr>db_projects := [\<lparr>por_id = 1, por_name = ''p'', por_description = None, por_created_at = 0\<rparr>],
     db_connections := map (\<lambda>n. sample_connection_row n (if n = 0 then Some 1 else None)\<lparr>cr_created_at := int n\<rparr>) [0..<201]\<rparr>"

lemma crowded_tables:
  "db_connections crowded_db =
     map (\<lambda>n. sample_connection_row n (if n = 0 then Some 1 else None)\<lparr>cr_created_at := int n\<rparr>) [0..<201]"
  "db_agents crowded_db = []" "db_audit crowded_db = []"
  by (simp_all add: crowded_db_def empty_db_def del: upt_rec_numeral)

lemma take_exact: "length xs = n \<Longrightarrow> take n (xs @ ys) = xs"
  by simp

lemma crowded_newest: "\<not> listed_member 1 crowded_db"
proof -
  let ?f = "\<lambda>n. sample_connection_row n (if n = 0 then Some 1 else None)\<lparr>cr_created_at := int n\<rparr>"
  let ?key = "\<lambda>r. (cr_created_at r, cr_id r)"
  have "sorted (map ?key (map ?f [0..<201]))"
    by (auto simp: sorted_map comp_def sample_connection_row_def sorted_wrt_iff_nth_less)
  then have o: "display_order ?key (map ?f [0..<201]) = rev (map ?f [0..<201])"
    by (simp only: display_order_def sort_key_id_if_sorted)
  have u: "[0..<201] = 0 # [1..<201::nat]" using upt_conv_Cons [of 0 201] by simp
  have e: "rev (map ?f [0..<201]) = rev (map ?f [1..<201]) @ [?f 0]"
    by (simp only: u list.map rev.simps)
  have len: "length (rev (map ?f [1..<201])) = 200"
    by (simp only: length_rev length_map length_upt)
  have "newest ?key (map ?f [0..<201]) = rev (map ?f [1..<201])"
    unfolding newest_def o e by (rule take_exact [OF len])
  then have all: "newest ?key (db_connections crowded_db) = rev (map ?f [1..<201])"
    by (simp only: crowded_tables)
  have free: "cr_project_id r = None" if "r \<in> set (newest ?key (db_connections crowded_db))" for r
  proof -
    from that obtain n where "n \<in> {1..<201}" "r = ?f n" unfolding all set_rev set_map set_upt by (elim imageE)
    then show ?thesis by (simp add: sample_connection_row_def)
  qed
  have none: "newest k (db_agents crowded_db) = []" for k
    by (simp add: crowded_tables newest_def display_order_def)
  show ?thesis
    unfolding listed_member_def
  proof (rule notI, elim disjE bexE)
    fix r assume "r \<in> set (newest (\<lambda>r. (ar_created_at r, ar_id r)) (db_agents crowded_db))"
    then show False unfolding none by simp
  next
    fix r assume "r \<in> set (newest ?key (db_connections crowded_db))" and p: "cr_project_id r = Some 1"
    from free [OF this(1)] p show False by simp
  qed
qed

lemma deleteProject_guard_witness:
  "\<exists>d'. deleteProject sample_identity_deps 1 1 crowded_db = (Inr (), d') \<and>
     sample_connection_row 0 None\<lparr>cr_created_at := 0\<rparr> \<in> set (db_connections d')"
proof -
  have "db_uuids crowded_db (db_draws crowded_db) \<notin> aur_id ` set (db_audit crowded_db)"
    by (simp add: crowded_tables)
  note g = deleteProject_guard [OF this, of sample_identity_deps 1 1]
  from g crowded_newest obtain d' where d': "deleteProject sample_identity_deps 1 1 crowded_db = (Inr (), d')" by blast
  have "sample_connection_row 0 (Some 1)\<lparr>cr_created_at := 0\<rparr> \<in> set (db_connections crowded_db)"
    by (simp only: crowded_tables set_map set_upt) (rule image_eqI [of _ _ 0]; simp)
  with g d' have "sample_connection_row 0 (Some 1)\<lparr>cr_created_at := 0, cr_project_id := None\<rparr> \<in> set (db_connections d')"
    by (force simp: sample_connection_row_def)
  with d' show ?thesis by (auto simp: sample_connection_row_def)
qed

end
