(* ===== verification/Connection_Laws.thy ===== *)
theory Connection_Laws
  imports Connection_Proxy Storage_Laws
begin

text \<open>
  What the connection proxy and the registry service promise: an execution reaches a driver only
  when every check has passed and is then audited exactly once; the per-connection limit is a fixed
  window; an authorization binds, and what happens when it is removed; a stored credential reaches
  the driver as it was registered.
\<close>

section \<open>Checks leave the database alone\<close>

interpretation same_db: effect_frame "\<lambda>s t :: proxy_state. xs_db t = xs_db s"
  by unfold_locales simp_all

lemma on_xdb_eval: "on_xdb m s = (fst (m (xs_db s)), s\<lparr>xs_db := snd (m (xs_db s))\<rparr>)"
  by (simp add: on_xdb_def eff_lift_def split: prod.split)

lemma on_limiter_eval: "on_limiter m s = (fst (m (xs_limiter s)), s\<lparr>xs_limiter := snd (m (xs_limiter s))\<rparr>)"
  by (simp add: on_limiter_def eff_lift_def split: prod.split)

lemma on_limiter_same_db: "evolves (\<lambda>s t. xs_db t = xs_db s) (on_limiter m)"
  by (simp add: evolves_def on_limiter_eval)

lemma on_xdb_same_db: "evolves (=) m \<Longrightarrow> evolves (\<lambda>s t. xs_db t = xs_db s) (on_xdb m)"
  by (auto simp: evolves_def on_xdb_eval)

interpretation unchanged: effect_frame "(=) :: db \<Rightarrow> db \<Rightarrow> bool"
  by unfold_locales auto

lemma find_evolves_eq:
  "evolves (=) (connections_findById i)" "evolves (=) (connGrants_listByAgent a)"
  "evolves (=) (connections_getEncryptedCredential i)" "evolves (=) (existing_connection i)"
  by (simp_all add: connections_findById_def connGrants_listByAgent_def existing_connection_def
      connections_getEncryptedCredential_def unchanged.evolves_intros)

text \<open>The checks of an execution, up to the call of the driver.\<close>

definition execute_gate ::
  "proxy_deps \<Rightarrow> execute_clock \<Rightarrow> agent \<Rightarrow> capability_grant \<Rightarrow> json_object
     \<Rightarrow> (platform_driver \<times> execution_context) proxy_op" where
  "execute_gate X ck agent grant args =
     (case (g_connectionId grant, g_operation grant) of
        (Some connectionId, Some operation) \<Rightarrow>
          if operation = [] then eff_throw (err InvalidRequest ''capability has no connection/operation mapping'' 400)
          else
            eff_bind (on_xdb (existing_connection connectionId)) (\<lambda>conn.
            eff_bind (check_connection agent operation conn) (\<lambda>_.
            eff_bind (check_connector_grant (ek_rate ck) agent connectionId operation conn) (\<lambda>_.
            eff_bind (check_policy (xd_policy X) agent (g_capability grant) operation conn) (\<lambda>_.
            eff_bind (eff_some (registry_get (xd_connectors X) (c_platform conn)) (no_driver (c_platform conn))) (\<lambda>driver.
            eff_bind (on_xdb (connections_getEncryptedCredential connectionId)) (\<lambda>encrypted.
            eff_bind (eff_some encrypted (err InternalError ''connection credential missing'' 500)) (\<lambda>bytes.
            eff_bind (eff_sum (open_credential (xd_cipher X) (xd_json X) bytes)) (\<lambda>credential.
            eff_return (driver,
              \<lparr>xc_operation = operation, xc_args = args, xc_credential = credential, xc_options = []\<rparr>)))))))))
      | _ \<Rightarrow> eff_throw (err InvalidRequest ''capability has no connection/operation mapping'' 400))"

lemma eff_bind_assoc: "eff_bind (eff_bind m f) g = eff_bind m (\<lambda>x. eff_bind (f x) g)"
  by (rule ext) (simp add: eff_bind_def split: prod.split sum.split)

lemma execute_split:
  "execute X ck agent grant args =
     eff_bind (execute_gate X ck agent grant args)
       (\<lambda>(driver, ctx). run_driver X ck agent grant args driver ctx)"
  unfolding execute_def execute_gate_def
  by (cases "g_connectionId grant"; cases "g_operation grant") (simp_all add: eff_bind_assoc)

lemma check_connection_same_db: "evolves (\<lambda>s t. xs_db t = xs_db s) (check_connection agent op conn)"
  unfolding check_connection_def by (intro same_db.evolves_intros)

lemma check_connector_grant_same_db:
  "evolves (\<lambda>s t. xs_db t = xs_db s) (check_connector_grant now agent cid op conn)"
  unfolding check_connector_grant_def
  by (intro same_db.evolves_intros on_xdb_same_db on_limiter_same_db find_evolves_eq)

lemma check_policy_same_db: "evolves (\<lambda>s t. xs_db t = xs_db s) (check_policy p agent cap op conn)"
  unfolding check_policy_def Let_def by (intro same_db.evolves_intros)

lemma execute_gate_same_db: "evolves (\<lambda>s t. xs_db t = xs_db s) (execute_gate X ck agent grant args)"
  unfolding execute_gate_def
  by (cases "g_connectionId grant"; cases "g_operation grant")
    (auto intro!: same_db.evolves_intros on_xdb_same_db find_evolves_eq check_connection_same_db
      check_connector_grant_same_db check_policy_same_db)

section \<open>Authorized executions\<close>

text \<open>
  The run of a driver that an agent is entitled to under a grant: the grant names a connection and
  an operation, the connection is global or of the agent's project and permits the operation, the
  agent has no connection grants at all or one for this connection that permits the operation, the
  policy allows the request, and the driver is the registered one, called with the operation, the
  arguments and the decrypted credential of that connection.
\<close>

definition entitled :: "uuid \<Rightarrow> uuid \<Rightarrow> string \<Rightarrow> db \<Rightarrow> bool" where
  "entitled a cid op d \<longleftrightarrow>
     (\<forall>g \<in> set (db_conn_grants d). cgr_agent_id g \<noteq> a) \<or>
     (\<exists>g \<in> set (db_conn_grants d). cgr_agent_id g = a \<and> cgr_connection_id g = cid \<and>
        (cgr_allowed_operations g = [] \<or> op \<in> set (cgr_allowed_operations g)))"

definition policy_allows :: "policy_config option \<Rightarrow> policy_context \<Rightarrow> bool" where
  "policy_allows p ctx \<longleftrightarrow> (case p of None \<Rightarrow> True | Some config \<Rightarrow> pd_effect (evaluate config ctx) = Allow)"

definition authorized_run ::
  "proxy_deps \<Rightarrow> agent \<Rightarrow> capability_grant \<Rightarrow> json_object \<Rightarrow> db \<Rightarrow> platform_driver \<Rightarrow> execution_context \<Rightarrow> bool" where
  "authorized_run X agent grant args d driver ctx \<longleftrightarrow>
     (\<exists>cid op r cred. g_connectionId grant = Some cid \<and> g_operation grant = Some op \<and>
        r \<in> set (db_connections d) \<and> cr_id r = cid \<and>
        (cr_project_id r = None \<or> cr_project_id r = a_projectId agent) \<and>
        (cr_allowed_operations r = [] \<or> op \<in> set (cr_allowed_operations r)) \<and>
        entitled (a_id agent) cid op d \<and>
        policy_allows (xd_policy X) (request_context agent (g_capability grant) op (mapConnectionRow r)) \<and>
        registry_get (xd_connectors X) (cr_platform r) = Some driver \<and>
        open_credential (xd_cipher X) (xd_json X) (cr_credential_encrypted r) = Inr cred \<and>
        ctx = \<lparr>xc_operation = op, xc_args = args, xc_credential = cred, xc_options = []\<rparr>)"

lemma existing_connection_pass:
  "existing_connection i d = (Inr conn, d') \<longleftrightarrow>
     (\<exists>r. row_find cr_id i (db_connections d) = Some r \<and> conn = mapConnectionRow r \<and> d' = d)"
  by (cases "row_find cr_id i (db_connections d)") (auto simp: existing_connection_def eff_simps connection_missing_def)

lemma check_connection_pass:
  "check_connection agent op conn s = (Inr (), s') \<longleftrightarrow>
     s' = s \<and> \<not> other_project conn agent \<and> (c_allowedOperations conn = [] \<or> op \<in> set (c_allowedOperations conn))"
  by (auto simp: check_connection_def eff_bind_Inr_iff eff_require_def eff_defs)

lemma check_policy_pass:
  "check_policy p agent cap op conn s = (Inr (), s') \<longleftrightarrow>
     s' = s \<and> policy_allows p (request_context agent cap op conn)"
  by (auto simp: check_policy_def policy_allows_def Let_def eff_require_def eff_defs split: option.splits)

lemma find_map_Some:
  "find p (map f xs) = Some y \<Longrightarrow> \<exists>x \<in> set xs. p (f x) \<and> y = f x"
  by (induction xs) (auto split: if_splits)

lemma check_connector_grant_pass:
  assumes "check_connector_grant now agent cid op conn s = (Inr (), s')"
  shows "entitled (a_id agent) cid op (xs_db s)"
proof -
  let ?rows = "sort_key cgr_created_at (filter (\<lambda>r. cgr_agent_id r = a_id agent) (db_conn_grants (xs_db s)))"
  note list = find_ops_eval(8) [of "a_id agent" "xs_db s"]
  show ?thesis
  proof (cases "?rows = []")
    case True
    then have "set ?rows = {}" by simp
    then show ?thesis by (auto simp: entitled_def)
  next
    case False
    from assms obtain g where g: "find (\<lambda>g. cg_connectionId g = cid) (map mapConnGrantRow ?rows) = Some g"
      and ops: "cg_allowedOperations g = [] \<or> op \<in> set (cg_allowedOperations g)"
      using False
      by (auto simp: check_connector_grant_def eff_bind_Inr_iff on_xdb_eval list eff_some_def eff_require_def
          eff_defs split: option.splits if_splits)
    from find_map_Some [OF g] obtain r where "r \<in> set ?rows" "cg_connectionId (mapConnGrantRow r) = cid"
      "g = mapConnGrantRow r" by blast
    with ops show ?thesis by (auto simp: entitled_def mapConnGrantRow_def)
  qed
qed

lemma execute_gate_pass:
  assumes "execute_gate X ck agent grant args s = (Inr (driver, ctx), s')"
  shows "authorized_run X agent grant args (xs_db s) driver ctx"
proof -
  from assms obtain cid op where g: "g_connectionId grant = Some cid" "g_operation grant = Some op" "op \<noteq> []"
    by (auto simp: execute_gate_def eff_defs split: option.splits if_splits)
  from assms g obtain conn s1 s2 s3 s4 where
    1: "on_xdb (existing_connection cid) s = (Inr conn, s1)" and
    2: "check_connection agent op conn s1 = (Inr (), s2)" and
    3: "check_connector_grant (ek_rate ck) agent cid op conn s2 = (Inr (), s3)" and
    4: "check_policy (xd_policy X) agent (g_capability grant) op conn s3 = (Inr (), s4)" and
    5: "eff_bind (eff_some (registry_get (xd_connectors X) (c_platform conn)) (no_driver (c_platform conn))) (\<lambda>driver.
            eff_bind (on_xdb (connections_getEncryptedCredential cid)) (\<lambda>encrypted.
            eff_bind (eff_some encrypted (err InternalError ''connection credential missing'' 500)) (\<lambda>bytes.
            eff_bind (eff_sum (open_credential (xd_cipher X) (xd_json X) bytes)) (\<lambda>credential.
            eff_return (driver,
              \<lparr>xc_operation = op, xc_args = args, xc_credential = credential, xc_options = []\<rparr>))))) s4 =
        (Inr (driver, ctx), s')"
    by (auto simp: execute_gate_def eff_bind_Inr_iff)
  have db: "xs_db s1 = xs_db s" "xs_db s2 = xs_db s" "xs_db s3 = xs_db s" "xs_db s4 = xs_db s"
    using evolvesD [OF on_xdb_same_db [OF find_evolves_eq(4)] 1] evolvesD [OF check_connection_same_db 2]
      evolvesD [OF check_connector_grant_same_db 3] evolvesD [OF check_policy_same_db 4] by simp_all
  from 1 obtain r where r: "row_find cr_id cid (db_connections (xs_db s)) = Some r" "conn = mapConnectionRow r"
    using existing_connection_pass [of cid "xs_db s" conn "snd (existing_connection cid (xs_db s))"]
    by (auto simp: on_xdb_eval prod_eq_iff)
  from 5 db(4) r obtain cred where
    "registry_get (xd_connectors X) (cr_platform r) = Some driver"
    "open_credential (xd_cipher X) (xd_json X) (cr_credential_encrypted r) = Inr cred"
    "ctx = \<lparr>xc_operation = op, xc_args = args, xc_credential = cred, xc_options = []\<rparr>"
    by (auto simp: eff_bind_Inr_iff eff_some_def eff_sum_def on_xdb_eval connections_getEncryptedCredential_def
        eff_defs mapConnectionRow_def split: option.splits sum.splits)
  moreover have "entitled (a_id agent) cid op (xs_db s)"
    using check_connector_grant_pass [OF 3] db by simp
  moreover have "cr_project_id r = None \<or> cr_project_id r = a_projectId agent"
    "cr_allowed_operations r = [] \<or> op \<in> set (cr_allowed_operations r)"
    using check_connection_pass [THEN iffD1, OF 2] r(2) by (auto simp: other_project_def mapConnectionRow_def)
  moreover have "policy_allows (xd_policy X) (request_context agent (g_capability grant) op (mapConnectionRow r))"
    using check_policy_pass [THEN iffD1, OF 4] r(2) by simp
  ultimately show ?thesis
    using g row_find_SomeD [OF r(1)] unfolding authorized_run_def by blast
qed

definition audit_row_of :: "new_audit_entry \<Rightarrow> uuid \<Rightarrow> micros \<Rightarrow> audit_row" where
  "audit_row_of n i t =
    \<lparr>aur_id = i, aur_agent_id = ne_agentId n, aur_host_id = ne_hostId n, aur_event_type = ne_eventType n,
     aur_capability = ne_capability n, aur_connection_id = ne_connectionId n, aur_operation = ne_operation n,
     aur_task_id = ne_taskId n, aur_outcome = ne_outcome n, aur_args_hash = ne_argsHash n,
     aur_duration_ms = ne_durationMs n, aur_created_at = t\<rparr>"

text \<open>The next key the database draws is new to the audit log.\<close>

definition fresh_audit_id :: "db \<Rightarrow> bool" where
  "fresh_audit_id d \<longleftrightarrow> db_uuids d (db_draws d) \<notin> aur_id ` set (db_audit d)"

definition with_entry :: "new_audit_entry \<Rightarrow> db \<Rightarrow> db" where
  "with_entry n d =
     d\<lparr>db_audit := db_audit d @ [audit_row_of n (db_uuids d (db_draws d)) (db_now d)], db_draws := Suc (db_draws d)\<rparr>"

lemma audit_append_eval:
  "fresh_audit_id d \<Longrightarrow> audit_append n d = (Inr (), with_entry n d)"
  by (simp add: audit_append_def eff_bind_def gen_random_uuid_def eff_read_def insert_audit_def insert_row_def
      audit_row_ok_def fresh_audit_id_def with_entry_def audit_row_of_def eff_return_def)

definition driver_result :: "platform_driver \<Rightarrow> execution_context \<Rightarrow> fault + execution_result" where
  "driver_result driver ctx =
     (case dv_execute driver ctx of Inl e \<Rightarrow> Inl (dv_mapError driver e) | Inr x \<Rightarrow> Inr x)"

lemma run_driver_eval:
  "fresh_audit_id (xs_db s) \<Longrightarrow>
   run_driver X ck agent grant args driver ctx s =
     (driver_result driver ctx,
      s\<lparr>xs_db := with_entry (execute_entry X ck agent grant args (run_outcome (dv_execute driver ctx))) (xs_db s)\<rparr>)"
  by (simp add: run_driver_def Let_def on_xdb_eval audit_append_eval eff_bind_def driver_result_def eff_defs
      split: sum.split)

lemma execute_cases_raw:
  assumes run: "execute X ck agent grant args s = (res, s')" and fresh: "fresh_audit_id (xs_db s)"
  shows "(isl res \<and> xs_db s' = xs_db s) \<or>
    (\<exists>driver ctx. authorized_run X agent grant args (xs_db s) driver ctx \<and> res = driver_result driver ctx \<and>
       xs_db s' = with_entry (execute_entry X ck agent grant args (run_outcome (dv_execute driver ctx))) (xs_db s))"
proof -
  obtain q t where gate: "execute_gate X ck agent grant args s = (q, t)"
    by (cases "execute_gate X ck agent grant args s")
  have db: "xs_db t = xs_db s" by (rule evolvesD [OF execute_gate_same_db gate])
  show ?thesis
  proof (cases q)
    case (Inl e)
    with run gate have "res = Inl e" "s' = t" by (simp_all add: execute_split eff_bind_def)
    with db show ?thesis by simp
  next
    case (Inr p)
    obtain driver ctx where p: "p = (driver, ctx)" by (cases p)
    have "authorized_run X agent grant args (xs_db s) driver ctx"
      using execute_gate_pass gate unfolding Inr p .
    moreover have "(res, s') = run_driver X ck agent grant args driver ctx t"
      using run gate unfolding Inr p by (simp add: execute_split eff_bind_def)
    ultimately show ?thesis
      using run_driver_eval [of t X ck agent grant args driver ctx] fresh db by auto
  qed
qed

text \<open>
  C4: Soundness and accounting of an execution.  Either the request is refused, with an error and an
  unchanged database, or a driver runs that the agent is entitled to use; then the caller gets
  exactly what the driver returned, or its mapped error, and the audit log grows by exactly one
  entry, which names the agent, the connection, the operation and the hash of the arguments, with
  the outcome of the run.
\<close>

lemma execute_authorized_and_audited:
  assumes "execute X ck agent grant args s = (res, s')" and "fresh_audit_id (xs_db s)"
  shows "(isl res \<and> xs_db s' = xs_db s) \<or>
    (\<exists>driver ctx. authorized_run X agent grant args (xs_db s) driver ctx \<and> res = driver_result driver ctx \<and>
       xs_db s' = with_entry (execute_entry X ck agent grant args (run_outcome (dv_execute driver ctx))) (xs_db s))"
  using assms by (rule execute_cases_raw)

section \<open>The limit of a connection grant\<close>

definition proxy_admits :: "int \<Rightarrow> 'k \<Rightarrow> millis \<Rightarrow> 'k limiter \<Rightarrow> bool \<times> 'k limiter" where
  "proxy_admits l k t lm = (\<not> isl (fst (proxy_limit l k t lm)), snd (proxy_limit l k t lm))"

interpretation conn_limit: fixed_window proxy_admits lm_buckets 60000
  by unfold_locales
    (auto simp: proxy_admits_def proxy_limit_def proxy_sweep_def Let_def sweep_current sweep_live split: if_splits)

text \<open>
  C29: The rate limit of a connection grant: within any minute the proxy lets at most twice the limit of
  requests of one agent on one connection pass, and at most the limit from the first request of a
  window on, whatever other agents and connections are used in between.
\<close>

lemma connection_limit_bound:
  assumes "sorted (map snd es)" and "\<forall>e \<in> set es. T \<le> snd e \<and> snd e < T + 60000"
  shows "conn_limit.admitted l k es lm \<le> 2 * nat l \<and>
    (live_bucket T (lm_buckets lm k) = None \<longrightarrow> conn_limit.admitted l k es lm \<le> nat l)"
  using conn_limit.admitted_in_window [OF assms] conn_limit.admitted_fresh [OF _ assms(1), where T = T] assms(2)
  by blast

lemma connection_limit_bound_witness:
  "conn_limit.admitted 2 (7, 4) [((7, 4), 100), ((8, 4), 150), ((7, 4), 200), ((7, 4), 300)]
     (createRateLimiter 0 :: (uuid \<times> uuid) limiter) = 2"
proof -
  let ?es = "[((7, 4), 100), ((8, 4), 150), ((7, 4), 200), ((7, 4), 300)] :: ((uuid \<times> uuid) \<times> millis) list"
  have w: "sorted (map snd ?es)" "\<forall>e \<in> set ?es. 100 \<le> snd e \<and> snd e < (100::int) + 60000" by simp_all
  from connection_limit_bound [OF w, of 2 "(7, 4)" "createRateLimiter 0"]
  have "conn_limit.admitted 2 (7, 4) ?es (createRateLimiter 0) \<le> 2"
    by (simp add: createRateLimiter_def live_bucket_def)
  moreover have "conn_limit.admitted 2 (7, 4) ?es (createRateLimiter 0) = 2"
    by (simp add: proxy_admits_def proxy_limit_def proxy_sweep_def Let_def createRateLimiter_def current_bucket_def hit_def)
  ultimately show ?thesis by simp
qed

section \<open>The constraints of the schema\<close>

lemma connection_services_keep_wf [wf_intros]:
  "evolves (keeps db_wf) (registerConnection K iv cinp)" "evolves (keeps db_wf) (updateConnection K iv c upd)"
  "evolves (keeps db_wf) (deleteConnection c)" "evolves (keeps db_wf) (testConnection K now c)"
  "evolves (keeps db_wf) (attachConnection K h a c ops rlim)" "evolves (keeps db_wf) (detachConnection h a c)"
  unfolding registerConnection_def updateConnection_def existing_connection_def deleteConnection_def
    testConnection_def attachConnection_def detachConnection_def hosted_agent_def connection_audit_def Let_def
  by (intro keeps.evolves_intros wf_intros)+

section \<open>Authorizations of agents\<close>

lemma hosted_agent_pass:
  assumes "hosted_agent h a d = (Inr agent, d')"
  shows "\<exists>r. row_find ar_id a (db_agents d) = Some r \<and> agent = mapAgentRow r \<and> ar_host_id r = h \<and> d' = d"
  using assms
  by (cases "row_find ar_id a (db_agents d)")
    (auto simp: hosted_agent_def eff_simps mapAgentRow_def split: if_splits)

lemma connGrants_upsert_row:
  assumes "connGrants_upsert a c ops rl d = (Inr g, d')" and "distinct (map conn_key (db_conn_grants d))"
  shows "(\<exists>r. row_find conn_key (a, c) (db_conn_grants d') = Some r \<and> cgr_allowed_operations r = ops \<and>
      cgr_rate_limit r = rl \<and> g = mapConnGrantRow r) \<and>
    distinct (map conn_key (db_conn_grants d')) \<and>
    (\<forall>k. k \<noteq> (a, c) \<longrightarrow> row_find conn_key k (db_conn_grants d') = row_find conn_key k (db_conn_grants d))"
proof (cases "row_find conn_key (a, c) (db_conn_grants d)")
  case None
  with assms show ?thesis
    by (auto simp: connGrants_upsert_def eff_bind_def gen_random_uuid_def insert_conn_grant_def insert_row_def
        conn_grant_row_ok_def eff_return_def row_find_append table_simps conn_key_def image_iff
        split: if_splits option.split)
next
  case (Some r)
  let ?f = "\<lambda>g. g\<lparr>cgr_allowed_operations := ops, cgr_rate_limit := rl\<rparr>"
  have key: "conn_key (?f g) = conn_key g" for g by (simp add: conn_key_def)
  have d': "db_conn_grants d' = row_update (\<lambda>g. conn_key g = (a, c)) ?f (db_conn_grants d)" "g = mapConnGrantRow (?f r)"
    using assms(1) Some by (auto simp: connGrants_upsert_def eff_bind_def gen_random_uuid_def Let_def)
  have "map conn_key (db_conn_grants d') = map conn_key (db_conn_grants d)"
    unfolding d' row_update_def by (simp add: key)
  then have dist: "distinct (map conn_key (db_conn_grants d'))" using assms(2) by simp
  have find: "row_find conn_key k (db_conn_grants d') =
      map_option (\<lambda>r. if conn_key r = (a, c) then ?f r else r) (row_find conn_key k (db_conn_grants d))" for k
    unfolding d' by (rule row_find_update) (simp add: key)
  have "row_find conn_key k (db_conn_grants d') = row_find conn_key k (db_conn_grants d)" if "k \<noteq> (a, c)" for k
    using that find [of k] row_find_SomeD [of conn_key k]
    by (cases "row_find conn_key k (db_conn_grants d)") auto
  moreover have "row_find conn_key (a, c) (db_conn_grants d') = Some (?f r)"
    using find [of "(a, c)"] Some row_find_SomeD [OF Some] by simp
  ultimately show ?thesis using dist d'(2) by (intro conjI) auto
qed

text \<open>The outcome of the check for an agent that has authorizations, by the one for the connection.\<close>

lemma find_by_key:
  assumes "distinct (map conn_key rows)"
  shows "find (\<lambda>g. cg_connectionId g = c) (map mapConnGrantRow (sort_key cgr_created_at (filter (\<lambda>r. cgr_agent_id r = a) rows))) =
    map_option mapConnGrantRow (row_find conn_key (a, c) rows)"
proof -
  let ?s = "sort_key cgr_created_at (filter (\<lambda>r. cgr_agent_id r = a) rows)"
  show ?thesis
  proof (cases "row_find conn_key (a, c) rows")
    case None
    then have "\<forall>r \<in> set ?s. cgr_connection_id r \<noteq> c"
      by (auto simp: row_find_None_iff conn_key_def image_iff)
    then show ?thesis using None by (auto simp: find_None_iff mapConnGrantRow_def)
  next
    case (Some r)
    have r: "r \<in> set ?s" "cgr_connection_id r = c" using row_find_SomeD [OF Some] by (auto simp: conn_key_def)
    then have "find (\<lambda>g. cg_connectionId g = c) (map mapConnGrantRow ?s) \<noteq> None"
      by (auto simp: find_None_iff mapConnGrantRow_def)
    then obtain y where y: "find (\<lambda>g. cg_connectionId g = c) (map mapConnGrantRow ?s) = Some y" by blast
    from find_map_Some [OF this] obtain x where x: "x \<in> set ?s" "cgr_connection_id x = c" "y = mapConnGrantRow x"
      by (auto simp: mapConnGrantRow_def)
    have "conn_key x = conn_key r" "x \<in> set rows" "r \<in> set rows" using x r by (auto simp: conn_key_def)
    with assms have "x = r" by (metis row_find_distinct option.inject)
    with x y Some show ?thesis by simp
  qed
qed

lemma check_connector_grant_eval:
  assumes "distinct (map conn_key (db_conn_grants (xs_db s)))"
    and "\<exists>g \<in> set (db_conn_grants (xs_db s)). cgr_agent_id g = a_id agent"
  shows "isl (fst (check_connector_grant now agent c op conn s)) \<longleftrightarrow>
    (case row_find conn_key (a_id agent, c) (db_conn_grants (xs_db s)) of
       None \<Rightarrow> True
     | Some r \<Rightarrow>
         \<not> (cgr_allowed_operations r = [] \<or> op \<in> set (cgr_allowed_operations r)) \<or>
         (\<exists>l. cgr_rate_limit r = Some l \<and> 0 < l \<and>
            \<not> fst (proxy_admits l (a_id agent, c) now (xs_limiter s))))"
proof -
  let ?s = "sort_key cgr_created_at (filter (\<lambda>r. cgr_agent_id r = a_id agent) (db_conn_grants (xs_db s)))"
  from assms(2) have "set ?s \<noteq> {}" by auto
  then have "?s \<noteq> []" by (metis list.set(1))
  then have ne: "map mapConnGrantRow ?s \<noteq> []" by (simp only: map_is_Nil_conv not_False_eq_True)
  have list: "on_xdb (connGrants_listByAgent (a_id agent)) s = (Inr (map mapConnGrantRow ?s), s)"
    by (simp add: on_xdb_eval find_ops_eval)
  show ?thesis
    using ne find_by_key [OF assms(1), of c "a_id agent"]
    unfolding check_connector_grant_def
    by (auto simp: eff_bind_def list eff_return_def eff_some_def eff_require_def eff_throw_def mapConnGrantRow_def on_limiter_eval
        proxy_admits_def split: option.split)
qed

text \<open>Attaching checks agent, connection, project and operations, and then sets the row of the pair.\<close>

lemma attach_upsert:
  assumes "attachConnection D h a c ops rl d = (Inr g, d')" and "distinct (map conn_key (db_conn_grants d))"
  shows "(\<exists>r conn. row_find ar_id a (db_agents d) = Some r \<and> ar_host_id r = h \<and>
      row_find cr_id c (db_connections d) = Some conn \<and>
      (cr_project_id conn = None \<or> cr_project_id conn = ar_project_id r) \<and>
      unknown_operations (kd_connectors D) (mapConnectionRow conn) ops = []) \<and>
    (\<exists>row. row_find conn_key (a, c) (db_conn_grants d') = Some row \<and> cgr_allowed_operations row = ops \<and>
      cgr_rate_limit row = rl) \<and>
    distinct (map conn_key (db_conn_grants d')) \<and>
    (\<forall>k. k \<noteq> (a, c) \<longrightarrow> row_find conn_key k (db_conn_grants d') = row_find conn_key k (db_conn_grants d))"
proof -
  from assms(1) obtain ag conn d0 d1 d2 d3 where
    1: "hosted_agent h a d = (Inr ag, d0)" and 2: "existing_connection c d0 = (Inr conn, d1)" and
    ok: "\<not> other_project conn ag" "unknown_operations (kd_connectors D) conn ops = []" and
    3: "connGrants_upsert a c ops rl d1 = (Inr g, d2)" and
    4: "connection_audit ''connection.attach'' h a c d2 = (Inr (), d')"
    by (auto simp: attachConnection_def eff_bind_Inr_iff Let_def eff_return_def split: if_splits)
  from hosted_agent_pass [OF 1] obtain r where
    r: "row_find ar_id a (db_agents d) = Some r" "ag = mapAgentRow r" "ar_host_id r = h" "d0 = d" by blast
  from 2 obtain cr where cr: "row_find cr_id c (db_connections d) = Some cr" "conn = mapConnectionRow cr" "d1 = d"
    using existing_connection_pass r(4) by blast
  have proj: "cr_project_id cr = None \<or> cr_project_id cr = ar_project_id r"
    using ok(1) r(2) cr(2) by (auto simp: other_project_def mapConnectionRow_def mapAgentRow_def)
  have same: "db_conn_grants d' = db_conn_grants d2"
    using audit_append_frame(6) 4 unfolding connection_audit_def by (metis snd_conv)
  from connGrants_upsert_row [OF 3 [unfolded cr(3)] assms(2), folded same] r cr proj ok(2)
  show ?thesis by blast
qed

lemma attached_check_eval:
  assumes "row_find conn_key (a_id agent, c) (db_conn_grants d) = Some row" and "distinct (map conn_key (db_conn_grants d))"
    and "cgr_rate_limit row = None"
  shows "isl (fst (check_connector_grant now agent c op conn \<lparr>xs_db = d, xs_limiter = lm\<rparr>)) \<longleftrightarrow>
      cgr_allowed_operations row \<noteq> [] \<and> op \<notin> set (cgr_allowed_operations row)"
    and "row_find conn_key (a_id agent, c') (db_conn_grants d) = None \<Longrightarrow>
      isl (fst (check_connector_grant now agent c' op conn \<lparr>xs_db = d, xs_limiter = lm\<rparr>))"
proof -
  have "\<exists>g \<in> set (db_conn_grants d). cgr_agent_id g = a_id agent"
    using row_find_SomeD [OF assms(1)] by (auto simp: conn_key_def)
  note ev = check_connector_grant_eval [of "\<lparr>xs_db = d, xs_limiter = lm\<rparr>" agent, simplified, OF assms(2) this]
  show "isl (fst (check_connector_grant now agent c op conn \<lparr>xs_db = d, xs_limiter = lm\<rparr>)) \<longleftrightarrow>
      cgr_allowed_operations row \<noteq> [] \<and> op \<notin> set (cgr_allowed_operations row)"
    using assms(1,3) by (simp add: ev)
  show "row_find conn_key (a_id agent, c') (db_conn_grants d) = None \<Longrightarrow>
      isl (fst (check_connector_grant now agent c' op conn \<lparr>xs_db = d, xs_limiter = lm\<rparr>))"
    by (simp add: ev)
qed

text \<open>
  C21: An authorization binds.  Attaching a connection, with or without a rate limit, succeeds only for an agent of the
  host, in the project of the connection if that has one, and with operations the connection offers.  In every
  later state that still has the authorization as it was attached, the proxy's check lets the agent use that connection
  exactly for the attached operations (all, if none were named) and, under a positive limit, only while the
  limiter admits the request; and it refuses every connection that is not attached to the agent.
\<close>

lemma attach_binds:
  assumes "attachConnection D h a c ops rl d = (Inr g, d')" and "db_wf d" and "a_id agent = a" and "db_wf d2"
    and "row_find conn_key (a, c) (db_conn_grants d2) = row_find conn_key (a, c) (db_conn_grants d')"
  shows "(\<exists>r conn. row_find ar_id a (db_agents d) = Some r \<and> ar_host_id r = h \<and>
      row_find cr_id c (db_connections d) = Some conn \<and>
      (cr_project_id conn = None \<or> cr_project_id conn = ar_project_id r) \<and>
      unknown_operations (kd_connectors D) (mapConnectionRow conn) ops = []) \<and>
    (isl (fst (check_connector_grant now agent c op conn' \<lparr>xs_db = d2, xs_limiter = lm\<rparr>)) \<longleftrightarrow>
       ops \<noteq> [] \<and> op \<notin> set ops \<or>
       (\<exists>l. rl = Some l \<and> 0 < l \<and> \<not> fst (proxy_admits l (a, c) now lm))) \<and>
    (row_find conn_key (a, c') (db_conn_grants d2) = None \<longrightarrow>
       isl (fst (check_connector_grant now agent c' op conn' \<lparr>xs_db = d2, xs_limiter = lm\<rparr>)))"
proof -
  have "distinct (map conn_key (db_conn_grants d))" using assms(2) by (simp add: db_wf_defs)
  note up = attach_upsert [OF assms(1) this]
  then obtain row where row: "row_find conn_key (a, c) (db_conn_grants d2) = Some row"
    "cgr_allowed_operations row = ops" "cgr_rate_limit row = rl"
    unfolding assms(5) by blast
  have d2: "distinct (map conn_key (db_conn_grants d2))" using assms(4) by (simp add: db_wf_defs)
  have "\<exists>g \<in> set (db_conn_grants d2). cgr_agent_id g = a" using row_find_SomeD [OF row(1)] by (auto simp: conn_key_def)
  note ev = check_connector_grant_eval [of "\<lparr>xs_db = d2, xs_limiter = lm\<rparr>" agent now _ op conn',
      unfolded proxy_state.select_convs assms(3), OF d2 this]
  show ?thesis using up ev [of c] ev [of c'] row by (intro conjI impI) (blast, auto)
qed

definition sample_attach_deps :: connection_deps where
  "sample_attach_deps =
    \<lparr>kd_codec = unary_codec, kd_cipher = sample_cipher, kd_json = sample_json_text, kd_connectors = None\<rparr>"

lemma attach_binds_witness:
  "\<exists>g d'. attachConnection sample_attach_deps 1 7 4 [''post_message''] (Some 5) sample_wired_db = (Inr g, d') \<and>
     isl (fst (check_connector_grant 0 (mapAgentRow (sample_agent_row 7 2000)) 4 ''list_channels''
       (mapConnectionRow (sample_connection_row 4 None)) \<lparr>xs_db = d', xs_limiter = createRateLimiter 0\<rparr>)) \<and>
     \<not> isl (fst (check_connector_grant 0 (mapAgentRow (sample_agent_row 7 2000)) 4 ''post_message''
       (mapConnectionRow (sample_connection_row 4 None)) \<lparr>xs_db = d', xs_limiter = createRateLimiter 0\<rparr>))"
proof -
  let ?run = "attachConnection sample_attach_deps 1 7 4 [''post_message''] (Some 5) sample_wired_db"
  let ?agent = "mapAgentRow (sample_agent_row 7 2000)" and ?lm = "createRateLimiter 0 :: (uuid \<times> uuid) limiter"
  have "\<not> isl (fst ?run)" by code_simp
  from run_returns [OF this] obtain g where run: "?run = (Inr g, snd ?run)" by blast
  have a: "a_id ?agent = 7" by (simp add: mapAgentRow_def sample_agent_row_def)
  have "evolves (keeps db_wf) (attachConnection sample_attach_deps 1 7 4 [''post_message''] (Some 5))" by (rule wf_intros)
  from evolvesD [OF this run] have wf: "db_wf (snd ?run)" using sample_wired_db_wf by (simp add: keeps_def)
  have admits: "fst (proxy_admits 5 (7, 4) 0 ?lm)"
    by (simp add: proxy_admits_def proxy_limit_def proxy_sweep_def Let_def createRateLimiter_def current_bucket_def hit_def)
  note p = attach_binds [OF run sample_wired_db_wf a wf refl, where lm = ?lm and now = 0
      and conn' = "mapConnectionRow (sample_connection_row 4 None)"]
  from p [where op = "''list_channels''"] p [where op = "''post_message''"] admits run show ?thesis by auto
qed

text \<open>
  C39: Removing an authorization can widen access: an agent whose only authorization is for one
  connection is refused every other connection; once that authorization is detached, it has none and
  the same requests pass the check.
\<close>

lemma detach_widens_access:
  assumes "row_find ar_id a (db_agents d) = Some r" and "ar_host_id r = h"
    and "filter (\<lambda>g. cgr_agent_id g = a) (db_conn_grants d) = [g]" and "cgr_connection_id g = c" and "c' \<noteq> c"
    and "distinct (map conn_key (db_conn_grants d))" and "fresh_audit_id d" and "a_id agent = a"
  shows "\<exists>d'. detachConnection h a c d = (Inr (), d') \<and>
    isl (fst (check_connector_grant now agent c' op conn \<lparr>xs_db = d, xs_limiter = lm\<rparr>)) \<and>
    \<not> isl (fst (check_connector_grant now agent c' op conn \<lparr>xs_db = d', xs_limiter = lm\<rparr>))"
proof -
  let ?d1 = "snd (connGrants_delete a c d)"
  have host: "hosted_agent h a d = (Inr (mapAgentRow r), d)"
    using assms(1,2) by (simp add: hosted_agent_def mapAgentRow_def eff_simps)
  have fresh: "fresh_audit_id ?d1"
    using assms(7) by (simp add: fresh_audit_id_def connGrants_delete_def eff_write_def)
  obtain d' where det: "detachConnection h a c d = (Inr (), d')" and d': "db_conn_grants d' = db_conn_grants ?d1"
    by (simp add: detachConnection_def eff_bind_def host connGrants_delete_def eff_write_def connection_audit_def
        audit_append_eval [OF fresh [unfolded connGrants_delete_def eff_write_def snd_conv]] with_entry_def)
  have g: "g \<in> set (db_conn_grants d)" "cgr_agent_id g = a" using filter_eq_ConsD [OF assms(3)] by auto
  have only: "x = g" if "x \<in> set (db_conn_grants d)" "cgr_agent_id x = a" for x
  proof -
    have "x \<in> set (filter (\<lambda>g. cgr_agent_id g = a) (db_conn_grants d))" using that by simp
    then show ?thesis unfolding assms(3) by simp
  qed
  have "conn_key x \<noteq> (a, c')" if "x \<in> set (db_conn_grants d)" for x
    using only [OF that] assms(4,5) unfolding conn_key_def by blast
  then have "row_find conn_key (a, c') (db_conn_grants d) = None" by (force simp: row_find_None_iff)
  then have before: "isl (fst (check_connector_grant now agent c' op conn \<lparr>xs_db = d, xs_limiter = lm\<rparr>))"
    using check_connector_grant_eval [of "\<lparr>xs_db = d, xs_limiter = lm\<rparr>" agent now c' op conn] assms(6,8) g by auto
  have left: "x \<in> set (db_conn_grants d) \<and> conn_key x \<noteq> (a, c)" if "x \<in> set (db_conn_grants d')" for x
    using that unfolding d' by (simp add: connGrants_delete_def eff_write_def row_delete_def)
  have "conn_key g = (a, c)" using g(2) assms(4) by (simp add: conn_key_def)
  then have "\<forall>x \<in> set (db_conn_grants d'). cgr_agent_id x \<noteq> a" using only left by metis
  then have none: "filter (\<lambda>r. cgr_agent_id r = a) (db_conn_grants d') = []" by (simp add: filter_empty_conv)
  then have "check_connector_grant now agent c' op conn \<lparr>xs_db = d', xs_limiter = lm\<rparr> =
      (Inr (), \<lparr>xs_db = d', xs_limiter = lm\<rparr>)"
    by (simp add: check_connector_grant_def eff_bind_def on_xdb_eval find_ops_eval assms(8) eff_return_def)
  with det before show ?thesis by auto
qed

definition sample_single_db :: db where
  "sample_single_db = sample_wired_db\<lparr>db_conn_grants := [sample_conn_grant_row 7 4 [''post_message'']]\<rparr>"

lemma detach_widens_access_witness:
  "\<exists>d'. detachConnection 1 7 4 sample_single_db = (Inr (), d') \<and>
     \<not> isl (fst (check_connector_grant 0 (mapAgentRow (sample_agent_row 7 2000)) 5 ''delete_channel''
       (mapConnectionRow (sample_connection_row 5 None)) \<lparr>xs_db = d', xs_limiter = createRateLimiter 0\<rparr>))"
proof -
  let ?d = sample_single_db
  have r: "row_find ar_id 7 (db_agents ?d) = Some (sample_agent_row 7 2000)"
    by (simp add: sample_single_db_def sample_wired_db_def sample_db_def table_simps sample_agent_row_def)
  have h: "ar_host_id (sample_agent_row 7 2000) = 1" by (simp add: sample_agent_row_def)
  have g: "filter (\<lambda>g. cgr_agent_id g = 7) (db_conn_grants ?d) = [sample_conn_grant_row 7 4 [''post_message'']]"
    by (simp add: sample_single_db_def sample_conn_grant_row_def)
  have c: "cgr_connection_id (sample_conn_grant_row 7 4 [''post_message'']) = 4" by (simp add: sample_conn_grant_row_def)
  have n: "(5::nat) \<noteq> 4" by simp
  have k: "distinct (map conn_key (db_conn_grants ?d))" by (simp add: sample_single_db_def)
  have f: "fresh_audit_id ?d"
    by (simp add: fresh_audit_id_def sample_single_db_def sample_wired_db_def sample_db_def empty_db_def)
  have a: "a_id (mapAgentRow (sample_agent_row 7 2000)) = 7" by (simp add: mapAgentRow_def sample_agent_row_def)
  from detach_widens_access [OF r h g c n k f a] show ?thesis by blast
qed

section \<open>Registered credentials\<close>

lemma as_credential_json:
  "as_credential (credential_json m s) = \<lparr>pc_authMethod = Some (nullish m ''bearer''), pc_secret = Some s\<rparr>"
proof -
  have "concat (map (\<lambda>(k, v). case v of JStr t \<Rightarrow> [(k, t)] | _ \<Rightarrow> []) (map (\<lambda>(k, v). (k, JStr v)) s)) = s"
    by (induction s) auto
  then show ?thesis by (simp add: as_credential_def credential_json_def field_of_def)
qed

lemma connections_create_Inr:
  assumes "connections_create n d = (Inr conn, d')"
  shows "connections_getEncryptedCredential (c_id conn) d' = (Inr (Some (nn_credentialEncrypted n)), d') \<and>
    row_find cr_id (c_id conn) (db_connections d) = None \<and> c_platform conn = nn_platform n"
  using assms
  by (auto simp: connections_create_def eff_bind_Inr_iff gen_random_uuid_def insert_connection_def insert_row_def
      connection_row_ok_def connection_exists_def eff_return_def eff_read_def mapConnectionRow_def
      connections_getEncryptedCredential_def row_find_append row_find_None_iff [THEN iffD2] table_simps
      row_find_None_iff split: if_splits)

text \<open>
  C28: A credential comes back from the vault as it was registered: what the proxy and the test of a
  connection decrypt and parse for a new connection is the authentication method and the secret
  of the registration, for whatever cipher text was stored.
\<close>

lemma registered_credential_returns:
  assumes "gcm_ok G" and "createCredentialCipher G key = Inr (kd_cipher D)" and "length iv = IV_LEN"
    and "json_text_ok (kd_json D) (credential_json (rc_authMethod input) (rc_secret input))"
    and "registerConnection D iv input d = (Inr conn, d')"
  shows "\<exists>bytes. connections_getEncryptedCredential (c_id conn) d' = (Inr (Some bytes), d') \<and>
    open_credential (kd_cipher D) (kd_json D) bytes =
      Inr \<lparr>pc_authMethod = Some (nullish (rc_authMethod input) ''bearer''), pc_secret = Some (rc_secret input)\<rparr>"
proof -
  let ?bytes = "seal_credential D iv (rc_authMethod input) (rc_secret input)"
  have "connections_getEncryptedCredential (c_id conn) d' = (Inr (Some ?bytes), d')"
    using connections_create_Inr [OF assms(5) [unfolded registerConnection_def]] by simp
  moreover have "cipher_decrypt (kd_cipher D) ?bytes =
      Inr (jt_stringify (kd_json D) (credential_json (rc_authMethod input) (rc_secret input)))"
    unfolding seal_credential_def by (rule decrypt_encrypt_raw [OF assms(1,2,3)])
  ultimately show ?thesis
    using assms(4) as_credential_json by (auto simp: open_credential_def json_text_ok_def)
qed

definition sample_vault_json :: json_text where
  "sample_vault_json = sample_json_text
    \<lparr>jt_parse := (\<lambda>s. if s = ''stored'' then Some (credential_json None [(''token'', ''t1'')]) else None),
     jt_stringify := (\<lambda>j. if j = credential_json None [(''token'', ''t1'')] then ''stored'' else ''?'')\<rparr>"

definition sample_connection_deps :: connection_deps where
  "sample_connection_deps =
    \<lparr>kd_codec = unary_codec, kd_cipher = sample_cipher, kd_json = sample_vault_json, kd_connectors = Some [MockDriver]\<rparr>"

definition sample_registration :: register_connection_input where
  "sample_registration =
    \<lparr>rc_name = ''m'', rc_platform = ''mock'', rc_authMethod = None, rc_secret = [(''token'', ''t1'')],
     rc_allowedOperations = [], rc_projectId = None\<rparr>"

definition sample_iv :: string where
  "sample_iv = replicate 12 CHR ''i''"

lemma registered_credential_returns_witness:
  "\<exists>conn d' bytes. registerConnection sample_connection_deps sample_iv sample_registration (sample_db []) = (Inr conn, d') \<and>
    connections_getEncryptedCredential (c_id conn) d' = (Inr (Some bytes), d') \<and>
    open_credential sample_cipher sample_vault_json bytes =
      Inr \<lparr>pc_authMethod = Some ''bearer'', pc_secret = Some [(''token'', ''t1'')]\<rparr>"
proof -
  let ?run = "registerConnection sample_connection_deps sample_iv sample_registration (sample_db [])"
  have "\<not> isl (fst ?run)" by code_simp
  from run_returns [OF this] obtain conn where run: "?run = (Inr conn, snd ?run)" by blast
  have c: "createCredentialCipher sample_gcm sample_master_key = Inr (kd_cipher sample_connection_deps)"
    using sample_cipher_created by (simp add: sample_connection_deps_def)
  have i: "length sample_iv = IV_LEN" by (simp add: sample_iv_def IV_LEN_def)
  have j: "json_text_ok (kd_json sample_connection_deps)
      (credential_json (rc_authMethod sample_registration) (rc_secret sample_registration))"
    by (simp add: json_text_ok_def sample_connection_deps_def sample_vault_json_def sample_registration_def)
  from registered_credential_returns [OF sample_gcm_ok c i j run] obtain bytes where
    "connections_getEncryptedCredential (c_id conn) (snd ?run) = (Inr (Some bytes), snd ?run)"
    "open_credential sample_cipher sample_vault_json bytes =
      Inr \<lparr>pc_authMethod = Some ''bearer'', pc_secret = Some [(''token'', ''t1'')]\<rparr>"
    by (auto simp: sample_connection_deps_def sample_registration_def nullish_def)
  with run show ?thesis by blast
qed

text \<open>A closed execution: agent 7 echoes through the mock driver under the registered connection.\<close>

definition sample_vault_db :: db where
  "sample_vault_db = snd (registerConnection sample_connection_deps sample_iv sample_registration (sample_db [sample_agent_row 7 2000]))"

definition sample_proxy_deps :: proxy_deps where
  "sample_proxy_deps =
    \<lparr>xd_crypto = sample_crypto, xd_json = sample_vault_json, xd_cipher = sample_cipher, xd_connectors = [MockDriver],
     xd_policy = None\<rparr>"

definition sample_echo_grant :: capability_grant where
  "sample_echo_grant =
    \<lparr>g_id = 50, g_agentId = 7, g_capability = ''mock.echo'', g_connectionId = Some 100, g_operation = Some ''echo'',
     g_taskId = None, g_status = GrantActive, g_constraints = [], g_grantedBy = None, g_deniedBy = None,
     g_reason = None, g_expiresAt = None, g_createdAt = 0\<rparr>"

lemma execute_authorized_and_audited_witness:
  "\<exists>res s' driver ctx. execute sample_proxy_deps \<lparr>ek_start = 10, ek_rate = 11, ek_end = 15\<rparr>
      (mapAgentRow (sample_agent_row 7 2000)) sample_echo_grant []
      \<lparr>xs_db = sample_vault_db, xs_limiter = createRateLimiter 0\<rparr> = (res, s') \<and> \<not> isl res \<and>
    authorized_run sample_proxy_deps (mapAgentRow (sample_agent_row 7 2000)) sample_echo_grant []
      sample_vault_db driver ctx \<and>
    length (db_audit (xs_db s')) = Suc (length (db_audit sample_vault_db))"
proof -
  let ?run = "execute sample_proxy_deps \<lparr>ek_start = 10, ek_rate = 11, ek_end = 15\<rparr>
      (mapAgentRow (sample_agent_row 7 2000)) sample_echo_grant []
      \<lparr>xs_db = sample_vault_db, xs_limiter = createRateLimiter 0\<rparr>"
  have ok: "\<not> isl (fst ?run)" by code_simp
  from run_returns [OF ok] obtain res where run: "?run = (Inr res, snd ?run)" by blast
  have fresh: "fresh_audit_id (xs_db \<lparr>xs_db = sample_vault_db, xs_limiter = createRateLimiter 0\<rparr>)"
    by code_simp
  from execute_authorized_and_audited [OF run fresh] obtain driver ctx where
    "authorized_run sample_proxy_deps (mapAgentRow (sample_agent_row 7 2000)) sample_echo_grant []
      sample_vault_db driver ctx"
    "length (db_audit (xs_db (snd ?run))) = Suc (length (db_audit sample_vault_db))"
    by (auto simp: with_entry_def)
  with run show ?thesis by (metis sum.disc(2))
qed

end
