(* ===== verification/Router_Laws.thy ===== *)
theory Router_Laws
  imports Tool_Router
begin

text \<open>
  What the token router promises: a schema is served only to an agent with an active grant for the
  tool, and caching is transparent - as long as a lookup is not interleaved with a registration.
\<close>

section \<open>Evaluation\<close>

lemma on_tdb_eval: "on_tdb m s = (fst (m (ts_db s)), s\<lparr>ts_db := snd (m (ts_db s))\<rparr>)"
  by (simp add: on_tdb_def eff_lift_def split: prod.split)

lemma cached_schema_eval:
  "cached_schema now nm s =
     (Inr (fst (cache_get now nm (ts_cache s))), s\<lparr>ts_cache := snd (cache_get now nm (ts_cache s))\<rparr>)"
  by (simp add: cached_schema_def split: prod.split)

lemma audit_append_tools [simp]: "db_tools (snd (audit_append n d)) = db_tools d"
  by (simp add: audit_append_def insert_audit_def insert_row_def gen_random_uuid_def eff_bind_def eff_simps)

text \<open>The description of a registered tool, and what it resolves to.\<close>

definition tool_schema :: "router_deps \<Rightarrow> db \<Rightarrow> string \<Rightarrow> canonical_schema option" where
  "tool_schema R d nm =
     (case row_find tlr_name nm (db_tools d) of
        None \<Rightarrow> None
      | Some r \<Rightarrow> (case resolve_schema R (mapToolRow r) of Inl e \<Rightarrow> None | Inr sc \<Rightarrow> Some sc))"

definition coherent :: "router_deps \<Rightarrow> router_state \<Rightarrow> bool" where
  "coherent R s \<longleftrightarrow> (\<forall>nm e. ts_cache s nm = Some e \<longrightarrow> tool_schema R (ts_db s) nm = Some (ce_schema e))"

lemma resolve_schema_config:
  "tl_adapterType t = tl_adapterType t' \<Longrightarrow> tl_adapterConfig t = tl_adapterConfig t' \<Longrightarrow>
    resolve_schema R t = resolve_schema R t'"
  by (simp add: resolve_schema_def cong: option.case_cong sum.case_cong)

lemma tool_schema_cacheSchema: "tool_schema R (snd (tools_cacheSchema nm sc t d)) nm' = tool_schema R d nm'"
proof -
  let ?f = "\<lambda>r. r\<lparr>tlr_schema_cache := sc, tlr_schema_cached_at := Some (pg_time t)\<rparr>"
  have "row_find tlr_name nm' (row_update (\<lambda>r. tlr_name r = nm) ?f (db_tools d)) =
      map_option (\<lambda>r. if tlr_name r = nm then ?f r else r) (row_find tlr_name nm' (db_tools d))"
    by (rule row_find_update) simp
  moreover have "resolve_schema R (mapToolRow (?f r)) = resolve_schema R (mapToolRow r)" for r
    by (rule resolve_schema_config) (simp_all add: mapToolRow_def)
  ultimately show ?thesis
    by (cases "row_find tlr_name nm' (db_tools d)") (simp_all add: tool_schema_def tools_cacheSchema_def eff_write_def)
qed

lemma load_schema_pass:
  assumes "load_schema R now1 now2 nm s = (Inr sc, s')"
  shows "tool_schema R (ts_db s) nm = Some sc \<and> ts_cache s' = cache_set (td_ttlSeconds R) now1 nm sc (ts_cache s) \<and>
    ts_db s' = snd (tools_cacheSchema nm (Some sc) now2 (ts_db s))"
proof -
  from assms obtain r where r: "row_find tlr_name nm (db_tools (ts_db s)) = Some r"
    and sc: "resolve_schema R (mapToolRow r) = Inr sc"
    and s': "s' = s\<lparr>ts_cache := cache_set (td_ttlSeconds R) now1 nm sc (ts_cache s),
        ts_db := snd (tools_cacheSchema nm (Some sc) now2 (ts_db s))\<rparr>"
    by (auto simp: load_schema_def eff_bind_Inr_iff on_tdb_eval tools_findByName_def tools_cacheSchema_def eff_read_def
        eff_write_def eff_some_def eff_sum_def eff_return_def eff_throw_def split: option.splits sum.splits)
  then show ?thesis by (simp add: tool_schema_def)
qed

lemma load_schema_fails:
  "load_schema R now1 now2 nm s = (Inl e, s') \<Longrightarrow> s' = s"
  by (auto simp: load_schema_def eff_bind_Inl_iff on_tdb_eval tools_findByName_def tools_cacheSchema_def eff_read_def
      eff_write_def eff_some_def eff_sum_def eff_return_def eff_throw_def split: option.splits sum.splits)

lemma cache_get_cases:
  obtains "cache_get now nm c = (None, c(nm := None))"
  | e where "c nm = Some e" "cache_get now nm c = (Some (ce_schema e), c)" "now < ce_expiresAt e"
  by (cases "c nm"; cases "now < ce_expiresAt (the (c nm))") (auto simp: cache_get_def fun_upd_idem)

lemma coherent_shrink:
  "coherent R s \<Longrightarrow> ts_db s' = ts_db s \<Longrightarrow> ts_cache s' = (ts_cache s)(nm := None) \<Longrightarrow> coherent R s'"
  by (auto simp: coherent_def)

lemma coherent_same_tools:
  "coherent R s \<Longrightarrow> db_tools (ts_db s') = db_tools (ts_db s) \<Longrightarrow> ts_cache s' = ts_cache s \<Longrightarrow> coherent R s'"
  by (simp add: coherent_def tool_schema_def)

lemma coherent_load:
  assumes "coherent R s" and "load_schema R now1 now2 nm s = (Inr sc, s')"
  shows "coherent R s'"
  using load_schema_pass [OF assms(2)] assms(1)
  by (auto simp: coherent_def tool_schema_cacheSchema cache_set_def split: if_splits)

text \<open>A lookup in its two halves: the schema, and the accounting.\<close>

definition obtain_schema ::
  "router_deps \<Rightarrow> millis \<Rightarrow> millis \<Rightarrow> millis \<Rightarrow> string \<Rightarrow> (canonical_schema option \<times> canonical_schema) router_op" where
  "obtain_schema R now0 now1 now2 nm =
     eff_bind (cached_schema now0 nm) (\<lambda>found.
     eff_bind (case found of Some sc \<Rightarrow> eff_return sc | None \<Rightarrow> load_schema R now1 now2 nm) (\<lambda>sc.
     eff_return (found, sc)))"

definition account_schema ::
  "router_deps \<Rightarrow> uuid \<Rightarrow> string \<Rightarrow> canonical_schema option \<times> canonical_schema \<Rightarrow> tool_schema_result router_op" where
  "account_schema R agentId nm = (\<lambda>(found, sc).
     eff_bind (on_tdb (audit_append
       \<lparr>ne_agentId = Some agentId, ne_hostId = None, ne_eventType = ''tool.schema'', ne_capability = Some nm,
        ne_connectionId = None, ne_operation = None, ne_taskId = None, ne_outcome = OutcomeSuccess,
        ne_argsHash = None, ne_durationMs = None\<rparr>)) (\<lambda>_.
     eff_bind (eff_write (\<lambda>s. s\<lparr>ts_metrics := recordTokenEstimate nm (estimateTokens (td_json R) sc) (ts_metrics s)\<rparr>)) (\<lambda>_.
     eff_return \<lparr>tsr_schema = sc, tsr_tokenEstimate = estimateTokens (td_json R) sc, tsr_cached = (found \<noteq> None)\<rparr>)))"

lemma eff_bind_case_split:
  "eff_bind (eff_bind m (\<lambda>x. eff_bind (g x) (\<lambda>y. eff_return (x, y)))) k =
     eff_bind m (\<lambda>x. eff_bind (g x) (\<lambda>y. k (x, y)))"
  by (rule ext) (simp add: eff_bind_def eff_return_def split: prod.split sum.split)

lemma getToolSchema_split:
  "getToolSchema R now0 now1 now2 a nm s =
     (if active_grants a nm (ts_db s) = []
      then (Inl (err CapabilityNotGranted (''capability \"'' @ nm @ ''\" is not granted'') 403), s)
      else eff_bind (obtain_schema R now0 now1 now2 nm) (account_schema R a nm) s)"
proof -
  have g: "eff_bind (on_tdb (grants_findActive a nm)) f s =
      f (case active_grants a nm (ts_db s) of [] \<Rightarrow> None | r # rs \<Rightarrow> Some (mapGrantRow r)) s" for f :: "_ \<Rightarrow> 'a router_op"
    by (simp add: eff_bind_def on_tdb_eval find_ops_eval)
  show ?thesis
    by (simp add: getToolSchema_def obtain_schema_def account_schema_def eff_bind_case_split Let_def g split: list.split)
qed

lemma obtain_schema_pass:
  assumes "obtain_schema R now0 now1 now2 nm s = (Inr (found, sc), s')"
  obtains "load_schema R now1 now2 nm (s\<lparr>ts_cache := (ts_cache s)(nm := None)\<rparr>) = (Inr sc, s')" "found = None"
  | e where "ts_cache s nm = Some e" "sc = ce_schema e" "s' = s" "found = Some sc" "now0 < ce_expiresAt e"
proof (cases rule: cache_get_cases [of now0 nm "ts_cache s"])
  case 1
  with assms show ?thesis
    by (intro that(1)) (auto simp: obtain_schema_def eff_bind_Inr_iff cached_schema_eval eff_return_def)
next
  case (2 e)
  with assms show ?thesis
    by (intro that(2) [of e]) (auto simp: obtain_schema_def eff_bind_Inr_iff cached_schema_eval eff_return_def)
qed

lemma obtain_schema_served:
  assumes "coherent R s" and "obtain_schema R now0 now1 now2 nm s = (Inr (found, sc), s')"
  shows "tool_schema R (ts_db s) nm = Some sc" and "coherent R s'"
proof -
  let ?s1 = "s\<lparr>ts_cache := (ts_cache s)(nm := None)\<rparr>"
  have "coherent R ?s1" by (rule coherent_shrink [OF assms(1)]) simp_all
  with assms show "tool_schema R (ts_db s) nm = Some sc" and "coherent R s'"
    by (cases rule: obtain_schema_pass [OF assms(2)];
        auto simp: coherent_def [of R s] dest: load_schema_pass coherent_load)+
qed

lemma account_schema_frame:
  assumes "account_schema R a nm (found, sc) s = (r, s')"
  shows "ts_cache s' = ts_cache s" and "db_tools (ts_db s') = db_tools (ts_db s)"
    and "r = Inr v \<Longrightarrow>
      v = \<lparr>tsr_schema = sc, tsr_tokenEstimate = estimateTokens (td_json R) sc, tsr_cached = (found \<noteq> None)\<rparr>"
  using assms
  by (auto simp: account_schema_def eff_bind_def on_tdb_eval eff_return_def eff_write_def split: sum.splits)

lemma obtain_schema_fails:
  assumes "coherent R s" and "obtain_schema R now0 now1 now2 nm s = (Inl e, s')"
  shows "coherent R s'"
proof (cases rule: cache_get_cases [of now0 nm "ts_cache s"])
  case 1
  with assms(2) have "s' = s\<lparr>ts_cache := (ts_cache s)(nm := None)\<rparr>"
    by (auto simp: obtain_schema_def eff_bind_Inl_iff cached_schema_eval eff_return_def dest: load_schema_fails)
  then show ?thesis by (intro coherent_shrink [OF assms(1), of _ nm]) simp_all
next
  case (2 e)
  with assms(2) show ?thesis
    by (auto simp: obtain_schema_def eff_bind_Inl_iff cached_schema_eval eff_return_def)
qed

section \<open>Every order of lookups and registrations\<close>

lemma coherent_getToolSchema:
  assumes "coherent R s"
  shows "coherent R (snd (getToolSchema R now0 now1 now2 a nm s))"
proof (cases "active_grants a nm (ts_db s) = []")
  case True
  with assms show ?thesis by (simp add: getToolSchema_split)
next
  case False
  obtain r t where o: "obtain_schema R now0 now1 now2 nm s = (r, t)" by (rule prod.exhaust)
  show ?thesis
  proof (cases r)
    case (Inl e)
    with False o obtain_schema_fails [OF assms] show ?thesis by (auto simp: getToolSchema_split eff_bind_def)
  next
    case (Inr p)
    obtain found sc where p: "p = (found, sc)" by (rule prod.exhaust)
    obtain q u where a: "account_schema R a nm (found, sc) t = (q, u)" by (rule prod.exhaust)
    have "coherent R t" using obtain_schema_served(2) [OF assms] o Inr p by blast
    then have "coherent R u"
      by (rule coherent_same_tools) (use account_schema_frame(1,2) [OF a] in simp_all)
    with False o Inr p a show ?thesis by (simp add: getToolSchema_split eff_bind_def)
  qed
qed

lemma tools_upsert_pass:
  assumes "tools_upsert n d = (Inr t, d')"
  shows "tl_name t = nl_name n"
    and "nm \<noteq> nl_name n \<Longrightarrow> row_find tlr_name nm (db_tools d') = row_find tlr_name nm (db_tools d)"
proof -
  let ?u = "\<lambda>g. g\<lparr>tlr_adapter_type := nl_adapterType n, tlr_adapter_config := nl_adapterConfig n,
                         tlr_schema_cache := None, tlr_schema_cached_at := None\<rparr>"
  have u: "row_find tlr_name nm (row_update (\<lambda>g. tlr_name g = nl_name n) ?u (db_tools d)) =
      map_option (\<lambda>r. if tlr_name r = nl_name n then ?u r else r) (row_find tlr_name nm (db_tools d))"
    by (rule row_find_update) simp
  show "tl_name t = nl_name n"
    using assms by (auto simp: tools_upsert_def insert_tool_def insert_row_def gen_random_uuid_def eff_bind_def Let_def
        eff_simps mapToolRow_def dest: row_find_SomeD split: option.splits if_splits)
  assume "nm \<noteq> nl_name n"
  with assms u show "row_find tlr_name nm (db_tools d') = row_find tlr_name nm (db_tools d)"
    by (cases "row_find tlr_name nm (db_tools d)")
      (auto simp: tools_upsert_def insert_tool_def insert_row_def gen_random_uuid_def eff_bind_def Let_def eff_simps
        row_find_append table_simps dest: row_find_SomeD split: option.splits if_splits)
qed

lemma tools_upsert_fails:
  assumes "tools_upsert n d = (Inl e, d')"
  shows "db_tools d' = db_tools d"
  using assms by (auto simp: tools_upsert_def insert_tool_def insert_row_def gen_random_uuid_def eff_bind_def Let_def
      eff_simps split: option.splits if_splits)

lemma coherent_post_tool:
  assumes "coherent R s"
  shows "coherent R (snd (post_tool body s))"
proof (cases "(member_truthy (jget body ''name'') \<and> member_truthy (jget body ''adapter_type'')) \<and>
    adapter_type_of (jget body ''adapter_type'') \<noteq> None")
  case True
  let ?n = "\<lparr>nl_name = text_or (jget body ''name'') [], nl_adapterType = the (adapter_type_of (jget body ''adapter_type'')),
      nl_adapterConfig = fields_of (nullish_json (jget body ''adapter_config'') (JObj []))\<rparr>"
  obtain r d' where run: "tools_upsert ?n (ts_db s) = (r, d')" by (rule prod.exhaust)
  show ?thesis
  proof (cases r)
    case (Inl e)
    with True run have "snd (post_tool body s) = s\<lparr>ts_db := d'\<rparr>"
      by (auto simp: post_tool_def eff_bind_def on_tdb_eval eff_simps eff_some_def)
    with tools_upsert_fails run Inl show ?thesis
      by (simp add: coherent_same_tools [OF assms])
  next
    case (Inr t)
    with True run have s': "snd (post_tool body s) =
        s\<lparr>ts_db := d', ts_cache := cache_invalidate (tl_name t) (ts_cache s)\<rparr>"
      by (auto simp: post_tool_def eff_bind_def on_tdb_eval eff_simps eff_some_def)
    have "tool_schema R d' nm = tool_schema R (ts_db s) nm" if "nm \<noteq> nl_name ?n" for nm
      using tools_upsert_pass(2) [of ?n "ts_db s" t d' nm] that run Inr by (simp add: tool_schema_def)
    moreover have "tl_name t = nl_name ?n" using tools_upsert_pass(1) run Inr by blast
    ultimately show ?thesis
      using assms by (auto simp: s' coherent_def cache_invalidate_def)
  qed
next
  case False
  then have "snd (post_tool body s) = s"
    by (auto simp: post_tool_def eff_simps eff_throw_def split: option.split)
  with assms show ?thesis by simp
qed

lemma coherent_flush: "coherent R (snd (flush_tools s))"
  by (simp add: flush_tools_def coherent_def cache_flush_def eff_return_def)

text \<open>
  The states the tool routes pass through when each call completes before the next one starts, with
  changes to the rest of the database in between.
\<close>

inductive router_reach :: "router_deps \<Rightarrow> router_state \<Rightarrow> bool" for R where
  reach_boot: "router_reach R \<lparr>ts_db = d, ts_cache = (\<lambda>nm. None), ts_metrics = m\<rparr>"
| reach_lookup: "router_reach R s \<Longrightarrow> router_reach R (snd (getToolSchema R now0 now1 now2 a nm s))"
| reach_register: "router_reach R s \<Longrightarrow> router_reach R (snd (post_tool body s))"
| reach_flush: "router_reach R s \<Longrightarrow> router_reach R (snd (flush_tools s))"
| reach_elsewhere: "router_reach R s \<Longrightarrow> db_tools d' = db_tools (ts_db s) \<Longrightarrow> router_reach R (s\<lparr>ts_db := d'\<rparr>)"

lemma coherent_boot: "coherent R \<lparr>ts_db = d, ts_cache = (\<lambda>nm. None), ts_metrics = m\<rparr>"
  by (simp add: coherent_def)

lemma router_reach_coherent: "router_reach R s \<Longrightarrow> coherent R s"
proof (induction rule: router_reach.induct)
  case (reach_elsewhere s d')
  show ?case by (rule coherent_same_tools [OF reach_elsewhere.IH]) (use reach_elsewhere.hyps in simp_all)
qed (rule coherent_boot coherent_getToolSchema coherent_post_tool coherent_flush; assumption?)+

lemma audit_append_pass:
  assumes "fst (audit_append n d) = Inr ()"
  shows "\<exists>e. db_audit (snd (audit_append n d)) = db_audit d @ [e] \<and> aur_agent_id e = ne_agentId n \<and>
    aur_event_type e = ne_eventType n \<and> aur_capability e = ne_capability n \<and> aur_outcome e = ne_outcome n"
  using assms by (auto simp: audit_append_def insert_audit_def insert_row_def gen_random_uuid_def eff_simps eff_bind_def
      split: if_splits)

lemma account_schema_audit:
  assumes "account_schema R a nm p s = (Inr v, s')"
  shows "\<exists>e. db_audit (ts_db s') = db_audit (ts_db s) @ [e] \<and> aur_agent_id e = Some a \<and>
    aur_event_type e = ''tool.schema'' \<and> aur_capability e = Some nm \<and> aur_outcome e = OutcomeSuccess"
  using assms
  by (cases p) (auto simp: account_schema_def eff_bind_Inr_iff on_tdb_eval eff_write_def eff_return_def
      dest: audit_append_pass)

lemma load_schema_audit:
  "load_schema R now1 now2 nm s = (Inr sc, s') \<Longrightarrow> db_audit (ts_db s') = db_audit (ts_db s)"
  by (drule load_schema_pass) (simp add: tools_cacheSchema_def eff_write_def)

text \<open>
  C27: whatever lookups, registrations and flushes came before, a schema is served only to an agent with
  an active grant of that tool, it is the normalisation of the tool's present registration - a cached
  schema of an earlier registration is never served - and the service is recorded in the audit log.
\<close>

theorem schema_served_is_current:
  assumes "router_reach R s" and "getToolSchema R now0 now1 now2 a nm s = (Inr r, s')"
  shows "active_grants a nm (ts_db s) \<noteq> [] \<and> tool_schema R (ts_db s) nm = Some (tsr_schema r) \<and>
    tsr_tokenEstimate r = estimateTokens (td_json R) (tsr_schema r) \<and>
    (\<exists>e. db_audit (ts_db s') = db_audit (ts_db s) @ [e] \<and> aur_agent_id e = Some a \<and>
      aur_event_type e = ''tool.schema'' \<and> aur_capability e = Some nm \<and> aur_outcome e = OutcomeSuccess)"
proof -
  have g: "active_grants a nm (ts_db s) \<noteq> []"
    using assms(2) by (auto simp: getToolSchema_split split: if_splits)
  with assms(2) obtain found sc t where
    o: "obtain_schema R now0 now1 now2 nm s = (Inr (found, sc), t)" and
    c: "account_schema R a nm (found, sc) t = (Inr r, s')"
    by (auto simp: getToolSchema_split eff_bind_Inr_iff)
  have "db_audit (ts_db t) = db_audit (ts_db s)"
    by (rule obtain_schema_pass [OF o]) (auto dest: load_schema_audit)
  with g obtain_schema_served(1) [OF router_reach_coherent [OF assms(1)] o] account_schema_frame(3) [OF c refl]
    account_schema_audit [OF c]
  show ?thesis by simp
qed

text \<open>A closed run: an MCP tool is registered, looked up once, and served from the cache afterwards.\<close>

definition sample_router_deps :: router_deps where
  "sample_router_deps =
    \<lparr>td_json = sample_json_text, td_adapters = createAdapterRegistry, td_ttlSeconds = 300\<rparr>"

definition sample_tool_body :: json where
  "sample_tool_body = JObj
    [(''name'', JStr ''slack.post''), (''adapter_type'', JStr ''mcp''),
     (''adapter_config'', JObj [(''name'', JStr ''slack.post''), (''description'', JStr ''post'')])]"

definition sample_router_boot :: router_state where
  "sample_router_boot =
    \<lparr>ts_db = snd (grants_upsert (sample_new_grant 7 None) (sample_db [sample_agent_row 7 2000])),
     ts_cache = (\<lambda>nm. None), ts_metrics = createMetrics\<rparr>"

definition sample_router_state :: router_state where
  "sample_router_state =
    snd (getToolSchema sample_router_deps 5 6 7 7 ''slack.post'' (snd (post_tool sample_tool_body sample_router_boot)))"

lemma schema_served_is_current_witness:
  "\<exists>r s'. getToolSchema sample_router_deps 1000 1001 1002 7 ''slack.post'' sample_router_state = (Inr r, s') \<and>
     tsr_cached r \<and> tool_schema sample_router_deps (ts_db sample_router_state) ''slack.post'' = Some (tsr_schema r)"
proof -
  let ?run = "getToolSchema sample_router_deps 1000 1001 1002 7 ''slack.post'' sample_router_state"
  have "\<not> isl (fst ?run) \<and> tsr_cached (projr (fst ?run))" by code_simp
  with run_returns obtain r where run: "?run = (Inr r, snd ?run)" and "tsr_cached r" by (metis fst_conv sum.sel(2))
  have "router_reach sample_router_deps sample_router_state"
    unfolding sample_router_state_def sample_router_boot_def by (intro router_reach.intros)
  from schema_served_is_current [OF this run] run \<open>tsr_cached r\<close> show ?thesis by blast
qed

text \<open>
  Lookups that overlap a registration are outside that history: a schema stored after the tool's
  cache entry was invalidated is served until it expires.
\<close>

lemma late_store_is_served:
  "0 < ttl \<Longrightarrow> now < now1 + ttl * 1000 \<Longrightarrow>
    fst (cache_get now nm (cache_set ttl now1 nm sc (cache_invalidate nm c))) = Some sc"
  by (simp add: cache_get_def cache_set_def)

end
