(* ===== verification/Gateway_Laws.thy ===== *)
theory Gateway_Laws
  imports Gateway_App Auth_Laws Identity_Laws Connection_Laws Router_Laws
begin

text \<open>
  What holds of the gateway as a whole, whatever requests arrive in whatever order.  The locale
  \<open>database_contract\<close> collects what a relation between databases has to allow the services to do;
  every handler, and so every history of requests, then respects it.  It is interpreted for the
  constraints of the schema, for the evolution of the agents, and for the audit log.
\<close>

section \<open>Operations that read\<close>

named_theorems read_intros "operations that leave the database as it is"

lemma reads_I: "(\<And>d. snd (m d) = d) \<Longrightarrow> evolves (=) m"
  by (simp add: evolves_def)

lemma find_reads [read_intros]:
  "evolves (=) (hosts_findById h)" "evolves (=) (hosts_findByThumbprint iss)" "evolves (=) (agents_findById a)"
  "evolves (=) (agents_findBySubject k sub)" "evolves (=) (connections_findById c)" "evolves (=) (tasks_findById t)"
  "evolves (=) (grants_findForAgent a)" "evolves (=) (grants_findActive a cap)"
  "evolves (=) (connGrants_listByAgent a)" "evolves (=) (connections_getEncryptedCredential c)"
  "evolves (=) (tools_findByName nm)" "evolves (=) (tools_list q)" "evolves (=) projects_list" "evolves (=) (tasks_list q)"
  "evolves (=) (agents_list k q)" "evolves (=) (connections_list k q)" "evolves (=) (audit_query_page k aq)"
  by (rule reads_I, simp add: hosts_findById_def hosts_findByThumbprint_def agents_findById_def agents_findBySubject_def
      connections_findById_def tasks_findById_def grants_findForAgent_def grants_findActive_def
      connGrants_listByAgent_def connections_getEncryptedCredential_def tools_findByName_def tools_list_def
      projects_list_def tasks_list_def agents_list_def connections_list_def audit_query_page_def eff_simps
      split: option.split)+

lemma service_reads [read_intros]:
  "evolves (=) (owned_agent h a)" "evolves (=) (hosted_agent h a)" "evolves (=) (existing_connection c)"
  "evolves (=) (listGrants a)" "evolves (=) (listTasks now)" "evolves (=) listProjects"
  "evolves (=) (listConnections D)" "evolves (=) (listAgentConnections a)"
  "evolves (=) (agent_risk G ag)" "evolves (=) (introspect I now1 now2 token)"
  "evolves (=) (query_audit G ao oc cur n)"
  unfolding owned_agent_def hosted_agent_def existing_connection_def listGrants_def listTasks_def listProjects_def
    listConnections_def listAgentConnections_def shown_connection_def agent_risk_def introspect_def Let_def
  by (intro unchanged.evolves_intros read_intros | simp add: evolves_def query_audit_def audit_query_page_def Let_def)+

section \<open>Relations on the parts of the state\<close>

locale database_contract = effect_frame R for R :: "db \<Rightarrow> db \<Rightarrow> bool" +
  assumes agents_allowed:
    "evolves R (registerAgent I now h rinp)" "evolves R (revokeAgent I h a)"
    "evolves R (updateAgentMetadata h a nm de)" "evolves R (reactivateAgent I now now' h a)"
    "evolves R (rotateAgentKey h a key)" "evolves R (setAgentProject h a pr)"
  and hosts_allowed: "evolves R (revokeHost I h)" "evolves R (rotateHostKey I h key)"
  and grants_allowed:
    "evolves R (grantCapability h ginp)" "evolves R (requestCapability a rs)" "evolves R (createTask now h tinp)"
    "evolves R (completeTask now h t)" "evolves R (grants_delete_prior a cap)"
  and projects_allowed:
    "evolves R (createProject h pn de)" "evolves R (deleteProject I h p)" "evolves R (projects_delete p)"
  and connections_allowed:
    "evolves R (registerConnection K iv cinp)" "evolves R (updateConnection K iv c upd)"
    "evolves R (deleteConnection c)" "evolves R (testConnection K now c)"
    "evolves R (attachConnection K h a c ops rlim)" "evolves R (detachConnection h a c)"
  and tools_allowed: "evolves R (tools_upsert tinput)" "evolves R (tools_cacheSchema tn sc now)"
  and tokens_allowed: "evolves R (jti_put j e)"
  and audit_allowed: "evolves R (audit_append en)"
begin

definition on_auth_db :: "auth_state \<Rightarrow> auth_state \<Rightarrow> bool" where
  "on_auth_db s t \<longleftrightarrow> R (as_db s) (as_db t)"

definition on_proxy_db :: "proxy_state \<Rightarrow> proxy_state \<Rightarrow> bool" where
  "on_proxy_db s t \<longleftrightarrow> R (xs_db s) (xs_db t)"

definition on_router_db :: "router_state \<Rightarrow> router_state \<Rightarrow> bool" where
  "on_router_db s t \<longleftrightarrow> R (ts_db s) (ts_db t)"

definition on_gateway_db :: "gateway_state \<Rightarrow> gateway_state \<Rightarrow> bool" where
  "on_gateway_db s t \<longleftrightarrow> R (gw_db s) (gw_db t)"

lemma allowed_read: "evolves (=) m \<Longrightarrow> evolves R m"
  by (simp add: evolves_def) (metis frame_refl)

lemmas reads_allowed = find_reads [THEN allowed_read] service_reads [THEN allowed_read]

end

sublocale database_contract \<subseteq> auth: effect_frame on_auth_db
  by unfold_locales (auto simp: on_auth_db_def intro: frame_refl frame_trans)

sublocale database_contract \<subseteq> proxy: effect_frame on_proxy_db
  by unfold_locales (auto simp: on_proxy_db_def intro: frame_refl frame_trans)

sublocale database_contract \<subseteq> router: effect_frame on_router_db
  by unfold_locales (auto simp: on_router_db_def intro: frame_refl frame_trans)

sublocale database_contract \<subseteq> whole: effect_frame on_gateway_db
  by unfold_locales (auto simp: on_gateway_db_def intro: frame_refl frame_trans)

lemma case_prod_evolves: "(\<And>a b. evolves R (f a b)) \<Longrightarrow> evolves R (case p of (a, b) \<Rightarrow> f a b)"
  by (cases p) simp

lemma case_sum_evolves:
  "(\<And>a. evolves R (f a)) \<Longrightarrow> (\<And>b. evolves R (g b)) \<Longrightarrow> evolves R (case x of Inl a \<Rightarrow> f a | Inr b \<Rightarrow> g b)"
  by (cases x) simp_all

lemma case_fault_evolves:
  "(\<And>e. evolves R (f e)) \<Longrightarrow> (\<And>m. evolves R (g m)) \<Longrightarrow>
    evolves R (case x of ConduitError e \<Rightarrow> f e | OtherError m \<Rightarrow> g m)"
  by (cases x) simp_all

lemma case_typ_evolves:
  "evolves R m \<Longrightarrow> evolves R n \<Longrightarrow> evolves R (case t of HostJwt \<Rightarrow> m | AgentJwt \<Rightarrow> n)"
  by (cases t) simp_all

lemma state_evolves: "(\<And>s. evolves R (f s)) \<Longrightarrow> evolves R (\<lambda>s. f s s)"
  by (simp add: evolves_def)

named_theorems route_intros "steps of the handlers that respect a database contract"

context database_contract
begin

lemma lift_db [route_intros]: "evolves R m \<Longrightarrow> evolves on_gateway_db (on_gdb m)"
  by (auto simp: evolves_def on_gateway_db_def on_gdb_def eff_lift_def split: prod.split) (metis snd_conv)

lemma lift_auth: "evolves on_auth_db m \<Longrightarrow> evolves on_gateway_db (on_auth m)"
  by (auto simp: evolves_def on_gateway_db_def on_auth_db_def on_auth_def eff_lift_def split: prod.split)
    (metis auth_state.select_convs(1) snd_conv)

lemma lift_proxy: "evolves on_proxy_db m \<Longrightarrow> evolves on_gateway_db (on_proxy m)"
  by (auto simp: evolves_def on_gateway_db_def on_proxy_db_def on_proxy_def eff_lift_def split: prod.split)
    (metis proxy_state.select_convs(1) snd_conv)

lemma lift_router: "evolves on_router_db m \<Longrightarrow> evolves on_gateway_db (on_router m)"
  by (auto simp: evolves_def on_gateway_db_def on_router_db_def on_router_def eff_lift_def split: prod.split)
    (metis router_state.select_convs(1) snd_conv)

lemma lift_auth_db: "evolves R m \<Longrightarrow> evolves on_auth_db (on_db m)"
  by (auto simp: evolves_def on_auth_db_def on_db_def eff_lift_def split: prod.split) (metis snd_conv)

lemma lift_auth_jwks: "evolves on_auth_db (on_jwks m)"
  by (auto simp: evolves_def on_auth_db_def on_jwks_def eff_lift_def frame_refl split: prod.split)

lemma lift_proxy_db: "evolves R m \<Longrightarrow> evolves on_proxy_db (on_xdb m)"
  by (auto simp: evolves_def on_proxy_db_def on_xdb_def eff_lift_def split: prod.split) (metis snd_conv)

lemma lift_proxy_limiter: "evolves on_proxy_db (on_limiter m)"
  by (auto simp: evolves_def on_proxy_db_def on_limiter_def eff_lift_def frame_refl split: prod.split)

lemma lift_router_db: "evolves R m \<Longrightarrow> evolves on_router_db (on_tdb m)"
  by (auto simp: evolves_def on_router_db_def on_tdb_def eff_lift_def split: prod.split) (metis snd_conv)

lemma router_write: "(\<And>s. ts_db (f s) = ts_db s) \<Longrightarrow> evolves on_router_db (eff_write f)"
  by (simp add: evolves_def on_router_db_def eff_write_def frame_refl)

lemma gateway_write [route_intros]: "(\<And>s. gw_db (f s) = gw_db s) \<Longrightarrow> evolves on_gateway_db (eff_write f)"
  by (simp add: evolves_def on_gateway_db_def eff_write_def frame_refl)

section \<open>The pipelines, the proxy, the router\<close>

lemmas auth_intros = auth.evolves_intros case_prod_evolves case_sum_evolves lift_auth_db lift_auth_jwks
  reads_allowed tokens_allowed

lemma stages_evolve:
  "evolves on_auth_db (typCheck P ctx)" "evolves on_auth_db (signatureVerify P ck ctx)"
  "evolves on_auth_db (claimValidation P now ctx)" "evolves on_auth_db (stateCheck now ctx)"
  "evolves on_auth_db (capabilityConstraint ctx)"
proof -
  show "evolves on_auth_db (typCheck P ctx)"
    unfolding typCheck_def by (intro auth_intros)
  have key: "evolves on_auth_db (resolveKey P ck key u kid who)" for key u kid who
    unfolding resolveKey_def by (intro auth_intros)
  have verify: "evolves on_auth_db (verifyWith P token k)" for token k
    unfolding verifyWith_def by (intro auth_intros)
  show "evolves on_auth_db (signatureVerify P ck ctx)"
    unfolding signatureVerify_def signatureVerify_agent_def signatureVerify_host_def principal_claim_def
    by (intro auth_intros key verify case_typ_evolves)
  show "evolves on_auth_db (claimValidation P now ctx)"
    unfolding claimValidation_def Let_def by (intro auth_intros)
  show "evolves on_auth_db (stateCheck now ctx)"
    unfolding stateCheck_def by (intro auth_intros)
  show "evolves on_auth_db (capabilityConstraint ctx)"
    unfolding capabilityConstraint_def Let_def by (intro auth_intros)
qed

lemma run_stages_evolves:
  "(\<And>st c. st \<in> set sts \<Longrightarrow> evolves on_auth_db (st c)) \<Longrightarrow> evolves on_auth_db (run_stages sts ctx)"
  by (induction sts arbitrary: ctx) (auto intro!: auth.evolves_intros)

lemma pipeline_stages_evolve: "st \<in> set (pipeline_stages D ev typ s) \<Longrightarrow> evolves on_auth_db (st c)"
  using stages_evolve
  by (cases "typ") (auto simp: pipeline_stages_def buildHostPipeline_def buildAgentPipeline_def)

lemma run_pipeline_evolves [route_intros]: "evolves on_gateway_db (run_pipeline D ev typ ctx)"
proof -
  have "evolves on_gateway_db (on_auth (run_stages (pipeline_stages D ev typ s) ctx))" for s
    by (intro lift_auth run_stages_evolves pipeline_stages_evolve)
  then show ?thesis by (simp add: evolves_def run_pipeline_def)
qed

lemma request_token_evolves [route_intros]: "evolves on_gateway_db (request_token ev)"
  unfolding request_token_def by (intro whole.evolves_intros)

lemma auth_evolves [route_intros]:
  "evolves on_gateway_db (requireJwt D ev typ)" "evolves on_gateway_db (auth_host D ev)"
  "evolves on_gateway_db (agent_request D ev token)"
  unfolding requireJwt_def auth_host_def agent_request_def by (intro whole.evolves_intros route_intros)+

lemma run_tracked_evolves:
  assumes "\<And>st c. st \<in> set sts \<Longrightarrow> evolves on_auth_db (st c)"
  shows "on_auth_db s (snd (run_tracked sts ctx s))"
proof -
  have "evolves on_auth_db (run_stages sts ctx)" by (rule run_stages_evolves) (rule assms)
  then have "on_auth_db s (snd (run_stages sts ctx s))" by (simp add: evolves_def)
  then show ?thesis
    by (simp add: run_tracked_run_stages split: prod.splits option.splits)
qed

lemma tracked_pipeline_evolves [route_intros]: "evolves on_gateway_db (tracked_pipeline D ev ctx)"
proof -
  have "on_auth_db a (snd (run_tracked (pipeline_stages D ev AgentJwt s) ctx a))" for a s
    by (intro run_tracked_evolves pipeline_stages_evolve)
  then show ?thesis
    by (simp add: evolves_def tracked_pipeline_def on_gateway_db_def on_auth_db_def split: prod.split)
      (metis auth_state.select_convs(1) snd_conv)
qed

lemmas proxy_intros = proxy.evolves_intros case_prod_evolves case_sum_evolves lift_proxy_db lift_proxy_limiter
  reads_allowed audit_allowed

lemma execute_evolves: "evolves on_proxy_db (execute X ck agent grant args)"
  unfolding execute_def check_connection_def check_connector_grant_def check_policy_def run_driver_def Let_def
  by (intro proxy_intros)

lemma run_proxy_evolves [route_intros]: "evolves on_gateway_db (run_proxy D ev agent grant args)"
proof -
  have "evolves on_gateway_db (on_proxy (execute (live_proxy D s) (ev_execute_clock ev) agent grant args))" for s
    by (intro lift_proxy execute_evolves)
  then show ?thesis by (simp add: evolves_def run_proxy_def)
qed

lemmas router_intros = router.evolves_intros case_prod_evolves case_sum_evolves lift_router_db router_write
  reads_allowed audit_allowed tools_allowed

lemma cached_schema_evolves: "evolves on_router_db (cached_schema now nm)"
  by (simp add: evolves_def on_router_db_def cached_schema_eval frame_refl)

lemma router_ops_evolve:
  "evolves on_router_db (getToolSchema Q t0 t1 t2 a nm)" "evolves on_router_db (post_tool body)"
  "evolves on_router_db flush_tools" "evolves on_router_db (list_tools k)"
  unfolding getToolSchema_def load_schema_def post_tool_def flush_tools_def list_tools_def Let_def
  by (intro router_intros cached_schema_evolves; simp)+

lemma router_calls_evolve [route_intros]:
  "evolves on_gateway_db (on_router (getToolSchema Q t0 t1 t2 a nm))"
  "evolves on_gateway_db (on_router (post_tool body))"
  "evolves on_gateway_db (on_router flush_tools)" "evolves on_gateway_db (on_router (list_tools k))"
  by (intro lift_router router_ops_evolve)+

section \<open>The routes\<close>

lemma replies_evolve [route_intros]:
  "evolves on_gateway_db (ok_reply b)" "evolves on_gateway_db (created_reply b)"
  "evolves on_gateway_db (cacheable j)" "evolves on_gateway_db (settings_reply c)"
  "evolves on_gateway_db (uuid_param D t)"
  unfolding ok_reply_def created_reply_def cacheable_def settings_reply_def uuid_param_def
  by (intro whole.evolves_intros)+

lemma late_uuid_evolves [route_intros]:
  "evolves on_gateway_db m \<Longrightarrow> evolves on_gateway_db (late_uuid_param D m t)"
  unfolding late_uuid_param_def by (intro whole.evolves_intros)

lemma forget_evolves [route_intros]: "evolves on_gateway_db m \<Longrightarrow> evolves on_gateway_db (forget m)"
  unfolding forget_def by (intro whole.evolves_intros)

lemmas whole_intros = whole.evolves_intros case_fault_evolves case_prod_evolves case_sum_evolves route_intros reads_allowed
  agents_allowed hosts_allowed grants_allowed projects_allowed connections_allowed audit_allowed

lemma agent_routes_evolve:
  "evolves on_gateway_db (post_grant D ev gb)" "evolves on_gateway_db (post_task D ev tb)"
  "evolves on_gateway_db (post_task_complete D ev t)" "evolves on_gateway_db (get_tasks D ev)"
  "evolves on_gateway_db (post_request_capability D ev qb)" "evolves on_gateway_db (get_capability_list D ev)"
  "evolves on_gateway_db (get_capability_describe D ev nm)" "evolves on_gateway_db (get_tool_schema D ev tn)"
  "evolves on_gateway_db (post_execute D ev xb)"
  unfolding post_grant_def before_grant_connection_def post_task_def create_task_or_fail_def post_task_complete_def
    get_tasks_def post_request_capability_def get_capability_list_def get_capability_describe_def get_tool_schema_def
    post_execute_def run_capability_def audit_denial_def Let_def
  by (intro whole_intros evolves_intros)+

lemma identity_routes_evolve:
  "evolves on_gateway_db (post_register D ev rb)" "evolves on_gateway_db (post_agent_revoke D ev t)"
  "evolves on_gateway_db (post_agent_update D ev t nm de)" "evolves on_gateway_db (post_agent_reactivate D ev t)"
  "evolves on_gateway_db (post_agent_rotate_key D ev t key)" "evolves on_gateway_db (post_agent_project D ev t pr)"
  "evolves on_gateway_db (post_host_revoke D ev)" "evolves on_gateway_db (post_host_rotate_key D ev key)"
  "evolves on_gateway_db (post_introspect D ev tok)" "evolves on_gateway_db (get_projects D)"
  "evolves on_gateway_db (post_project D ev nm de)" "evolves on_gateway_db (delete_project D ev pt)"
  "evolves on_gateway_db (get_agent_status D ev)"
  unfolding post_register_def before_register_insert_def post_agent_revoke_def post_agent_update_def
    post_agent_reactivate_def post_agent_rotate_key_def post_agent_project_def post_host_revoke_def
    post_host_rotate_key_def post_introspect_def get_projects_def post_project_def delete_project_def
    delete_project_text_def get_agent_status_def host_and_agent_text_def auditProject_def Let_def
  by (intro whole_intros evolves_intros)+

lemma list_page_evolves [route_intros]: "(\<And>n. evolves R (q n)) \<Longrightarrow> evolves on_gateway_db (list_page q limit)"
  unfolding list_page_def by (intro whole.evolves_intros case_sum_evolves lift_db)

lemma admin_routes_evolve:
  "evolves on_gateway_db (get_agents D al cur)" "evolves on_gateway_db (get_agents_risk D)"
  "evolves on_gateway_db (post_connection D ev nb)" "evolves on_gateway_db (patch_connection D ev t np)"
  "evolves on_gateway_db (delete_connection D ev t)" "evolves on_gateway_db (post_connection_test D ev t)"
  "evolves on_gateway_db (get_connections D)" "evolves on_gateway_db (get_audit D ai oc al cur)"
  "evolves on_gateway_db (get_agent_connections D t)" "evolves on_gateway_db (post_agent_connection D ev t ab)"
  "evolves on_gateway_db (delete_agent_connection D ev t c)" "evolves on_gateway_db (get_agent_grants D t)"
  "evolves on_gateway_db get_compliance" "evolves on_gateway_db (get_connectors D)"
  "evolves on_gateway_db (get_admin_config D ev)" "evolves on_gateway_db (patch_admin_config D ev pb)"
  unfolding get_agents_def get_agents_risk_def post_connection_def patch_connection_def delete_connection_def
    post_connection_test_def get_connections_def get_audit_def get_agent_connections_def post_agent_connection_def
    delete_agent_connection_def get_agent_grants_def get_compliance_def get_connectors_def get_admin_config_def
    patch_admin_config_def Let_def
  by (intro whole_intros list_page_evolves evolves_intros; simp)+

lemma app_routes_evolve:
  "evolves on_gateway_db get_metrics" "evolves on_gateway_db (open_events l)" "evolves on_gateway_db (get_readyz hl)"
  "evolves on_gateway_db (post_tools D ev tb)" "evolves on_gateway_db (get_tools D)"
  "evolves on_gateway_db (post_tools_flush D ev)"
  unfolding get_metrics_def open_events_def get_readyz_def post_tools_def get_tools_def post_tools_flush_def
  by (intro whole_intros; simp)+

lemma handle_route_evolves: "evolves on_gateway_db (handle_route D ev r)"
  by (cases r) (simp_all add: agent_routes_evolve identity_routes_evolve admin_routes_evolve app_routes_evolve replies_evolve)

lemma guards_evolve: "evolves on_gateway_db (guards ev registering)"
proof -
  have "evolves on_gateway_db (ip_guard ev)"
    by (simp add: evolves_def ip_guard_def on_gateway_db_def frame_refl)
  moreover have "evolves on_gateway_db (ip_limit ev)" "evolves on_gateway_db (register_limit ev)"
    by (simp_all add: evolves_def ip_limit_def register_limit_def eff_lift_def Let_def on_gateway_db_def frame_refl
        split: prod.split)
  ultimately show ?thesis
    unfolding guards_def by (intro whole.evolves_intros)
qed

lemma errorHandler_db: "gw_db (snd (errorHandler D ev f s)) = gw_db s"
  by (cases f) (simp_all add: errorHandler_def Let_def split: option.split)

text \<open>One request, and a history of them.\<close>

lemma gateway_evolves: "R (gw_db s) (gw_db (snd (gateway D ev r s)))"
proof -
  have "evolves on_gateway_db (eff_bind (guards ev (is_register r)) (\<lambda>_. handle_route D ev r))"
    by (intro whole.evolves_intros guards_evolve handle_route_evolves)
  then have "R (gw_db s) (gw_db (snd (eff_bind (guards ev (is_register r)) (\<lambda>_. handle_route D ev r) s)))"
    by (simp add: evolves_def on_gateway_db_def)
  then show ?thesis
    by (cases "eff_bind (guards ev (is_register r)) (\<lambda>_. handle_route D ev r) s")
      (simp add: gateway_def respond_def errorHandler_db split: sum.split)
qed

lemma serve_evolves: "R (gw_db s) (gw_db (serve D reqs s))"
proof (induction reqs arbitrary: s)
  case (Cons p reqs)
  obtain ev r where p: "p = (ev, r)" by (rule prod.exhaust)
  from frame_trans [OF gateway_evolves Cons.IH] show ?case by (simp add: p)
qed (simp add: frame_refl)

end

section \<open>The constraints of the schema\<close>

interpretation gateway_wf: database_contract "keeps db_wf"
  by unfold_locales (rule wf_intros)+

section \<open>The evolution of the agents\<close>

lemma evolve_rest [evolve_intros]:
  "evolves agents_evolve (grants_delete_prior a cap)" "evolves agents_evolve (jti_put j e)"
  "evolves agents_evolve (tools_upsert tinput)" "evolves agents_evolve (tools_cacheSchema tn sc now)"
  "evolves agents_evolve (connections_create cn)" "evolves agents_evolve (connections_update c cu)"
  "evolves agents_evolve (connections_delete c)" "evolves agents_evolve (connections_recordTest c ok de now)"
  "evolves agents_evolve (connections_getEncryptedCredential c)"
  "evolves agents_evolve (connGrants_upsert a c ops rlim)" "evolves agents_evolve (connGrants_delete a c)"
  by (rule evolves_sameI, simp add: grants_delete_prior_def jti_put_def tools_upsert_def insert_tool_def
      tools_cacheSchema_def connections_create_def insert_connection_def connections_update_def connections_delete_def
      connections_recordTest_def connections_getEncryptedCredential_def connGrants_upsert_def insert_conn_grant_def
      connGrants_delete_def insert_row_def gen_random_uuid_def eff_bind_def eff_simps Let_def split: option.split)+

lemma evolve_connection_services [evolve_intros]:
  "evolves agents_evolve (registerConnection K iv cinp)" "evolves agents_evolve (updateConnection K iv c upd)"
  "evolves agents_evolve (deleteConnection c)" "evolves agents_evolve (testConnection K now c)"
  "evolves agents_evolve (attachConnection K h a c ops rlim)" "evolves agents_evolve (detachConnection h a c)"
  unfolding registerConnection_def updateConnection_def existing_connection_def deleteConnection_def
    testConnection_def attachConnection_def detachConnection_def hosted_agent_def connection_audit_def Let_def
  by (intro evolution.evolves_intros evolve_intros)+

interpretation gateway_agents: database_contract agents_evolve
  by unfold_locales (rule evolve_intros)+

section \<open>The audit log\<close>

definition audit_extends :: "db \<Rightarrow> db \<Rightarrow> bool" where
  "audit_extends d d' \<longleftrightarrow> (\<exists>es. db_audit d' = db_audit d @ es)"

interpretation audit_frame: effect_frame audit_extends
proof unfold_locales
  fix s t u
  show "audit_extends s s" by (simp add: audit_extends_def)
  assume "audit_extends s t" "audit_extends t u"
  then show "audit_extends s u" by (auto simp: audit_extends_def)
qed

named_theorems extend_intros "operations that only append to the audit log"

lemma extends_sameI: "(\<And>d. db_audit (snd (m d)) = db_audit d) \<Longrightarrow> evolves audit_extends m"
  by (auto simp: evolves_def audit_extends_def)

lemma extends_read: "evolves (=) m \<Longrightarrow> evolves audit_extends m"
  by (rule extends_sameI) (simp add: evolves_def)

lemma extends_append [extend_intros]: "evolves audit_extends (audit_append n)"
  by (auto simp: evolves_def audit_extends_def audit_append_def insert_audit_def insert_row_def gen_random_uuid_def
      eff_bind_def eff_simps)

lemma audit_untouched [extend_intros]:
  "evolves audit_extends (grants_delete_prior a cap)" "evolves audit_extends (grants_upsert g)"
  "evolves audit_extends (grants_revokeByTask t)" "evolves audit_extends (jti_put j e)"
  "evolves audit_extends (tools_upsert tinput)" "evolves audit_extends (tools_cacheSchema tn sc now)"
  "evolves audit_extends (connections_create cn)" "evolves audit_extends (connections_update c cu)"
  "evolves audit_extends (connections_delete c)" "evolves audit_extends (connections_recordTest c ok de now)"
  "evolves audit_extends (connGrants_upsert a c ops rlim)" "evolves audit_extends (connGrants_delete a c)"
  "evolves audit_extends (tasks_create tk)" "evolves audit_extends (tasks_setStatus t st dn)"
  "evolves audit_extends (projects_create pn)" "evolves audit_extends (projects_delete p)"
  by (rule extends_sameI, simp add: grants_delete_prior_def grants_upsert_def grants_insert_def insert_grant_def
      grants_revokeByTask_def update_grants_def jti_put_def tools_upsert_def insert_tool_def
      tools_cacheSchema_def connections_create_def insert_connection_def connections_update_def connections_delete_def
      connections_recordTest_def connGrants_upsert_def insert_conn_grant_def connGrants_delete_def tasks_create_def
      insert_task_def tasks_setStatus_def projects_create_def insert_project_def projects_delete_def
      insert_row_def gen_random_uuid_def eff_bind_def eff_simps Let_def split: option.split)+

lemma audit_untouched_by_agents [extend_intros]:
  "evolves audit_extends (agents_create an)" "evolves audit_extends (agents_applyLifetimes a lt)"
  "evolves audit_extends (agents_updateMetadata a nm de)" "evolves audit_extends (agents_updatePublicKey a key)"
  "evolves audit_extends (agents_setProject a p)" "evolves audit_extends (transitionAgent k a to)"
  "evolves audit_extends (transitionHost k h hto)" "evolves audit_extends (hosts_updatePublicKey nc h key)"
  "evolves audit_extends (agents_listByHost h)"
  by (rule extends_sameI, simp add: agents_create_def insert_agent_def insert_row_def gen_random_uuid_def
      agents_applyLifetimes_def agents_updateMetadata_def agents_updatePublicKey_def agents_setProject_def
      transitionAgent_eval transitionHost_eval update_hosts_def hosts_updatePublicKey_def agents_listByHost_def
      eff_bind_def eff_simps Let_def split: option.split)+

lemmas extend_rules = audit_frame.evolves_intros case_prod_evolves extend_intros find_reads [THEN extends_read]
  service_reads [THEN extends_read]

interpretation gateway_audit: database_contract audit_extends
  by unfold_locales
    (unfold registerAgent_def revokeAgent_def updateAgentMetadata_def reactivateAgent_def rotateAgentKey_def
       setAgentProject_def revokeHost_def revoke_listed_def rotateHostKey_def grantCapability_def requestCapability_def
       request_one_def createTask_def grant_for_task_def completeTask_def createProject_def deleteProject_def
       registerConnection_def updateConnection_def deleteConnection_def testConnection_def attachConnection_def
       detachConnection_def auditProject_def connection_audit_def Let_def, (intro extend_rules)+)

section \<open>What an execution passes through\<close>

lemma request_token_pass:
  "request_token ev s = (Inr token, s') \<longleftrightarrow>
     s' = s \<and> bearerToken (ev_authorization ev) = Some token \<and> token \<noteq> []"
  by (auto simp: request_token_def eff_simps truthy_def split: option.splits)

lemma request_token_fails: "request_token ev s = (Inl e, s') \<Longrightarrow> s' = s \<and> e = missing_token"
  by (auto simp: request_token_def eff_simps split: if_splits)

lemma catch_rethrow_Inr:
  "eff_catch m (\<lambda>e. eff_bind (h e) (\<lambda>_. eff_throw e)) s = (Inr a, t) \<longleftrightarrow> m s = (Inr a, t)"
  by (auto simp: eff_catch_def eff_bind_def eff_throw_def split: prod.split sum.split)

definition execute_context :: "string \<Rightarrow> execute_body \<Rightarrow> auth_context" where
  "execute_context token body =
     start_context token AgentJwt (xb_capability body) (Some (nullish (xb_args body) []))"

definition execute_args :: "execute_body \<Rightarrow> json_object" where
  "execute_args body = nullish (xb_args body) []"

definition pipeline_run ::
  "gateway_deps \<Rightarrow> request_env \<Rightarrow> auth_context \<Rightarrow> gateway_state \<Rightarrow> (fault option \<times> auth_context) \<times> auth_state" where
  "pipeline_run D ev ctx s =
     run_tracked (pipeline_stages D ev AgentJwt s) ctx \<lparr>as_db = gw_db s, as_jwks = gw_jwks s\<rparr>"

definition after_pipeline :: "auth_state \<Rightarrow> gateway_state \<Rightarrow> gateway_state" where
  "after_pipeline a s = s\<lparr>gw_db := as_db a, gw_jwks := as_jwks a\<rparr>"

lemma after_pipeline_simps [simp]:
  "gw_db (after_pipeline a s) = as_db a" "gw_settings (after_pipeline a s) = gw_settings s"
  "gw_proxy_limiter (after_pipeline a s) = gw_proxy_limiter s"
  by (simp_all add: after_pipeline_def)

lemma tracked_pipeline_eval:
  "tracked_pipeline D ev ctx s =
     (Inr (fst (pipeline_run D ev ctx s)), after_pipeline (snd (pipeline_run D ev ctx s)) s)"
  by (simp add: tracked_pipeline_def pipeline_run_def after_pipeline_def split: prod.split)

lemma live_proxy_after: "live_proxy D (after_pipeline a s) = live_proxy D s"
  by (simp add: live_proxy_def)

text \<open>The request as far as the proxy, and from there.\<close>

lemma bind_request_token:
  "eff_bind (request_token ev) f s =
     (if truthy (bearerToken (ev_authorization ev)) then f (the (bearerToken (ev_authorization ev))) s
      else (Inl missing_token, s))"
  by (simp add: request_token_def eff_bind_def eff_defs)

lemma post_execute_eval:
  "post_execute D ev body s =
     (if \<not> truthy (bearerToken (ev_authorization ev)) then (Inl missing_token, s)
      else if \<not> truthy (xb_capability body) then (Inl (err InvalidRequest ''capability is required'' 400), s)
      else
        let p = pipeline_run D ev (execute_context (the (bearerToken (ev_authorization ev))) body) s in
        eff_catch (run_capability D ev (fst p)) (\<lambda>e. eff_bind (audit_denial D (snd (fst p)) e) (\<lambda>_. eff_throw e))
          (after_pipeline (snd p) s))"
proof -
  have b: "eff_bind (tracked_pipeline D ev ctx) f s =
      f (fst (pipeline_run D ev ctx s)) (after_pipeline (snd (pipeline_run D ev ctx s)) s)"
    for ctx and f :: "fault option \<times> auth_context \<Rightarrow> http_reply gateway_op"
    by (simp add: eff_bind_def tracked_pipeline_eval)
  show ?thesis
    by (simp add: post_execute_def bind_request_token b execute_context_def Let_def)
qed

lemma post_execute_pass:
  assumes "post_execute D ev body s = (Inr rep, s')"
  obtains token ctx a agent grant result where
    "bearerToken (ev_authorization ev) = Some token" "truthy (xb_capability body)"
    "pipeline_run D ev (execute_context token body) s = ((None, ctx), a)"
    "ax_agent ctx = Some agent" "ax_grant ctx = Some grant"
    "run_proxy D ev agent grant (nullish (ax_args ctx) []) (after_pipeline a s) = (Inr result, s')"
    "rep = reply 200 (case er_data result of None \<Rightarrow> [] | Some j \<Rightarrow> [(''data'', j)])"
proof -
  let ?p = "pipeline_run D ev (execute_context (the (bearerToken (ev_authorization ev))) body) s"
  from assms have t: "truthy (bearerToken (ev_authorization ev))" "truthy (xb_capability body)"
    and run: "run_capability D ev (fst ?p) (after_pipeline (snd ?p) s) = (Inr rep, s')"
    by (auto simp: post_execute_eval Let_def catch_rethrow_Inr split: if_splits)
  obtain failed ctx a where p: "?p = ((failed, ctx), a)" by (metis prod.exhaust)
  from run p have "failed = None" by (cases failed) (auto simp: run_capability_def eff_throw_def)
  with run p t that [of "the (bearerToken (ev_authorization ev))"] show ?thesis
    by (auto simp: run_capability_def eff_throw_def eff_bind_Inr_iff ok_reply_def eff_return_def truthy_def
        split: option.splits)
qed

lemma pipeline_run_pass:
  assumes "pipeline_run D ev ctx0 s = ((None, ctx), a)"
  shows "run_stages (buildAgentPipeline (live_pipeline D s) (ev_auth_clock ev)) ctx0
    \<lparr>as_db = gw_db s, as_jwks = gw_jwks s\<rparr> = (Inr ctx, a)"
  using assms by (simp add: pipeline_run_def run_tracked_run_stages pipeline_stages_def)

lemma authorized_run_tables:
  assumes "db_connections d' = db_connections d" and "db_conn_grants d' = db_conn_grants d"
  shows "authorized_run X agent grant args d' driver ctx = authorized_run X agent grant args d driver ctx"
  by (simp add: authorized_run_def entitled_def assms)

lemma jti_put_rest:
  "db_connections (snd (jti_put_run j e d)) = db_connections d"
  "db_conn_grants (snd (jti_put_run j e d)) = db_conn_grants d"
  "db_audit (snd (jti_put_run j e d)) = db_audit d" "db_uuids (snd (jti_put_run j e d)) = db_uuids d"
  "db_draws (snd (jti_put_run j e d)) = db_draws d"
  by (simp_all add: jti_put_run_def jti_put_def split: option.split)

lemma driver_result_Inr: "driver_result driver ctx = Inr x \<longleftrightarrow> dv_execute driver ctx = Inr x"
  by (auto simp: driver_result_def split: sum.splits)

text \<open>The pipeline reads the request: its capability and its arguments stay as they were.\<close>

lemma stage_keeps_args:
  assumes "st \<in> set (buildAgentPipeline P ck)" and "st ctx s = (Inr ctx', s')" and "ax_expectedTyp ctx = AgentJwt"
  shows "ax_args ctx' = ax_args ctx \<and> ax_expectedTyp ctx' = AgentJwt"
proof -
  consider "st = typCheck P" | "st = signatureVerify P ck" | "st = claimValidation P (ck_claims ck)"
    | "st = stateCheck (ck_state ck)" | "st = capabilityConstraint"
    using assms(1) by (auto simp: buildAgentPipeline_def)
  then show ?thesis
  proof cases
    case 1
    from assms(2) [unfolded 1] show ?thesis by (rule typCheck_pass) (simp add: assms(3))
  next
    case 2
    from assms(2) [unfolded 2] assms(3) show ?thesis by (rule signatureVerify_agent_pass) (simp add: assms(3))
  next
    case 3
    from assms(2) [unfolded 3] show ?thesis by (rule claimValidation_pass) (simp add: assms(3))
  next
    case 4
    from stateCheck_pass [OF assms(2) [unfolded 4]] show ?thesis by (simp add: assms(3))
  next
    case 5
    from capabilityConstraint_pass [OF assms(2) [unfolded 5]] show ?thesis by (auto simp: assms(3))
  qed
qed

lemma run_stages_keeps_args:
  assumes "set sts \<subseteq> set (buildAgentPipeline P ck)" and "run_stages sts ctx s = (Inr ctx', s')"
    and "ax_expectedTyp ctx = AgentJwt"
  shows "ax_args ctx' = ax_args ctx"
  using assms
proof (induction sts arbitrary: ctx s)
  case (Cons st sts)
  from Cons.prems obtain c t where 1: "st ctx s = (Inr c, t)" and 2: "run_stages sts c t = (Inr ctx', s')"
    by (auto simp: eff_bind_Inr_iff)
  from Cons.prems(1) have st: "st \<in> set (buildAgentPipeline P ck)" "set sts \<subseteq> set (buildAgentPipeline P ck)" by auto
  from stage_keeps_args [OF st(1) 1 Cons.prems(3)] Cons.IH [OF st(2) 2] show ?case by simp
qed (simp add: eff_return_def)

lemma pipeline_run_args:
  "pipeline_run D ev (execute_context token body) s = ((None, ctx), a) \<Longrightarrow>
    nullish (ax_args ctx) [] = execute_args body"
  by (drule pipeline_run_pass, drule run_stages_keeps_args [OF order_refl])
    (simp_all add: execute_context_def start_context_def execute_args_def nullish_def)

text \<open>Who may run which driver with what, at the time a request arrives.\<close>

definition authorized_execution ::
  "gateway_deps \<Rightarrow> request_env \<Rightarrow> execute_body \<Rightarrow> gateway_state \<Rightarrow> agent_row \<Rightarrow> grant_row \<Rightarrow> platform_driver
     \<Rightarrow> execution_context \<Rightarrow> bool" where
  "authorized_execution D ev body s r g driver ctx \<longleftrightarrow>
     usable_agent (gw_db s) (ck_state (ev_auth_clock ev)) r \<and>
     covering_grant (gw_db s) (ar_id r) (the (xb_capability body)) (execute_args body) g \<and>
     authorized_run (live_proxy D s) (mapAgentRow r) (mapGrantRow g) (execute_args body) (gw_db s) driver ctx"

lemma execution_authorized_raw:
  assumes run: "post_execute D ev body s = (Inr rep, s')" and fresh: "fresh_audit_id (gw_db s)"
  shows "\<exists>token key r g driver ctx result.
    bearerToken (ev_authorization ev) = Some token \<and> signed_by (live_pipeline D s) token key \<and>
    (ar_public_key_jwk r = Some key \<or> ar_public_key_jwk r = None) \<and>
    authorized_execution D ev body s r g driver ctx \<and> dv_execute driver ctx = Inr result \<and>
    rep = reply 200 (case er_data result of None \<Rightarrow> [] | Some j \<Rightarrow> [(''data'', j)]) \<and>
    db_audit (gw_db s') = db_audit (gw_db s) @
      [audit_row_of (execute_entry (live_proxy D s) (ev_execute_clock ev) (mapAgentRow r) (mapGrantRow g)
         (execute_args body) (run_outcome (Inr result))) (db_uuids (gw_db s) (db_draws (gw_db s))) (db_now (gw_db s))]"
proof -
  from run obtain token ctx a agent grant result where
    t: "bearerToken (ev_authorization ev) = Some token" "truthy (xb_capability body)" and
    p: "pipeline_run D ev (execute_context token body) s = ((None, ctx), a)" and
    c: "ax_agent ctx = Some agent" "ax_grant ctx = Some grant" and
    x: "run_proxy D ev agent grant (nullish (ax_args ctx) []) (after_pipeline a s) = (Inr result, s')" and
    rep: "rep = reply 200 (case er_data result of None \<Rightarrow> [] | Some j \<Rightarrow> [(''data'', j)])"
    by (rule post_execute_pass)
  let ?P = "live_pipeline D s"
  from agent_pipeline_sound_raw [OF pipeline_run_pass [OF p, unfolded execute_context_def]]
  obtain r key jti e g where
    u: "usable_agent (gw_db s) (ck_state (ev_auth_clock ev)) r" and
    k: "signed_by ?P token key" "ar_public_key_jwk r = Some key \<or> ar_public_key_jwk r = None" and
    j: "jti_put_run jti e (gw_db s) = (True, as_db a)" and
    ag: "ax_agent ctx = Some (mapAgentRow r)" and
    g: "covering_grant (gw_db s) (ar_id r) (the (xb_capability body)) (execute_args body) g"
      "ax_grant ctx = Some (mapGrantRow g)"
    using t(2) by (auto simp: execute_args_def nullish_def)
  have rest: "db_connections (as_db a) = db_connections (gw_db s)" "db_conn_grants (as_db a) = db_conn_grants (gw_db s)"
    "db_audit (as_db a) = db_audit (gw_db s)" "db_uuids (as_db a) = db_uuids (gw_db s)"
    "db_draws (as_db a) = db_draws (gw_db s)" "db_now (as_db a) = db_now (gw_db s)"
    using jti_put_rest [of jti e "gw_db s"] jti_put_frame(4) [of jti e "gw_db s"] by (simp_all add: j)
  obtain x' where ex: "execute (live_proxy D s) (ev_execute_clock ev) (mapAgentRow r) (mapGrantRow g) (execute_args body)
      \<lparr>xs_db = as_db a, xs_limiter = gw_proxy_limiter s\<rparr> = (Inr result, x')" and db: "gw_db s' = xs_db x'"
    using x c ag g(2) pipeline_run_args [OF p]
    by (auto simp: run_proxy_def on_proxy_def eff_lift_def live_proxy_after split: prod.splits)
  have "fresh_audit_id (as_db a)" using fresh by (simp add: fresh_audit_id_def rest)
  with execute_cases_raw [OF ex] obtain driver xc where
    d: "authorized_run (live_proxy D s) (mapAgentRow r) (mapGrantRow g) (execute_args body) (as_db a) driver xc"
      "dv_execute driver xc = Inr result" and
    au: "xs_db x' = with_entry (execute_entry (live_proxy D s) (ev_execute_clock ev) (mapAgentRow r) (mapGrantRow g)
         (execute_args body) (run_outcome (Inr result))) (as_db a)"
    by (auto simp: driver_result_Inr) (metis driver_result_Inr)
  have "authorized_execution D ev body s r g driver xc"
    using u g(1) d(1) authorized_run_tables [OF rest(1,2)] by (simp add: authorized_execution_def)
  moreover have "db_audit (gw_db s') = db_audit (gw_db s) @
      [audit_row_of (execute_entry (live_proxy D s) (ev_execute_clock ev) (mapAgentRow r) (mapGrantRow g)
         (execute_args body) (run_outcome (Inr result))) (db_uuids (gw_db s) (db_draws (gw_db s))) (db_now (gw_db s))]"
    by (simp add: db au with_entry_def rest)
  ultimately show ?thesis using t(1) k d(2) rep by blast
qed

end
