(* ===== verification/Gateway_Access.thy ===== *)
theory Gateway_Access
  imports Gateway_Laws
begin

text \<open>
  Who gets nothing from the gateway: a request without a token, an agent whose lifecycle has ended, and an
  execution the pipeline refuses.
\<close>

section \<open>Requests without a token\<close>

text \<open>Tables, settings and cached schemas as they were; limiters, metrics and listeners may move.\<close>

definition untouched :: "gateway_state \<Rightarrow> gateway_state \<Rightarrow> bool" where
  "untouched s t \<longleftrightarrow> gw_db t = gw_db s \<and> gw_settings t = gw_settings s \<and> gw_cache t = gw_cache s"

interpretation calm: effect_frame untouched
  by unfold_locales (simp_all add: untouched_def)

named_theorems calm_intros

lemma calm_db [calm_intros]: "evolves (=) m \<Longrightarrow> evolves untouched (on_gdb m)"
  unfolding evolves_def on_gdb_def eff_lift_def untouched_def by (auto split: prod.split) (metis snd_conv)

lemma calm_write [calm_intros]:
  "(\<And>s. gw_db (f s) = gw_db s \<and> gw_settings (f s) = gw_settings s \<and> gw_cache (f s) = gw_cache s) \<Longrightarrow>
    evolves untouched (eff_write f)"
  by (simp add: evolves_def eff_write_def untouched_def)

lemma calm_tools [calm_intros]: "evolves untouched (on_router (list_tools C))"
proof -
  have "snd (list_tools C t) = t" for t
    by (simp add: list_tools_def on_tdb_def eff_lift_def tools_list_def eff_simps eff_bind_def split: prod.split)
  then have same: "t' = t" if "list_tools C t = (v, t')" for t t' v using that by (metis snd_conv)
  show ?thesis
    by (auto simp: evolves_def on_router_def eff_lift_def untouched_def split: prod.split dest!: same)
qed

lemma calm_replies [calm_intros]:
  "evolves untouched (ok_reply b)" "evolves untouched (created_reply b)" "evolves untouched (cacheable j)"
  "evolves untouched (settings_reply c)" "evolves untouched (uuid_param D t)"
  unfolding ok_reply_def created_reply_def cacheable_def settings_reply_def uuid_param_def
  by (intro calm.evolves_intros)+

lemma calm_case_sum: "(\<And>a. evolves R (f a)) \<Longrightarrow> (\<And>b. evolves R (g b)) \<Longrightarrow> evolves R (case_sum f g x)"
  by (cases x) simp_all

lemma calm_page [calm_intros]: "(\<And>n. evolves (=) (q n)) \<Longrightarrow> evolves untouched (list_page q limit)"
  unfolding list_page_def by (intro calm.evolves_intros calm_case_sum calm_db)

lemma calm_late_uuid [calm_intros]:
  "evolves untouched m \<Longrightarrow> evolves untouched (forget m)"
  "evolves untouched b \<Longrightarrow> evolves untouched (late_uuid_param D b t)"
  unfolding forget_def late_uuid_param_def by (intro calm.evolves_intros | assumption)+

lemma public_routes_calm:
  "evolves untouched (get_projects D)" "evolves untouched (get_tasks D ev)" "evolves untouched (get_agents D al cur)"
  "evolves untouched (get_agents_risk D)" "evolves untouched (get_connections D)"
  "evolves untouched (get_audit D ai oc al cur)" "evolves untouched (get_agent_connections D t)"
  "evolves untouched (get_agent_grants D t)" "evolves untouched get_compliance" "evolves untouched (get_connectors D)"
  "evolves untouched (get_tools D)" "evolves untouched (open_events l)" "evolves untouched get_metrics"
  "evolves untouched (get_readyz hl)"
  unfolding get_projects_def get_tasks_def get_agents_def get_agents_risk_def get_connections_def get_audit_def
    get_agent_connections_def get_agent_grants_def get_compliance_def get_connectors_def get_tools_def open_events_def
    get_metrics_def get_readyz_def Let_def
  by (intro calm.evolves_intros case_prod_evolves calm_case_sum calm_intros unchanged.evolves_intros read_intros; simp)+

lemma public_route_calm: "public_route r \<Longrightarrow> evolves untouched (handle_route D ev r)"
  by (cases r) (simp_all add: public_route_def public_routes_calm calm_replies)

lemma bind_fails: "m s = (Inl e, t) \<Longrightarrow> eff_bind m f s = (Inl e, t)"
  by (simp add: eff_bind_def)

lemma tokenless_auth:
  assumes "\<not> truthy (bearerToken (ev_authorization ev))"
  shows "requireJwt D ev typ s = (Inl missing_token, s)" "auth_host D ev s = (Inl missing_token, s)"
    "host_and_agent_text D ev a s = (Inl missing_token, s)"
  using assms by (simp_all add: requireJwt_def auth_host_def host_and_agent_text_def bind_request_token bind_fails)

lemma tokenless_route:
  assumes "\<not> truthy (bearerToken (ev_authorization ev))" and "\<not> public_route r"
  shows "handle_route D ev r s = (Inl missing_token, s)"
proof -
  note auth = tokenless_auth [OF assms(1)]
  note fails = bind_request_token auth bind_fails [OF auth(1)] bind_fails [OF auth(2)] bind_fails [OF auth(3)]
  show ?thesis
    using assms
    by (cases r)
      (simp_all add: public_route_def fails post_register_def post_agent_revoke_def
        post_agent_update_def post_agent_reactivate_def post_agent_rotate_key_def post_agent_project_def
        post_host_revoke_def post_host_rotate_key_def post_introspect_def post_project_def delete_project_def
        get_agent_status_def post_grant_def post_task_def post_task_complete_def post_request_capability_def
        get_capability_list_def get_capability_describe_def get_tool_schema_def post_execute_def post_connection_def
        patch_connection_def delete_connection_def post_connection_test_def post_agent_connection_def
        delete_agent_connection_def get_admin_config_def patch_admin_config_def post_tools_def post_tools_flush_def)
qed

lemma guards_calm: "evolves untouched (guards ev registering)"
proof -
  have "evolves untouched (ip_guard ev)"
    by (simp add: evolves_def ip_guard_def untouched_def)
  moreover have "evolves untouched (ip_limit ev)" "evolves untouched (register_limit ev)"
    by (simp_all add: evolves_def ip_limit_def register_limit_def eff_lift_def Let_def untouched_def split: prod.split)
  ultimately show ?thesis
    unfolding guards_def by (intro calm.evolves_intros)
qed

lemma guards_refusal:
  assumes "guards ev registering s = (Inl f, t)"
  shows "\<exists>e. f = ConduitError e \<and> ce_httpStatus e \<in> {403, 429}"
  using assms
  by (auto simp: guards_def eff_bind_Inl_iff ip_guard_def ipFilter_def ip_limit_def register_limit_def rateLimit_def
      eff_lift_def Let_def eff_simps conduit_err_def split: if_splits prod.splits)

lemma errorHandler_untouched: "untouched s (snd (errorHandler D ev f s))"
  by (cases f) (simp_all add: errorHandler_def Let_def untouched_def split: option.split)

lemma errorHandler_status: "re_status (fst (errorHandler D ev (ConduitError e) s)) = ce_httpStatus e"
  by (simp add: errorHandler_def)

lemma respond_untouched:
  "evolves untouched m \<Longrightarrow> untouched s (snd (respond D ev m s))"
proof -
  assume m: "evolves untouched m"
  obtain u t where run: "m s = (u, t)" by (meson surj_pair)
  then have "untouched s t" by (rule evolvesD [OF m])
  then show ?thesis
    using run calm.frame_trans errorHandler_untouched by (cases u) (auto simp: respond_def)
qed

lemma tokenless_untouched:
  assumes "\<not> truthy (bearerToken (ev_authorization ev))"
  shows "untouched s (snd (gateway D ev r s))"
proof -
  have "evolves untouched (handle_route D ev r)"
  proof (cases "public_route r")
    case False
    then show ?thesis using tokenless_route [OF assms] by (simp add: evolves_def untouched_def)
  qed (rule public_route_calm)
  then show ?thesis
    unfolding gateway_def by (intro respond_untouched calm.evolves_intros guards_calm)
qed

lemma tokenless_refused:
  assumes "\<not> truthy (bearerToken (ev_authorization ev))" and "\<not> public_route r"
  shows "re_status (fst (gateway D ev r s)) \<in> {401, 403, 429}"
proof -
  obtain u t where g: "guards ev (is_register r) s = (u, t)" by (meson surj_pair)
  show ?thesis
  proof (cases u)
    case (Inl f)
    with guards_refusal g obtain e where "f = ConduitError e" "ce_httpStatus e \<in> {403, 429}" by blast
    with g Inl show ?thesis by (auto simp: gateway_def respond_def eff_bind_def errorHandler_status)
  next
    case (Inr v)
    with g tokenless_route [OF assms]
    have "eff_bind (guards ev (is_register r)) (\<lambda>_. handle_route D ev r) s = (Inl missing_token, t)"
      by (simp add: eff_bind_def)
    then show ?thesis by (simp add: gateway_def respond_def missing_token_def conduit_err_def errorHandler_status)
  qed
qed

section \<open>Agents whose lifecycle has ended\<close>

lemma ended_agent_stays:
  assumes "row_find ar_id i (db_agents (gw_db s)) = Some r" and "ar_status r \<in> {AgentRevoked, AgentRejected, AgentClaimed}"
  obtains r' where "row_find ar_id i (db_agents (gw_db (serve D reqs s))) = Some r'"
    and "ar_status r' = ar_status r"
proof -
  from assms(1) gateway_agents.serve_evolves [of s D reqs] obtain r' where
    r': "row_find ar_id i (db_agents (gw_db (serve D reqs s))) = Some r'" and e: "row_evolves r r'"
    unfolding agents_evolve_def by blast
  have "AGENT_TRANSITIONS (ar_status r) = []" using assms(2) by auto
  with e have "ar_status r' = ar_status r" using agents.terminal_stays unfolding row_evolves_def by blast
  with r' that show ?thesis by blast
qed

lemma revoked_stays_out:
  assumes wf: "db_wf (gw_db s)" and r: "row_find ar_id i (db_agents (gw_db s)) = Some r"
    and ended: "ar_status r \<in> {AgentRevoked, AgentRejected, AgentClaimed}"
  shows "\<not> (\<exists>ev token capability args ctx agent t.
    run_pipeline D ev AgentJwt (start_context token AgentJwt capability args) (serve D reqs s) = (Inr ctx, t) \<and>
    ax_agent ctx = Some agent \<and> a_id agent = i)"
proof clarify
  fix ev token capability args ctx agent t
  let ?s = "serve D reqs s"
  assume run: "run_pipeline D ev AgentJwt (start_context token AgentJwt capability args) ?s = (Inr ctx, t)"
    and agent: "ax_agent ctx = Some agent" "i = a_id agent"
  from run obtain a where
    "run_stages (buildAgentPipeline (live_pipeline D ?s) (ev_auth_clock ev))
       (start_context token AgentJwt capability args) \<lparr>as_db = gw_db ?s, as_jwks = gw_jwks ?s\<rparr> = (Inr ctx, a)"
    by (auto simp: run_pipeline_def on_auth_def eff_lift_def pipeline_stages_def split: prod.splits)
  from agent_pipeline_sound_raw [OF this] agent obtain q where
    q: "usable_agent (gw_db ?s) (ck_state (ev_auth_clock ev)) q" "ar_id q = i"
    by (auto simp: mapAgentRow_def)
  from ended_agent_stays [OF r ended, of D reqs] obtain r' where
    r': "row_find ar_id i (db_agents (gw_db ?s)) = Some r'" "ar_status r' = ar_status r" .
  have "db_wf (gw_db ?s)" using wf gateway_wf.serve_evolves [of s D reqs] by (simp add: keeps_def)
  then have "distinct (map ar_id (db_agents (gw_db ?s)))" by (simp add: db_wf_defs)
  moreover have "q \<in> set (db_agents (gw_db ?s))" "ar_status q = AgentActive" using q(1) by (auto simp: usable_agent_def)
  ultimately have "q = r'" using r'(1) q(2) row_find_SomeD [OF r'(1)] by (auto simp: distinct_map inj_on_def)
  with r'(2) \<open>ar_status q = AgentActive\<close> ended show False by auto
qed

section \<open>Refused executions\<close>

lemma refused_execution_recorded:
  assumes p: "pipeline_run D ev (execute_context token body) s = ((Some (ConduitError e), ctx), a)"
    and t: "bearerToken (ev_authorization ev) = Some token" "token \<noteq> []" and c: "truthy (xb_capability body)"
    and ag: "ax_agent ctx = Some agent" and st: "ce_httpStatus e \<in> {403, 429}" and fresh: "fresh_audit_id (as_db a)"
  shows "\<exists>s' row. post_execute D ev body s = (Inl (ConduitError e), s') \<and>
    db_audit (gw_db s') = db_audit (as_db a) @ [row] \<and> aur_agent_id row = Some (a_id agent) \<and>
    aur_event_type row = ''capability.denied'' \<and> aur_capability row = ax_capability ctx \<and>
    aur_outcome row = OutcomeDenied"
proof -
  let ?d = "with_entry (denial_entry D ctx agent) (as_db a)"
  have d: "audit_append (denial_entry D ctx agent) (as_db a) = (Inr (), ?d)"
    using fresh by (rule audit_append_eval)
  have "post_execute D ev body s = (Inl (ConduitError e), (after_pipeline a s)\<lparr>gw_db := ?d\<rparr>)"
    using t c ag st
    by (auto simp: post_execute_eval p run_capability_def audit_denial_def eff_catch_def eff_bind_def eff_throw_def
        eff_return_def on_gdb_def eff_lift_def d truthy_def after_pipeline_def)
  then show ?thesis by (simp add: with_entry_def audit_row_of_def denial_entry_def)
qed

section \<open>Deleting a project\<close>

text \<open>
  The member guard compares text: an id in another spelling (upper case) that the database reads as the
  same project deletes it with its members, whose credentials become global.
\<close>

lemma spelled_differently_passes_guard:
  assumes "auth_host D ev s = (Inr host, s1)" and "k_to_uuid (gd_codec D) t = Some i" and "k_uuid (gd_codec D) i \<noteq> t"
    and "fresh_audit_id (gw_db s1)"
  shows "\<exists>s'. delete_project D ev t s = (Inr (reply 200 [(''deleted'', JBool True)]), s') \<and>
    db_projects (gw_db s') = row_delete (\<lambda>r. por_id r = i) (db_projects (gw_db s1)) \<and>
    (\<forall>r \<in> set (db_agents (gw_db s')). ar_project_id r \<noteq> Some i)"
proof -
  define d where "d = snd (projects_delete i (gw_db s1))"
  have d: "projects_delete i (gw_db s1) = (Inr (), d)"
      "db_projects d = row_delete (\<lambda>r. por_id r = i) (db_projects (gw_db s1))" "fresh_audit_id d"
    using assms(4) by (simp_all add: d_def projects_delete_def eff_write_def fresh_audit_id_def)
  have members: "\<forall>r \<in> set (db_agents d). ar_project_id r \<noteq> Some i"
    by (auto simp: d_def projects_delete_def eff_write_def set_row_update split: if_splits)
  from d have "delete_project_text D (h_id host) t i (gw_db s1) =
      (Inr (), with_entry
        \<lparr>ne_agentId = None, ne_hostId = Some (h_id host), ne_eventType = ''project.delete'', ne_capability = None,
         ne_connectionId = None, ne_operation = None, ne_taskId = None, ne_outcome = OutcomeSuccess,
         ne_argsHash = None, ne_durationMs = None\<rparr> d)"
    using assms(3) by (simp add: delete_project_text_def eff_bind_def auditProject_def audit_append_eval)
  then show ?thesis
    using assms(1,2) d members
    by (simp add: delete_project_def eff_bind_def uuid_param_def eff_some_def eff_return_def on_gdb_def eff_lift_def
        ok_reply_def with_entry_def)
qed

end
