(* ===== verification/Manifest_Driver.thy ===== *)
theory Manifest_Driver
  imports Connector_Drivers
begin

text \<open>
  \<^verbatim>\<open>connectors/manifest/connectorManifest.ts\<close> and \<^verbatim>\<open>manifestDriver.ts\<close>: a platform described as
  data, the \<open>{field}\<close> templates, the credential fields derived from them, and the driver that
  executes a manifest.  A record of strings is the list of its entries in order.
\<close>

record manifest_operation =
  mo_description :: string
  mo_method :: "string option"
  mo_path :: "string option"
  mo_graphql :: "string option"

datatype api_style = RestStyle | GraphqlStyle

record connector_manifest =
  mf_platform :: string
  mf_label :: string
  mf_baseUrl :: string
  mf_authMethods :: "string list"
  mf_headers :: "(string \<times> string) list"
  mf_query :: "(string \<times> string) list"
  mf_style :: "api_style option"
  mf_operations :: "(string \<times> manifest_operation) list"
  mf_test :: "manifest_operation option"
  mf_docsUrl :: "string option"
  mf_fields :: "connector_field list option"

section \<open>Templates\<close>

definition is_word_char :: "char \<Rightarrow> bool" where
  "is_word_char c \<longleftrightarrow> is_letter c \<or> is_digit_char c \<or> c = CHR ''_''"

text \<open>
  The matches of \<open>/\{(\w+)\}/g\<close> in a text, with the characters between them.  A group of word
  characters holds no brace, so the leftmost match starts at the last brace before it.
\<close>

function template_parts :: "string \<Rightarrow> (char + string) list" where
  "template_parts [] = []"
| "template_parts (c # cs) =
     (if c = CHR ''{'' then
        (let w = takeWhile is_word_char cs; rest = drop (length w) cs in
         if w \<noteq> [] \<and> starts_with ''}'' rest then Inr w # template_parts (tl rest)
         else Inl c # template_parts cs)
      else Inl c # template_parts cs)"
  by pat_completeness auto

termination template_parts
  by (relation "measure length") auto

definition template_keys :: "string \<Rightarrow> string list" where
  "template_keys t = concat (map (\<lambda>p. case p of Inl c \<Rightarrow> [] | Inr k \<Rightarrow> [k]) (template_parts t))"

definition fill_part :: "secret \<Rightarrow> char + string \<Rightarrow> string" where
  "fill_part s p = (case p of Inl c \<Rightarrow> [c] | Inr k \<Rightarrow> nullish (text_at s k) [])"

definition part_missing :: "secret \<Rightarrow> char + string \<Rightarrow> bool" where
  "part_missing s p = (case p of Inl c \<Rightarrow> False | Inr k \<Rightarrow> \<not> truthy (text_at s k))"

definition fillTemplate :: "string \<Rightarrow> secret \<Rightarrow> string \<times> bool" where
  "fillTemplate template s =
     (concat (map (fill_part s) (template_parts template)),
      list_ex (part_missing s) (template_parts template))"

section \<open>Credential fields\<close>

definition SECRET_HINTS :: "string list" where
  "SECRET_HINTS = [''token'', ''key'', ''secret'', ''password'', ''pass'', ''basic'', ''appkey'', ''apikey'', ''webhookurl'']"

definition is_lower :: "char \<Rightarrow> bool" where
  "is_lower c \<longleftrightarrow> (let n = of_char c :: nat in 97 \<le> n \<and> n \<le> 122)"

definition is_upper :: "char \<Rightarrow> bool" where
  "is_upper c \<longleftrightarrow> (let n = of_char c :: nat in 65 \<le> n \<and> n \<le> 90)"

fun camel_spaces :: "string \<Rightarrow> string" where
  "camel_spaces (a # b # cs) =
     (if is_lower a \<and> is_upper b then a # CHR '' '' # camel_spaces (b # cs) else a # camel_spaces (b # cs))"
| "camel_spaces s = s"

fun dashes_to_space :: "bool \<Rightarrow> string \<Rightarrow> string" where
  "dashes_to_space inside [] = []"
| "dashes_to_space inside (c # cs) =
     (if c = CHR ''_'' \<or> c = CHR ''-''
      then (if inside then dashes_to_space True cs else CHR '' '' # dashes_to_space True cs)
      else c # dashes_to_space False cs)"

definition labelize :: "string \<Rightarrow> string" where
  "labelize key =
     (let spaced = js_trim (dashes_to_space False (camel_spaces key)) in
      map ascii_upper (take 1 spaced) @ drop 1 spaced)"

definition manifest_templates :: "connector_manifest \<Rightarrow> string list" where
  "manifest_templates m = mf_baseUrl m # map snd (mf_headers m) @ map snd (mf_query m)"

text \<open>A \<^verbatim>\<open>Set\<close> keeps the first occurrence of each key.\<close>

definition manifest_keys :: "connector_manifest \<Rightarrow> string list" where
  "manifest_keys m = rev (remdups (rev (concat (map template_keys (manifest_templates m)))))"

definition plain_field :: "string \<Rightarrow> string \<Rightarrow> bool \<Rightarrow> connector_field" where
  "plain_field key label secret =
    \<lparr>cf_key = key, cf_label = label, cf_secret = secret, cf_required = True, cf_placeholder = None, cf_help = None\<rparr>"

definition key_fields :: "string \<Rightarrow> connector_field list" where
  "key_fields key =
     (if key = ''basic''
      then [plain_field ''username'' ''Username / email'' False,
            plain_field ''password'' ''Password / API token'' True]
      else [plain_field key (labelize key) (list_ex (\<lambda>h. contains h (map ascii_lower key)) SECRET_HINTS)])"

definition deriveCredentialFields :: "connector_manifest \<Rightarrow> connector_field list" where
  "deriveCredentialFields m =
     (case mf_fields m of Some fs \<Rightarrow> fs | None \<Rightarrow> concat (map key_fields (manifest_keys m)))"

section \<open>The driver\<close>

definition normalizeSecret :: "secret \<Rightarrow> secret" where
  "normalizeSecret s =
     (if truthy (text_at s ''basic'') \<or> \<not> truthy (text_at s ''username'') then s
      else put_text ''basic''
             (base64 (the (text_at s ''username'') @ '':'' @ nullish (text_at s ''password'') [])) s)"

definition manifest_validateCredential :: "connector_manifest \<Rightarrow> platform_credential \<Rightarrow> fault + bool" where
  "manifest_validateCredential m c =
     (let s = normalizeSecret (nullish (pc_secret c) []) in
      Inr (list_all (\<lambda>t. \<not> snd (fillTemplate t s)) (manifest_templates m)))"

definition resolveTarget :: "manifest_operation \<Rightarrow> string \<times> string" where
  "resolveTarget op =
     (let path = nullish (mo_path op) [];
          meth = nullish (mo_method op) (if path \<noteq> [] then ''POST'' else ''GET'')
      in (map ascii_upper meth, path))"

text \<open>\<open>encodeURIComponent\<close> on the bytes of a text.\<close>

definition is_unreserved :: "char \<Rightarrow> bool" where
  "is_unreserved c \<longleftrightarrow> is_letter c \<or> is_digit_char c \<or> c \<in> set ''-_.!~*()'' \<or> c = CHR 0x27"

definition hex_digit :: "nat \<Rightarrow> char" where
  "hex_digit n = (if n < 10 then char_of (48 + n) else char_of (55 + n))"

definition encode_char :: "char \<Rightarrow> string" where
  "encode_char c =
     (let n = of_char c :: nat in
      if is_unreserved c then [c] else [CHR ''%'', hex_digit (n div 16), hex_digit (n mod 16)])"

definition encodeURIComponent :: "string \<Rightarrow> string" where
  "encodeURIComponent s = concat (map encode_char s)"

definition arg_text :: "json_text \<Rightarrow> json option \<Rightarrow> string" where
  "arg_text J v =
     (case v of None \<Rightarrow> [] | Some j \<Rightarrow> if j = JNull then [] else js_String J j)"

text \<open>The path with its slots filled: an argument that fills a slot is removed from the arguments.\<close>

fun resolve_parts :: "json_text \<Rightarrow> (char + string) list \<Rightarrow> json_object \<Rightarrow> string \<times> json_object" where
  "resolve_parts J [] args = ([], args)"
| "resolve_parts J (Inl c # ps) args =
     (case resolve_parts J ps args of (txt, rest) \<Rightarrow> (c # txt, rest))"
| "resolve_parts J (Inr k # ps) args =
     (case resolve_parts J ps (filter (\<lambda>(k', v). k' \<noteq> k) args) of
        (txt, rest) \<Rightarrow> (encodeURIComponent (arg_text J (field_of args k)) @ txt, rest))"

definition fill_headers ::
  "secret \<Rightarrow> (string \<times> string) list \<Rightarrow> (string \<times> string) list \<Rightarrow> (string \<times> string) list" where
  "fill_headers s templates headers =
     fold (\<lambda>(k, t) hs. case fillTemplate t s of (txt, missing) \<Rightarrow>
             if missing then hs else put_text k txt hs) templates headers"

definition fill_params :: "secret \<Rightarrow> (string \<times> string) list \<Rightarrow> (string \<times> string) list" where
  "fill_params s templates = fold (\<lambda>(k, t). put_text k (fst (fillTemplate t s))) templates []"

definition manifest_base :: "connector_manifest \<Rightarrow> secret \<Rightarrow> fault + string" where
  "manifest_base m s =
     (case fillTemplate (nullish (text_at s ''baseUrl'') (mf_baseUrl m)) s of
        (txt, missing) \<Rightarrow>
          if missing \<or> txt = []
          then Inl (err InvalidRequest
                 (mf_platform m @ '': base URL is missing required credential fields'') 400)
          else Inr (strip_slashes txt))"

definition operation_request ::
  "json_text \<Rightarrow> connector_manifest \<Rightarrow> manifest_operation \<Rightarrow> json_object \<Rightarrow> platform_credential
     \<Rightarrow> fault + http_request" where
  "operation_request J m op opArgs c =
     (let s = normalizeSecret (nullish (pc_secret c) []) in
      case manifest_base m s of
        Inl e \<Rightarrow> Inl e
      | Inr baseUrl \<Rightarrow>
          let headers = fill_headers s (mf_headers m)
                [(''accept'', ''application/json''), (''user-agent'', ''agent-conduit'')]
          in if mf_style m = Some GraphqlStyle \<or> truthy (mo_graphql op) then
               Inr \<lparr>rq_url = baseUrl, rq_params = fill_params s (mf_query m), rq_method = ''POST'',
                    rq_headers = put_text ''content-type'' ''application/json'' headers,
                    rq_body = Some (jt_stringify J (JObj
                      [(''query'', JStr (nullish (mo_graphql op) [])), (''variables'', JObj opArgs)]))\<rparr>
             else
               let (meth, path) = resolveTarget op;
                   (resolvedPath, args) = resolve_parts J (template_parts path) opArgs;
                   bodyless = (meth = ''GET'' \<or> meth = ''HEAD'');
                   params = fill_params s (mf_query m)
               in Inr \<lparr>rq_url = join_url baseUrl resolvedPath,
                       rq_params = (if bodyless then args_params J args params else params),
                       rq_method = meth,
                       rq_headers = (if bodyless then headers
                                     else put_text ''content-type'' ''application/json'' headers),
                       rq_body = (if bodyless then None else Some (jt_stringify J (JObj args)))\<rparr>)"

definition graphql_error :: "json \<Rightarrow> bool" where
  "graphql_error data =
     (case member_of data ''errors'' of Inr (Some (JArr es)) \<Rightarrow> True | _ \<Rightarrow> False)"

definition manifest_send :: "platform_io \<Rightarrow> http_request \<Rightarrow> fault + execution_result" where
  "manifest_send io rq =
     (case io_fetch io rq of
        Inl e \<Rightarrow> Inl e
      | Inr rs \<Rightarrow>
          let data = response_data (io_json io) (rs_text rs) in
          Inr \<lparr>er_status = (if response_ok rs \<and> \<not> graphql_error data then StatusOk else StatusError),
               er_data = Some data\<rparr>)"

definition runOperation ::
  "platform_io \<Rightarrow> connector_manifest \<Rightarrow> manifest_operation \<Rightarrow> json_object \<Rightarrow> platform_credential
     \<Rightarrow> fault + execution_result" where
  "runOperation io m op opArgs c =
     (case operation_request (io_json io) m op opArgs c of
        Inl e \<Rightarrow> Inl e
      | Inr rq \<Rightarrow> manifest_send io rq)"

text \<open>
  \<open>manifest.operations[name]\<close> also finds the members of \<^verbatim>\<open>Object.prototype\<close>, whose method, path
  and query are undefined.
\<close>

definition manifest_operation_at :: "connector_manifest \<Rightarrow> string \<Rightarrow> manifest_operation option" where
  "manifest_operation_at m k =
     (case map_of (mf_operations m) k of
        Some op \<Rightarrow> Some op
      | None \<Rightarrow>
          if inherited_name k
          then Some \<lparr>mo_description = [], mo_method = None, mo_path = None, mo_graphql = None\<rparr>
          else None)"

definition manifest_execute :: "platform_io \<Rightarrow> connector_manifest \<Rightarrow> execution_context \<Rightarrow> fault + execution_result" where
  "manifest_execute io m ctx =
     (case manifest_operation_at m (xc_operation ctx) of
        None \<Rightarrow> Inl (err InvalidRequest
                  (''unsupported '' @ mf_platform m @ '' operation: '' @ xc_operation ctx) 400)
      | Some op \<Rightarrow> runOperation io m op (xc_args ctx) (xc_credential ctx))"

definition manifest_testCredential ::
  "platform_io \<Rightarrow> connector_manifest \<Rightarrow> platform_credential \<Rightarrow> fault + credential_test" where
  "manifest_testCredential io m c =
     (case manifest_validateCredential m c of
        Inl e \<Rightarrow> Inl e
      | Inr ok \<Rightarrow>
          if \<not> ok
          then Inr \<lparr>tr_ok = False, tr_checked = Structure, tr_detail = ''missing required credential fields''\<rparr>
          else case mf_test m of
                 None \<Rightarrow> Inr \<lparr>tr_ok = True, tr_checked = Structure,
                             tr_detail = ''credential fields present (no live probe configured)''\<rparr>
               | Some op \<Rightarrow>
                   (case runOperation io m op [] c of
                      Inl e \<Rightarrow> Inr \<lparr>tr_ok = False, tr_checked = Live, tr_detail = fault_message e\<rparr>
                    | Inr result \<Rightarrow>
                        Inr \<lparr>tr_ok = (er_status result = StatusOk), tr_checked = Live,
                             tr_detail = (if er_status result = StatusOk then ''live probe succeeded''
                                          else ''live probe returned an error'')\<rparr>))"

definition ManifestDriver :: "platform_io \<Rightarrow> connector_manifest \<Rightarrow> platform_driver" where
  "ManifestDriver io m =
    \<lparr>dv_platform = mf_platform m, dv_label = Some (mf_label m),
     dv_credentialFields = Some (deriveCredentialFields m), dv_docsUrl = mf_docsUrl m,
     dv_supportedOperations =
       map (\<lambda>(k, op). \<lparr>od_name = k, od_description = mo_description op, od_input = None\<rparr>) (mf_operations m),
     dv_supportedAuthMethods = mf_authMethods m,
     dv_validateCredential = manifest_validateCredential m,
     dv_testCredential = Some (manifest_testCredential io m),
     dv_execute = manifest_execute io m, dv_mapError = map_driver_error (mf_platform m)\<rparr>"

end
