(* ===== verification/Client_Sdk.thy ===== *)
theory Client_Sdk
  imports Gateway_App Manifest_Driver
begin

text \<open>
  \<^verbatim>\<open>packages/sdk/src/conduitClient.ts\<close>: the client that holds a host key and the keys of its agents and
  mints a fresh token for every call.  \<open>fetch\<close>, the clock, \<open>randomUUID\<close> and key generation are
  parameters of an operation, each of which uses them at most once (besides the discovery request).
\<close>

record client_io =
  ci_crypto :: node_crypto
  ci_json :: json_text
  ci_fetch :: "http_request \<Rightarrow> fault + http_response"
  ci_now :: millis
  ci_jti :: string
  ci_pair :: "json_object \<times> json_object"

record conduit_client =
  cl_baseUrl :: string
  cl_hostKey :: json_object
  cl_hostThumbprint :: string
  cl_agentKeys :: "string \<Rightarrow> json_object option"
  cl_issuer :: "json option"

type_synonym 'a client_op = "(fault, conduit_client, 'a) eff"

definition JWT_TTL_SECONDS :: int where
  "JWT_TTL_SECONDS = 60"

text \<open>The members of a key that its thumbprint reads; a \<^verbatim>\<open>Jwk\<close> has strings there.\<close>

definition key_text :: "json_object \<Rightarrow> string \<Rightarrow> string" where
  "key_text k f = (case field_of k f of Some (JStr s) \<Rightarrow> s | _ \<Rightarrow> [])"

definition public_part :: "json_object \<Rightarrow> jwk" where
  "public_part k =
    \<lparr>jwk_kty = key_text k ''kty'', jwk_crv = key_text k ''crv'', jwk_x = key_text k ''x'', jwk_kid = None,
     jwk_use = None, jwk_alg = None\<rparr>"

definition new_client :: "node_crypto \<Rightarrow> string \<Rightarrow> json_object \<Rightarrow> conduit_client" where
  "new_client c baseUrl hostKey =
    \<lparr>cl_baseUrl = strip_slashes baseUrl, cl_hostKey = hostKey,
     cl_hostThumbprint = jwkThumbprint c (public_part hostKey), cl_agentKeys = Map.empty, cl_issuer = None\<rparr>"

section \<open>Requests\<close>

text \<open>Reading a member of a body that may be absent.\<close>

definition body_member :: "json option \<Rightarrow> string \<Rightarrow> (fault, 's, json option) eff" where
  "body_member body k =
     (case body of
        None \<Rightarrow> eff_throw (OtherError ''Cannot read properties of undefined'')
      | Some j \<Rightarrow> eff_sum (member_of j k))"

definition discoverIssuer :: "client_io \<Rightarrow> json option client_op" where
  "discoverIssuer io =
     eff_bind (eff_read cl_issuer) (\<lambda>issuer.
     if member_truthy issuer then eff_return issuer
     else
       eff_bind (eff_read cl_baseUrl) (\<lambda>base.
       eff_bind (eff_sum (ci_fetch io
         \<lparr>rq_url = base @ ''/.well-known/agent-configuration'', rq_params = [], rq_method = ''GET'',
          rq_headers = [], rq_body = None\<rparr>)) (\<lambda>res.
       eff_bind (eff_require (response_ok res) (OtherError (''discovery failed: '' @ dec (rs_status res)))) (\<lambda>_.
       eff_bind (eff_some (jt_parse (ci_json io) (rs_text res)) (OtherError ''SyntaxError'')) (\<lambda>cfg.
       eff_bind (eff_sum (member_of cfg ''issuer'')) (\<lambda>found.
       eff_bind (eff_write (\<lambda>c. c\<lparr>cl_issuer := found\<rparr>)) (\<lambda>_.
       eff_return found)))))))"

definition failure_message :: "json_text \<Rightarrow> string \<Rightarrow> string \<Rightarrow> nat \<Rightarrow> json option \<Rightarrow> string" where
  "failure_message J meth path status body =
     (case Option.bind body (\<lambda>j. claim j ''message'') of
        None \<Rightarrow> meth @ '' '' @ path @ '' -> '' @ dec status
      | Some JNull \<Rightarrow> meth @ '' '' @ path @ '' -> '' @ dec status
      | Some v \<Rightarrow> js_String J v)"

definition parsed_body :: "json_text \<Rightarrow> string \<Rightarrow> (fault, 's, json option) eff" where
  "parsed_body J t =
     (if t = [] then eff_return None
      else case jt_parse J t of None \<Rightarrow> eff_throw (OtherError ''SyntaxError'') | Some j \<Rightarrow> eff_return (Some j))"

definition client_request :: "json_text \<Rightarrow> string \<Rightarrow> string \<Rightarrow> string \<Rightarrow> string \<Rightarrow> json option \<Rightarrow> http_request" where
  "client_request J base meth path token body =
    \<lparr>rq_url = base @ path, rq_params = [], rq_method = meth,
     rq_headers = [(''authorization'', BEARER @ token)] @
       (if body = None then [] else [(''content-type'', ''application/json'')]),
     rq_body = map_option (jt_stringify J) body\<rparr>"

definition client_call :: "client_io \<Rightarrow> string \<Rightarrow> string \<Rightarrow> string \<Rightarrow> json option \<Rightarrow> json option client_op" where
  "client_call io meth path token body =
     eff_bind (eff_read cl_baseUrl) (\<lambda>base.
     eff_bind (eff_sum (ci_fetch io (client_request (ci_json io) base meth path token body))) (\<lambda>res.
     eff_bind (parsed_body (ci_json io) (rs_text res)) (\<lambda>parsed.
     eff_bind (eff_require (response_ok res)
       (OtherError (failure_message (ci_json io) meth path (rs_status res) parsed))) (\<lambda>_.
     eff_return parsed))))"

section \<open>Tokens\<close>

definition agent_claims :: "string \<Rightarrow> string \<Rightarrow> json option \<Rightarrow> int \<Rightarrow> string \<Rightarrow> string list option \<Rightarrow> json_object" where
  "agent_claims iss sub aud now jti capabilities =
     [(''iss'', JStr iss), (''sub'', JStr sub)] @ member ''aud'' aud @
     [(''iat'', jint now), (''exp'', jint (now + JWT_TTL_SECONDS)), (''jti'', JStr jti)] @
     member ''capabilities'' (map_option jstrs capabilities)"

definition unknown_agent :: "string \<Rightarrow> fault" where
  "unknown_agent agentId =
     OtherError (''unknown agent \"'' @ agentId @ ''\" '' @ em_dash @ '' connect it through this client first'')"

definition signJwt :: "client_io \<Rightarrow> string \<Rightarrow> string option \<Rightarrow> string list option \<Rightarrow> string client_op" where
  "signJwt io agentId aud capabilities =
     eff_bind (eff_read (\<lambda>c. cl_agentKeys c agentId)) (\<lambda>found.
     eff_bind (eff_some found (unknown_agent agentId)) (\<lambda>key.
     eff_bind (case aud of Some a \<Rightarrow> eff_return (Some (JStr a)) | None \<Rightarrow> discoverIssuer io) (\<lambda>audience.
     eff_bind (eff_read cl_hostThumbprint) (\<lambda>iss.
     eff_sum (jwt_sign (ci_crypto io) (ci_json io) AgentJwt
       (JObj (agent_claims iss agentId audience (ci_now io div 1000) (ci_jti io) capabilities)) key)))))"

definition host_claims :: "string \<Rightarrow> json option \<Rightarrow> int \<Rightarrow> string \<Rightarrow> json_object" where
  "host_claims iss aud now jti =
     [(''iss'', JStr iss)] @ member ''aud'' aud @
     [(''iat'', jint now), (''exp'', jint (now + JWT_TTL_SECONDS)), (''jti'', JStr jti)]"

definition hostJwt :: "client_io \<Rightarrow> string client_op" where
  "hostJwt io =
     eff_bind (discoverIssuer io) (\<lambda>audience.
     eff_bind (eff_read cl_hostThumbprint) (\<lambda>iss.
     eff_bind (eff_read cl_hostKey) (\<lambda>key.
     eff_sum (jwt_sign (ci_crypto io) (ci_json io) HostJwt
       (JObj (host_claims iss audience (ci_now io div 1000) (ci_jti io))) key))))"

section \<open>Operations\<close>

definition connectAgent :: "client_io \<Rightarrow> string list \<Rightarrow> (json option \<times> json option) client_op" where
  "connectAgent io capabilities =
     eff_bind (hostJwt io) (\<lambda>token.
     eff_bind (client_call io ''POST'' ''/agent/register'' token
       (Some (JObj [(''agent_public_key'', JObj (fst (ci_pair io))), (''mode'', JStr ''delegated''),
                    (''capabilities'', jstrs capabilities)]))) (\<lambda>body.
     eff_bind (body_member body ''agent_id'') (\<lambda>agentId.
     eff_bind (eff_write (\<lambda>c. case agentId of
         Some (JStr a) \<Rightarrow> c\<lparr>cl_agentKeys := (cl_agentKeys c)(a \<mapsto> snd (ci_pair io))\<rparr> | _ \<Rightarrow> c)) (\<lambda>_.
     eff_bind (body_member body ''status'') (\<lambda>status.
     eff_return (agentId, status))))))"

definition sdk_requestCapability :: "client_io \<Rightarrow> string \<Rightarrow> string \<Rightarrow> json_object \<Rightarrow> json option client_op" where
  "sdk_requestCapability io agentId capability constraints =
     eff_bind (signJwt io agentId None None) (\<lambda>token.
     client_call io ''POST'' ''/agent/request-capability'' token
       (Some (JObj [(''capabilities'', JArr [JObj [(''name'', JStr capability), (''constraints'', JObj constraints)]])])))"

definition disconnectAgent :: "client_io \<Rightarrow> string \<Rightarrow> unit client_op" where
  "disconnectAgent io agentId =
     eff_bind (hostJwt io) (\<lambda>token.
     eff_bind (client_call io ''POST'' ''/agent/revoke'' token (Some (JObj [(''agent_id'', JStr agentId)]))) (\<lambda>_.
     eff_write (\<lambda>c. c\<lparr>cl_agentKeys := (cl_agentKeys c)(agentId := None)\<rparr>)))"

definition sdk_reactivateAgent :: "client_io \<Rightarrow> string \<Rightarrow> unit client_op" where
  "sdk_reactivateAgent io agentId =
     eff_bind (hostJwt io) (\<lambda>token.
     eff_bind (client_call io ''POST'' ''/agent/reactivate'' token (Some (JObj [(''agent_id'', JStr agentId)]))) (\<lambda>_.
     eff_return ()))"

definition agentStatus :: "client_io \<Rightarrow> string \<Rightarrow> json option client_op" where
  "agentStatus io agentId =
     eff_bind (signJwt io agentId None None) (\<lambda>token. client_call io ''GET'' ''/agent/status'' token None)"

definition executeCapability :: "client_io \<Rightarrow> string \<Rightarrow> string \<Rightarrow> json_object \<Rightarrow> json option client_op" where
  "executeCapability io agentId capability args =
     eff_bind (signJwt io agentId None None) (\<lambda>token.
     eff_bind (client_call io ''POST'' ''/capability/execute'' token
       (Some (JObj [(''capability'', JStr capability), (''args'', JObj args)]))) (\<lambda>body.
     body_member body ''data''))"

definition listCapabilities :: "client_io \<Rightarrow> string \<Rightarrow> json option client_op" where
  "listCapabilities io agentId =
     eff_bind (signJwt io agentId None None) (\<lambda>token.
     eff_bind (client_call io ''GET'' ''/capability/list'' token None) (\<lambda>body.
     body_member body ''capabilities''))"

definition describeCapability :: "client_io \<Rightarrow> string \<Rightarrow> string \<Rightarrow> json option client_op" where
  "describeCapability io agentId nm =
     eff_bind (signJwt io agentId None None) (\<lambda>token.
     client_call io ''GET'' (''/capability/describe?name='' @ encodeURIComponent nm) token None)"

definition sdk_getToolSchema :: "client_io \<Rightarrow> string \<Rightarrow> string \<Rightarrow> json option client_op" where
  "sdk_getToolSchema io agentId toolName =
     eff_bind (signJwt io agentId None None) (\<lambda>token.
     client_call io ''GET'' (''/tools/'' @ encodeURIComponent toolName) token None)"

end
