(* ===== verification/Client_Laws.thy ===== *)
theory Client_Laws
  imports Client_Sdk Gateway_Access
begin

text \<open>
  The two ends together: what a client has to send for the agent pipeline to let it through, and that the
  tokens the SDK mints are such when it uses the issuer of the pipeline as the audience.
\<close>

section \<open>Completeness of the agent pipeline\<close>

lemma claim_JObj [simp]: "claim (JObj kvs) k = field_of kvs k"
  by (simp add: claim_def)

text \<open>A token and the tables it is presented to, as the pipeline accepts them.\<close>

definition acceptable ::
  "pipeline_deps \<Rightarrow> request_clock \<Rightarrow> db \<Rightarrow> string \<Rightarrow> decoded_jwt \<Rightarrow> json_object \<Rightarrow> agent_row \<Rightarrow> bool" where
  "acceptable P ck d token dj cs r \<longleftrightarrow>
     decodeJwt (pd_json P) token = Inr dj \<and> dj_typ dj = Some (JStr ''agent+jwt'') \<and> dj_claims dj = JObj cs \<and>
     (\<exists>v. field_of cs ''sub'' = Some v \<and> json_truthy v \<and>
        k_to_uuid (pd_codec P) (jt_param (pd_json P) v) = Some (ar_id r)) \<and>
     (\<exists>key. ar_public_key_jwk r = Some key \<and> (\<exists>u. jwt_verify (pd_crypto P) (pd_json P) token key = Inr u)) \<and>
     usable_agent d (ck_state ck) r \<and>
     (\<exists>ex jti e. timely_claims P (ck_claims ck) (JObj cs) ex \<and> field_of cs ''jti'' = Some jti \<and> json_truthy jti \<and>
        date_of_seconds (ex + of_int (pd_clockSkewSeconds P)) = Inr e \<and>
        fst (jti_put_run (jt_param (pd_json P) jti) e d))"

definition permitted :: "db \<Rightarrow> json_object \<Rightarrow> uuid \<Rightarrow> string option \<Rightarrow> json_object \<Rightarrow> grant_row \<Rightarrow> bool" where
  "permitted d cs i capability args g \<longleftrightarrow>
     truthy capability \<and> (\<exists>gs. active_grants i (the capability) d = g # gs) \<and> validate (gr_constraints g) args = Inr [] \<and>
     caps_permit (field_of cs ''capabilities'') (the capability) = Inr True"

lemma typCheck_accepts:
  "decodeJwt (pd_json P) (ax_token ctx) = Inr dj \<Longrightarrow> dj_typ dj = Some (JStr (jwt_typ_wire (ax_expectedTyp ctx))) \<Longrightarrow>
    typCheck P ctx s = (Inr (ctx\<lparr>ax_decodedTyp := Some (ax_expectedTyp ctx)\<rparr>), s)"
  by (simp add: typCheck_def eff_simps)

lemma signatureVerify_accepts:
  assumes "decodeJwt (pd_json P) (ax_token ctx) = Inr dj" and "dj_claims dj = JObj cs" and "ax_expectedTyp ctx = AgentJwt"
    and "field_of cs ''sub'' = Some v" and "json_truthy v" and "k_to_uuid (pd_codec P) (jt_param (pd_json P) v) = Some i"
    and "row_find ar_id i (db_agents (as_db s)) = Some r" and "ar_public_key_jwk r = Some key"
    and "jwt_verify (pd_crypto P) (pd_json P) (ax_token ctx) key = Inr u"
    and "row_find hr_id (ar_host_id r) (db_hosts (as_db s)) = Some h"
  shows "signatureVerify P ck ctx s =
    (Inr (ctx\<lparr>ax_agent := Some (mapAgentRow r), ax_host := Some (mapHostRow h), ax_claims := Some (JObj cs)\<rparr>), s)"
  using assms
  by (simp add: signatureVerify_def signatureVerify_agent_def principal_claim_def member_truthy_def eff_bind_def
      eff_sum_def eff_return_def eff_some_def on_db_eval agents_findBySubject_eval find_ops_eval resolveKey_def verifyWith_def)

lemma claimValidation_accepts:
  assumes "ax_claims ctx = Some (JObj cs)" and "timely_claims P now (JObj cs) ex"
    and "field_of cs ''jti'' = Some jti" and "json_truthy jti"
    and "date_of_seconds (ex + of_int (pd_clockSkewSeconds P)) = Inr e"
    and "jti_put_run (jt_param (pd_json P) jti) e (as_db s) = (True, d)"
  shows "claimValidation P now ctx s = (Inr ctx, s\<lparr>as_db := d\<rparr>)"
  using assms
  by (auto simp: claimValidation_def Let_def timely_claims_def member_truthy_def eff_bind_def eff_sum_def eff_require_def
      eff_return_def on_db_eval jti_put_run_def split: option.splits)

lemma stateCheck_accepts:
  assumes "ax_host ctx = Some (mapHostRow h)" and "hr_status h = HostActive" and "ax_agent ctx = Some (mapAgentRow r)"
    and "usable_agent d now r"
  shows "stateCheck now ctx s = (Inr ctx, s)"
  using assms by (simp add: stateCheck_def usable_agent_def eff_return_def)

lemma capabilityConstraint_accepts:
  assumes "permitted (as_db s) cs (ar_id r) (ax_capability ctx) (nullish (ax_args ctx) []) g"
    and "ax_agent ctx = Some (mapAgentRow r)" and "ax_claims ctx = Some (JObj cs)"
  shows "capabilityConstraint ctx s = (Inr (ctx\<lparr>ax_grant := Some (mapGrantRow g)\<rparr>), s)"
  using assms
  by (auto simp: permitted_def capabilityConstraint_def Let_def eff_bind_def eff_sum_def eff_require_def eff_some_def
      eff_return_def on_db_eval find_ops_eval)

lemma agent_pipeline_accepts:
  assumes wf: "db_wf (as_db s)" and ok: "acceptable P ck (as_db s) token dj cs r"
    and cap: "permitted (as_db s) cs (ar_id r) capability (nullish args []) g"
  shows "\<exists>ctx s'. run_stages (buildAgentPipeline P ck) (start_context token AgentJwt capability args) s = (Inr ctx, s') \<and>
    ax_agent ctx = Some (mapAgentRow r) \<and> ax_grant ctx = Some (mapGrantRow g)"
proof -
  from ok obtain v key u ex jti e where dec: "decodeJwt (pd_json P) token = Inr dj"
    and ty: "dj_typ dj = Some (JStr ''agent+jwt'')" and cs: "dj_claims dj = JObj cs"
    and v: "field_of cs ''sub'' = Some v" "json_truthy v" "k_to_uuid (pd_codec P) (jt_param (pd_json P) v) = Some (ar_id r)"
    and key: "ar_public_key_jwk r = Some key" "jwt_verify (pd_crypto P) (pd_json P) token key = Inr u"
    and usable: "usable_agent (as_db s) (ck_state ck) r"
    and cl: "timely_claims P (ck_claims ck) (JObj cs) ex" "field_of cs ''jti'' = Some jti" "json_truthy jti"
      "date_of_seconds (ex + of_int (pd_clockSkewSeconds P)) = Inr e"
      "fst (jti_put_run (jt_param (pd_json P) jti) e (as_db s))"
    unfolding acceptable_def by blast
  obtain d where d: "jti_put_run (jt_param (pd_json P) jti) e (as_db s) = (True, d)"
    using cl(5) by (metis eq_fst_iff)
  have same: "db_grants d = db_grants (as_db s)" "db_now d = db_now (as_db s)"
    using jti_put_frame [of "jt_param (pd_json P) jti" e "as_db s"] by (simp_all add: d)
  from usable obtain h where h: "h \<in> set (db_hosts (as_db s))" "hr_id h = ar_host_id r" "hr_status h = HostActive"
    unfolding usable_agent_def by blast
  have keys: "distinct (map ar_id (db_agents (as_db s)))" "distinct (map hr_id (db_hosts (as_db s)))"
    using wf by (simp_all add: db_wf_defs)
  have agent: "row_find ar_id (ar_id r) (db_agents (as_db s)) = Some r"
    using row_find_distinct [OF keys(1)] usable by (simp add: usable_agent_def)
  have host: "row_find hr_id (ar_host_id r) (db_hosts (as_db s)) = Some h"
    using row_find_distinct [OF keys(2) h(1)] h(2) by simp
  let ?c0 = "start_context token AgentJwt capability args"
  let ?c1 = "?c0\<lparr>ax_decodedTyp := Some AgentJwt\<rparr>"
  let ?c2 = "?c1\<lparr>ax_agent := Some (mapAgentRow r), ax_host := Some (mapHostRow h), ax_claims := Some (JObj cs)\<rparr>"
  have 1: "typCheck P ?c0 s = (Inr ?c1, s)"
    using typCheck_accepts [of P ?c0 dj s] dec ty by (simp add: start_context_def)
  have 2: "signatureVerify P ck ?c1 s = (Inr ?c2, s)"
    by (rule signatureVerify_accepts [OF _ cs _ v agent key(1) _ host]) (simp_all add: start_context_def dec key(2))
  have 3: "claimValidation P (ck_claims ck) ?c2 s = (Inr ?c2, s\<lparr>as_db := d\<rparr>)"
    by (rule claimValidation_accepts [OF _ cl(1,2,3,4) d]) simp
  have 4: "stateCheck (ck_state ck) ?c2 (s\<lparr>as_db := d\<rparr>) = (Inr ?c2, s\<lparr>as_db := d\<rparr>)"
    by (rule stateCheck_accepts [OF _ h(3) _ usable]) simp_all
  have p: "permitted (as_db (s\<lparr>as_db := d\<rparr>)) cs (ar_id r) (ax_capability ?c2) (nullish (ax_args ?c2) []) g"
    using cap by (simp add: permitted_def active_grants_def same start_context_def)
  have 5: "capabilityConstraint ?c2 (s\<lparr>as_db := d\<rparr>) = (Inr (?c2\<lparr>ax_grant := Some (mapGrantRow g)\<rparr>), s\<lparr>as_db := d\<rparr>)"
    by (rule capabilityConstraint_accepts [OF p]) simp_all
  have "run_stages (buildAgentPipeline P ck) ?c0 s = (Inr (?c2\<lparr>ax_grant := Some (mapGrantRow g)\<rparr>), s\<lparr>as_db := d\<rparr>)"
    by (simp add: buildAgentPipeline_def eff_bind_def 1 2 3 4 5 eff_return_def)
  then show ?thesis by auto
qed

section \<open>Tokens of the SDK\<close>

lemma discoverIssuer_pass: "discoverIssuer io c = (Inr v, c') \<Longrightarrow> v = cl_issuer c' \<and> cl_agentKeys c' = cl_agentKeys c \<and>
    cl_hostThumbprint c' = cl_hostThumbprint c"
  by (auto simp: discoverIssuer_def eff_bind_Inr_iff eff_defs eff_require_def eff_some_def eff_sum_def
      split: if_splits option.splits sum.splits prod.splits)

text \<open>The agent the client holds the key of, in the tables of the gateway.\<close>

definition client_of :: "pipeline_deps \<Rightarrow> client_io \<Rightarrow> conduit_client \<Rightarrow> string \<Rightarrow> agent_row \<Rightarrow> bool" where
  "client_of P io c agentId r \<longleftrightarrow>
     ci_crypto io = pd_crypto P \<and> ci_json io = pd_json P \<and>
     agentId \<noteq> [] \<and> k_to_uuid (pd_codec P) agentId = Some (ar_id r) \<and>
     (\<exists>pub priv. cl_agentKeys c agentId = Some priv \<and> ar_public_key_jwk r = Some pub \<and> key_pair_ok (pd_crypto P) pub priv)"

text \<open>Client and gateway agree on the time up to the skew, within the minute a token lives.\<close>

definition on_time :: "pipeline_deps \<Rightarrow> client_io \<Rightarrow> request_clock \<Rightarrow> bool" where
  "on_time P io ck \<longleftrightarrow>
     ci_now io div 1000 \<le> ck_claims ck div 1000 + pd_clockSkewSeconds P \<and>
     ck_claims ck div 1000 \<le> ci_now io div 1000 + JWT_TTL_SECONDS + pd_clockSkewSeconds P \<and>
     \<bar>ci_now io div 1000 + JWT_TTL_SECONDS + pd_clockSkewSeconds P\<bar> * 1000 \<le> 8640000000000000"

text \<open>The JSON of this token survives printing and parsing, and text is sent to the database as it is.\<close>

definition text_kept :: "pipeline_deps \<Rightarrow> json_object \<Rightarrow> bool" where
  "text_kept P cs \<longleftrightarrow>
     json_text_ok (pd_json P) (jwt_header AgentJwt) \<and> json_text_ok (pd_json P) (JObj cs) \<and>
     (\<forall>t. jt_param (pd_json P) (JStr t) = t)"

lemma agent_claims_fields:
  "field_of (agent_claims iss sub (Some a) now jti caps) ''sub'' = Some (JStr sub)"
  "field_of (agent_claims iss sub (Some a) now jti caps) ''aud'' = Some a"
  "field_of (agent_claims iss sub (Some a) now jti caps) ''iat'' = Some (jint now)"
  "field_of (agent_claims iss sub (Some a) now jti caps) ''exp'' = Some (jint (now + JWT_TTL_SECONDS))"
  "field_of (agent_claims iss sub (Some a) now jti caps) ''jti'' = Some (JStr jti)"
  "field_of (agent_claims iss sub (Some a) now jti caps) ''capabilities'' = map_option jstrs caps"
  by (cases caps; simp add: agent_claims_def member_def field_of_def)+

lemma fresh_jti: "row_find jr_jti j (db_jti d) = None \<Longrightarrow> fst (jti_put_run j e d)"
  by (simp add: jti_put_run_def jti_put_def)

lemma date_in_range:
  assumes "\<bar>n\<bar> * 1000 \<le> 8640000000000000"
  shows "\<exists>e. date_of_seconds (of_int n) = Inr e"
proof -
  have "\<bar>of_int n * 1000 :: rat\<bar> = of_int (\<bar>n\<bar> * 1000)" by (simp add: abs_mult)
  also have "\<dots> \<le> of_int 8640000000000000" using assms by (simp only: of_int_le_iff)
  finally show ?thesis by (simp add: date_of_seconds_def Let_def)
qed

lemma signed_token_acceptable:
  assumes sign: "signJwt io agentId None caps c = (Inr token, c')" and iss: "cl_issuer c' = Some (JStr (pd_issuer P))"
    and who: "client_of P io c agentId r" and usable: "usable_agent d (ck_state ck) r" and time: "on_time P io ck"
    and jti: "ci_jti io \<noteq> []" "row_find jr_jti (ci_jti io) (db_jti d) = None"
    and cs: "cs = agent_claims (cl_hostThumbprint c) agentId (cl_issuer c') (ci_now io div 1000) (ci_jti io) caps"
    and kept: "text_kept P cs"
  shows "\<exists>dj. acceptable P ck d token dj cs r"
proof -
  from who obtain pub priv where k: "cl_agentKeys c agentId = Some priv" "ar_public_key_jwk r = Some pub"
      "key_pair_ok (pd_crypto P) pub priv" and io: "ci_crypto io = pd_crypto P" "ci_json io = pd_json P"
    and a: "agentId \<noteq> []" "k_to_uuid (pd_codec P) agentId = Some (ar_id r)"
    unfolding client_of_def by blast
  from sign k(1) have "jwt_sign (pd_crypto P) (pd_json P) AgentJwt (JObj cs) priv = Inr token"
    by (auto simp: signJwt_def eff_bind_Inr_iff eff_read_def eff_some_def eff_return_def eff_sum_def cs io
        dest!: discoverIssuer_pass)
  from jwt_sign_verify_raw [OF _ _ k(3) this] kept obtain dj where
    v: "jwt_verify (pd_crypto P) (pd_json P) token pub = Inr dj" and ty: "dj_typ dj = Some (JStr ''agent+jwt'')"
    and cl: "dj_claims dj = JObj cs" by (auto simp: text_kept_def)
  from v have dec: "decodeJwt (pd_json P) token = Inr dj"
    by (auto simp: jwt_verify_def split: sum.splits option.splits if_splits)
  let ?ex = "of_int (ci_now io div 1000 + JWT_TTL_SECONDS) :: rat"
  have "timely_claims P (ck_claims ck) (JObj cs) ?ex"
    using time by (simp add: timely_claims_def claim_number_def cs iss agent_claims_fields jint_def on_time_def
        flip: of_int_add)
  moreover obtain e where "date_of_seconds (?ex + of_int (pd_clockSkewSeconds P)) = Inr e"
    using date_in_range [of "ci_now io div 1000 + JWT_TTL_SECONDS + pd_clockSkewSeconds P"] time
    by (auto simp: on_time_def)
  moreover have "field_of cs ''sub'' = Some (JStr agentId)" "field_of cs ''jti'' = Some (JStr (ci_jti io))"
    by (simp_all add: cs iss agent_claims_fields)
  ultimately show ?thesis
    using dec ty cl k(2) v usable a jti kept fresh_jti [of "ci_jti io" d]
    unfolding acceptable_def text_kept_def by (metis json_truthy.simps(4))
qed

lemma bearerToken_sent: "bearerToken (Some (BEARER @ token)) = Some token"
  by (simp add: bearerToken_def BEARER_def starts_with_def)

text \<open>The token of an execution, once the audience the client uses is the issuer of the pipeline.\<close>

lemma addressed_token_is_accepted:
  assumes "db_wf d" and "signJwt io agentId None None c = (Inr token, c')" and "cl_issuer c' = Some (JStr (pd_issuer P))"
    and "client_of P io c agentId r" and "usable_agent d (ck_state ck) r" and "on_time P io ck"
    and "ci_jti io \<noteq> []" and "row_find jr_jti (ci_jti io) (db_jti d) = None"
    and "text_kept P (agent_claims (cl_hostThumbprint c) agentId (cl_issuer c') (ci_now io div 1000) (ci_jti io) None)"
    and "capability \<noteq> []" and "active_grants (ar_id r) capability d = g # gs" and "validate (gr_constraints g) args = Inr []"
  shows "\<exists>ctx s'. run_stages (buildAgentPipeline P ck) (start_context token AgentJwt (Some capability) (Some args))
        \<lparr>as_db = d, as_jwks = jwks\<rparr> = (Inr ctx, s') \<and>
      ax_agent ctx = Some (mapAgentRow r) \<and> ax_grant ctx = Some (mapGrantRow g)"
proof -
  let ?cs = "agent_claims (cl_hostThumbprint c) agentId (cl_issuer c') (ci_now io div 1000) (ci_jti io) None"
  obtain dj where "acceptable P ck d token dj ?cs r"
    using signed_token_acceptable [OF assms(2-8) refl assms(9)] by blast
  moreover have "permitted d ?cs (ar_id r) (Some capability) (nullish (Some args) []) g"
    using assms(10-12) by (simp add: permitted_def truthy_def assms(3) agent_claims_fields caps_permit_def member_truthy_def
        nullish_def)
  ultimately show ?thesis
    using agent_pipeline_accepts [of "\<lparr>as_db = d, as_jwks = jwks\<rparr>" P ck token dj ?cs r "Some capability" "Some args" g]
      assms(1) by simp
qed

text \<open>What a client sends that asks for the discovery document, and the answer it can read.\<close>

definition serves_document :: "client_io \<Rightarrow> conduit_client \<Rightarrow> json \<Rightarrow> bool" where
  "serves_document io c doc \<longleftrightarrow>
     (\<exists>res. ci_fetch io \<lparr>rq_url = cl_baseUrl c @ ''/.well-known/agent-configuration'', rq_params = [], rq_method = ''GET'',
          rq_headers = [], rq_body = None\<rparr> = Inr res \<and> response_ok res \<and> jt_parse (ci_json io) (rs_text res) = Some doc)"

lemma signJwt_issuer:
  assumes "signJwt io agentId None caps c = (Inr token, c')"
    and "cl_issuer c = None \<and> serves_document io c doc \<or> cl_issuer c = claim doc ''issuer''"
    and "claim doc ''issuer'' = Some (JStr u)" and "u \<noteq> []"
  shows "cl_issuer c' = Some (JStr u)"
proof -
  from assms(1) have run: "\<exists>v. discoverIssuer io c = (Inr v, c')"
    by (auto simp: signJwt_def eff_bind_Inr_iff eff_read_def eff_some_def eff_return_def eff_throw_def eff_sum_def
        split: option.splits)
  have "member_of doc ''issuer'' = Inr (Some (JStr u))" using assms(3) by (auto simp: claim_def split: sum.splits)
  with run assms(2-4) show ?thesis
    by (auto simp: discoverIssuer_def serves_document_def eff_bind_Inr_iff eff_defs eff_sum_def member_truthy_def
        split: if_splits)
qed

text \<open>A closed call: the client holds the key of agent 7, who has a standing grant, and still has to ask for the issuer.\<close>

definition sample_sdk_claims :: json_object where
  "sample_sdk_claims = agent_claims ''host'' ''seventh'' (Some (JStr ''https://gw'')) 50 ''j1'' None"

definition sample_sdk_json :: json_text where
  "sample_sdk_json = sample_json_text
    \<lparr>jt_parse := (\<lambda>s. Some (if s = ''h'' then jwt_header AgentJwt
       else if s = ''doc'' then buildAgentConfiguration ''https://gw'' else JObj sample_sdk_claims)),
     jt_stringify := (\<lambda>j. if j = jwt_header AgentJwt then ''h'' else ''p'')\<rparr>"

definition sample_sdk_crypto :: node_crypto where
  "sample_sdk_crypto =
    \<lparr>nc_sha256 = take 32, nc_ed_verify = (\<lambda>k m s. Some (s = jwk_x k)), nc_ed_sign = (\<lambda>p m. Some ''k1'')\<rparr>"

definition sample_client :: conduit_client where
  "sample_client =
    \<lparr>cl_baseUrl = ''https://gw'', cl_hostKey = [], cl_hostThumbprint = ''host'',
     cl_agentKeys = [''seventh'' \<mapsto> []], cl_issuer = None\<rparr>"

definition sample_client_io :: client_io where
  "sample_client_io =
    \<lparr>ci_crypto = sample_sdk_crypto, ci_json = sample_sdk_json, ci_fetch = (\<lambda>r. Inr \<lparr>rs_status = 200, rs_text = ''doc''\<rparr>),
     ci_now = 50000, ci_jti = ''j1'', ci_pair = ([], [])\<rparr>"

abbreviation sample_sdk_db :: db where
  "sample_sdk_db \<equiv> snd (grants_upsert (sample_new_grant 7 None) (sample_db [sample_agent_row 7 2000]))"

lemma sample_sdk_db_wf: "db_wf sample_sdk_db"
proof -
  have "db_wf (sample_db [sample_agent_row 7 2000])" by (rule sample_db_wf) (auto simp: sample_agent_row_def refs_def)
  moreover have "evolves (keeps db_wf) (grants_upsert (sample_new_grant 7 None))" by (intro wf_intros)
  ultimately show ?thesis by (simp add: evolves_def keeps_def)
qed

end
