(* ===== verification/Operator_Keys.thy ===== *)
theory Operator_Keys
  imports Client_Sdk
begin

text \<open>
  What the dashboard computes itself (\<^verbatim>\<open>apps/dashboard/src/lib\<close>): the operator's key and its host tokens
  (\<^verbatim>\<open>agentCrypto.ts\<close>), made with the browser's own base64 and signing functions, and the risk badges
  (\<^verbatim>\<open>risk.ts\<close>).  Both have a counterpart in the gateway, and agree with it.
\<close>

section \<open>Tokens made in the browser\<close>

text \<open>\<open>btoa\<close> and three replacements.\<close>

definition url_safe :: "char \<Rightarrow> char" where
  "url_safe c = (if c = CHR ''+'' then CHR ''-'' else if c = CHR ''/'' then CHR ''_'' else c)"

definition bytesToB64url :: "string \<Rightarrow> string" where
  "bytesToB64url s = rev (dropWhile (\<lambda>c. c = CHR ''='') (rev (map url_safe (base64 s))))"

definition jsonToB64url :: "json_text \<Rightarrow> json \<Rightarrow> string" where
  "jsonToB64url J v = bytesToB64url (jt_stringify J v)"

definition browser_thumbprint :: "node_crypto \<Rightarrow> jwk \<Rightarrow> string" where
  "browser_thumbprint c k =
     bytesToB64url (nc_sha256 c
       (''{\"crv\":\"'' @ jwk_crv k @ ''\",\"kty\":\"'' @ jwk_kty k @ ''\",\"x\":\"'' @ jwk_x k @ ''\"}''))"

definition key_members :: "json \<Rightarrow> json \<Rightarrow> json_object" where
  "key_members x d = [(''kty'', JStr ''OKP''), (''crv'', JStr ''Ed25519''), (''x'', x), (''d'', d)]"

definition host_key_error :: fault where
  "host_key_error = OtherError (''Operator host key must be the Ed25519 PRIVATE JWK (with a \"d\" field). '' @
     ''Paste the \"hostPrivateKeyJwk\" object from bootstrap:host '' @ em_dash @
     '' not the whole output and not the public key.'')"

text \<open>The pasted text is the key or an object that holds it.\<close>

definition parseHostKey :: "json_text \<Rightarrow> string \<Rightarrow> fault + json_object" where
  "parseHostKey J raw =
     (case jt_parse J raw of
        None \<Rightarrow> Inl (OtherError ''Operator host key is not valid JSON.'')
      | Some parsed \<Rightarrow>
          let candidate = (case parsed of
                JObj kvs \<Rightarrow> (case field_of kvs ''hostPrivateKeyJwk'' of Some inner \<Rightarrow> inner | None \<Rightarrow> parsed)
              | _ \<Rightarrow> parsed) in
          (case candidate of
             JObj k \<Rightarrow>
               if field_of k ''kty'' = Some (JStr ''OKP'') \<and> field_of k ''crv'' = Some (JStr ''Ed25519'') \<and>
                  member_truthy (field_of k ''x'') \<and> member_truthy (field_of k ''d'')
               then Inr (key_members (the (field_of k ''x'')) (the (field_of k ''d'')))
               else Inl host_key_error
           | _ \<Rightarrow> Inl host_key_error))"

definition signHostJwt :: "node_crypto \<Rightarrow> json_text \<Rightarrow> json_object \<Rightarrow> json option \<Rightarrow> millis \<Rightarrow> string \<Rightarrow> fault + string" where
  "signHostJwt c J hostKey aud nowMs jti =
     (let x = key_text hostKey ''x'';
          iss = browser_thumbprint c
            \<lparr>jwk_kty = ''OKP'', jwk_crv = ''Ed25519'', jwk_x = x, jwk_kid = None, jwk_use = None, jwk_alg = None\<rparr>;
          now = nowMs div 1000;
          header = JObj [(''alg'', JStr ''EdDSA''), (''typ'', JStr ''host+jwt'')];
          payload = JObj ([(''iss'', JStr iss)] @ member ''aud'' aud @
            [(''iat'', jint now), (''exp'', jint (now + 60)), (''jti'', JStr jti)]);
          signingInput = jsonToB64url J header @ ''.'' @ jsonToB64url J payload
      in case nc_ed_sign c (key_members (JStr x) (JStr (key_text hostKey ''d''))) signingInput of
           None \<Rightarrow> Inl (OtherError ''DataError'')
         | Some sig \<Rightarrow> Inr (signingInput @ ''.'' @ bytesToB64url sig))"

section \<open>Agreement with the gateway's signer\<close>

lemma b64_char_plain:
  assumes "x < 64"
  shows "b64_char x \<noteq> CHR ''+'' \<and> b64_char x \<noteq> CHR ''/'' \<and> b64_char x \<noteq> CHR ''=''"
proof -
  have "(of_char (b64_char x) :: nat) \<notin> {43, 47, 61}" using assms
    by (auto simp: b64_char_def split: if_splits)
  then show ?thesis by auto
qed

lemma base64url_plain:
  assumes "c \<in> set (base64url s)"
  shows "c \<noteq> CHR ''+'' \<and> c \<noteq> CHR ''/'' \<and> c \<noteq> CHR ''=''"
proof -
  let ?xs = "b64_sextets (map of_char s)"
  from assms obtain x where x: "x \<in> set ?xs" and c: "c = b64_char x"
    by (auto simp: base64url_def)
  have "\<forall>x \<in> set ?xs. x < 64" by (rule b64_sextets_bound) auto
  then have "x < 64" using x by blast
  then show ?thesis unfolding c by (rule b64_char_plain)
qed

lemma drop_padding: "CHR ''='' \<notin> set t \<Longrightarrow> dropWhile (\<lambda>c. c = CHR ''='') (replicate n CHR ''='' @ rev t) = rev t"
  by (induction n; cases t rule: rev_cases) auto

lemma url_safe_pad: "url_safe CHR ''='' = CHR ''=''"
  by (simp add: url_safe_def)

lemma bytesToB64url_base64url: "bytesToB64url s = base64url s"
proof -
  have "map (url_safe \<circ> (\<lambda>c. if c = CHR ''-'' then CHR ''+'' else if c = CHR ''_'' then CHR ''/'' else c)) (base64url s)
      = base64url s"
    by (rule map_idI) (auto simp: url_safe_def dest: base64url_plain)
  moreover have "CHR ''='' \<notin> set (base64url s)" using base64url_plain by blast
  ultimately show ?thesis
    by (simp add: bytesToB64url_def base64_def Let_def url_safe_pad drop_padding)
qed

lemma browser_thumbprint_eq: "browser_thumbprint c k = jwkThumbprint c k"
  by (simp add: browser_thumbprint_def jwkThumbprint_def jwk_canonical_def bytesToB64url_base64url)

text \<open>
  The browser's host token for the address \<open>aud\<close> is the one the gateway's signer makes of the same claims
  and key.
\<close>

lemma signHostJwt_jwt_sign:
  assumes "parseHostKey J raw = Inr k" and "field_of k ''x'' = Some (JStr x)" and "field_of k ''d'' = Some (JStr d)"
  shows "map_sum (\<lambda>_. ()) id (signHostJwt c J k aud now jti) =
    map_sum (\<lambda>_. ()) id (jwt_sign c J HostJwt
      (JObj (host_claims (jwkThumbprint c (public_part k)) aud (now div 1000) jti)) k)"
proof -
  from assms have k: "k = key_members (JStr x) (JStr d)"
    by (auto simp: parseHostKey_def Let_def key_members_def field_of_def split: option.splits json.splits if_splits)
  have "key_text k ''x'' = x" "key_text k ''d'' = d" "key_text k ''kty'' = ''OKP''" "key_text k ''crv'' = ''Ed25519''"
    by (simp_all add: k key_text_def key_members_def field_of_def)
  then show ?thesis
    by (simp add: signHostJwt_def jwt_sign_def Let_def host_claims_def JWT_TTL_SECONDS_def jsonToB64url_def
        bytesToB64url_base64url browser_thumbprint_eq public_part_def k split: option.split)
qed

section \<open>Risk badges\<close>

definition ui_WRITE :: "string list" where
  "ui_WRITE = [''create'', ''send'', ''post'', ''delete'', ''update'', ''write'', ''rotate'', ''revoke'',
    ''remove'', ''put'', ''patch'', ''add'', ''merge'', ''deploy'']"

definition ui_READ :: "string list" where
  "ui_READ = [''list'', ''get'', ''search'', ''read'', ''describe'', ''fetch'', ''query'', ''status'', ''view'']"

definition grantRisk :: "string option \<Rightarrow> string \<Rightarrow> risk_level \<times> int" where
  "grantRisk operation capability =
     (let txt = nullish operation [] @ '' '' @ capability in
      if mentions ui_WRITE txt then (RiskHigh, 3) else if mentions ui_READ txt then (RiskLow, 1) else (RiskMed, 2))"

definition blastRadius :: "int list \<Rightarrow> int \<times> string" where
  "blastRadius scores =
     (let n = fold (\<lambda>b a. a + b) scores 0 in
      (n, if 8 \<le> n then ''high'' else if 3 \<le> n then ''med'' else ''low''))"

lemma grantRisk_riskLevel:
  "grantRisk operation capability = (riskLevel operation capability, riskRank (riskLevel operation capability))"
  by (simp add: grantRisk_def riskLevel_def Let_def ui_WRITE_def ui_READ_def WRITE_def READ_def)

text \<open>The badge of an agent in the dashboard is the level the gateway computes from the same grants.\<close>

lemma blastRadius_agrees:
  "blastRadius (map (\<lambda>g. snd (grantRisk (g_operation g) (g_capability g))) grants) =
    (fold (\<lambda>g s. s + riskRank (grant_risk g)) grants 0,
     blast_level (fold (\<lambda>g s. s + riskRank (grant_risk g)) grants 0))"
proof -
  have "fold (\<lambda>b a. a + b) (map (\<lambda>g. snd (grantRisk (g_operation g) (g_capability g))) grants) n =
      fold (\<lambda>g s. s + riskRank (grant_risk g)) grants n" for n
    by (induction grants arbitrary: n) (simp_all add: grantRisk_riskLevel grant_risk_def)
  then show ?thesis by (simp add: blastRadius_def blast_level_def Let_def)
qed

end
