(* ===== verification/Config_Loader.thy ===== *)
theory Config_Loader
  imports Js_Text
begin

text \<open>
  \<^verbatim>\<open>config/configLoader.ts\<close>: defaults, overlaid with the YAML file, overlaid with environment variables.
  A configuration is a JSON object, as the file may put anything in it; \<open>NaN\<close> in it is \<open>JNull\<close> (as which
  it prints).  A section that the file replaces by a list is outside the model, and so is a key
  \<^verbatim>\<open>__proto__\<close>.
\<close>

section \<open>Merging\<close>

lemma entry_size: "(k, JObj ov) \<in> set kvs \<Longrightarrow> size (JObj ov) < size (JObj kvs)"
  by (induction kvs) auto

text \<open>Objects are merged member by member; anything else of the override replaces what is there.\<close>

function deepMerge :: "json_object \<Rightarrow> json_object \<Rightarrow> json_object" where
  "deepMerge base override =
     fold (\<lambda>(k, v) out.
        put_field k
          (case v of
             JObj inner \<Rightarrow>
               (case field_of base k of
                  Some (JObj current) \<Rightarrow> JObj (deepMerge current inner)
                | _ \<Rightarrow> v)
           | _ \<Rightarrow> v) out)
       override base"
  by pat_completeness auto
termination
  by (relation "measure (\<lambda>(base, override). size (JObj override))") (auto dest: entry_size)

declare deepMerge.simps [simp del]

section \<open>Defaults\<close>

definition pg_defaults :: json_object where
  "pg_defaults =
    [(''host'', JStr ''localhost''), (''port'', jint 5432), (''database'', JStr ''conduit''), (''user'', JStr ''conduit'')]"

definition config_defaults :: json_object where
  "config_defaults =
    [(''server'', JObj
       [(''host'', JStr ''0.0.0.0''), (''port'', jint 8443), (''baseUrl'', JStr ''https://localhost:8443''),
        (''requestLimits'', JObj [(''jsonBodyBytes'', jint 1048576), (''maxHeaderBytes'', jint 16384)])]),
     (''storage'', JObj
       [(''driver'', JStr ''postgres''), (''postgres'', JObj (pg_defaults @ [(''poolSize'', jint 10)]))]),
     (''crypto'', JObj
       [(''masterKey'', JObj [(''source'', JStr ''env''), (''envVar'', JStr ''CONDUIT_MASTER_KEY'')]),
        (''signingKey'', JObj [(''source'', JStr ''env''), (''envVar'', JStr ''CONDUIT_SIGNING_KEY'')])]),
     (''security'', JObj
       [(''jwt'', JObj
          [(''agentTtlSeconds'', jint 60), (''hostTtlSeconds'', jint 300), (''clockSkewSeconds'', jint 30),
           (''jtiCacheWindowSeconds'', jint 90)]),
        (''rateLimits'', JObj
          [(''perAgentPerMinute'', jint 120), (''perHostPerMinute'', jint 300), (''perUserPerMinute'', jint 300),
           (''perIpPerMinute'', jint 600), (''unknownHostRegistrationPerHourPerIp'', jint 5)]),
        (''lifetimes'', JObj
          [(''sessionTtlSeconds'', jint 3600), (''maxLifetimeSeconds'', jint 2592000),
           (''absoluteLifetimeSeconds'', jint 7776000)]),
        (''dpop'', JObj [(''enabled'', JBool False)]), (''mtls'', JObj [(''enabled'', JBool False)])]),
     (''tls'', JObj
       [(''source'', JStr ''file''),
        (''file'', JObj [(''certPath'', JStr ''./secrets/tls/cert.pem''), (''keyPath'', JStr ''./secrets/tls/key.pem'')]),
        (''acme'', JObj
          [(''directoryUrl'', JStr ''https://acme-v02.api.letsencrypt.org/directory''), (''email'', JStr []),
           (''domains'', JArr [])]),
        (''expiryAlertDays'', jint 21)]),
     (''connectors'', JObj
       [(''enabled'', jstrs [''slack'', ''discord'', ''github'', ''gitlab'', ''jira'', ''google'', ''notion'', ''rest'', ''graphql'']),
        (''defaults'', JObj [])]),
     (''observability'', JObj
       [(''logLevel'', JStr ''info''), (''format'', JStr ''ndjson''), (''exporters'', JArr []),
        (''audit'', JObj [(''hashArgs'', JBool True)])])]"

section \<open>Loading\<close>

definition LOG_LEVELS :: "string list" where
  "LOG_LEVELS = [''debug'', ''info'', ''warn'', ''error'']"

definition type_error :: fault where
  "type_error = OtherError ''TypeError''"

text \<open>\<open>config[sec][k] = v\<close>, which throws when the section is no object, and \<open>config[sec][k]\<close>.\<close>

definition assign :: "string \<Rightarrow> string \<Rightarrow> json \<Rightarrow> json_object \<Rightarrow> fault + json_object" where
  "assign sec k v config =
     (case field_of config sec of
        Some (JObj s) \<Rightarrow> Inr (put_field sec (JObj (put_field k v s)) config)
      | _ \<Rightarrow> Inl type_error)"

definition read_setting :: "string \<Rightarrow> string \<Rightarrow> json_object \<Rightarrow> fault + json option" where
  "read_setting sec k config =
     (case field_of config sec of
        None \<Rightarrow> Inl type_error
      | Some JNull \<Rightarrow> Inl type_error
      | Some (JObj s) \<Rightarrow> Inr (field_of s k)
      | Some v \<Rightarrow> Inr None)"

definition js_numeral :: "string \<Rightarrow> json" where
  "js_numeral t = (case js_number t of None \<Rightarrow> JNull | Some q \<Rightarrow> JNum q)"

definition override_field :: "string \<Rightarrow> json option \<Rightarrow> json_object \<Rightarrow> json_object" where
  "override_field k v kvs = (case v of None \<Rightarrow> kvs | Some j \<Rightarrow> put_field k j kvs)"

definition pg_overrides :: "(string \<Rightarrow> string option) \<Rightarrow> json_object \<Rightarrow> json_object" where
  "pg_overrides env pg =
     override_field ''user'' (map_option JStr (env ''PGUSER''))
      (override_field ''database'' (map_option JStr (env ''PGDATABASE''))
        (override_field ''port'' (if truthy (env ''PGPORT'') then Some (js_numeral (the (env ''PGPORT''))) else None)
          (override_field ''host'' (map_option JStr (env ''PGHOST'')) pg)))"

definition pg_section :: "json option \<Rightarrow> json_object" where
  "pg_section v =
     (case v of None \<Rightarrow> pg_defaults | Some JNull \<Rightarrow> pg_defaults | Some (JObj p) \<Rightarrow> p | Some j \<Rightarrow> [])"

definition when_set :: "string option \<Rightarrow> (string \<Rightarrow> json_object \<Rightarrow> fault + json_object) \<Rightarrow> json_object \<Rightarrow> fault + json_object" where
  "when_set v f config = (if truthy v then f (the v) config else Inr config)"

definition then_load :: "fault + 'a \<Rightarrow> ('a \<Rightarrow> fault + 'b) \<Rightarrow> fault + 'b" where
  "then_load x f = (case x of Inl e \<Rightarrow> Inl e | Inr a \<Rightarrow> f a)"

text \<open>The value in the message of an invalid port is left out.\<close>

definition validate_config :: "json_object \<Rightarrow> fault + json_object" where
  "validate_config config =
     then_load (read_setting ''storage'' ''driver'' config) (\<lambda>driver.
     then_load (read_setting ''storage'' ''postgres'' config) (\<lambda>pg.
     if driver = Some (JStr ''postgres'') \<and> \<not> member_truthy pg
     then Inl (OtherError ''config: storage.driver is \"postgres\" but storage.postgres settings are missing'')
     else
       then_load (read_setting ''server'' ''port'' config) (\<lambda>port.
       case port of
         Some (JNum q) \<Rightarrow> if 0 < q then Inr config else Inl (OtherError ''config: invalid server.port'')
       | _ \<Rightarrow> Inl (OtherError ''config: invalid server.port''))))"

text \<open>\<open>file\<close> is the parsed YAML file, if there is one; only an object counts.\<close>

definition loadConfig :: "json option \<Rightarrow> (string \<Rightarrow> string option) \<Rightarrow> fault + json_object" where
  "loadConfig file env =
     (let config = (case file of Some (JObj f) \<Rightarrow> deepMerge config_defaults f | _ \<Rightarrow> config_defaults) in
      then_load (read_setting ''storage'' ''postgres'' config) (\<lambda>pg.
      then_load (assign ''storage'' ''postgres'' (JObj (pg_overrides env (pg_section pg))) config) (\<lambda>c1.
      then_load (when_set (env ''CONDUIT_PORT'') (\<lambda>t. assign ''server'' ''port'' (js_numeral t)) c1) (\<lambda>c2.
      then_load (when_set (env ''CONDUIT_BASE_URL'') (\<lambda>t. assign ''server'' ''baseUrl'' (JStr t)) c2) (\<lambda>c3.
      then_load (when_set (if truthy (env ''LOG_LEVEL'') \<and> the (env ''LOG_LEVEL'') \<in> set LOG_LEVELS
                           then env ''LOG_LEVEL'' else None)
                   (\<lambda>t. assign ''observability'' ''logLevel'' (JStr t)) c3)
        validate_config)))))"

section \<open>The last layer wins\<close>

definition merged :: "json option \<Rightarrow> json \<Rightarrow> json" where
  "merged current v =
     (case v of
        JObj inner \<Rightarrow> (case current of Some (JObj c) \<Rightarrow> JObj (deepMerge c inner) | _ \<Rightarrow> v)
      | _ \<Rightarrow> v)"

lemma deepMerge_field:
  "field_of (deepMerge base override) k =
     (case field_of override k of None \<Rightarrow> field_of base k | Some v \<Rightarrow> Some (merged (field_of base k) v))"
proof -
  have "field_of (fold (\<lambda>(k, v). put_field k (merged (field_of base k) v)) kvs out) k =
      (case field_of kvs k of None \<Rightarrow> field_of out k | Some v \<Rightarrow> Some (merged (field_of base k) v))" for kvs out
    by (induction kvs rule: rev_induct) (auto split: option.split)
  then show ?thesis by (subst deepMerge.simps) (simp add: merged_def)
qed

text \<open>A value by its path through nested objects.\<close>

fun value_at :: "string list \<Rightarrow> json \<Rightarrow> json option" where
  "value_at [] v = Some v"
| "value_at (k # ks) (JObj kvs) = (case field_of kvs k of None \<Rightarrow> None | Some v \<Rightarrow> value_at ks v)"
| "value_at (k # ks) v = None"

fun is_record :: "json \<Rightarrow> bool" where
  "is_record (JObj kvs) = True"
| "is_record v = False"

lemma deepMerge_override_wins:
  "value_at ks (JObj override) = Some v \<Longrightarrow> \<not> is_record v \<Longrightarrow> value_at ks (JObj (deepMerge base override)) = Some v"
proof (induction ks arbitrary: base override)
  case (Cons k ks)
  from Cons.prems(1) obtain w where w: "field_of override k = Some w" and at: "value_at ks w = Some v"
    by (auto split: option.splits)
  show ?case
  proof (cases "\<exists>inner c. w = JObj inner \<and> field_of base k = Some (JObj c)")
    case True
    then obtain inner c where "w = JObj inner" "field_of base k = Some (JObj c)" by blast
    with Cons.IH [of inner c] Cons.prems(2) at w show ?thesis by (simp add: deepMerge_field merged_def)
  next
    case False
    then have "merged (field_of base k) w = w" by (auto simp: merged_def split: json.split option.split)
    with w at show ?thesis by (simp add: deepMerge_field)
  qed
qed auto

text \<open>A path the override does not touch: it is absent there, and so is every value on the way.\<close>

fun untouched_path :: "string list \<Rightarrow> json_object \<Rightarrow> bool" where
  "untouched_path [] override = False"
| "untouched_path (k # ks) override =
     (case field_of override k of
        None \<Rightarrow> True
      | Some (JObj inner) \<Rightarrow> untouched_path ks inner
      | Some v \<Rightarrow> False)"

lemma untouched_absent: "untouched_path ks override \<Longrightarrow> value_at ks (JObj override) = None"
  by (induction ks override rule: untouched_path.induct) (auto split: option.splits json.splits)

lemma deepMerge_base_stays:
  "untouched_path ks override \<Longrightarrow> value_at ks (JObj (deepMerge base override)) = value_at ks (JObj base)"
proof (induction ks override arbitrary: base rule: untouched_path.induct)
  case (2 k ks override)
  show ?case
  proof (cases "field_of override k")
    case None
    then show ?thesis by (simp add: deepMerge_field)
  next
    case (Some w)
    with 2 obtain inner where w: "w = JObj inner" and p: "untouched_path ks inner" by (auto split: json.splits)
    show ?thesis
    proof (cases "\<exists>c. field_of base k = Some (JObj c)")
      case True
      with 2 Some w p show ?thesis by (auto simp: deepMerge_field merged_def)
    next
      case False
      have "ks \<noteq> []" using p by (cases ks) auto
      then have "value_at ks v = None" if "\<not> is_record v" for v using that by (cases ks; cases v) auto
      moreover have "merged (field_of base k) w = w" using False by (auto simp: merged_def w split: option.split json.split)
      moreover have "\<not> is_record a" if "field_of base k = Some a" for a using False that by (cases a) auto
      ultimately show ?thesis
        using Some w untouched_absent [OF p] by (cases "field_of base k") (auto simp: deepMerge_field)
    qed
  qed
qed simp

section \<open>Loaded configurations\<close>

lemma then_load_Inr: "then_load x f = Inr b \<longleftrightarrow> (\<exists>a. x = Inr a \<and> f a = Inr b)"
  by (cases x) (simp_all add: then_load_def)

lemma assign_Inr:
  "assign sec k v c = Inr d \<longleftrightarrow>
     (\<exists>s. field_of c sec = Some (JObj s) \<and> d = put_field sec (JObj (put_field k v s)) c)"
  by (auto simp: assign_def split: option.splits json.splits)

lemma when_set_Inr: "when_set v f c = Inr d \<longleftrightarrow> (if truthy v then f (the v) c = Inr d else d = c)"
  by (auto simp: when_set_def)

lemma validate_config_Inr:
  "validate_config c = Inr d \<Longrightarrow> d = c \<and> (\<exists>q. value_at [''server'', ''port''] (JObj c) = Some (JNum q) \<and> 0 < q)"
  by (auto simp: validate_config_def then_load_Inr read_setting_def split: if_splits option.splits json.splits)

lemma loadConfig_port:
  "loadConfig file env = Inr c \<Longrightarrow> \<exists>q. value_at [''server'', ''port''] (JObj c) = Some (JNum q) \<and> 0 < q"
  by (auto simp: loadConfig_def Let_def then_load_Inr dest: validate_config_Inr)

lemma assign_at:
  "assign sec k v c = Inr d \<Longrightarrow>
    value_at (s # j # js) (JObj d) = (if s = sec \<and> j = k then value_at js v else value_at (s # j # js) (JObj c))"
  by (auto simp: assign_Inr)

lemma when_set_assign_at:
  "when_set x (\<lambda>t. assign sec k (f t)) c = Inr d \<Longrightarrow>
    value_at (s # j # js) (JObj d) =
      (if truthy x \<and> s = sec \<and> j = k then value_at js (f (the x)) else value_at (s # j # js) (JObj c))"
  by (cases "truthy x") (simp_all add: when_set_Inr assign_at del: value_at.simps)

lemma loadConfig_steps:
  assumes "loadConfig file env = Inr c"
  obtains pg c0 c1 c2 c3 level where "assign ''storage'' ''postgres'' (JObj (pg_overrides env pg)) c0 = Inr c1"
    and "when_set (env ''CONDUIT_PORT'') (\<lambda>t. assign ''server'' ''port'' (js_numeral t)) c1 = Inr c2"
    and "when_set (env ''CONDUIT_BASE_URL'') (\<lambda>t. assign ''server'' ''baseUrl'' (JStr t)) c2 = Inr c3"
    and "when_set level (\<lambda>t. assign ''observability'' ''logLevel'' (JStr t)) c3 = Inr c"
proof -
  from assms obtain pg c0 c1 c2 c3 level d where
    "assign ''storage'' ''postgres'' (JObj (pg_overrides env (pg_section pg))) c0 = Inr c1"
    "when_set (env ''CONDUIT_PORT'') (\<lambda>t. assign ''server'' ''port'' (js_numeral t)) c1 = Inr c2"
    "when_set (env ''CONDUIT_BASE_URL'') (\<lambda>t. assign ''server'' ''baseUrl'' (JStr t)) c2 = Inr c3"
    "when_set level (\<lambda>t. assign ''observability'' ''logLevel'' (JStr t)) c3 = Inr d" "validate_config d = Inr c"
    unfolding loadConfig_def Let_def then_load_Inr by blast
  with validate_config_Inr [of d c] that show ?thesis by simp
qed

lemma loadConfig_env:
  assumes "loadConfig file env = Inr c"
  shows "env ''PGHOST'' = Some h \<Longrightarrow> value_at [''storage'', ''postgres'', ''host''] (JObj c) = Some (JStr h)"
    and "truthy (env ''CONDUIT_BASE_URL'') \<Longrightarrow>
      value_at [''server'', ''baseUrl''] (JObj c) = Some (JStr (the (env ''CONDUIT_BASE_URL'')))"
proof -
  obtain pg c0 c1 c2 c3 level where
    1: "assign ''storage'' ''postgres'' (JObj (pg_overrides env pg)) c0 = Inr c1" and
    2: "when_set (env ''CONDUIT_PORT'') (\<lambda>t. assign ''server'' ''port'' (js_numeral t)) c1 = Inr c2" and
    3: "when_set (env ''CONDUIT_BASE_URL'') (\<lambda>t. assign ''server'' ''baseUrl'' (JStr t)) c2 = Inr c3" and
    4: "when_set level (\<lambda>t. assign ''observability'' ''logLevel'' (JStr t)) c3 = Inr c"
    by (rule loadConfig_steps [OF assms])
  note at = when_set_assign_at [OF 4] when_set_assign_at [OF 3] when_set_assign_at [OF 2] assign_at [OF 1]
  have "value_at [''storage'', ''postgres'', ''host''] (JObj c) = value_at [''host''] (JObj (pg_overrides env pg))"
    by (simp add: at del: value_at.simps)
  then show "value_at [''storage'', ''postgres'', ''host''] (JObj c) = Some (JStr h)" if "env ''PGHOST'' = Some h"
    using that by (simp add: pg_overrides_def override_field_def split: option.split)
  have "value_at [''server'', ''baseUrl''] (JObj c) = value_at [] (JStr (the (env ''CONDUIT_BASE_URL'')))"
    if "truthy (env ''CONDUIT_BASE_URL'')"
    using that by (simp add: at del: value_at.simps)
  then show "value_at [''server'', ''baseUrl''] (JObj c) = Some (JStr (the (env ''CONDUIT_BASE_URL'')))"
    if "truthy (env ''CONDUIT_BASE_URL'')" using that by simp
qed

end
