(* ===== verification/Command_Line.thy ===== *)
theory Command_Line
  imports Client_Sdk
begin

text \<open>
  \<^verbatim>\<open>packages/cli/src/index.ts\<close>: the commands, each a request to the gateway, and the proxy of
  \<^verbatim>\<open>conduit run\<close> that puts an agent's identity on the requests of a wrapped program.  \<open>fail\<close> ends the
  process; output and written files are the state.  Arguments are parsed by the
  platform: options, positionals.  The text of the help, the wrapped process and its signals are left out; an
  accepted reply that is not an object is spread as an empty one.
\<close>

datatype opt_value = OptText string | OptFlag bool

record cli_ctx =
  cx_url :: string
  cx_opts :: "string \<Rightarrow> opt_value option"
  cx_positionals :: "string list"

record cli_world =
  cw_io :: client_io
  cw_readFile :: "string \<Rightarrow> string option"
  cw_env :: "string \<Rightarrow> string option"

datatype cli_effect = Printed "json option" | Wrote string json | Usage

text \<open>\<open>fail\<close> leaves the process, so no handler sees it; an exception can be caught.\<close>

datatype cli_fault = Exit string | Thrown fault

type_synonym 'a cli_op = "(cli_fault, cli_effect list, 'a) eff"

definition fail :: "string \<Rightarrow> cli_fault" where
  "fail m = Exit m"

definition thrown :: "(fault, 's, 'a) eff \<Rightarrow> (cli_fault, 's, 'a) eff" where
  "thrown m s = (case m s of (Inl e, t) \<Rightarrow> (Inl (Thrown e), t) | (Inr a, t) \<Rightarrow> (Inr a, t))"

definition out :: "json option \<Rightarrow> unit cli_op" where
  "out v = eff_write (\<lambda>es. es @ [Printed v])"

definition opt :: "cli_ctx \<Rightarrow> string \<Rightarrow> string option" where
  "opt ctx nm = (case cx_opts ctx nm of Some (OptText t) \<Rightarrow> Some t | _ \<Rightarrow> None)"

definition flag :: "cli_ctx \<Rightarrow> string \<Rightarrow> bool" where
  "flag ctx nm \<longleftrightarrow> cx_opts ctx nm = Some (OptFlag True)"

definition requireOpt :: "cli_ctx \<Rightarrow> string \<Rightarrow> string cli_op" where
  "requireOpt ctx nm =
     (if truthy (opt ctx nm) then eff_return (the (opt ctx nm)) else eff_throw (fail (''--'' @ nm @ '' is required'')))"

section \<open>Keys, tokens, requests\<close>

text \<open>The option names a file, or is the key itself.\<close>

definition loadHostKey :: "cli_world \<Rightarrow> cli_ctx \<Rightarrow> json_object cli_op" where
  "loadHostKey W ctx =
     (let source = (case opt ctx ''host-key'' of None \<Rightarrow> cw_env W ''CONDUIT_HOST_KEY'' | Some t \<Rightarrow> Some t) in
      eff_bind (eff_require (truthy source)
        (fail ''--host-key <file> (or CONDUIT_HOST_KEY) is required for this command'')) (\<lambda>_.
      eff_bind (eff_some (jt_parse (ci_json (cw_io W)) (nullish (cw_readFile W (the source)) (the source)))
        (Thrown (OtherError ''SyntaxError''))) (\<lambda>parsed.
      eff_bind (thrown (eff_sum (member_of parsed ''hostPrivateKeyJwk''))) (\<lambda>inner.
      let key = (case inner of None \<Rightarrow> parsed | Some JNull \<Rightarrow> parsed | Some k \<Rightarrow> k) in
      (case key of
         JObj k \<Rightarrow>
           if field_of k ''kty'' = Some (JStr ''OKP'') \<and> member_truthy (field_of k ''x'') \<and> member_truthy (field_of k ''d'')
           then eff_return k else eff_throw (fail ''host key must be an Ed25519 PRIVATE JWK (with \"d\")'')
       | _ \<Rightarrow> eff_throw (fail ''host key must be an Ed25519 PRIVATE JWK (with \"d\")''))))))"

definition cli_discoverIssuer :: "cli_world \<Rightarrow> string \<Rightarrow> json option cli_op" where
  "cli_discoverIssuer W url =
     eff_bind (thrown (eff_sum (ci_fetch (cw_io W)
       \<lparr>rq_url = url @ ''/.well-known/agent-configuration'', rq_params = [], rq_method = ''GET'', rq_headers = [],
        rq_body = None\<rparr>))) (\<lambda>res.
     eff_bind (eff_require (response_ok res)
       (fail (''discovery failed at '' @ url @ '': '' @ dec (rs_status res)))) (\<lambda>_.
     eff_bind (eff_some (jt_parse (ci_json (cw_io W)) (rs_text res)) (Thrown (OtherError ''SyntaxError''))) (\<lambda>cfg.
     thrown (eff_sum (member_of cfg ''issuer'')))))"

definition cli_hostJwt :: "cli_world \<Rightarrow> cli_ctx \<Rightarrow> string cli_op" where
  "cli_hostJwt W ctx =
     eff_bind (loadHostKey W ctx) (\<lambda>key.
     eff_bind (cli_discoverIssuer W (cx_url ctx)) (\<lambda>aud.
     thrown (eff_sum (jwt_sign (ci_crypto (cw_io W)) (ci_json (cw_io W)) HostJwt
       (JObj (host_claims (jwkThumbprint (ci_crypto (cw_io W)) (public_part key)) aud (ci_now (cw_io W) div 1000)
         (ci_jti (cw_io W)))) key))))"

definition cli_request ::
  "json_text \<Rightarrow> string \<Rightarrow> string \<Rightarrow> string \<Rightarrow> (string \<times> string) list \<Rightarrow> string option \<Rightarrow> json option \<Rightarrow> http_request" where
  "cli_request J url meth path params token body =
    \<lparr>rq_url = url @ path, rq_params = params, rq_method = meth,
     rq_headers = (if truthy token then [(''authorization'', BEARER @ the token)] else []) @
       (if body = None then [] else [(''content-type'', ''application/json'')]),
     rq_body = map_option (jt_stringify J) body\<rparr>"

definition api_with ::
  "cli_world \<Rightarrow> cli_ctx \<Rightarrow> string \<Rightarrow> string \<Rightarrow> (string \<times> string) list \<Rightarrow> string option \<Rightarrow> json option \<Rightarrow> json option cli_op" where
  "api_with W ctx meth path params token body =
     (let J = ci_json (cw_io W) in
      eff_bind (thrown (eff_sum (ci_fetch (cw_io W) (cli_request J (cx_url ctx) meth path params token body)))) (\<lambda>res.
      eff_bind (thrown (parsed_body J (rs_text res))) (\<lambda>parsed.
      eff_bind (eff_require (response_ok res) (fail (failure_message J meth path (rs_status res) parsed))) (\<lambda>_.
      eff_return parsed))))"

definition api :: "cli_world \<Rightarrow> cli_ctx \<Rightarrow> string \<Rightarrow> string \<Rightarrow> string option \<Rightarrow> json option \<Rightarrow> json option cli_op" where
  "api W ctx meth path token body = api_with W ctx meth path [] token body"

definition parseJsonOpt :: "cli_world \<Rightarrow> cli_ctx \<Rightarrow> string \<Rightarrow> json cli_op" where
  "parseJsonOpt W ctx nm =
     (if truthy (opt ctx nm)
      then eff_some (jt_parse (ci_json (cw_io W)) (the (opt ctx nm))) (fail (''--'' @ nm @ '' must be valid JSON''))
      else eff_return (JObj []))"

text \<open>A positional argument that has to be there.\<close>

definition argument :: "cli_ctx \<Rightarrow> nat \<Rightarrow> string \<Rightarrow> string cli_op" where
  "argument ctx n usage =
     (if n < length (cx_positionals ctx) then eff_return (cx_positionals ctx ! n) else eff_throw (fail usage))"

definition given :: "cli_ctx \<Rightarrow> string \<Rightarrow> string \<Rightarrow> json_object" where
  "given ctx nm field = (if truthy (opt ctx nm) then [(field, JStr (the (opt ctx nm)))] else [])"

section \<open>Commands\<close>

definition show_call :: "cli_world \<Rightarrow> cli_ctx \<Rightarrow> string \<Rightarrow> string \<Rightarrow> unit cli_op" where
  "show_call W ctx meth path = eff_bind (api W ctx meth path None None) out"

text \<open>\<open>{ ...res, agent_private_key }\<close>, with the key or the place it was written to.\<close>

definition show_agent :: "cli_world \<Rightarrow> cli_ctx \<Rightarrow> json option \<Rightarrow> unit cli_op" where
  "show_agent W ctx res =
     (let priv = JObj (snd (ci_pair (cw_io W))); file = opt ctx ''out'' in
      eff_bind (if truthy file then eff_write (\<lambda>es. es @ [Wrote (the file) priv]) else eff_return ()) (\<lambda>_.
      out (Some (JObj (put_field ''agent_private_key''
        (if truthy file then JStr (''written to '' @ the file) else priv)
        (case res of Some (JObj kvs) \<Rightarrow> kvs | _ \<Rightarrow> []))))))"

definition agent_register :: "cli_world \<Rightarrow> cli_ctx \<Rightarrow> unit cli_op" where
  "agent_register W ctx =
     eff_bind (cli_hostJwt W ctx) (\<lambda>token.
     eff_bind (api W ctx ''POST'' ''/agent/register'' (Some token)
       (Some (JObj ([(''agent_public_key'', JObj (fst (ci_pair (cw_io W)))),
                     (''mode'', JStr (nullish (opt ctx ''mode'') ''delegated''))] @
                    given ctx ''name'' ''name'' @ given ctx ''description'' ''description'' @
                    given ctx ''project'' ''project_id'')))) (\<lambda>res.
     show_agent W ctx res))"

definition agent_revoke :: "cli_world \<Rightarrow> cli_ctx \<Rightarrow> unit cli_op" where
  "agent_revoke W ctx =
     eff_bind (argument ctx 2 ''usage: conduit agent revoke <agentId>'') (\<lambda>agentId.
     eff_bind (cli_hostJwt W ctx) (\<lambda>token.
     eff_bind (api W ctx ''POST'' ''/agent/revoke'' (Some token) (Some (JObj [(''agent_id'', JStr agentId)]))) out))"

definition agent_rotate_key :: "cli_world \<Rightarrow> cli_ctx \<Rightarrow> unit cli_op" where
  "agent_rotate_key W ctx =
     eff_bind (argument ctx 2 ''usage: conduit agent rotate-key <agentId>'') (\<lambda>agentId.
     eff_bind (cli_hostJwt W ctx) (\<lambda>token.
     eff_bind (api W ctx ''POST'' ''/agent/rotate-key'' (Some token)
       (Some (JObj [(''agent_id'', JStr agentId), (''agent_public_key'', JObj (fst (ci_pair (cw_io W))))]))) (\<lambda>res.
     show_agent W ctx res)))"

definition cli_grant :: "cli_world \<Rightarrow> cli_ctx \<Rightarrow> unit cli_op" where
  "cli_grant W ctx =
     eff_bind (cli_hostJwt W ctx) (\<lambda>token.
     eff_bind (requireOpt ctx ''agent'') (\<lambda>agent.
     eff_bind (requireOpt ctx ''capability'') (\<lambda>capability.
     eff_bind (parseJsonOpt W ctx ''constraints'') (\<lambda>constraints.
     eff_bind (api W ctx ''POST'' ''/agent/grant'' (Some token)
       (Some (JObj [(''agent_id'', JStr agent), (''capability'', JStr capability),
                    (''connection_id'', nullable JStr (opt ctx ''connection'')),
                    (''operation'', nullable JStr (opt ctx ''operation'')), (''constraints'', constraints)]))) out))))"

text \<open>\<open>split(',')\<close>, trimmed, without the empty ones.\<close>

definition operation_list :: "string option \<Rightarrow> string list" where
  "operation_list t = (if truthy t then filter (\<lambda>s. s \<noteq> []) (map js_trim (split_at CHR '','' (the t))) else [])"

definition connection_register :: "cli_world \<Rightarrow> cli_ctx \<Rightarrow> unit cli_op" where
  "connection_register W ctx =
     eff_bind (cli_hostJwt W ctx) (\<lambda>token.
     eff_bind (requireOpt ctx ''name'') (\<lambda>nm.
     eff_bind (requireOpt ctx ''platform'') (\<lambda>platform.
     eff_bind (parseJsonOpt W ctx ''secret'') (\<lambda>secret.
     eff_bind (api W ctx ''POST'' ''/connections'' (Some token)
       (Some (JObj ([(''name'', JStr nm), (''platform'', JStr platform),
                     (''auth_method'', JStr (nullish (opt ctx ''auth-method'') ''bearer'')), (''secret'', secret),
                     (''allowed_operations'', jstrs (operation_list (opt ctx ''operations'')))] @
                    given ctx ''project'' ''project_id'')))) out))))"

definition tool_register :: "cli_world \<Rightarrow> cli_ctx \<Rightarrow> unit cli_op" where
  "tool_register W ctx =
     eff_bind (cli_hostJwt W ctx) (\<lambda>token.
     eff_bind (requireOpt ctx ''name'') (\<lambda>nm.
     eff_bind (requireOpt ctx ''adapter'') (\<lambda>adapter.
     eff_bind (parseJsonOpt W ctx ''config'') (\<lambda>config.
     eff_bind (api W ctx ''POST'' ''/tools'' (Some token)
       (Some (JObj [(''name'', JStr nm), (''adapter_type'', JStr adapter), (''adapter_config'', config)]))) out))))"

definition project_create :: "cli_world \<Rightarrow> cli_ctx \<Rightarrow> unit cli_op" where
  "project_create W ctx =
     eff_bind (cli_hostJwt W ctx) (\<lambda>token.
     eff_bind (requireOpt ctx ''name'') (\<lambda>nm.
     eff_bind (api W ctx ''POST'' ''/projects'' (Some token)
       (Some (JObj ([(''name'', JStr nm)] @ member ''description'' (map_option JStr (opt ctx ''description''))))))
     out))"

definition audit_command :: "cli_world \<Rightarrow> cli_ctx \<Rightarrow> unit cli_op" where
  "audit_command W ctx =
     eff_bind (api_with W ctx ''GET'' ''/audit''
       ((if truthy (opt ctx ''agent'') then [(''agent_id'', the (opt ctx ''agent''))] else []) @
        (if truthy (opt ctx ''outcome'') then [(''outcome'', the (opt ctx ''outcome''))] else [])) None None)
     out"

definition COMMANDS :: "(string \<times> (cli_world \<Rightarrow> cli_ctx \<Rightarrow> unit cli_op)) list" where
  "COMMANDS =
    [(''agent:list'', \<lambda>W ctx. show_call W ctx ''GET'' ''/agents''),
     (''agent:register'', agent_register), (''agent:revoke'', agent_revoke), (''agent:rotate-key'', agent_rotate_key),
     (''grant:'', cli_grant), (''connection:register'', connection_register),
     (''connection:list'', \<lambda>W ctx. show_call W ctx ''GET'' ''/connections''), (''tool:register'', tool_register),
     (''tool:list'', \<lambda>W ctx. show_call W ctx ''GET'' ''/tools''),
     (''project:list'', \<lambda>W ctx. show_call W ctx ''GET'' ''/projects''), (''project:create'', project_create),
     (''audit:'', audit_command), (''metrics:'', \<lambda>W ctx. show_call W ctx ''GET'' ''/metrics'')]"

section \<open>The proxy of a wrapped agent\<close>

record run_session =
  rn_agentId :: "json option"
  rn_issuer :: "json option"
  rn_hostThumb :: string
  rn_key :: json_object
  rn_upstreamHost :: string
  rn_open :: bool
  rn_token :: string

text \<open>Registration of a fresh agent; \<open>secret\<close> is the random token of the session.\<close>

definition start_run :: "cli_world \<Rightarrow> cli_ctx \<Rightarrow> string list \<Rightarrow> string \<Rightarrow> string \<Rightarrow> run_session cli_op" where
  "start_run W ctx command upstreamHost secret =
     eff_bind (eff_require (command \<noteq> [] \<and> hd command \<noteq> [])
       (fail ''usage: conduit run [--project <id>] -- <agent-command> [args...]'')) (\<lambda>_.
     eff_bind (loadHostKey W ctx) (\<lambda>key.
     eff_bind (cli_discoverIssuer W (cx_url ctx)) (\<lambda>issuer.
     eff_bind (cli_hostJwt W ctx) (\<lambda>token.
     eff_bind (api W ctx ''POST'' ''/agent/register'' (Some token)
       (Some (JObj ([(''agent_public_key'', JObj (fst (ci_pair (cw_io W)))),
                     (''mode'', JStr (nullish (opt ctx ''mode'') ''delegated'')),
                     (''name'', JStr (nullish (opt ctx ''name'') ''conduit-run''))] @
                    given ctx ''project'' ''project_id'')))) (\<lambda>reg.
     eff_bind (thrown (body_member reg ''agent_id'')) (\<lambda>agentId.
     eff_return
       \<lparr>rn_agentId = agentId, rn_issuer = issuer,
        rn_hostThumb = jwkThumbprint (ci_crypto (cw_io W)) (public_part key),
        rn_key = snd (ci_pair (cw_io W)), rn_upstreamHost = upstreamHost,
        rn_open = flag ctx ''open'', rn_token = (if flag ctx ''open'' then [] else secret)\<rparr>))))))"

definition mintJwt :: "client_io \<Rightarrow> run_session \<Rightarrow> fault + string" where
  "mintJwt io S =
     (let now = ci_now io div 1000 in
      jwt_sign (ci_crypto io) (ci_json io) AgentJwt
        (JObj ([(''iss'', JStr (rn_hostThumb S))] @ member ''sub'' (rn_agentId S) @ member ''aud'' (rn_issuer S) @
               [(''iat'', jint now), (''exp'', jint (now + 60)), (''jti'', JStr (ci_jti io))])) (rn_key S))"

text \<open>A request to the proxy by its headers, with lower-case names as the platform gives them.\<close>

datatype proxy_answer = Refused nat | Forward "(string \<times> string) list"

definition forwarded_headers :: "run_session \<Rightarrow> string \<Rightarrow> (string \<times> string) list \<Rightarrow> (string \<times> string) list" where
  "forwarded_headers S jwt headers =
     assoc_put ''authorization'' (BEARER @ jwt)
       (assoc_put ''host'' (rn_upstreamHost S) (filter (\<lambda>h. fst h \<noteq> ''x-conduit-token'') headers))"

definition proxy_handle :: "client_io \<Rightarrow> run_session \<Rightarrow> (string \<times> string) list \<Rightarrow> proxy_answer" where
  "proxy_handle io S headers =
     (if \<not> rn_open S \<and> map_of headers ''x-conduit-token'' \<noteq> Some (rn_token S) then Refused 401
      else case mintJwt io S of
             Inl e \<Rightarrow> Refused 500
           | Inr jwt \<Rightarrow> Forward (forwarded_headers S jwt headers))"

text \<open>What is added to the environment of the wrapped program.\<close>

definition child_env :: "cli_ctx \<Rightarrow> run_session \<Rightarrow> string \<Rightarrow> string \<Rightarrow> (string \<times> string) list" where
  "child_env ctx S proxyUrl agentId =
     [(''CONDUIT_URL'', proxyUrl), (''CONDUIT_GATEWAY_URL'', cx_url ctx), (''CONDUIT_AGENT_ID'', agentId)] @
     (if rn_open S then [] else [(''CONDUIT_TOKEN'', rn_token S)])"

text \<open>The revocation at the end: exceptions are swallowed.\<close>

definition cleanup :: "cli_world \<Rightarrow> cli_ctx \<Rightarrow> run_session \<Rightarrow> unit cli_op" where
  "cleanup W ctx S =
     eff_catch
       (eff_bind (cli_hostJwt W ctx) (\<lambda>token.
        eff_bind (api W ctx ''POST'' ''/agent/revoke'' (Some token)
          (Some (JObj (member ''agent_id'' (rn_agentId S))))) (\<lambda>_. eff_return ())))
       (\<lambda>e. case e of Exit m \<Rightarrow> eff_throw (Exit m) | Thrown f \<Rightarrow> eff_return ())"

section \<open>Dispatch\<close>

text \<open>
  \<open>main\<close> after the arguments are parsed: a command of the table, or the session of \<open>conduit run\<close>, with
  the host of the gateway's URL and a fresh secret.
\<close>

definition cli_url :: "cli_world \<Rightarrow> (string \<Rightarrow> opt_value option) \<Rightarrow> string" where
  "cli_url W opts =
     strip_slashes (case opts ''url'' of
       Some (OptText t) \<Rightarrow> t | _ \<Rightarrow> nullish (cw_env W ''CONDUIT_URL'') ''http://localhost:8443'')"

definition dispatch ::
  "cli_world \<Rightarrow> (string \<Rightarrow> opt_value option) \<Rightarrow> string list \<Rightarrow> string \<Rightarrow> string \<Rightarrow> run_session option cli_op" where
  "dispatch W opts positionals upstreamHost secret =
     (let group = (case positionals of [] \<Rightarrow> [] | g # gs \<Rightarrow> g);
          sub = (if 1 < length positionals then positionals ! 1 else []);
          ctx = \<lparr>cx_url = cli_url W opts, cx_opts = opts, cx_positionals = positionals\<rparr> in
      if group = [] \<or> group = ''help''
      then eff_bind (eff_write (\<lambda>es. es @ [Usage])) (\<lambda>_. eff_return None)
      else if group = ''run''
      then eff_bind (start_run W ctx (tl positionals) upstreamHost secret) (\<lambda>S. eff_return (Some S))
      else case map_of COMMANDS (group @ '':'' @ sub) of
             Some command \<Rightarrow> eff_bind (command W ctx) (\<lambda>_. eff_return None)
           | None \<Rightarrow> eff_throw (fail (''unknown command \"'' @ group @ '' '' @ sub @ ''\".'')))"

section \<open>What the proxy lets through\<close>

lemma map_of_filter_other: "map_of (filter (\<lambda>h. fst h \<noteq> k) hs) i = (if i = k then None else map_of hs i)"
  by (induction hs) auto

text \<open>
  C14: The proxy of \<open>conduit run\<close> gives the agent's identity only to requests that carry the session's
  secret (unless the check was switched off), never passes that secret on, replaces whatever
  authorization the program sent by the fresh token, and leaves all other headers alone, except Host,
  which it sets itself.
\<close>

theorem proxy_guards_identity:
  assumes "proxy_handle io S headers = Forward sent"
  shows "(rn_open S \<or> map_of headers ''x-conduit-token'' = Some (rn_token S)) \<and>
    map_of sent ''x-conduit-token'' = None \<and>
    (\<exists>jwt. mintJwt io S = Inr jwt \<and> map_of sent ''authorization'' = Some (BEARER @ jwt)) \<and>
    (\<forall>k. k \<notin> {''x-conduit-token'', ''authorization'', ''host''} \<longrightarrow> map_of sent k = map_of headers k)"
proof -
  from assms obtain jwt where jwt: "mintJwt io S = Inr jwt" and sent: "sent = forwarded_headers S jwt headers"
    and gate: "rn_open S \<or> map_of headers ''x-conduit-token'' = Some (rn_token S)"
    by (auto simp: proxy_handle_def split: if_splits sum.splits)
  have "map_of sent k =
      (if k = ''authorization'' then Some (BEARER @ jwt) else if k = ''host'' then Some (rn_upstreamHost S)
       else if k = ''x-conduit-token'' then None else map_of headers k)" for k
    by (simp add: sent forwarded_headers_def map_of_assoc_put map_of_filter_other)
  with gate jwt show ?thesis by simp
qed

definition sample_session :: run_session where
  "sample_session =
    \<lparr>rn_agentId = Some (JStr ''seventh''), rn_issuer = Some (JStr ''https://gw''), rn_hostThumb = ''host'', rn_key = [],
     rn_upstreamHost = ''gw'', rn_open = False, rn_token = ''s3cret''\<rparr>"

definition sample_cli_io :: client_io where
  "sample_cli_io =
    \<lparr>ci_crypto = sample_crypto, ci_json = sample_json_text, ci_fetch = (\<lambda>r. Inl (OtherError ''offline'')),
     ci_now = 50000, ci_jti = ''j1'', ci_pair = ([], [])\<rparr>"

lemma proxy_guards_identity_witness:
  "\<exists>sent. proxy_handle sample_cli_io sample_session
       [(''x-conduit-token'', ''s3cret''), (''authorization'', ''Basic x''), (''accept'', ''*/*'')] = Forward sent \<and>
     map_of sent ''x-conduit-token'' = None \<and> map_of sent ''accept'' = Some ''*/*''"
proof -
  let ?hs = "[(''x-conduit-token'', ''s3cret''), (''authorization'', ''Basic x''), (''accept'', ''*/*'')]"
  obtain sent where sent: "proxy_handle sample_cli_io sample_session ?hs = Forward sent"
    by (simp add: proxy_handle_def sample_session_def mintJwt_def Let_def jwt_sign_def sample_cli_io_def sample_crypto_def)
  from proxy_guards_identity [OF this] sent show ?thesis by auto
qed

text \<open>
  A refused revocation is not best effort: \<open>fail\<close> inside \<open>api\<close> ends the process before the proxy is
  closed, whatever the handler around it.
\<close>

lemma cleanup_exits_on_refusal:
  assumes "cli_hostJwt W ctx es = (Inr token, es1)"
    and "ci_fetch (cw_io W) (cli_request (ci_json (cw_io W)) (cx_url ctx) ''POST'' ''/agent/revoke'' [] (Some token)
      (Some (JObj (member ''agent_id'' (rn_agentId S))))) = Inr res"
    and "\<not> response_ok res" and "rs_text res = []"
  shows "\<exists>m. cleanup W ctx S es = (Inl (Exit m), es1)"
  using assms
  by (simp add: cleanup_def eff_catch_def eff_bind_def api_def api_with_def Let_def thrown_def eff_sum_def parsed_body_def
      eff_return_def eff_require_def eff_throw_def fail_def)

end
