(* ===== verification/Dashboard_Client.thy ===== *)
theory Dashboard_Client
  imports Operator_Keys
begin

text \<open>
  \<^verbatim>\<open>apps/dashboard/src/api/client.ts\<close>: the requests of the dashboard.  The client has no state of its own, so a
  call is polymorphic in the state of the view that makes it.  Answers stay JSON: their types are
  only declared.
\<close>

type_synonym ('s, 'a) api_op = "(fault, 's, 'a) eff"

record ui_agent_input =
  ua_agentPublicKey :: json_object
  ua_mode :: string
  ua_name :: "string option"
  ua_description :: "string option"
  ua_projectId :: "string option"

record ui_connection_input =
  ur_name :: string
  ur_platform :: string
  ur_authMethod :: string
  ur_secret :: json
  ur_allowedOperations :: "string list"
  ur_projectId :: "string option"

text \<open>Members of a patch that may be absent; a project can also be null.\<close>

record ui_connection_patch =
  up_name :: "string option"
  up_allowedOperations :: "string list option"
  up_authMethod :: "string option"
  up_secret :: "json option"
  up_projectId :: "string option option"

record ui_attach_input =
  ai_connectionId :: string
  ai_allowedOperations :: "string list option"
  ai_rateLimit :: "int option option"

section \<open>Requests and answers\<close>

definition ui_request ::
  "json_text \<Rightarrow> string \<Rightarrow> string \<Rightarrow> (string \<times> string) list \<Rightarrow> string option \<Rightarrow> json option \<Rightarrow> http_request" where
  "ui_request J meth url params token body =
    \<lparr>rq_url = url, rq_params = params, rq_method = meth,
     rq_headers = (case token of None \<Rightarrow> [] | Some t \<Rightarrow> [(''authorization'', BEARER @ t)]) @
       (if body = None then [] else [(''content-type'', ''application/json'')]),
     rq_body = map_option (jt_stringify J) body\<rparr>"

text \<open>\<open>body.message ?? d\<close>, as the text of an error.\<close>

definition message_or :: "json_text \<Rightarrow> string \<Rightarrow> json option \<Rightarrow> string" where
  "message_or J d m = (case m of None \<Rightarrow> d | Some JNull \<Rightarrow> d | Some v \<Rightarrow> js_String J v)"

text \<open>\<open>res.json().catch(() => ({}))\<close>.\<close>

definition lenient_body :: "json_text \<Rightarrow> http_response \<Rightarrow> json" where
  "lenient_body J res = nullish (jt_parse J (rs_text res)) (JObj [])"

definition strict_body :: "json_text \<Rightarrow> http_response \<Rightarrow> ('s, json) api_op" where
  "strict_body J res = eff_some (jt_parse J (rs_text res)) (OtherError ''SyntaxError'')"

definition refuse :: "json_text \<Rightarrow> string \<Rightarrow> json \<Rightarrow> ('s, 'a) api_op" where
  "refuse J d body =
     eff_bind (eff_sum (member_of body ''message'')) (\<lambda>m. eff_throw (OtherError (message_or J d m)))"

text \<open>A read: the status is checked before the body is parsed.\<close>

definition fetch_json :: "client_io \<Rightarrow> http_request \<Rightarrow> string \<Rightarrow> ('s, json) api_op" where
  "fetch_json io rq what =
     eff_bind (eff_sum (ci_fetch io rq)) (\<lambda>res.
     eff_bind (eff_require (response_ok res) (OtherError (what @ '' -> '' @ dec (rs_status res)))) (\<lambda>_.
     strict_body (ci_json io) res))"

definition status_text :: "string \<Rightarrow> http_response \<Rightarrow> string" where
  "status_text what res = what @ '' ('' @ dec (rs_status res) @ '')''"

text \<open>A write whose answer is used, and one whose answer is only read on a failure.\<close>

definition send_json :: "client_io \<Rightarrow> http_request \<Rightarrow> (http_response \<Rightarrow> string) \<Rightarrow> ('s, json) api_op" where
  "send_json io rq failed =
     eff_bind (eff_sum (ci_fetch io rq)) (\<lambda>res.
     let body = lenient_body (ci_json io) res in
     if response_ok res then eff_return body else refuse (ci_json io) (failed res) body)"

definition send_plain :: "client_io \<Rightarrow> http_request \<Rightarrow> string \<Rightarrow> ('s, unit) api_op" where
  "send_plain io rq what =
     eff_bind (eff_sum (ci_fetch io rq)) (\<lambda>res.
     if response_ok res then eff_return ()
     else refuse (ci_json io) (status_text what res) (lenient_body (ci_json io) res))"

text \<open>\<open>body.k ?? ''\<close>.\<close>

definition text_or_empty :: "json \<Rightarrow> string \<Rightarrow> ('s, json) api_op" where
  "text_or_empty body k = eff_bind (eff_sum (member_of body k)) (\<lambda>v. eff_return (nullish_json v (JStr [])))"

section \<open>Reads\<close>

definition list_at :: "client_io \<Rightarrow> string \<Rightarrow> string \<Rightarrow> ('s, json option) api_op" where
  "list_at io url k =
     eff_bind (fetch_json io (ui_request (ci_json io) ''GET'' url [] None None) (''GET '' @ url)) (\<lambda>body.
     eff_sum (member_of body k))"

definition ui_listAgents :: "client_io \<Rightarrow> string \<Rightarrow> ('s, json option) api_op" where
  "ui_listAgents io base = list_at io (base @ ''/agents'') ''agents''"

definition getConfiguration :: "client_io \<Rightarrow> string \<Rightarrow> ('s, json) api_op" where
  "getConfiguration io base =
     fetch_json io (ui_request (ci_json io) ''GET'' (base @ ''/.well-known/agent-configuration'') [] None None) ''discovery''"

definition getIssuer :: "client_io \<Rightarrow> string \<Rightarrow> ('s, json option) api_op" where
  "getIssuer io base = eff_bind (getConfiguration io base) (\<lambda>cfg. eff_sum (member_of cfg ''issuer''))"

definition ui_listConnections :: "client_io \<Rightarrow> string \<Rightarrow> ('s, json option) api_op" where
  "ui_listConnections io base = list_at io (base @ ''/connections'') ''connections''"

definition ui_listAudit :: "client_io \<Rightarrow> string \<Rightarrow> string option \<Rightarrow> string option \<Rightarrow> ('s, json option) api_op" where
  "ui_listAudit io base agentId outcome =
     eff_bind (fetch_json io
       (ui_request (ci_json io) ''GET'' (base @ ''/audit'')
         ((if truthy agentId then [(''agent_id'', the agentId)] else []) @
          (if truthy outcome then [(''outcome'', the outcome)] else [])) None None)
       (''GET '' @ base @ ''/audit'')) (\<lambda>body.
     eff_sum (member_of body ''entries''))"

definition ui_listTools :: "client_io \<Rightarrow> string \<Rightarrow> ('s, json option) api_op" where
  "ui_listTools io base = list_at io (base @ ''/tools'') ''tools''"

definition ui_listConnectors :: "client_io \<Rightarrow> string \<Rightarrow> ('s, json option) api_op" where
  "ui_listConnectors io base = list_at io (base @ ''/connectors'') ''connectors''"

definition ui_listAgentGrants :: "client_io \<Rightarrow> string \<Rightarrow> string \<Rightarrow> ('s, json option) api_op" where
  "ui_listAgentGrants io base agentId = list_at io (base @ ''/agents/'' @ agentId @ ''/grants'') ''grants''"

definition ui_listAgentRisk :: "client_io \<Rightarrow> string \<Rightarrow> ('s, json option) api_op" where
  "ui_listAgentRisk io base = list_at io (base @ ''/agents/risk'') ''agents''"

definition ui_listProjects :: "client_io \<Rightarrow> string \<Rightarrow> ('s, json option) api_op" where
  "ui_listProjects io base = list_at io (base @ ''/projects'') ''projects''"

definition ui_listAgentConnections :: "client_io \<Rightarrow> string \<Rightarrow> string \<Rightarrow> ('s, json option) api_op" where
  "ui_listAgentConnections io base agentId =
     list_at io (base @ ''/agents/'' @ agentId @ ''/connections'') ''connections''"

definition getCompliance :: "client_io \<Rightarrow> string \<Rightarrow> ('s, json) api_op" where
  "getCompliance io base =
     fetch_json io (ui_request (ci_json io) ''GET'' (base @ ''/compliance'') [] None None)
       (''GET '' @ base @ ''/compliance'')"

definition getMetrics :: "client_io \<Rightarrow> string \<Rightarrow> ('s, json) api_op" where
  "getMetrics io base =
     fetch_json io (ui_request (ci_json io) ''GET'' (base @ ''/metrics'') [] None None) (''GET '' @ base @ ''/metrics'')"

definition getSecuritySettings :: "client_io \<Rightarrow> string \<Rightarrow> string \<Rightarrow> ('s, json) api_op" where
  "getSecuritySettings io base token =
     fetch_json io (ui_request (ci_json io) ''GET'' (base @ ''/admin/config'') [] (Some token) None)
       (''GET '' @ base @ ''/admin/config'')"

section \<open>Agents\<close>

definition post_json :: "client_io \<Rightarrow> string \<Rightarrow> string \<Rightarrow> json_object \<Rightarrow> http_request" where
  "post_json io url token body = ui_request (ci_json io) ''POST'' url [] (Some token) (Some (JObj body))"

definition ui_registerAgent ::
  "client_io \<Rightarrow> string \<Rightarrow> string \<Rightarrow> ui_agent_input \<Rightarrow> ('s, json \<times> json \<times> json) api_op" where
  "ui_registerAgent io base token i =
     eff_bind (send_json io (post_json io (base @ ''/agent/register'') token
       ([(''agent_public_key'', JObj (ua_agentPublicKey i)), (''mode'', JStr (ua_mode i))] @
        member ''name'' (map_option JStr (ua_name i)) @ member ''description'' (map_option JStr (ua_description i)) @
        (if truthy (ua_projectId i) then [(''project_id'', JStr (the (ua_projectId i)))] else [])))
       (status_text ''register failed'')) (\<lambda>body.
     eff_bind (text_or_empty body ''agent_id'') (\<lambda>agentId.
     eff_bind (text_or_empty body ''status'') (\<lambda>status.
     eff_bind (text_or_empty body ''mode'') (\<lambda>mode. eff_return (agentId, status, mode)))))"

definition ui_revokeAgent :: "client_io \<Rightarrow> string \<Rightarrow> string \<Rightarrow> string \<Rightarrow> ('s, unit) api_op" where
  "ui_revokeAgent io base token agentId =
     send_plain io (post_json io (base @ ''/agent/revoke'') token [(''agent_id'', JStr agentId)]) ''revoke failed''"

definition ui_updateAgent :: "client_io \<Rightarrow> string \<Rightarrow> string \<Rightarrow> string \<Rightarrow> string \<Rightarrow> string \<Rightarrow> ('s, unit) api_op" where
  "ui_updateAgent io base token agentId nm description =
     send_plain io (post_json io (base @ ''/agent/update'') token
       [(''agent_id'', JStr agentId), (''name'', JStr nm), (''description'', JStr description)]) ''update failed''"

definition ui_setAgentProject ::
  "client_io \<Rightarrow> string \<Rightarrow> string \<Rightarrow> string \<Rightarrow> string option \<Rightarrow> ('s, unit) api_op" where
  "ui_setAgentProject io base token agentId projectId =
     send_plain io (post_json io (base @ ''/agent/project'') token
       [(''agent_id'', JStr agentId), (''project_id'', nullable JStr projectId)]) ''reassign failed''"

section \<open>Connections\<close>

definition ui_registerConnection ::
  "client_io \<Rightarrow> string \<Rightarrow> string \<Rightarrow> ui_connection_input \<Rightarrow> ('s, json) api_op" where
  "ui_registerConnection io base token i =
     eff_bind (send_json io (post_json io (base @ ''/connections'') token
       ([(''name'', JStr (ur_name i)), (''platform'', JStr (ur_platform i)), (''auth_method'', JStr (ur_authMethod i)),
         (''secret'', ur_secret i), (''allowed_operations'', jstrs (ur_allowedOperations i))] @
        (if truthy (ur_projectId i) then [(''project_id'', JStr (the (ur_projectId i)))] else [])))
       (status_text ''register connection failed'')) (\<lambda>body.
     text_or_empty body ''connection_id'')"

definition update_connection_body :: "ui_connection_patch \<Rightarrow> json_object" where
  "update_connection_body p =
     member ''name'' (map_option JStr (up_name p)) @
     member ''allowed_operations'' (map_option jstrs (up_allowedOperations p)) @
     member ''auth_method'' (map_option JStr (up_authMethod p)) @ member ''secret'' (up_secret p) @
     member ''project_id'' (map_option (nullable JStr) (up_projectId p))"

definition ui_updateConnection ::
  "client_io \<Rightarrow> string \<Rightarrow> string \<Rightarrow> string \<Rightarrow> ui_connection_patch \<Rightarrow> ('s, unit) api_op" where
  "ui_updateConnection io base token i p =
     send_plain io (ui_request (ci_json io) ''PATCH'' (base @ ''/connections/'' @ i) [] (Some token)
       (Some (JObj (update_connection_body p)))) ''update connection failed''"

definition ui_deleteConnection :: "client_io \<Rightarrow> string \<Rightarrow> string \<Rightarrow> string \<Rightarrow> ('s, unit) api_op" where
  "ui_deleteConnection io base token i =
     send_plain io (ui_request (ci_json io) ''DELETE'' (base @ ''/connections/'' @ i) [] (Some token) None)
       ''delete connection failed''"

definition ui_testConnection :: "client_io \<Rightarrow> string \<Rightarrow> string \<Rightarrow> string \<Rightarrow> ('s, json) api_op" where
  "ui_testConnection io base token i =
     send_json io (ui_request (ci_json io) ''POST'' (base @ ''/connections/'' @ i @ ''/test'') [] (Some token) None)
       (status_text ''test failed'')"

definition attach_connection_body :: "ui_attach_input \<Rightarrow> json_object" where
  "attach_connection_body i =
     [(''connection_id'', JStr (ai_connectionId i))] @
     member ''allowed_operations'' (map_option jstrs (ai_allowedOperations i)) @
     member ''rate_limit'' (map_option (nullable jint) (ai_rateLimit i))"

definition ui_attachConnection ::
  "client_io \<Rightarrow> string \<Rightarrow> string \<Rightarrow> string \<Rightarrow> ui_attach_input \<Rightarrow> ('s, unit) api_op" where
  "ui_attachConnection io base token agentId i =
     send_plain io (post_json io (base @ ''/agents/'' @ agentId @ ''/connections'') token (attach_connection_body i))
       ''attach failed''"

definition ui_detachConnection :: "client_io \<Rightarrow> string \<Rightarrow> string \<Rightarrow> string \<Rightarrow> string \<Rightarrow> ('s, unit) api_op" where
  "ui_detachConnection io base token agentId connectionId =
     send_plain io (ui_request (ci_json io) ''DELETE'' (base @ ''/agents/'' @ agentId @ ''/connections/'' @ connectionId) []
       (Some token) None) ''detach failed''"

section \<open>Projects and settings\<close>

definition ui_createProject :: "client_io \<Rightarrow> string \<Rightarrow> string \<Rightarrow> string \<Rightarrow> string \<Rightarrow> ('s, json) api_op" where
  "ui_createProject io base token nm description =
     eff_bind (send_json io (post_json io (base @ ''/projects'') token
       [(''name'', JStr nm), (''description'', JStr description)]) (status_text ''create project failed'')) (\<lambda>body.
     text_or_empty body ''id'')"

definition ui_deleteProject :: "client_io \<Rightarrow> string \<Rightarrow> string \<Rightarrow> string \<Rightarrow> ('s, unit) api_op" where
  "ui_deleteProject io base token i =
     send_plain io (ui_request (ci_json io) ''DELETE'' (base @ ''/projects/'' @ i) [] (Some token) None)
       ''delete project failed''"

definition updateSecuritySettings :: "client_io \<Rightarrow> string \<Rightarrow> string \<Rightarrow> json \<Rightarrow> ('s, json) api_op" where
  "updateSecuritySettings io base token patch =
     send_json io (ui_request (ci_json io) ''PATCH'' (base @ ''/admin/config'') [] (Some token) (Some patch))
       (\<lambda>res. ''PATCH admin/config -> '' @ dec (rs_status res))"

section \<open>A write reports its failure\<close>

lemma eff_sum_apply: "eff_sum x s = (x, s)"
  by (simp add: eff_sum_def)

text \<open>
  A call of the client succeeds only on an answer of the two hundreds; a refusal, of whatever body, ends in
  an error, and the view's state is left alone.
\<close>

lemma refuse_throws: "\<exists>e. refuse J d body s = (Inl e, s)"
  by (cases "member_of body ''message''") (simp_all add: refuse_def eff_bind_def eff_sum_apply eff_throw_def)

lemma send_plain_outcome:
  assumes "ci_fetch io rq = Inr res"
  shows "(\<exists>r. send_plain io rq what s = (r, s)) \<and> (isl (fst (send_plain io rq what s)) \<longleftrightarrow> \<not> response_ok res)"
  using refuse_throws [of "ci_json io" "status_text what res" "lenient_body (ci_json io) res" s]
  by (auto simp: send_plain_def eff_bind_def eff_sum_apply assms eff_return_def)

lemma send_json_outcome:
  assumes "ci_fetch io rq = Inr res"
  shows "(\<exists>r. send_json io rq failed s = (r, s)) \<and> (isl (fst (send_json io rq failed s)) \<longleftrightarrow> \<not> response_ok res)"
  using refuse_throws [of "ci_json io" "failed res" "lenient_body (ci_json io) res" s]
  by (auto simp: send_json_def Let_def eff_bind_def eff_sum_apply assms eff_return_def)

end
