(* ===== verification/Bundled_Manifests.thy ===== *)
theory Bundled_Manifests
  imports Manifest_Driver
begin

text \<open>
  \<^verbatim>\<open>connectors/manifest/manifests.ts\<close>: the bundled manifests, section by section in the order of
  the source, and the registry that loads them.  \<open>{ ...bearer }\<close> is written out.
\<close>

definition http_op :: "string \<Rightarrow> string \<Rightarrow> string \<Rightarrow> manifest_operation" where
  "http_op descr meth path =
    \<lparr>mo_description = descr, mo_method = Some meth, mo_path = Some path, mo_graphql = None\<rparr>"

definition graphql_op :: "string \<Rightarrow> string \<Rightarrow> manifest_operation" where
  "graphql_op descr query =
    \<lparr>mo_description = descr, mo_method = None, mo_path = None, mo_graphql = Some query\<rparr>"

text \<open>The bytes of U+2019, which some descriptions contain.\<close>

definition curly_apostrophe :: string where
  "curly_apostrophe = [CHR 0xE2, CHR 0x80, CHR 0x99]"

definition messaging_manifests :: "connector_manifest list" where
  "messaging_manifests =
    [\<lparr>mf_platform = ''discord'', mf_label = ''Discord'',
      mf_baseUrl = ''https://discord.com/api/v10'', mf_authMethods = [''bearer''],
      mf_headers = [(''Authorization'', ''Bot {token}'')],
      mf_query = [], mf_style = None,
      mf_operations =
       [(''send_message'', http_op ''Send a message to a channel.'' ''POST'' ''/channels/{channel_id}/messages''),
        (''list_guilds'', http_op (''List the bot user'' @ curly_apostrophe @ ''s guilds.'') ''GET'' ''/users/@me/guilds'')],
      mf_test = Some (http_op ''Validate the token (bot user).'' ''GET'' ''/users/@me''),
      mf_docsUrl = Some ''https://discord.com/developers/applications'', mf_fields = None\<rparr>,
     \<lparr>mf_platform = ''telegram'', mf_label = ''Telegram Bot'',
      mf_baseUrl = ''https://api.telegram.org/bot{token}'', mf_authMethods = [''apiKey''],
      mf_headers = [],
      mf_query = [], mf_style = None,
      mf_operations =
       [(''send_message'', http_op ''Send a message (args: chat_id, text).'' ''POST'' ''/sendMessage''),
        (''get_updates'', http_op ''Poll for updates.'' ''GET'' ''/getUpdates'')],
      mf_test = Some (http_op ''Validate the token (getMe).'' ''GET'' ''/getMe''),
      mf_docsUrl = Some ''https://core.telegram.org/bots#botfather'', mf_fields = None\<rparr>,
     \<lparr>mf_platform = ''whatsapp'', mf_label = ''WhatsApp Cloud API'',
      mf_baseUrl = ''https://graph.facebook.com/v20.0'', mf_authMethods = [''bearer''],
      mf_headers = [(''Authorization'', ''Bearer {token}'')],
      mf_query = [], mf_style = None,
      mf_operations =
       [(''send_message'', http_op ''Send a message (args under /{phone_number_id}/messages).'' ''POST'' ''/{phone_number_id}/messages'')],
      mf_test = Some (http_op ''Validate the token (debug /me).'' ''GET'' ''/me''),
      mf_docsUrl = None, mf_fields = None\<rparr>,
     \<lparr>mf_platform = ''teams'', mf_label = ''Microsoft Teams (Graph)'',
      mf_baseUrl = ''https://graph.microsoft.com/v1.0'', mf_authMethods = [''bearer''],
      mf_headers = [(''Authorization'', ''Bearer {token}'')],
      mf_query = [], mf_style = None,
      mf_operations =
       [(''send_channel_message'', http_op ''Post a channel message.'' ''POST'' ''/teams/{team_id}/channels/{channel_id}/messages''),
        (''list_teams'', http_op ''List joined teams.'' ''GET'' ''/me/joinedTeams'')],
      mf_test = Some (http_op ''Validate the token (current user).'' ''GET'' ''/me''),
      mf_docsUrl = None, mf_fields = None\<rparr>]"

definition dev_tools_manifests :: "connector_manifest list" where
  "dev_tools_manifests =
    [\<lparr>mf_platform = ''github'', mf_label = ''GitHub'',
      mf_baseUrl = ''https://api.github.com'', mf_authMethods = [''bearer''],
      mf_headers = [(''Authorization'', ''Bearer {token}''), (''X-GitHub-Api-Version'', ''2022-11-28'')],
      mf_query = [], mf_style = None,
      mf_operations =
       [(''create_issue'', http_op ''Open an issue.'' ''POST'' ''/repos/{owner}/{repo}/issues''),
        (''add_comment'', http_op ''Comment on an issue/PR.'' ''POST'' ''/repos/{owner}/{repo}/issues/{issue_number}/comments''),
        (''create_pull_request'', http_op ''Open a pull request.'' ''POST'' ''/repos/{owner}/{repo}/pulls'')],
      mf_test = Some (http_op ''Validate the token (current user).'' ''GET'' ''/user''),
      mf_docsUrl = Some ''https://github.com/settings/tokens'', mf_fields = None\<rparr>,
     \<lparr>mf_platform = ''gitlab'', mf_label = ''GitLab'',
      mf_baseUrl = ''https://gitlab.com/api/v4'', mf_authMethods = [''bearer''],
      mf_headers = [(''Authorization'', ''Bearer {token}'')],
      mf_query = [], mf_style = None,
      mf_operations =
       [(''create_issue'', http_op ''Create a project issue.'' ''POST'' ''/projects/{id}/issues''),
        (''list_projects'', http_op ''List projects.'' ''GET'' ''/projects'')],
      mf_test = Some (http_op ''Validate the token (current user).'' ''GET'' ''/user''),
      mf_docsUrl = Some ''https://gitlab.com/-/user_settings/personal_access_tokens'', mf_fields = None\<rparr>,
     \<lparr>mf_platform = ''sentry'', mf_label = ''Sentry'',
      mf_baseUrl = ''https://sentry.io/api/0'', mf_authMethods = [''bearer''],
      mf_headers = [(''Authorization'', ''Bearer {token}'')],
      mf_query = [], mf_style = None,
      mf_operations =
       [(''list_issues'', http_op ''List project issues.'' ''GET'' ''/projects/{organization_slug}/{project_slug}/issues/''),
        (''get_issue'', http_op ''Get an issue.'' ''GET'' ''/issues/{issue_id}/'')],
      mf_test = Some (http_op ''Validate the token (organizations).'' ''GET'' ''/organizations/''),
      mf_docsUrl = Some ''https://sentry.io/settings/account/api/auth-tokens/'', mf_fields = None\<rparr>,
     \<lparr>mf_platform = ''vercel'', mf_label = ''Vercel'',
      mf_baseUrl = ''https://api.vercel.com'', mf_authMethods = [''bearer''],
      mf_headers = [(''Authorization'', ''Bearer {token}'')],
      mf_query = [], mf_style = None,
      mf_operations =
       [(''list_deployments'', http_op ''List deployments.'' ''GET'' ''/v6/deployments''),
        (''list_projects'', http_op ''List projects.'' ''GET'' ''/v9/projects'')],
      mf_test = Some (http_op ''Validate the token (current user).'' ''GET'' ''/v2/user''),
      mf_docsUrl = Some ''https://vercel.com/account/tokens'', mf_fields = None\<rparr>]"

definition project_management_manifests_1 :: "connector_manifest list" where
  "project_management_manifests_1 =
    [\<lparr>mf_platform = ''notion'', mf_label = ''Notion'',
      mf_baseUrl = ''https://api.notion.com/v1'', mf_authMethods = [''bearer''],
      mf_headers = [(''Authorization'', ''Bearer {token}''), (''Notion-Version'', ''2022-06-28'')],
      mf_query = [], mf_style = None,
      mf_operations =
       [(''create_page'', http_op ''Create a page.'' ''POST'' ''/pages''),
        (''query_database'', http_op ''Query a database.'' ''POST'' ''/databases/{database_id}/query''),
        (''search'', http_op ''Search pages/databases.'' ''POST'' ''/search'')],
      mf_test = Some (http_op ''Validate the token (bot user).'' ''GET'' ''/users/me''),
      mf_docsUrl = Some ''https://www.notion.so/my-integrations'', mf_fields = None\<rparr>,
     \<lparr>mf_platform = ''linear'', mf_label = ''Linear'',
      mf_baseUrl = ''https://api.linear.app/graphql'', mf_authMethods = [''apiKey''],
      mf_headers = [(''Authorization'', ''{token}'')],
      mf_query = [], mf_style = Some GraphqlStyle,
      mf_operations =
       [(''create_issue'', graphql_op ''Create an issue (variables: input).'' ''mutation($input: IssueCreateInput!){ issueCreate(input:$input){ success issue{ id identifier url } } }''),
        (''list_issues'', graphql_op ''List issues.'' ''query{ issues(first: 25){ nodes{ id identifier title state{ name } } } }'')],
      mf_test = Some (graphql_op ''Validate the key (viewer).'' ''query{ viewer { id } }''),
      mf_docsUrl = Some ''https://linear.app/settings/api'', mf_fields = None\<rparr>,
     \<lparr>mf_platform = ''jira'', mf_label = ''Jira'',
      mf_baseUrl = ''https://{site}.atlassian.net/rest/api/3'', mf_authMethods = [''basic''],
      mf_headers = [(''Authorization'', ''Basic {basic}'')],
      mf_query = [], mf_style = None,
      mf_operations =
       [(''create_issue'', http_op ''Create an issue.'' ''POST'' ''/issue''),
        (''search'', http_op ''Search issues (JQL).'' ''GET'' ''/search'')],
      mf_test = Some (http_op ''Validate the token (myself).'' ''GET'' ''/myself''),
      mf_docsUrl = Some ''https://id.atlassian.com/manage-profile/security/api-tokens'', mf_fields = None\<rparr>,
     \<lparr>mf_platform = ''confluence'', mf_label = ''Confluence'',
      mf_baseUrl = ''https://{site}.atlassian.net/wiki/rest/api'', mf_authMethods = [''basic''],
      mf_headers = [(''Authorization'', ''Basic {basic}'')],
      mf_query = [], mf_style = None,
      mf_operations =
       [(''create_page'', http_op ''Create content.'' ''POST'' ''/content''),
        (''get_page'', http_op ''Get content by id.'' ''GET'' ''/content/{id}'')],
      mf_test = Some (http_op ''Validate the token (current user).'' ''GET'' ''/user/current''),
      mf_docsUrl = Some ''https://id.atlassian.com/manage-profile/security/api-tokens'', mf_fields = None\<rparr>,
     \<lparr>mf_platform = ''asana'', mf_label = ''Asana'',
      mf_baseUrl = ''https://app.asana.com/api/1.0'', mf_authMethods = [''bearer''],
      mf_headers = [(''Authorization'', ''Bearer {token}'')],
      mf_query = [], mf_style = None,
      mf_operations =
       [(''create_task'', http_op ''Create a task.'' ''POST'' ''/tasks''),
        (''list_tasks'', http_op ''List tasks.'' ''GET'' ''/tasks'')],
      mf_test = Some (http_op ''Validate the token (current user).'' ''GET'' ''/users/me''),
      mf_docsUrl = Some ''https://app.asana.com/0/my-apps'', mf_fields = None\<rparr>]"

definition project_management_manifests_2 :: "connector_manifest list" where
  "project_management_manifests_2 =
    [\<lparr>mf_platform = ''monday'', mf_label = ''monday.com'',
      mf_baseUrl = ''https://api.monday.com/v2'', mf_authMethods = [''apiKey''],
      mf_headers = [(''Authorization'', ''{token}'')],
      mf_query = [], mf_style = Some GraphqlStyle,
      mf_operations =
       [(''create_item'', graphql_op ''Create a board item (variables: boardId, itemName).'' ''mutation($boardId: ID!, $itemName: String!){ create_item(board_id:$boardId, item_name:$itemName){ id } }''),
        (''list_boards'', graphql_op ''List boards.'' ''query{ boards(limit: 25){ id name } }'')],
      mf_test = Some (graphql_op ''Validate the key (me).'' ''query{ me { id } }''),
      mf_docsUrl = Some ''https://developer.monday.com/api-reference/docs/authentication'', mf_fields = None\<rparr>,
     \<lparr>mf_platform = ''trello'', mf_label = ''Trello'',
      mf_baseUrl = ''https://api.trello.com/1'', mf_authMethods = [''apiKey''],
      mf_headers = [],
      mf_query = [(''key'', ''{key}''), (''token'', ''{token}'')], mf_style = None,
      mf_operations =
       [(''create_card'', http_op ''Create a card (args: idList, name).'' ''POST'' ''/cards''),
        (''list_boards'', http_op (''List the member'' @ curly_apostrophe @ ''s boards.'') ''GET'' ''/members/me/boards'')],
      mf_test = Some (http_op ''Validate the key (member).'' ''GET'' ''/members/me''),
      mf_docsUrl = Some ''https://trello.com/app-key'', mf_fields = None\<rparr>,
     \<lparr>mf_platform = ''clickup'', mf_label = ''ClickUp'',
      mf_baseUrl = ''https://api.clickup.com/api/v2'', mf_authMethods = [''apiKey''],
      mf_headers = [(''Authorization'', ''{token}'')],
      mf_query = [], mf_style = None,
      mf_operations =
       [(''create_task'', http_op ''Create a task in a list.'' ''POST'' ''/list/{list_id}/task''),
        (''get_tasks'', http_op ''Get tasks in a list.'' ''GET'' ''/list/{list_id}/task'')],
      mf_test = Some (http_op ''Validate the token (current user).'' ''GET'' ''/user''),
      mf_docsUrl = Some ''https://app.clickup.com/settings/apps'', mf_fields = None\<rparr>,
     \<lparr>mf_platform = ''todoist'', mf_label = ''Todoist'',
      mf_baseUrl = ''https://api.todoist.com/rest/v2'', mf_authMethods = [''bearer''],
      mf_headers = [(''Authorization'', ''Bearer {token}'')],
      mf_query = [], mf_style = None,
      mf_operations =
       [(''create_task'', http_op ''Create a task.'' ''POST'' ''/tasks''),
        (''list_tasks'', http_op ''List active tasks.'' ''GET'' ''/tasks'')],
      mf_test = Some (http_op ''Validate the token (projects).'' ''GET'' ''/projects''),
      mf_docsUrl = Some ''https://todoist.com/app/settings/integrations/developer'', mf_fields = None\<rparr>,
     \<lparr>mf_platform = ''airtable'', mf_label = ''Airtable'',
      mf_baseUrl = ''https://api.airtable.com/v0'', mf_authMethods = [''bearer''],
      mf_headers = [(''Authorization'', ''Bearer {token}'')],
      mf_query = [], mf_style = None,
      mf_operations =
       [(''list_records'', http_op ''List records in a table.'' ''GET'' ''/{baseId}/{table}''),
        (''create_record'', http_op ''Create records in a table.'' ''POST'' ''/{baseId}/{table}'')],
      mf_test = Some (http_op ''Validate the token (whoami).'' ''GET'' ''/meta/whoami''),
      mf_docsUrl = Some ''https://airtable.com/create/tokens'', mf_fields = None\<rparr>,
     \<lparr>mf_platform = ''miro'', mf_label = ''Miro'',
      mf_baseUrl = ''https://api.miro.com/v2'', mf_authMethods = [''bearer''],
      mf_headers = [(''Authorization'', ''Bearer {token}'')],
      mf_query = [], mf_style = None,
      mf_operations =
       [(''create_board'', http_op ''Create a board.'' ''POST'' ''/boards''),
        (''list_boards'', http_op ''List boards.'' ''GET'' ''/boards'')],
      mf_test = Some (http_op ''Validate the token (boards).'' ''GET'' ''/boards''),
      mf_docsUrl = None, mf_fields = None\<rparr>]"

definition crm_manifests :: "connector_manifest list" where
  "crm_manifests =
    [\<lparr>mf_platform = ''hubspot'', mf_label = ''HubSpot'',
      mf_baseUrl = ''https://api.hubapi.com'', mf_authMethods = [''bearer''],
      mf_headers = [(''Authorization'', ''Bearer {token}'')],
      mf_query = [], mf_style = None,
      mf_operations =
       [(''create_contact'', http_op ''Create a contact.'' ''POST'' ''/crm/v3/objects/contacts''),
        (''list_contacts'', http_op ''List contacts.'' ''GET'' ''/crm/v3/objects/contacts'')],
      mf_test = Some (http_op ''Validate the token (account info).'' ''GET'' ''/account-info/v3/details''),
      mf_docsUrl = Some ''https://app.hubspot.com/private-apps'', mf_fields = None\<rparr>,
     \<lparr>mf_platform = ''salesforce'', mf_label = ''Salesforce'',
      mf_baseUrl = ''https://{instance}.my.salesforce.com/services/data/v60.0'', mf_authMethods = [''bearer''],
      mf_headers = [(''Authorization'', ''Bearer {token}'')],
      mf_query = [], mf_style = None,
      mf_operations =
       [(''query'', http_op ''SOQL query (args: q).'' ''GET'' ''/query''),
        (''create_record'', http_op ''Create an sObject record.'' ''POST'' ''/sobjects/{sobject}'')],
      mf_test = Some (http_op ''Validate the token (limits).'' ''GET'' ''/limits''),
      mf_docsUrl = None, mf_fields = None\<rparr>,
     \<lparr>mf_platform = ''pipedrive'', mf_label = ''Pipedrive'',
      mf_baseUrl = ''https://{company}.pipedrive.com/api/v1'', mf_authMethods = [''apiKey''],
      mf_headers = [],
      mf_query = [(''api_token'', ''{token}'')], mf_style = None,
      mf_operations =
       [(''create_deal'', http_op ''Create a deal.'' ''POST'' ''/deals''),
        (''list_deals'', http_op ''List deals.'' ''GET'' ''/deals'')],
      mf_test = Some (http_op ''Validate the token (current user).'' ''GET'' ''/users/me''),
      mf_docsUrl = None, mf_fields = None\<rparr>,
     \<lparr>mf_platform = ''intercom'', mf_label = ''Intercom'',
      mf_baseUrl = ''https://api.intercom.io'', mf_authMethods = [''bearer''],
      mf_headers = [(''Authorization'', ''Bearer {token}'')],
      mf_query = [], mf_style = None,
      mf_operations =
       [(''create_contact'', http_op ''Create a contact.'' ''POST'' ''/contacts''),
        (''list_conversations'', http_op ''List conversations.'' ''GET'' ''/conversations'')],
      mf_test = Some (http_op ''Validate the token (me).'' ''GET'' ''/me''),
      mf_docsUrl = None, mf_fields = None\<rparr>,
     \<lparr>mf_platform = ''zendesk'', mf_label = ''Zendesk'',
      mf_baseUrl = ''https://{subdomain}.zendesk.com/api/v2'', mf_authMethods = [''basic''],
      mf_headers = [(''Authorization'', ''Basic {basic}'')],
      mf_query = [], mf_style = None,
      mf_operations =
       [(''create_ticket'', http_op ''Create a ticket.'' ''POST'' ''/tickets''),
        (''list_tickets'', http_op ''List tickets.'' ''GET'' ''/tickets'')],
      mf_test = Some (http_op ''Validate the token (current user).'' ''GET'' ''/users/me.json''),
      mf_docsUrl = Some ''https://support.zendesk.com/hc/en-us/articles/4408889192858'', mf_fields = None\<rparr>,
     \<lparr>mf_platform = ''stripe'', mf_label = ''Stripe (read)'',
      mf_baseUrl = ''https://api.stripe.com/v1'', mf_authMethods = [''bearer''],
      mf_headers = [(''Authorization'', ''Bearer {token}'')],
      mf_query = [], mf_style = None,
      mf_operations =
       [(''list_charges'', http_op ''List charges.'' ''GET'' ''/charges''),
        (''list_customers'', http_op ''List customers.'' ''GET'' ''/customers'')],
      mf_test = Some (http_op ''Validate the key (balance).'' ''GET'' ''/balance''),
      mf_docsUrl = Some ''https://dashboard.stripe.com/apikeys'', mf_fields = None\<rparr>]"

definition google_workspace_manifests :: "connector_manifest list" where
  "google_workspace_manifests =
    [\<lparr>mf_platform = ''gmail'', mf_label = ''Gmail'',
      mf_baseUrl = ''https://gmail.googleapis.com/gmail/v1'', mf_authMethods = [''bearer''],
      mf_headers = [(''Authorization'', ''Bearer {token}'')],
      mf_query = [], mf_style = None,
      mf_operations =
       [(''list_messages'', http_op ''List messages.'' ''GET'' ''/users/me/messages''),
        (''send_message'', http_op ''Send a message (raw RFC822 base64url).'' ''POST'' ''/users/me/messages/send'')],
      mf_test = Some (http_op ''Validate the token (profile).'' ''GET'' ''/users/me/profile''),
      mf_docsUrl = None, mf_fields = None\<rparr>,
     \<lparr>mf_platform = ''google_calendar'', mf_label = ''Google Calendar'',
      mf_baseUrl = ''https://www.googleapis.com/calendar/v3'', mf_authMethods = [''bearer''],
      mf_headers = [(''Authorization'', ''Bearer {token}'')],
      mf_query = [], mf_style = None,
      mf_operations =
       [(''list_events'', http_op ''List events.'' ''GET'' ''/calendars/{calendarId}/events''),
        (''create_event'', http_op ''Create an event.'' ''POST'' ''/calendars/{calendarId}/events'')],
      mf_test = Some (http_op ''Validate the token (calendar list).'' ''GET'' ''/users/me/calendarList''),
      mf_docsUrl = None, mf_fields = None\<rparr>,
     \<lparr>mf_platform = ''google_docs'', mf_label = ''Google Docs'',
      mf_baseUrl = ''https://docs.googleapis.com/v1'', mf_authMethods = [''bearer''],
      mf_headers = [(''Authorization'', ''Bearer {token}'')],
      mf_query = [], mf_style = None,
      mf_operations =
       [(''get_document'', http_op ''Get a document.'' ''GET'' ''/documents/{documentId}''),
        (''create_document'', http_op ''Create a document.'' ''POST'' ''/documents'')],
      mf_test = None,
      mf_docsUrl = None, mf_fields = None\<rparr>,
     \<lparr>mf_platform = ''google_sheets'', mf_label = ''Google Sheets'',
      mf_baseUrl = ''https://sheets.googleapis.com/v4'', mf_authMethods = [''bearer''],
      mf_headers = [(''Authorization'', ''Bearer {token}'')],
      mf_query = [], mf_style = None,
      mf_operations =
       [(''get_values'', http_op ''Read a range.'' ''GET'' ''/spreadsheets/{spreadsheetId}/values/{range}''),
        (''append_values'', http_op ''Append rows to a range.'' ''POST'' ''/spreadsheets/{spreadsheetId}/values/{range}:append'')],
      mf_test = None,
      mf_docsUrl = None, mf_fields = None\<rparr>,
     \<lparr>mf_platform = ''google_meet'', mf_label = ''Google Meet'',
      mf_baseUrl = ''https://meet.googleapis.com/v2'', mf_authMethods = [''bearer''],
      mf_headers = [(''Authorization'', ''Bearer {token}'')],
      mf_query = [], mf_style = None,
      mf_operations =
       [(''list_conference_records'', http_op ''List conference records.'' ''GET'' ''/conferenceRecords'')],
      mf_test = Some (http_op ''Validate the token (conference records).'' ''GET'' ''/conferenceRecords''),
      mf_docsUrl = None, mf_fields = None\<rparr>]"

definition meetings_manifests :: "connector_manifest list" where
  "meetings_manifests =
    [\<lparr>mf_platform = ''zoom'', mf_label = ''Zoom'',
      mf_baseUrl = ''https://api.zoom.us/v2'', mf_authMethods = [''bearer''],
      mf_headers = [(''Authorization'', ''Bearer {token}'')],
      mf_query = [], mf_style = None,
      mf_operations =
       [(''create_meeting'', http_op ''Create a meeting for a user.'' ''POST'' ''/users/{userId}/meetings''),
        (''list_meetings'', http_op (''List a user'' @ curly_apostrophe @ ''s meetings.'') ''GET'' ''/users/{userId}/meetings'')],
      mf_test = Some (http_op ''Validate the token (current user).'' ''GET'' ''/users/me''),
      mf_docsUrl = Some ''https://marketplace.zoom.us/'', mf_fields = None\<rparr>,
     \<lparr>mf_platform = ''webex'', mf_label = ''Webex'',
      mf_baseUrl = ''https://webexapis.com/v1'', mf_authMethods = [''bearer''],
      mf_headers = [(''Authorization'', ''Bearer {token}'')],
      mf_query = [], mf_style = None,
      mf_operations =
       [(''create_meeting'', http_op ''Create a meeting.'' ''POST'' ''/meetings''),
        (''list_meetings'', http_op ''List meetings.'' ''GET'' ''/meetings'')],
      mf_test = Some (http_op ''Validate the token (current user).'' ''GET'' ''/people/me''),
      mf_docsUrl = None, mf_fields = None\<rparr>]"

definition design_manifests :: "connector_manifest list" where
  "design_manifests =
    [\<lparr>mf_platform = ''figma'', mf_label = ''Figma'',
      mf_baseUrl = ''https://api.figma.com/v1'', mf_authMethods = [''apiKey''],
      mf_headers = [(''X-Figma-Token'', ''{token}'')],
      mf_query = [], mf_style = None,
      mf_operations =
       [(''get_file'', http_op ''Get a file.'' ''GET'' ''/files/{file_key}''),
        (''get_comments'', http_op ''Get file comments.'' ''GET'' ''/files/{file_key}/comments'')],
      mf_test = Some (http_op ''Validate the token (current user).'' ''GET'' ''/me''),
      mf_docsUrl = Some ''https://www.figma.com/developers/api#access-tokens'', mf_fields = None\<rparr>]"

definition observability_manifests :: "connector_manifest list" where
  "observability_manifests =
    [\<lparr>mf_platform = ''datadog'', mf_label = ''Datadog'',
      mf_baseUrl = ''https://api.datadoghq.com/api/v1'', mf_authMethods = [''apiKey''],
      mf_headers = [(''DD-API-KEY'', ''{apiKey}''), (''DD-APPLICATION-KEY'', ''{appKey}'')],
      mf_query = [], mf_style = None,
      mf_operations =
       [(''post_event'', http_op ''Post an event.'' ''POST'' ''/events''),
        (''query_metrics'', http_op ''Query timeseries (args: from, to, query).'' ''GET'' ''/query'')],
      mf_test = Some (http_op ''Validate the API key.'' ''GET'' ''/validate''),
      mf_docsUrl = Some ''https://app.datadoghq.com/organization-settings/api-keys'', mf_fields = None\<rparr>,
     \<lparr>mf_platform = ''pagerduty'', mf_label = ''PagerDuty'',
      mf_baseUrl = ''https://api.pagerduty.com'', mf_authMethods = [''apiKey''],
      mf_headers = [(''Authorization'', ''Token token={token}'')],
      mf_query = [], mf_style = None,
      mf_operations =
       [(''list_incidents'', http_op ''List incidents.'' ''GET'' ''/incidents''),
        (''create_incident'', http_op ''Create an incident.'' ''POST'' ''/incidents'')],
      mf_test = Some (http_op ''Validate the token (abilities).'' ''GET'' ''/abilities''),
      mf_docsUrl = Some ''https://support.pagerduty.com/docs/api-access-keys'', mf_fields = None\<rparr>]"

definition automation_manifests :: "connector_manifest list" where
  "automation_manifests =
    [\<lparr>mf_platform = ''zapier'', mf_label = ''Zapier (webhook)'',
      mf_baseUrl = ''{webhookUrl}'', mf_authMethods = [''apiKey''],
      mf_headers = [],
      mf_query = [], mf_style = None,
      mf_operations =
       [(''trigger'', http_op ''POST a payload to a Zapier catch hook.'' ''POST'' [])],
      mf_test = None,
      mf_docsUrl = None, mf_fields = None\<rparr>,
     \<lparr>mf_platform = ''make'', mf_label = ''Make (webhook)'',
      mf_baseUrl = ''{webhookUrl}'', mf_authMethods = [''apiKey''],
      mf_headers = [],
      mf_query = [], mf_style = None,
      mf_operations =
       [(''trigger'', http_op ''POST a payload to a Make webhook.'' ''POST'' [])],
      mf_test = None,
      mf_docsUrl = None, mf_fields = None\<rparr>,
     \<lparr>mf_platform = ''n8n'', mf_label = ''n8n (webhook)'',
      mf_baseUrl = ''{webhookUrl}'', mf_authMethods = [''apiKey''],
      mf_headers = [],
      mf_query = [], mf_style = None,
      mf_operations =
       [(''trigger'', http_op ''POST a payload to an n8n webhook.'' ''POST'' [])],
      mf_test = None,
      mf_docsUrl = None, mf_fields = None\<rparr>,
     \<lparr>mf_platform = ''ifttt'', mf_label = ''IFTTT (Maker webhook)'',
      mf_baseUrl = ''https://maker.ifttt.com/trigger/{event}/with/key/{key}'', mf_authMethods = [''apiKey''],
      mf_headers = [],
      mf_query = [], mf_style = None,
      mf_operations =
       [(''trigger'', http_op ''Fire a Maker event (value1..3 in body).'' ''POST'' [])],
      mf_test = None,
      mf_docsUrl = None, mf_fields = None\<rparr>]"

definition llm_providers_manifests :: "connector_manifest list" where
  "llm_providers_manifests =
    [\<lparr>mf_platform = ''openai'', mf_label = ''OpenAI'',
      mf_baseUrl = ''https://api.openai.com/v1'', mf_authMethods = [''bearer''],
      mf_headers = [(''Authorization'', ''Bearer {token}'')],
      mf_query = [], mf_style = None,
      mf_operations =
       [(''chat'', http_op ''Chat completion.'' ''POST'' ''/chat/completions''),
        (''embeddings'', http_op ''Create embeddings.'' ''POST'' ''/embeddings''),
        (''list_models'', http_op ''List models.'' ''GET'' ''/models'')],
      mf_test = Some (http_op ''Validate the key (models).'' ''GET'' ''/models''),
      mf_docsUrl = Some ''https://platform.openai.com/api-keys'', mf_fields = None\<rparr>,
     \<lparr>mf_platform = ''claude'', mf_label = ''Anthropic Claude'',
      mf_baseUrl = ''https://api.anthropic.com/v1'', mf_authMethods = [''apiKey''],
      mf_headers = [(''x-api-key'', ''{token}''), (''anthropic-version'', ''2023-06-01'')],
      mf_query = [], mf_style = None,
      mf_operations =
       [(''messages'', http_op ''Create a message (args: model, max_tokens, messages).'' ''POST'' ''/messages'')],
      mf_test = Some (http_op ''Validate the key (models).'' ''GET'' ''/models''),
      mf_docsUrl = Some ''https://console.anthropic.com/settings/keys'', mf_fields = None\<rparr>,
     \<lparr>mf_platform = ''gemini'', mf_label = ''Google Gemini'',
      mf_baseUrl = ''https://generativelanguage.googleapis.com/v1beta'', mf_authMethods = [''apiKey''],
      mf_headers = [],
      mf_query = [(''key'', ''{token}'')], mf_style = None,
      mf_operations =
       [(''generate'', http_op ''Generate content (args under /models/{model}:generateContent).'' ''POST'' ''/models/{model}:generateContent''),
        (''list_models'', http_op ''List models.'' ''GET'' ''/models'')],
      mf_test = Some (http_op ''Validate the key (models).'' ''GET'' ''/models''),
      mf_docsUrl = Some ''https://aistudio.google.com/apikey'', mf_fields = None\<rparr>,
     \<lparr>mf_platform = ''ollama'', mf_label = ''Ollama (local)'',
      mf_baseUrl = ''http://localhost:11434'', mf_authMethods = [''apiKey''],
      mf_headers = [],
      mf_query = [], mf_style = None,
      mf_operations =
       [(''generate'', http_op ''Generate a completion.'' ''POST'' ''/api/generate''),
        (''list_models'', http_op ''List local models.'' ''GET'' ''/api/tags'')],
      mf_test = Some (http_op ''Validate reachability (tags).'' ''GET'' ''/api/tags''),
      mf_docsUrl = None, mf_fields = None\<rparr>]"

definition social_manifests :: "connector_manifest list" where
  "social_manifests =
    [\<lparr>mf_platform = ''linkedin'', mf_label = ''LinkedIn'',
      mf_baseUrl = ''https://api.linkedin.com/v2'', mf_authMethods = [''bearer''],
      mf_headers = [(''Authorization'', ''Bearer {token}'')],
      mf_query = [], mf_style = None,
      mf_operations =
       [(''get_profile'', http_op ''Get the authenticated member profile.'' ''GET'' ''/me''),
        (''create_post'', http_op ''Create a UGC post.'' ''POST'' ''/ugcPosts'')],
      mf_test = Some (http_op ''Validate the token (profile).'' ''GET'' ''/me''),
      mf_docsUrl = None, mf_fields = None\<rparr>]"

definition BUNDLED_MANIFESTS :: "connector_manifest list" where
  "BUNDLED_MANIFESTS =
     messaging_manifests @
     dev_tools_manifests @
     project_management_manifests_1 @
     project_management_manifests_2 @
     crm_manifests @
     google_workspace_manifests @
     meetings_manifests @
     design_manifests @
     observability_manifests @
     automation_manifests @
     llm_providers_manifests @
     social_manifests"

definition UNSUPPORTED_PLATFORMS :: "string list" where
  "UNSUPPORTED_PLATFORMS = [''apple_intelligence'', ''obsidian'', ''loom'']"

text \<open>The argument of \<open>createConnectorRegistry\<close> is kept for compatibility and not read.\<close>

definition createConnectorRegistry :: "platform_io \<Rightarrow> string list \<Rightarrow> connector_registry" where
  "createConnectorRegistry io enabled =
     fold registry_register (coreDrivers io @ map (ManifestDriver io) BUNDLED_MANIFESTS) []"

end
