(* ===== verification/Connector_Laws.thy ===== *)
theory Connector_Laws
  imports Bundled_Manifests
begin

text \<open>
  What the connectors promise: credential forms that suffice, arguments that stay inside their slot
  of a path (and the dot segments that do not), and the bundled registry.
\<close>

section \<open>Objects of strings\<close>

lemma text_at_snoc [simp]: "text_at (kvs @ [(k, v)]) k' = (if k' = k then Some v else text_at kvs k')"
  by (simp add: text_at_def)

lemma text_at_none_iff: "text_at kvs k = None \<longleftrightarrow> k \<notin> set (map fst kvs)"
  by (simp add: text_at_def map_of_eq_None_iff rev_map [symmetric])

lemma text_at_put [simp]: "text_at (put_text k v kvs) k' = (if k' = k then Some v else text_at kvs k')"
  by (simp add: text_at_def put_text_def map_of_rev_assoc_put)

lemma base64_nonempty: "s \<noteq> [] \<Longrightarrow> base64 s \<noteq> []"
proof -
  assume "s \<noteq> []"
  then obtain c cs where s: "s = c # cs" by (cases s) auto
  have "b64_sextets (map of_char (c # cs)) \<noteq> []"
    by (cases cs; cases "tl cs") (auto split: list.split)
  then show ?thesis by (simp add: s base64_def base64url_def Let_def)
qed

section \<open>Templates\<close>

lemma list_ex_parts_iff:
  "list_ex (part_missing s) ps \<longleftrightarrow> (\<exists>k. Inr k \<in> set ps \<and> \<not> truthy (text_at s k))"
proof (induction ps)
  case (Cons p ps)
  then show ?case by (cases p) (auto simp: part_missing_def)
qed simp

lemma template_keys_iff: "k \<in> set (template_keys t) \<longleftrightarrow> Inr k \<in> set (template_parts t)"
  by (auto simp: template_keys_def split: sum.splits)

lemma fillTemplate_missing:
  "snd (fillTemplate t s) \<longleftrightarrow> (\<exists>k \<in> set (template_keys t). \<not> truthy (text_at s k))"
  by (auto simp: fillTemplate_def list_ex_parts_iff template_keys_iff)

lemma template_parts_nonempty: "t \<noteq> [] \<Longrightarrow> template_parts t \<noteq> []"
  by (cases t) (auto simp: Let_def)

lemma fillTemplate_nonempty:
  assumes "\<not> snd (fillTemplate t s)" and "t \<noteq> []"
  shows "fst (fillTemplate t s) \<noteq> []"
proof -
  obtain p ps where p: "template_parts t = p # ps"
    using template_parts_nonempty [OF assms(2)] by (cases "template_parts t") auto
  have "fill_part s p \<noteq> []"
  proof (cases p)
    case (Inr k)
    then have "truthy (text_at s k)" using assms(1) p by (auto simp: fillTemplate_def part_missing_def)
    with Inr show ?thesis by (auto simp: fill_part_def truthy_def nullish_def split: option.splits)
  qed (simp add: fill_part_def)
  then show ?thesis by (simp add: fillTemplate_def p)
qed

lemma manifest_validate_iff:
  "manifest_validateCredential m c = Inr True \<longleftrightarrow>
     (\<forall>k \<in> set (manifest_keys m). truthy (text_at (normalizeSecret (nullish (pc_secret c) [])) k))"
  by (auto simp: manifest_validateCredential_def Let_def list_all_iff fillTemplate_missing manifest_keys_def)

lemma normalizeSecret_keeps: "k \<noteq> ''basic'' \<Longrightarrow> text_at (normalizeSecret s) k = text_at s k"
  by (simp add: normalizeSecret_def)

lemma normalizeSecret_basic:
  "truthy (text_at s ''username'') \<Longrightarrow> truthy (text_at (normalizeSecret s) ''basic'')"
  by (auto simp: normalizeSecret_def base64_nonempty)

lemma key_fields_suffice:
  assumes "\<forall>f \<in> set (key_fields k). truthy (text_at s (cf_key f))"
  shows "truthy (text_at (normalizeSecret s) k)"
  using assms by (cases "k = ''basic''")
    (auto simp: key_fields_def plain_field_def normalizeSecret_keeps normalizeSecret_basic)

lemma fill_headers_at:
  assumes "\<forall>(k, t) \<in> set ts. \<not> snd (fillTemplate t s)"
  shows "(k \<in> fst ` set ts \<longrightarrow> (\<exists>t. (k, t) \<in> set ts \<and> text_at (fill_headers s ts hs) k = Some (fst (fillTemplate t s)))) \<and>
    (k \<notin> fst ` set ts \<longrightarrow> text_at (fill_headers s ts hs) k = text_at hs k)"
  using assms
proof (induction ts arbitrary: hs)
  case (Cons a ts)
  obtain k' t where a: "a = (k', t)" by (cases a)
  have step: "fill_headers s (a # ts) hs = fill_headers s ts (put_text k' (fst (fillTemplate t s)) hs)"
    using Cons.prems by (cases "fillTemplate t s") (simp add: a fill_headers_def)
  have IH: "(k \<in> fst ` set ts \<longrightarrow> (\<exists>t. (k, t) \<in> set ts \<and>
        text_at (fill_headers s ts (put_text k' (fst (fillTemplate t' s)) hs)) k = Some (fst (fillTemplate t s)))) \<and>
      (k \<notin> fst ` set ts \<longrightarrow> text_at (fill_headers s ts (put_text k' (fst (fillTemplate t' s)) hs)) k =
        text_at (put_text k' (fst (fillTemplate t' s)) hs) k)" for t'
    by (rule Cons.IH) (use Cons.prems in auto)
  show ?case
  proof (cases "k \<in> fst ` set ts")
    case True
    with IH [of t] show ?thesis by (auto simp: step [unfolded a] a)
  next
    case False
    with IH [of t] show ?thesis by (auto simp: step [unfolded a] a)
  qed
qed (simp add: fill_headers_def)

section \<open>Credential forms suffice\<close>

lemma derived_fields_validate:
  assumes "mf_fields m = None" and "\<forall>f \<in> set (deriveCredentialFields m). truthy (text_at s (cf_key f))"
    and "pc_secret c = Some s"
  shows "manifest_validateCredential m c = Inr True"
proof -
  have "truthy (text_at (normalizeSecret s) k)" if "k \<in> set (manifest_keys m)" for k
    by (rule key_fields_suffice) (use assms(1,2) that in \<open>auto simp: deriveCredentialFields_def\<close>)
  then show ?thesis using assms(3) by (simp add: manifest_validate_iff nullish_def)
qed

lemma template_not_missing:
  assumes "manifest_validateCredential m c = Inr True" and "t \<in> set (manifest_templates m)"
  shows "\<not> snd (fillTemplate t (normalizeSecret (nullish (pc_secret c) [])))"
  using assms unfolding manifest_validate_iff by (auto simp: fillTemplate_missing manifest_keys_def)

lemma validated_request:
  assumes v: "manifest_validateCredential m c = Inr True" and s: "pc_secret c = Some s"
    and b: "text_at s ''baseUrl'' = None" "mf_baseUrl m \<noteq> []"
    and ct: "k \<noteq> ''content-type''" and k: "k \<in> fst ` set (mf_headers m)"
  shows "\<exists>rq t. operation_request J m op args c = Inr rq \<and> (k, t) \<in> set (mf_headers m) \<and>
    text_at (rq_headers rq) k = Some (fst (fillTemplate t (normalizeSecret s)))"
proof -
  let ?s = "normalizeSecret s"
  have all: "t \<in> set (manifest_templates m) \<Longrightarrow> \<not> snd (fillTemplate t ?s)" for t
    using template_not_missing [OF v] s by (simp add: nullish_def)
  have base: "\<not> snd (fillTemplate (mf_baseUrl m) ?s)" by (rule all) (simp add: manifest_templates_def)
  have "t \<in> set (manifest_templates m)" if "(k, t) \<in> set (mf_headers m)" for k t
    using imageI [OF that, of snd] by (simp add: manifest_templates_def)
  with all have hs: "\<forall>(k, t) \<in> set (mf_headers m). \<not> snd (fillTemplate t ?s)" by blast
  have "text_at ?s ''baseUrl'' = None" using b(1) by (simp add: normalizeSecret_keeps)
  then have "manifest_base m ?s = Inr (strip_slashes (fst (fillTemplate (mf_baseUrl m) ?s)))"
    using base fillTemplate_nonempty [OF base b(2)]
    by (cases "fillTemplate (mf_baseUrl m) ?s") (simp add: manifest_base_def nullish_def)
  moreover obtain t where "(k, t) \<in> set (mf_headers m)"
    "\<And>hs. text_at (fill_headers ?s (mf_headers m) hs) k = Some (fst (fillTemplate t ?s)) \<or>
       (\<exists>t'. (k, t') \<in> set (mf_headers m) \<and> text_at (fill_headers ?s (mf_headers m) hs) k = Some (fst (fillTemplate t' ?s)))"
    using fill_headers_at [OF hs, of k] k by blast
  moreover have "\<exists>t'. (k, t') \<in> set (mf_headers m) \<and>
      text_at (fill_headers ?s (mf_headers m) [(''accept'', ''application/json''), (''user-agent'', ''agent-conduit'')]) k =
        Some (fst (fillTemplate t' ?s))"
    using fill_headers_at [OF hs, of k] k by blast
  ultimately show ?thesis
    using s ct by (auto simp: operation_request_def Let_def nullish_def split: prod.split)
qed

text \<open>
  The credential form suffices.  For a manifest that derives its form from its templates, a secret
  with a value for every field of the form passes the validation, and, unless it names a base URL
  of its own, every operation of the manifest then yields a request that carries each header of the
  manifest, filled from the secret.
\<close>

lemma derived_fields_suffice:
  assumes "mf_fields m = None" and "\<forall>f \<in> set (deriveCredentialFields m). truthy (text_at s (cf_key f))"
    and "pc_secret c = Some s"
  shows "manifest_validateCredential m c = Inr True \<and>
    (text_at s ''baseUrl'' = None \<longrightarrow> mf_baseUrl m \<noteq> [] \<longrightarrow>
      (\<forall>k \<in> fst ` set (mf_headers m). k \<noteq> ''content-type'' \<longrightarrow>
        (\<exists>rq t. operation_request J m op args c = Inr rq \<and> (k, t) \<in> set (mf_headers m) \<and>
          text_at (rq_headers rq) k = Some (fst (fillTemplate t (normalizeSecret s))))))"
  using derived_fields_validate [OF assms] validated_request [OF derived_fields_validate [OF assms] assms(3)]
  by blast

definition sample_manifest :: connector_manifest where
  "sample_manifest =
    \<lparr>mf_platform = ''jira'', mf_label = ''Jira'', mf_baseUrl = ''https://{site}.atlassian.net'',
     mf_authMethods = [''basic''], mf_headers = [(''Authorization'', ''Basic {basic}'')], mf_query = [],
     mf_style = None, mf_operations = [(''search'', http_op ''Search.'' ''GET'' ''/search'')], mf_test = None,
     mf_docsUrl = None, mf_fields = None\<rparr>"

definition sample_secret :: secret where
  "sample_secret = [(''site'', ''acme''), (''username'', ''bot''), (''password'', ''pw'')]"

lemma derived_fields_suffice_witness:
  "\<exists>rq. operation_request sample_json_text sample_manifest (http_op ''Search.'' ''GET'' ''/search'') []
      \<lparr>pc_authMethod = Some ''basic'', pc_secret = Some sample_secret\<rparr> = Inr rq \<and>
    text_at (rq_headers rq) ''Authorization'' = Some ''Basic Ym90OnB3''"
proof -
  let ?c = "\<lparr>pc_authMethod = Some ''basic'', pc_secret = Some sample_secret\<rparr>"
  have a: "mf_fields sample_manifest = None" "mf_baseUrl sample_manifest \<noteq> []"
    "mf_headers sample_manifest = [(''Authorization'', ''Basic {basic}'')]"
    by (simp_all add: sample_manifest_def)
  have "list_all (\<lambda>f. truthy (text_at sample_secret (cf_key f))) (deriveCredentialFields sample_manifest)"
    by code_simp
  then have b: "\<forall>f \<in> set (deriveCredentialFields sample_manifest). truthy (text_at sample_secret (cf_key f))"
    by (simp add: list_all_iff)
  have c: "text_at sample_secret ''baseUrl'' = None" by code_simp
  have d: "fst (fillTemplate ''Basic {basic}'' (normalizeSecret sample_secret)) = ''Basic Ym90OnB3''" by code_simp
  have e: "pc_secret ?c = Some sample_secret" by simp
  from derived_fields_suffice [OF a(1) b e] a(2,3) c d show ?thesis by simp
qed

section \<open>Arguments in paths\<close>

definition url_delimiter :: "char \<Rightarrow> bool" where
  "url_delimiter c \<longleftrightarrow> c \<in> set ''/?#''"

lemma hex_digit_no_delimiter: "n < 16 \<Longrightarrow> \<not> url_delimiter (hex_digit n)"
proof -
  assume "n < 16"
  moreover have "list_all (\<lambda>n. \<not> url_delimiter (hex_digit n)) [0..<16]" by code_simp
  ultimately show ?thesis by (simp only: list_all_iff set_upt) simp
qed

lemma unreserved_no_delimiter: "is_unreserved c \<Longrightarrow> \<not> url_delimiter c"
proof -
  have "list_all (\<lambda>c. \<not> is_unreserved c) ''/?#''" by code_simp
  then show "is_unreserved c \<Longrightarrow> \<not> url_delimiter c" by (auto simp: list_all_iff url_delimiter_def)
qed

lemma encode_char_delimiters: "filter url_delimiter (encode_char c) = []"
proof -
  have p: "\<not> url_delimiter (CHR ''%'')" by code_simp
  have "(of_char c :: nat) < 256" by (simp add: of_char_def)
  then have "(of_char c :: nat) div 16 < 16" by (intro less_mult_imp_div_less) simp
  then show ?thesis
    using p by (simp add: encode_char_def Let_def unreserved_no_delimiter hex_digit_no_delimiter)
qed

lemma encodeURIComponent_delimiters: "filter url_delimiter (encodeURIComponent s) = []"
  by (induction s) (simp_all add: encodeURIComponent_def encode_char_delimiters)

text \<open>
  An argument cannot leave its slot by a delimiter: the slashes, question marks and hashes of a
  resolved path are exactly those of the template, in order, whatever the arguments are.
\<close>

lemma path_delimiters_from_template:
  "filter url_delimiter (fst (resolve_parts J ps args)) =
     filter url_delimiter (concat (map (\<lambda>p. case p of Inl c \<Rightarrow> [c] | Inr k \<Rightarrow> []) ps))"
  by (induction J ps args rule: resolve_parts.induct)
    (auto simp: encodeURIComponent_delimiters split: prod.splits)

text \<open>
  What \<open>new URL\<close> does with a path: a segment of one dot is dropped, one of two dots also takes
  the segment before it away, with the dots also in their escaped form.
\<close>

fun dot_segment :: "string \<Rightarrow> nat option" where
  "dot_segment s =
     (let t = map ascii_lower s in
      if t = ''.'' \<or> t = ''%2e'' then Some 1
      else if t \<in> {''..'', ''.%2e'', ''%2e.'', ''%2e%2e''} then Some 2 else None)"

fun url_segments :: "string list \<Rightarrow> string list \<Rightarrow> string list" where
  "url_segments acc [] = rev acc"
| "url_segments acc [s] =
     (case dot_segment s of None \<Rightarrow> rev (s # acc) | Some n \<Rightarrow> rev ([] # (if n = 1 then acc else tl acc)))"
| "url_segments acc (s # t # ss) =
     (case dot_segment s of
        None \<Rightarrow> url_segments (s # acc) (t # ss)
      | Some n \<Rightarrow> url_segments (if n = 1 then acc else tl acc) (t # ss))"

text \<open>
  Dots are not escaped: with two dots as the number of the issue, GitHub's \<open>add_comment\<close> is sent
  to the comments of the repository and not of an issue, a resource the operation does not name.
\<close>

lemma dot_argument_leaves_slot:
  "case map_of (mf_operations (hd dev_tools_manifests)) ''add_comment'' of
     None \<Rightarrow> False
   | Some op \<Rightarrow>
       (let path = fst (resolve_parts J (template_parts (snd (resolveTarget op)))
          [(''owner'', JStr ''o''), (''repo'', JStr ''r''), (''issue_number'', JStr ''..'')])
        in path = ''/repos/o/r/issues/../comments'' \<and>
           url_segments [] (split_at CHR ''/'' (tl path)) = [''repos'', ''o'', ''r'', ''comments''])"
proof -
  have op: "map_option (\<lambda>op. snd (resolveTarget op))
      (map_of (mf_operations (hd dev_tools_manifests)) ''add_comment'') =
    Some ''/repos/{owner}/{repo}/issues/{issue_number}/comments''" by code_simp
  have parts: "template_parts ''/repos/{owner}/{repo}/issues/{issue_number}/comments'' =
    map Inl ''/repos/'' @ Inr ''owner'' # Inl CHR ''/'' # Inr ''repo'' # map Inl ''/issues/'' @
      Inr ''issue_number'' # map Inl ''/comments''" by code_simp
  have enc: "encodeURIComponent ''o'' = ''o''" "encodeURIComponent ''r'' = ''r''"
    "encodeURIComponent ''..'' = ''..''" by code_simp+
  have seg: "url_segments [] (split_at CHR ''/'' ''repos/o/r/issues/../comments'') =
    [''repos'', ''o'', ''r'', ''comments'']" by code_simp
  have path: "fst (resolve_parts J (template_parts ''/repos/{owner}/{repo}/issues/{issue_number}/comments'')
      [(''owner'', JStr ''o''), (''repo'', JStr ''r''), (''issue_number'', JStr ''..'')]) =
    ''/repos/o/r/issues/../comments''"
    unfolding parts by (simp add: field_of_def arg_text_def js_String_def enc)
  from op obtain o1 where "map_of (mf_operations (hd dev_tools_manifests)) ''add_comment'' = Some o1"
    "snd (resolveTarget o1) = ''/repos/{owner}/{repo}/issues/{issue_number}/comments''"
    by auto
  with path seg show ?thesis by (simp add: Let_def)
qed

section \<open>The bundled registry\<close>

lemma registry_fold:
  assumes "distinct (map dv_platform (ds @ es))"
  shows "fold registry_register es ds = ds @ es"
  using assms
proof (induction es arbitrary: ds)
  case (Cons e es)
  have "registry_register e ds = ds @ [e]"
    using Cons.prems by (auto simp: registry_register_def)
  with Cons.IH [of "ds @ [e]"] Cons.prems show ?case by simp
qed simp

lemma registry_get_member:
  assumes "distinct (map dv_platform ds)" and "d \<in> set ds"
  shows "registry_get ds (dv_platform d) = Some d"
  using assms by (induction ds) (auto simp: registry_get_def)

lemma bundled_platforms_distinct:
  "distinct ([''mock'', ''rest'', ''slack''] @ map mf_platform BUNDLED_MANIFESTS)"
  by code_simp

lemma bundled_registry: "createConnectorRegistry io es = coreDrivers io @ map (ManifestDriver io) BUNDLED_MANIFESTS"
  and bundled_registry_distinct: "distinct (map dv_platform (createConnectorRegistry io es))"
proof -
  have "map dv_platform (coreDrivers io @ map (ManifestDriver io) BUNDLED_MANIFESTS) =
      [''mock'', ''rest'', ''slack''] @ map mf_platform BUNDLED_MANIFESTS"
    by (simp add: coreDrivers_def MockDriver_def RestDriver_def SlackDriver_def ManifestDriver_def comp_def)
  then have d: "distinct (map dv_platform (coreDrivers io @ map (ManifestDriver io) BUNDLED_MANIFESTS))"
    using bundled_platforms_distinct by simp
  show r: "createConnectorRegistry io es = coreDrivers io @ map (ManifestDriver io) BUNDLED_MANIFESTS"
    unfolding createConnectorRegistry_def using registry_fold [of "[]", simplified append_Nil] d by metis
  show "distinct (map dv_platform (createConnectorRegistry io es))" unfolding r by (rule d)
qed

text \<open>A live probe is meant to be a safe read without arguments.\<close>

definition safe_probe :: "connector_manifest \<Rightarrow> bool" where
  "safe_probe m =
     (case mf_test m of
        None \<Rightarrow> True
      | Some op \<Rightarrow>
          (case mo_graphql op of
             Some q \<Rightarrow> mf_style m = Some GraphqlStyle \<and> starts_with ''query'' q
           | None \<Rightarrow> fst (resolveTarget op) = ''GET'' \<and> template_keys (snd (resolveTarget op)) = []))"

lemma template_keys_none: "CHR ''{'' \<notin> set t \<Longrightarrow> template_keys t = []"
proof -
  have "CHR ''{'' \<notin> set t \<Longrightarrow> template_parts t = map Inl t"
    by (induction t rule: template_parts.induct) (auto simp: Let_def)
  then show "CHR ''{'' \<notin> set t \<Longrightarrow> template_keys t = []" by (simp add: template_keys_def comp_def)
qed

definition plain_probe :: "connector_manifest \<Rightarrow> bool" where
  "plain_probe m =
     (case mf_test m of
        None \<Rightarrow> True
      | Some op \<Rightarrow>
          (case mo_graphql op of
             Some q \<Rightarrow> mf_style m = Some GraphqlStyle \<and> starts_with ''query'' q
           | None \<Rightarrow> mo_method op = Some ''GET'' \<and> list_all (\<lambda>c. c \<noteq> CHR ''{'') (nullish (mo_path op) [])))"

lemma plain_probe_safe: "plain_probe m \<Longrightarrow> safe_probe m"
proof -
  have get: "ascii_upper CHR ''G'' = CHR ''G''" "ascii_upper CHR ''E'' = CHR ''E''"
    "ascii_upper CHR ''T'' = CHR ''T''" by code_simp+
  show "plain_probe m \<Longrightarrow> safe_probe m"
    unfolding plain_probe_def safe_probe_def
    by (auto simp: resolveTarget_def Let_def get nullish_def list_all_iff intro!: template_keys_none split: option.splits)
qed

lemma bundled_probes_plain: "list_all plain_probe BUNDLED_MANIFESTS"
  by code_simp

lemma bundled_probes_safe: "list_all safe_probe BUNDLED_MANIFESTS"
  using bundled_probes_plain plain_probe_safe by (auto simp: list_all_iff)

text \<open>
  The bundled registry: no connector hides another, so the registry resolves every core driver and
  every bundled manifest to its own driver; and the live probe of a manifest is a GET of a path
  without slots, or a GraphQL query and no mutation.
\<close>

lemma bundled_connectors:
  "list_all (\<lambda>d. registry_get (createConnectorRegistry io es) (dv_platform d) = Some d)
     (coreDrivers io @ map (ManifestDriver io) BUNDLED_MANIFESTS) \<and>
   list_all safe_probe BUNDLED_MANIFESTS"
  using registry_get_member [OF bundled_registry_distinct] bundled_probes_safe
  by (simp add: list_all_iff bundled_registry)

end
