(* ===== verification/Dashboard_Forms.thy ===== *)
theory Dashboard_Forms
  imports Dashboard_Client Connection_Laws Connector_Laws
begin

text \<open>
  What the views of the dashboard decide before they call the gateway: the policy editor
  (\<^verbatim>\<open>views/PolicyView.tsx\<close>), the security panel (\<^verbatim>\<open>components/SecuritySettings.tsx\<close>), the wiring of agents
  (\<^verbatim>\<open>views/WiringView.tsx\<close>), the forms of connections and agents (\<^verbatim>\<open>views/ConnectionsView.tsx\<close>,
  \<^verbatim>\<open>components\<close>).  An error of an operation is what the view shows; layout, busy flags and cache
  invalidation are left out.  The properties follow a form through the request to its effect in the gateway.
\<close>

section \<open>Tokens and keys\<close>

text \<open>\<open>signHostJwt(parseHostKey(key), await api.getIssuer())\<close>.\<close>

definition view_hostJwt :: "client_io \<Rightarrow> string \<Rightarrow> string \<Rightarrow> ('s, string) api_op" where
  "view_hostJwt io base key =
     eff_bind (eff_sum (parseHostKey (ci_json io) key)) (\<lambda>jwk.
     eff_bind (getIssuer io base) (\<lambda>issuer.
     eff_sum (signHostJwt (ci_crypto io) (ci_json io) jwk issuer (ci_now io) (ci_jti io))))"

definition key_missing :: "string \<Rightarrow> bool" where
  "key_missing key \<longleftrightarrow> js_trim key = []"

section \<open>Policy editor and security panel\<close>

definition csv :: "string \<Rightarrow> string list option" where
  "csv v =
     (let parts = filter (\<lambda>s. s \<noteq> []) (map js_trim (split_at CHR '','' v)) in
      if parts = [] then None else Some parts)"

record rule_form =
  rf_id :: string
  rf_effect :: policy_effect
  rf_caps :: string
  rf_platforms :: string
  rf_ops :: string
  rf_modes :: string
  rf_risk :: string

definition new_rule :: "rule_form \<Rightarrow> policy_rule" where
  "new_rule f =
    \<lparr>pr_id = js_trim (rf_id f), pr_description = None, pr_effect = rf_effect f, pr_agentModes = csv (rf_modes f),
     pr_capabilities = csv (rf_caps f), pr_platforms = csv (rf_platforms f), pr_operations = csv (rf_ops f),
     pr_minRisk = risk_of (Some (JStr (rf_risk f)))\<rparr>"

definition addRule :: "rule_form \<Rightarrow> policy_config \<Rightarrow> fault + policy_config" where
  "addRule f p =
     (if js_trim (rf_id f) = [] then Inl (OtherError ''Rule id is required.'')
      else Inr (p\<lparr>pc_rules := pc_rules p @ [new_rule f]\<rparr>))"

definition removeRule :: "string \<Rightarrow> policy_config \<Rightarrow> policy_config" where
  "removeRule i p = p\<lparr>pc_rules := filter (\<lambda>r. pr_id r \<noteq> i) (pc_rules p)\<rparr>"

text \<open>The editor sends all the settings it has read; the panel leaves the policy out.\<close>

definition policy_patch :: "runtime_settings \<Rightarrow> policy_config \<Rightarrow> json" where
  "policy_patch seen policy = settings_json (seen\<lparr>st_policy := policy\<rparr>)"

definition persist :: "client_io \<Rightarrow> string \<Rightarrow> string \<Rightarrow> runtime_settings \<Rightarrow> policy_config \<Rightarrow> ('s, json) api_op" where
  "persist io base key seen policy =
     eff_bind (view_hostJwt io base key) (\<lambda>token. updateSecuritySettings io base token (policy_patch seen policy))"

definition panel_patch :: "runtime_settings \<Rightarrow> json" where
  "panel_patch seen = JObj (filter (\<lambda>m. fst m \<noteq> ''policy'') (fields_of (settings_json seen)))"

definition panel_save :: "client_io \<Rightarrow> string \<Rightarrow> string \<Rightarrow> runtime_settings \<Rightarrow> ('s, json) api_op" where
  "panel_save io base key seen =
     eff_bind (view_hostJwt io base key) (\<lambda>token. updateSecuritySettings io base token (panel_patch seen))"

section \<open>Wiring\<close>

text \<open>What the three controls of the view send for a connection.\<close>

definition authorize_input :: "string \<Rightarrow> ui_attach_input" where
  "authorize_input c = \<lparr>ai_connectionId = c, ai_allowedOperations = None, ai_rateLimit = None\<rparr>"

definition ops_input :: "string \<Rightarrow> string list \<Rightarrow> ui_attach_input" where
  "ops_input c ops = (authorize_input c)\<lparr>ai_allowedOperations := Some ops\<rparr>"

definition rate_input :: "string \<Rightarrow> int option \<Rightarrow> ui_attach_input" where
  "rate_input c rate = (authorize_input c)\<lparr>ai_rateLimit := Some rate\<rparr>"

text \<open>A \<^verbatim>\<open>Set\<close> in the order of insertion.\<close>

definition toggled_ops :: "string \<Rightarrow> string list \<Rightarrow> string list" where
  "toggled_ops nm allowed =
     (let present = rev (remdups (rev allowed)) in
      if nm \<in> set present then filter (\<lambda>o'. o' \<noteq> nm) present else present @ [nm])"

definition wire_attach ::
  "client_io \<Rightarrow> string \<Rightarrow> string \<Rightarrow> string \<Rightarrow> ui_attach_input \<Rightarrow> ('s, unit) api_op" where
  "wire_attach io base key agentId i =
     eff_bind (eff_require (\<not> key_missing key) (OtherError ''Set your operator host key first (Settings).'')) (\<lambda>_.
     eff_bind (view_hostJwt io base key) (\<lambda>token. ui_attachConnection io base token agentId i))"

definition wire_detach :: "client_io \<Rightarrow> string \<Rightarrow> string \<Rightarrow> string \<Rightarrow> string \<Rightarrow> ('s, unit) api_op" where
  "wire_detach io base key agentId connectionId =
     eff_bind (view_hostJwt io base key) (\<lambda>token. ui_detachConnection io base token agentId connectionId)"

text \<open>How the attach route reads the members of its body.\<close>

definition read_attach_body :: "json_object \<Rightarrow> attach_body" where
  "read_attach_body b =
    \<lparr>at_connection_id = text_of (field_of b ''connection_id''),
     at_allowed_operations = (case field_of b ''allowed_operations'' of Some (JArr xs) \<Rightarrow> Some (texts_in xs) | _ \<Rightarrow> None),
     at_rate_limit = (case field_of b ''rate_limit'' of Some (JNum q) \<Rightarrow> Some \<lfloor>q\<rfloor> | _ \<Rightarrow> None)\<rparr>"

section \<open>The connection form\<close>

record connection_form =
  ff_platform :: string
  ff_fields :: "connector_field list"
  ff_rawMode :: bool
  ff_name :: string
  ff_authMethod :: string
  ff_secret :: string
  ff_values :: "string \<Rightarrow> string option"
  ff_ops :: "string list"
  ff_project :: string

text \<open>\<open>chooseConnector\<close>, on what the gateway lists of a driver.\<close>

definition chooseConnector :: "platform_driver \<Rightarrow> string \<Rightarrow> connection_form" where
  "chooseConnector d project =
     (let fields = nullish (dv_credentialFields d) [] in
      \<lparr>ff_platform = dv_platform d, ff_fields = fields, ff_rawMode = (fields = []), ff_name = [],
       ff_authMethod = (case dv_supportedAuthMethods d of [] \<Rightarrow> ''bearer'' | m # ms \<Rightarrow> m), ff_secret = [],
       ff_values = Map.empty, ff_ops = [], ff_project = project\<rparr>)"

definition toggleOp :: "string \<Rightarrow> string list \<Rightarrow> string list" where
  "toggleOp op' ops = (if op' \<in> set ops then filter (\<lambda>o'. o' \<noteq> op') ops else ops @ [op'])"

definition addOpDraft :: "string \<Rightarrow> string list \<Rightarrow> string list" where
  "addOpDraft draft ops =
     (let v = js_trim draft in if v \<noteq> [] \<and> v \<notin> set ops then ops @ [v] else ops)"

definition field_value :: "connection_form \<Rightarrow> string \<Rightarrow> string" where
  "field_value f k = js_trim (nullish (ff_values f k) [])"

definition missing_fields :: "connection_form \<Rightarrow> connector_field list" where
  "missing_fields f = filter (\<lambda>x. cf_required x \<and> field_value f (cf_key x) = []) (ff_fields f)"

definition field_secret :: "connection_form \<Rightarrow> secret" where
  "field_secret f =
     fold (\<lambda>x s. if field_value f (cf_key x) = [] then s else put_text (cf_key x) (field_value f (cf_key x)) s)
       (ff_fields f) []"

definition secret_json :: "secret \<Rightarrow> json" where
  "secret_json s = JObj (map (\<lambda>(k, v). (k, JStr v)) s)"

definition form_secret :: "json_text \<Rightarrow> connection_form \<Rightarrow> fault + json" where
  "form_secret J f =
     (if ff_rawMode f
      then case jt_parse J (if ff_secret f = [] then ''{}'' else ff_secret f) of
             None \<Rightarrow> Inl (OtherError ''Secret must be valid JSON.'') | Some j \<Rightarrow> Inr j
      else if missing_fields f \<noteq> []
      then Inl (OtherError (''Fill required field(s): '' @ join_commas (map cf_label (missing_fields f))))
      else Inr (secret_json (field_secret f)))"

definition template_text :: "json_text \<Rightarrow> json option \<Rightarrow> string" where
  "template_text J v = (case v of None \<Rightarrow> ''undefined'' | Some j \<Rightarrow> js_String J j)"

text \<open>The verdict of the test that follows a registration; whatever goes wrong there is swallowed.\<close>

definition test_verdict :: "client_io \<Rightarrow> string \<Rightarrow> string \<Rightarrow> string \<Rightarrow> ('s, string) api_op" where
  "test_verdict io base token i =
     eff_catch
       (eff_bind (ui_testConnection io base token i) (\<lambda>t.
        eff_bind (eff_sum (member_of t ''ok'')) (\<lambda>passed.
        eff_bind (eff_sum (member_of t ''checked'')) (\<lambda>checked.
        eff_bind (eff_sum (member_of t ''detail'')) (\<lambda>detail.
        eff_return
          ((if member_truthy passed then ''Verified ('' else ''Registered, but the test failed ('') @
           template_text (ci_json io) checked @ ''): '' @ template_text (ci_json io) detail @ ''.''))))))
       (\<lambda>_. eff_return ''The secret is encrypted at rest.'')"

definition connection_submit :: "client_io \<Rightarrow> string \<Rightarrow> string \<Rightarrow> connection_form \<Rightarrow> ('s, string) api_op" where
  "connection_submit io base key f =
     eff_bind (eff_require (js_trim (ff_name f) \<noteq> []) (OtherError ''Name is required.'')) (\<lambda>_.
     eff_bind (eff_require (\<not> key_missing key) (OtherError ''Set the operator host key first.'')) (\<lambda>_.
     eff_bind (eff_sum (form_secret (ci_json io) f)) (\<lambda>s.
     eff_bind (view_hostJwt io base key) (\<lambda>token.
     eff_bind (ui_registerConnection io base token
       \<lparr>ur_name = js_trim (ff_name f), ur_platform = ff_platform f, ur_authMethod = ff_authMethod f, ur_secret = s,
        ur_allowedOperations = ff_ops f,
        ur_projectId = (if ff_project f = [] then None else Some (ff_project f))\<rparr>) (\<lambda>i.
     eff_bind (test_verdict io base token (js_String (ci_json io) i)) (\<lambda>verdict.
     eff_return (''Connection \"'' @ js_trim (ff_name f) @ ''\" registered. '' @ verdict)))))))"

record edit_connection_form =
  ef_id :: string
  ef_current_project :: "string option"
  ef_name :: string
  ef_ops :: "string list"
  ef_secret :: string
  ef_project :: string

definition saveEdit :: "client_io \<Rightarrow> string \<Rightarrow> string \<Rightarrow> edit_connection_form \<Rightarrow> ('s, unit) api_op" where
  "saveEdit io base key f =
     eff_bind (eff_require (\<not> key_missing key) (OtherError ''Set the operator host key first.'')) (\<lambda>_.
     eff_bind (if js_trim (ef_secret f) = [] then eff_return None
       else eff_bind (eff_some (jt_parse (ci_json io) (ef_secret f)) (OtherError ''New secret must be valid JSON.''))
         (\<lambda>j. eff_return (Some j))) (\<lambda>s.
     eff_bind (view_hostJwt io base key) (\<lambda>token.
     let chosen = (if ef_project f = [] then None else Some (ef_project f)) in
     ui_updateConnection io base token (ef_id f)
       \<lparr>up_name = Some (js_trim (ef_name f)), up_allowedOperations = Some (ef_ops f), up_authMethod = None,
        up_secret = (if member_truthy s then s else None),
        up_projectId = (if chosen = ef_current_project f then None else Some chosen)\<rparr>)))"

definition view_testConnection :: "client_io \<Rightarrow> string \<Rightarrow> string \<Rightarrow> string \<Rightarrow> ('s, json) api_op" where
  "view_testConnection io base key i =
     eff_bind (eff_require (\<not> key_missing key) (OtherError ''Set the operator host key first.'')) (\<lambda>_.
     eff_bind (view_hostJwt io base key) (\<lambda>token. ui_testConnection io base token i))"

text \<open>Deletions and revocations are confirmed by the operator first.\<close>

definition view_deleteConnection :: "client_io \<Rightarrow> string \<Rightarrow> string \<Rightarrow> bool \<Rightarrow> string \<Rightarrow> ('s, unit) api_op" where
  "view_deleteConnection io base key confirmed i =
     eff_bind (eff_require (\<not> key_missing key) (OtherError ''Set the operator host key first.'')) (\<lambda>_.
     if \<not> confirmed then eff_return ()
     else eff_bind (view_hostJwt io base key) (\<lambda>token. ui_deleteConnection io base token i))"

section \<open>Agents and projects\<close>

definition view_revokeAgent :: "client_io \<Rightarrow> string \<Rightarrow> string \<Rightarrow> bool \<Rightarrow> string \<Rightarrow> ('s, unit) api_op" where
  "view_revokeAgent io base key confirmed agentId =
     eff_bind (eff_require (\<not> key_missing key) (OtherError ''Set the operator host key first.'')) (\<lambda>_.
     if \<not> confirmed then eff_return ()
     else eff_bind (view_hostJwt io base key) (\<lambda>token. ui_revokeAgent io base token agentId))"

definition register_agent_form ::
  "client_io \<Rightarrow> string \<Rightarrow> string \<Rightarrow> bool \<Rightarrow> string \<Rightarrow> string \<Rightarrow> string \<Rightarrow> string \<Rightarrow> ('s, json \<times> json_object) api_op" where
  "register_agent_form io base key supported nm description mode project =
     eff_bind (eff_require supported
       (OtherError ''This browser does not support Ed25519 signing. Use `npm run demo` or the CLI.'')) (\<lambda>_.
     eff_bind (eff_require (\<not> key_missing key) (OtherError ''Enter the operator host key above first.'')) (\<lambda>_.
     eff_bind (view_hostJwt io base key) (\<lambda>token.
     eff_bind (ui_registerAgent io base token
       \<lparr>ua_agentPublicKey = fst (ci_pair io), ua_mode = mode, ua_name = Some (js_trim nm),
        ua_description = Some (js_trim description),
        ua_projectId = (if project = [] then None else Some project)\<rparr>) (\<lambda>res.
     eff_return (fst res, snd (ci_pair io))))))"

text \<open>Two requests: the second only if the project has changed, and the first stays made if it fails.\<close>

definition edit_agent_form ::
  "client_io \<Rightarrow> string \<Rightarrow> string \<Rightarrow> string \<Rightarrow> string option \<Rightarrow> string \<Rightarrow> string \<Rightarrow> string \<Rightarrow> ('s, unit) api_op" where
  "edit_agent_form io base key agentId current nm description project =
     eff_bind (eff_require (\<not> key_missing key) (OtherError ''Set the operator host key first.'')) (\<lambda>_.
     eff_bind (view_hostJwt io base key) (\<lambda>token.
     eff_bind (ui_updateAgent io base token agentId (js_trim nm) (js_trim description)) (\<lambda>_.
     let next_project = (if project = [] then None else Some project) in
     if next_project = current then eff_return ()
     else ui_setAgentProject io base token agentId next_project)))"

definition view_createProject :: "client_io \<Rightarrow> string \<Rightarrow> string \<Rightarrow> string \<Rightarrow> string \<Rightarrow> ('s, unit) api_op" where
  "view_createProject io base key nm description =
     (if js_trim nm = [] then eff_return ()
      else eff_bind (view_hostJwt io base key) (\<lambda>token.
        eff_bind (ui_createProject io base token (js_trim nm) (js_trim description)) (\<lambda>_. eff_return ())))"

definition view_removeProject :: "client_io \<Rightarrow> string \<Rightarrow> string \<Rightarrow> bool \<Rightarrow> string \<Rightarrow> ('s, unit) api_op" where
  "view_removeProject io base key confirmed i =
     (if \<not> confirmed then eff_return ()
      else eff_bind (view_hostJwt io base key) (\<lambda>token. ui_deleteProject io base token i))"

end
