(* ===== verification/Dashboard_Laws.thy ===== *)
theory Dashboard_Laws
  imports Dashboard_Forms
begin

text \<open>
  Forms of the dashboard and their effect: what the policy editor and the security panel do to the settings of
  the gateway, what the wiring view does to an authorization, and that the connection form asks for enough.
\<close>

section \<open>Editing the policy\<close>

lemma first_match_snoc:
  "first_match (rs @ [r]) ctx = (case first_match rs ctx of None \<Rightarrow> first_match [r] ctx | Some v \<Rightarrow> Some v)"
  by (induction rs) auto

lemma field_of_filter: "field_of (filter (\<lambda>m. fst m \<noteq> k) kvs) k' = (if k' = k then None else field_of kvs k')"
  by (induction kvs rule: rev_induct) (auto simp: split_paired_all)

lemma panel_patch_sections:
  "jget (panel_patch c) ''policy'' = None" "k \<noteq> ''policy'' \<Longrightarrow> jget (panel_patch c) k = jget (settings_json c) k"
proof -
  have "jget (settings_json c) k' = field_of (fields_of (settings_json c)) k'" for k'
    by (simp add: settings_json_def jget_def fields_of_def)
  then show "jget (panel_patch c) ''policy'' = None" "k \<noteq> ''policy'' \<Longrightarrow> jget (panel_patch c) k = jget (settings_json c) k"
    by (simp_all add: panel_patch_def jget_def field_of_filter)
qed

lemma panel_patch_update:
  assumes "clean_settings c" shows "settings_update (panel_patch c) d = c\<lparr>st_policy := st_policy d\<rparr>"
  using assms
  by (simp add: settings_update_def patch_section_def panel_patch_sections settings_sections merge_own clean_settings_def
      member_truthy_def json_truthy.simps)
    (simp add: jget_def field_of_Cons bool_or_def)

lemma policy_patch_update:
  assumes "clean_settings c" and "pc_defaultEffect p \<noteq> RequireApproval"
  shows "settings_update (policy_patch c p) d = c\<lparr>st_policy := p\<rparr>"
proof -
  have "clean_settings (c\<lparr>st_policy := p\<rparr>)" using assms(1) by (simp add: clean_settings_def)
  from settings_roundtrip [OF this] assms(2) show ?thesis by (simp add: policy_patch_def)
qed

text \<open>
  C25: Saving in the policy editor sets the policy to the edited one, and a rule added there decides exactly the
  executions that no earlier rule decides and that it matches, all others as before.  Saving also sets every
  other setting back to what the editor had read, whatever it has become in between; the security panel
  writes its own settings and leaves the policy as it is.
\<close>

theorem policy_editor_effect:
  assumes "clean_settings seen" and "pc_defaultEffect (st_policy seen) \<noteq> RequireApproval"
    and "addRule f (st_policy seen) = Inr p"
  shows "settings_update (policy_patch seen p) current = seen\<lparr>st_policy := p\<rparr> \<and>
    evaluate (st_policy (settings_update (policy_patch seen p) current)) ctx =
      (if pc_enabled (st_policy seen) \<and> first_match (pc_rules (st_policy seen)) ctx = None \<and> ruleMatches (new_rule f) ctx
       then \<lparr>pd_effect = rf_effect f, pd_ruleId = Some (js_trim (rf_id f))\<rparr>
       else evaluate (st_policy seen) ctx) \<and>
    settings_update (panel_patch seen) current = seen\<lparr>st_policy := st_policy current\<rparr>"
proof -
  from assms(3) have p: "p = (st_policy seen)\<lparr>pc_rules := pc_rules (st_policy seen) @ [new_rule f]\<rparr>"
    by (simp add: addRule_def split: if_splits)
  then have "pc_defaultEffect p \<noteq> RequireApproval" using assms(2) by simp
  note upd = policy_patch_update [OF assms(1) this]
  have "evaluate p ctx =
      (if pc_enabled (st_policy seen) \<and> first_match (pc_rules (st_policy seen)) ctx = None \<and> ruleMatches (new_rule f) ctx
       then \<lparr>pd_effect = rf_effect f, pd_ruleId = Some (js_trim (rf_id f))\<rparr>
       else evaluate (st_policy seen) ctx)"
    by (simp add: p evaluate_def first_match_snoc new_rule_def split: option.split)
  then show ?thesis using panel_patch_update [OF assms(1)] by (simp add: upd)
qed

definition sample_rule_form :: rule_form where
  "sample_rule_form =
    \<lparr>rf_id = '' no-deletes '', rf_effect = Deny, rf_caps = [], rf_platforms = ''github, slack'', rf_ops = ''delete_repo,'',
     rf_modes = [], rf_risk = []\<rparr>"

lemma policy_editor_effect_witness:
  "\<exists>p. addRule sample_rule_form (st_policy defaultSettings) = Inr p \<and>
     st_rateLimit (settings_update (policy_patch defaultSettings p)
       (settings_update (JObj [(''rateLimit'', JObj [(''enabled'', JBool True)])]) defaultSettings)) =
     st_rateLimit defaultSettings"
proof -
  obtain p where p: "addRule sample_rule_form (st_policy defaultSettings) = Inr p"
    by (simp add: addRule_def sample_rule_form_def js_trim_def is_space_def)
  have "clean_settings defaultSettings" "pc_defaultEffect (st_policy defaultSettings) \<noteq> RequireApproval" by code_simp+
  from policy_editor_effect [OF this p] p show ?thesis by simp
qed

text \<open>Removing a rule that was added under a new name restores the policy.\<close>

lemma remove_added_rule:
  assumes "addRule f p = Inr p'" and "\<forall>r \<in> set (pc_rules p). pr_id r \<noteq> js_trim (rf_id f)"
  shows "removeRule (js_trim (rf_id f)) p' = p"
  using assms by (auto simp: addRule_def removeRule_def new_rule_def split: if_splits)

text \<open>A field with nothing but separators matches everything.\<close>

lemma csv_blank: "csv '','' = None" "csv '' a ,,b'' = Some [''a'', ''b'']"
  by code_simp+

section \<open>Wiring\<close>

lemma read_ops_body: "read_attach_body (attach_connection_body (ops_input t ops)) =
    \<lparr>at_connection_id = Some t, at_allowed_operations = Some ops, at_rate_limit = None\<rparr>"
  by (simp add: read_attach_body_def attach_connection_body_def ops_input_def authorize_input_def member_def field_of_Cons
      text_of_def jstrs_def texts_in_jstrs)

lemma read_rate_body: "read_attach_body (attach_connection_body (rate_input t r)) =
    \<lparr>at_connection_id = Some t, at_allowed_operations = None, at_rate_limit = r\<rparr>"
  by (cases r) (simp_all add: read_attach_body_def attach_connection_body_def rate_input_def authorize_input_def member_def
      field_of_Cons text_of_def nullable_def jint_def)

text \<open>
  C22: A change in the wiring view replaces the whole authorization.  Restricting the operations of a wired
  connection removes its rate limit, and setting a rate limit lifts its restriction; once the rate limit has
  been cleared in the view, the proxy's check of the authorization refuses no operation, whatever it was
  restricted to before.
\<close>

theorem wiring_replaces_authorization:
  assumes "attachConnection D h a c (nullish (at_allowed_operations b) []) (at_rate_limit b) d = (Inr g, d')"
    and "b = read_attach_body (attach_connection_body i)" and "db_wf d"
  shows "\<exists>row. row_find conn_key (a, c) (db_conn_grants d') = Some row \<and>
      (i = ops_input t ops \<longrightarrow> cgr_allowed_operations row = ops \<and> cgr_rate_limit row = None) \<and>
      (i = rate_input t r \<longrightarrow> cgr_allowed_operations row = [] \<and> cgr_rate_limit row = r) \<and>
      (i = rate_input t None \<longrightarrow> a_id agent = a \<longrightarrow>
         \<not> isl (fst (check_connector_grant now agent c op conn \<lparr>xs_db = d', xs_limiter = lm\<rparr>)))"
proof -
  have "distinct (map conn_key (db_conn_grants d))" using assms(3) by (simp add: db_wf_defs)
  note up = attach_upsert [OF assms(1) this]
  then obtain row where row: "row_find conn_key (a, c) (db_conn_grants d') = Some row"
    "cgr_allowed_operations row = nullish (at_allowed_operations b) []" "cgr_rate_limit row = at_rate_limit b" by blast
  from up have d': "distinct (map conn_key (db_conn_grants d'))" by blast
  have "\<not> isl (fst (check_connector_grant now agent c op conn \<lparr>xs_db = d', xs_limiter = lm\<rparr>))"
    if "i = rate_input t None" "a_id agent = a"
  proof -
    from that(1) have b: "b = \<lparr>at_connection_id = Some t, at_allowed_operations = None, at_rate_limit = None\<rparr>"
      using assms(2) by (simp add: read_rate_body)
    have "row_find conn_key (a_id agent, c) (db_conn_grants d') = Some row" using row(1) that(2) by simp
    from attached_check_eval(1) [OF this d'] show ?thesis using row(2,3) by (simp add: b)
  qed
  with row assms(2) show ?thesis by (intro exI [of _ row]) (auto simp: read_ops_body read_rate_body)
qed

lemma wiring_replaces_authorization_witness:
  "\<exists>g d'. attachConnection sample_attach_deps 1 7 4
       (nullish (at_allowed_operations (read_attach_body (attach_connection_body (rate_input ''4'' None)))) [])
       (at_rate_limit (read_attach_body (attach_connection_body (rate_input ''4'' None)))) sample_wired_db = (Inr g, d') \<and>
     \<not> isl (fst (check_connector_grant 0 (mapAgentRow (sample_agent_row 7 2000)) 4 ''list_channels''
       (mapConnectionRow (sample_connection_row 4 None)) \<lparr>xs_db = d', xs_limiter = createRateLimiter 0\<rparr>))"
proof -
  let ?b = "read_attach_body (attach_connection_body (rate_input ''4'' None))"
  let ?run = "attachConnection sample_attach_deps 1 7 4 (nullish (at_allowed_operations ?b) []) (at_rate_limit ?b) sample_wired_db"
  have "\<not> isl (fst (attachConnection sample_attach_deps 1 7 4 [] None sample_wired_db))" by code_simp
  then have "\<not> isl (fst ?run)" by (simp add: read_rate_body)
  from run_returns [OF this] obtain g where run: "?run = (Inr g, snd ?run)" by blast
  have a: "a_id (mapAgentRow (sample_agent_row 7 2000)) = 7" by (simp add: mapAgentRow_def sample_agent_row_def)
  from wiring_replaces_authorization [OF run refl sample_wired_db_wf] run a show ?thesis by blast
qed

section \<open>Broken wires\<close>

lemma connector_check_blocked:
  assumes "connGrants_listByAgent (a_id agent) d = (Inr cgs, d)" and "\<forall>a \<in> set cgs. cg_rateLimit a = None"
    and "g_connectionId g = Some c" and "g_operation g = Some op"
  shows "isl (fst (check_connector_grant now agent c op conn \<lparr>xs_db = d, xs_limiter = lm\<rparr>)) \<longleftrightarrow> grant_blocked cgs g"
proof -
  have list: "on_xdb (connGrants_listByAgent (a_id agent)) \<lparr>xs_db = d, xs_limiter = lm\<rparr> =
      (Inr cgs, \<lparr>xs_db = d, xs_limiter = lm\<rparr>)"
    by (simp add: on_xdb_eval assms(1))
  show ?thesis
  proof (cases "find (\<lambda>a. cg_connectionId a = c) cgs")
    case None
    then show ?thesis using assms(3,4)
      by (simp add: check_connector_grant_def eff_bind_def list grant_blocked_def eff_some_def eff_throw_def eff_return_def)
  next
    case (Some a)
    then have "cg_rateLimit a = None" "cgs \<noteq> []" using assms(2) by (auto simp: find_Some_iff)
    with Some show ?thesis using assms(3,4)
      by (auto simp: check_connector_grant_def eff_bind_def list grant_blocked_def eff_some_def eff_throw_def eff_return_def
          eff_require_def)
  qed
qed

text \<open>
  C23: A grant is shown as blocked exactly when it would be refused.  The list of an agent's grants marks, of those that
  name a connection and an operation, exactly the ones whose execution the proxy's check of the connector
  authorizations refuses, as long as these set no rate limit.
\<close>

theorem blocked_flag_exact:
  assumes "get_agent_grants D t s = (Inr rep, s')"
  shows "\<exists>i grants cgs. k_to_uuid (gd_codec D) t = Some i \<and> gw_db s' = gw_db s \<and>
    rep = reply 200 [(''grants'', JArr (map (shown_grant D cgs) grants))] \<and>
    grants_findForAgent i (gw_db s) = (Inr grants, gw_db s) \<and>
    ((\<forall>a \<in> set cgs. cg_rateLimit a = None) \<longrightarrow>
      (\<forall>g \<in> set grants. \<forall>c op agent now conn lm. a_id agent = i \<longrightarrow> g_connectionId g = Some c \<longrightarrow> g_operation g = Some op \<longrightarrow>
         (grant_blocked cgs g \<longleftrightarrow>
          isl (fst (check_connector_grant now agent c op conn \<lparr>xs_db = gw_db s, xs_limiter = lm\<rparr>)))))"
proof -
  from assms obtain i s1 grants s2 cgs s3 where
    i: "uuid_param D t s = (Inr i, s1)" and g: "on_gdb (grants_findForAgent i) s1 = (Inr grants, s2)"
    and c: "on_gdb (connGrants_listByAgent i) s2 = (Inr cgs, s3)"
    and r: "ok_reply [(''grants'', JArr (map (shown_grant D cgs) grants))] s3 = (Inr rep, s')"
    by (auto simp: get_agent_grants_def eff_bind_Inr_iff)
  from i have i': "k_to_uuid (gd_codec D) t = Some i" "s1 = s"
    by (auto simp: uuid_param_def eff_some_def eff_return_def eff_throw_def split: option.splits)
  have g': "grants_findForAgent i (gw_db s) = (Inr grants, gw_db s)" "s2 = s"
    using g by (auto simp: i' on_gdb_def eff_lift_def grants_findForAgent_def eff_read_def)
  have c': "connGrants_listByAgent i (gw_db s) = (Inr cgs, gw_db s)" "s3 = s"
    using c by (auto simp: g' on_gdb_def eff_lift_def find_ops_eval)
  have "rep = reply 200 [(''grants'', JArr (map (shown_grant D cgs) grants))]" "s' = s"
    using r by (simp_all add: c' ok_reply_def eff_return_def)
  then show ?thesis
    using i' g' connector_check_blocked [of _ "gw_db s" cgs] c' by metis
qed

section \<open>The connection form\<close>

lemma field_secret_at:
  "text_at (fold (\<lambda>x s. if field_value f (cf_key x) = [] then s else put_text (cf_key x) (field_value f (cf_key x)) s) fs s0) k =
     (if k \<in> cf_key ` set fs \<and> field_value f k \<noteq> [] then Some (field_value f k) else text_at s0 k)"
  by (induction fs arbitrary: s0) auto

lemma as_credential_form:
  "as_credential (JObj [(''authMethod'', JStr am), (''secret'', secret_json s)]) = \<lparr>pc_authMethod = Some am, pc_secret = Some s\<rparr>"
  using as_credential_json [of "Some am" s] by (simp add: credential_json_def secret_json_def)

lemma derived_fields_required: "mf_fields m = None \<Longrightarrow> x \<in> set (deriveCredentialFields m) \<Longrightarrow> cf_required x"
  by (auto simp: deriveCredentialFields_def key_fields_def plain_field_def split: if_splits)

text \<open>
  C26: The connection form asks for enough.  For a connector whose fields are derived from its manifest, the form
  lets a secret through only if every field is filled in, and the credential that is stored then passes the
  connector's validation; unless one of the fields is a base URL, every operation of the connector yields a
  request with each of its headers filled from what was typed.
\<close>

theorem connection_form_suffices:
  assumes "f = (chooseConnector (ManifestDriver io m) project)\<lparr>ff_name := nm, ff_values := typed\<rparr>"
    and "mf_fields m = None" and "deriveCredentialFields m \<noteq> []" and "form_secret J f = Inr s"
    and "c = as_credential (JObj [(''authMethod'', JStr (ff_authMethod f)), (''secret'', s)])"
  shows "(\<forall>x \<in> set (deriveCredentialFields m). field_value f (cf_key x) \<noteq> []) \<and>
    manifest_validateCredential m c = Inr True \<and>
    (''baseUrl'' \<notin> cf_key ` set (deriveCredentialFields m) \<longrightarrow> mf_baseUrl m \<noteq> [] \<longrightarrow>
      (\<forall>k \<in> fst ` set (mf_headers m). k \<noteq> ''content-type'' \<longrightarrow>
        (\<exists>rq t. operation_request J' m op' args c = Inr rq \<and> (k, t) \<in> set (mf_headers m) \<and>
          text_at (rq_headers rq) k = Some (fst (fillTemplate t (normalizeSecret (field_secret f)))))))"
proof -
  have fields: "ff_fields f = deriveCredentialFields m" "\<not> ff_rawMode f"
    using assms(1,3) by (simp_all add: chooseConnector_def Let_def ManifestDriver_def)
  from assms(4) fields(2) have none: "missing_fields f = []" and s: "s = secret_json (field_secret f)"
    by (simp_all add: form_secret_def split: if_splits)
  have filled: "\<forall>x \<in> set (deriveCredentialFields m). field_value f (cf_key x) \<noteq> []"
    using none derived_fields_required [OF assms(2)] by (auto simp: missing_fields_def fields(1) filter_empty_conv)
  have c: "pc_secret c = Some (field_secret f)" by (simp add: assms(5) s as_credential_form)
  have at: "text_at (field_secret f) k =
      (if k \<in> cf_key ` set (deriveCredentialFields m) \<and> field_value f k \<noteq> [] then Some (field_value f k) else None)" for k
    using field_secret_at [of f "deriveCredentialFields m" "[]" k]
    by (simp add: field_secret_def fields(1)) (simp add: text_at_def)
  have truthy: "\<forall>x \<in> set (deriveCredentialFields m). truthy (text_at (field_secret f) (cf_key x))"
    using filled by (auto simp: at)
  note valid = derived_fields_validate [OF assms(2) truthy c]
  from valid validated_request [OF valid c] filled show ?thesis
    by (auto simp: at)
qed

definition sample_io :: platform_io where
  "sample_io = \<lparr>io_fetch = (\<lambda>r. Inl (OtherError ''offline'')), io_json = sample_json_text\<rparr>"

definition sample_form :: connection_form where
  "sample_form = (chooseConnector (ManifestDriver sample_io sample_manifest) [])
    \<lparr>ff_name := ''crm'',
     ff_values := [''site'' \<mapsto> ''acme'', ''username'' \<mapsto> ''bot '', ''password'' \<mapsto> ''pw'']\<rparr>"

lemma connection_form_suffices_witness:
  "\<exists>rq. operation_request sample_json_text sample_manifest (http_op ''Search.'' ''GET'' ''/search'') []
      (as_credential (JObj [(''authMethod'', JStr ''basic''), (''secret'', secret_json (field_secret sample_form))])) = Inr rq \<and>
    text_at (rq_headers rq) ''Authorization'' = Some ''Basic Ym90OnB3''"
proof -
  let ?s = "secret_json (field_secret sample_form)"
  let ?c = "as_credential (JObj [(''authMethod'', JStr (ff_authMethod sample_form)), (''secret'', ?s)])"
  have f: "sample_form = (chooseConnector (ManifestDriver sample_io sample_manifest) [])
    \<lparr>ff_name := ''crm'', ff_values := [''site'' \<mapsto> ''acme'', ''username'' \<mapsto> ''bot '', ''password'' \<mapsto> ''pw'']\<rparr>"
    by (simp add: sample_form_def)
  have m: "mf_fields sample_manifest = None" "mf_baseUrl sample_manifest \<noteq> []"
    "mf_headers sample_manifest = [(''Authorization'', ''Basic {basic}'')]"
    by (simp_all add: sample_manifest_def)
  have keys: "map cf_key (deriveCredentialFields sample_manifest) = [''site'', ''username'', ''password'']" by code_simp
  then have ne: "deriveCredentialFields sample_manifest \<noteq> []" by auto
  have base: "''baseUrl'' \<notin> cf_key ` set (deriveCredentialFields sample_manifest)"
    using arg_cong [OF keys, of set] by simp
  have fields: "ff_fields sample_form = deriveCredentialFields sample_manifest" "\<not> ff_rawMode sample_form"
    and auth: "ff_authMethod sample_form = ''basic''"
    using ne by (simp_all add: sample_form_def chooseConnector_def Let_def ManifestDriver_def) (simp add: sample_manifest_def)
  have vals: "field_value sample_form ''site'' = ''acme''" "field_value sample_form ''username'' = ''bot''"
    "field_value sample_form ''password'' = ''pw''"
    by (simp_all add: field_value_def sample_form_def js_trim_def is_space_def)
  have secret: "field_secret sample_form = [(''site'', ''acme''), (''username'', ''bot''), (''password'', ''pw'')]"
  proof -
    have "field_secret sample_form =
        fold (\<lambda>k s. if field_value sample_form k = [] then s else put_text k (field_value sample_form k) s)
          (map cf_key (deriveCredentialFields sample_manifest)) []"
      by (simp add: field_secret_def fields fold_map comp_def)
    then show ?thesis by (simp add: keys vals put_text_def assoc_put_def)
  qed
  have "field_value sample_form (cf_key x) \<noteq> []" if "x \<in> set (deriveCredentialFields sample_manifest)" for x
  proof -
    from that have "cf_key x \<in> set [''site'', ''username'', ''password'']" unfolding keys [symmetric] by simp
    then show ?thesis using vals by auto
  qed
  then have "missing_fields sample_form = []" by (simp add: missing_fields_def fields filter_empty_conv)
  then have s: "form_secret sample_json_text sample_form = Inr ?s" by (simp add: form_secret_def fields)
  have d: "fst (fillTemplate ''Basic {basic}'' (normalizeSecret (field_secret sample_form))) = ''Basic Ym90OnB3''"
    unfolding secret by code_simp
  from connection_form_suffices [OF f m(1) ne s refl] base m(2,3) d show ?thesis by (auto simp: auth)
qed

end
