(* ===== verification/Dashboard_Views.thy ===== *)
theory Dashboard_Views
  imports Dashboard_Forms
begin

text \<open>
  What the dashboard computes from the answers of the gateway: the export of the audit log
  (\<^verbatim>\<open>views/AuditView.tsx\<close>), the blast radius of an agent (\<^verbatim>\<open>views/TopologyView.tsx\<close>), the search of agents, the
  live feed of security events, and the stores of the operator key and of the toasts (\<^verbatim>\<open>lib\<close>).
\<close>

section \<open>Export of the audit log\<close>

definition audit_columns :: "string list" where
  "audit_columns = [''created_at'', ''agent_id'', ''event_type'', ''capability'', ''operation'', ''outcome'',
    ''duration_ms'', ''args_hash'']"

text \<open>\<open>String(v ?? '')\<close> of each column.\<close>

definition audit_cells :: "json_text \<Rightarrow> json_object \<Rightarrow> string list" where
  "audit_cells J row = map (\<lambda>k. message_or J [] (field_of row k)) audit_columns"

definition csv_cell :: "string \<Rightarrow> string" where
  "csv_cell v = CHR 0x22 # concat (map (\<lambda>c. if c = CHR 0x22 then [c, c] else [c]) v) @ [CHR 0x22]"

definition csv_line :: "string list \<Rightarrow> string" where
  "csv_line cells = join_strings '','' (map csv_cell cells)"

definition toCsv :: "json_text \<Rightarrow> json_object list \<Rightarrow> string" where
  "toCsv J rows =
     join_strings [CHR 0x0A] (join_strings '','' audit_columns # map (\<lambda>r. csv_line (audit_cells J r)) rows)"

text \<open>What the view asks for: blank filters are left out.\<close>

definition audit_filter :: "string \<Rightarrow> string \<Rightarrow> string option \<times> string option" where
  "audit_filter agentId outcome =
     (if js_trim agentId = [] then None else Some (js_trim agentId), if outcome = ''all'' then None else Some outcome)"

section \<open>Reach of an agent\<close>

record ui_grant =
  ug_capability :: string
  ug_connection_id :: "string option"
  ug_operation :: "string option"
  ug_status :: string
  ug_risk :: "string option"
  ug_blocked :: bool

definition active_ui_grants :: "ui_grant list \<Rightarrow> ui_grant list" where
  "active_ui_grants gs = filter (\<lambda>g. ug_status g = ''active'') gs"

text \<open>The gateway's own assessment is preferred.\<close>

definition risk_score :: "ui_grant \<Rightarrow> int" where
  "risk_score g =
     (if truthy (ug_risk g) then (if ug_risk g = Some ''high'' then 3 else if ug_risk g = Some ''med'' then 2 else 1)
      else snd (grantRisk (ug_operation g) (ug_capability g)))"

definition topology_radius :: "ui_grant list \<Rightarrow> int \<times> string" where
  "topology_radius gs = blastRadius (map risk_score (active_ui_grants gs))"

definition reached_connections :: "ui_grant list \<Rightarrow> string list" where
  "reached_connections gs =
     rev (remdups (rev (filter (\<lambda>i. i \<noteq> []) (List.map_filter ug_connection_id (active_ui_grants gs)))))"

definition broken_wires :: "ui_grant list \<Rightarrow> nat" where
  "broken_wires gs = length (filter ug_blocked (active_ui_grants gs))"

section \<open>Search\<close>

record ui_agent =
  un_id :: string
  un_name :: "string option"
  un_description :: "string option"
  un_status :: string
  un_project_id :: "string option"

definition lower :: "string \<Rightarrow> string" where
  "lower s = map ascii_lower s"

definition agent_shown :: "string \<Rightarrow> string \<Rightarrow> string \<Rightarrow> ui_agent \<Rightarrow> bool" where
  "agent_shown status project search a \<longleftrightarrow>
     (status = ''all'' \<or> un_status a = status) \<and>
     (if project = ''global'' then un_project_id a = None else project = ''all'' \<or> un_project_id a = Some project) \<and>
     (let q = lower (js_trim search) in
      q = [] \<or> contains q (lower (un_id a)) \<or> contains q (lower (nullish (un_name a) [])) \<or>
      contains q (lower (nullish (un_description a) [])))"

definition initial_agent :: "ui_agent list \<Rightarrow> string option" where
  "initial_agent agents =
     (case agents of
        [] \<Rightarrow> None
      | a # as \<Rightarrow> Some (un_id (nullish (List.find (\<lambda>a. un_status a = ''active'') agents) a)))"

section \<open>Security events\<close>

text \<open>A frame of the stream; a malformed one is ignored, and only the newest \<open>max\<close> events are kept.\<close>

definition event_frame :: "json_text \<Rightarrow> nat \<Rightarrow> string \<Rightarrow> json list \<Rightarrow> json list" where
  "event_frame J n data prev = (case jt_parse J data of None \<Rightarrow> prev | Some item \<Rightarrow> take n (item # prev))"

definition event_meta :: "string \<Rightarrow> risk_level \<times> string" where
  "event_meta t = nullish (map_of
    [(''jtiReplayDetected'', (RiskHigh, ''Replay detected'')), (''tokenConfusion'', (RiskHigh, ''Token confusion'')),
     (''signatureInvalid'', (RiskHigh, ''Invalid signature'')),
     (''revokedPrincipalDenied'', (RiskHigh, ''Revoked principal denied'')),
     (''constraintViolated'', (RiskMed, ''Constraint violated'')),
     (''rateLimitExceeded'', (RiskMed, ''Rate limit exceeded'')),
     (''clockSkewRejected'', (RiskLow, ''Clock skew rejected''))] t) (RiskLow, t)"

section \<open>The stores of the browser\<close>

text \<open>\<open>sessionStorage\<close> under the one key; storage that is not available is outside the model.\<close>

definition setOperatorKey :: "string \<Rightarrow> string option \<Rightarrow> string option" where
  "setOperatorKey v store = (if js_trim v = [] then None else Some (js_trim v))"

definition read_operator_key :: "string option \<Rightarrow> string" where
  "read_operator_key store = nullish store []"

definition operator_key_loaded :: "string option \<Rightarrow> bool" where
  "operator_key_loaded store \<longleftrightarrow> js_trim (read_operator_key store) \<noteq> []"

datatype toast_kind = ToastSuccess | ToastError | ToastInfo

record toast =
  to_id :: nat
  to_message :: string
  to_kind :: toast_kind

record toast_store =
  ts_toasts :: "toast list"
  ts_nextId :: nat

definition no_toasts :: toast_store where
  "no_toasts = \<lparr>ts_toasts = [], ts_nextId = 1\<rparr>"

definition pushToast :: "string \<Rightarrow> toast_kind \<Rightarrow> toast_store \<Rightarrow> nat \<times> toast_store" where
  "pushToast message kind s =
     (ts_nextId s,
      s\<lparr>ts_toasts := ts_toasts s @ [\<lparr>to_id = ts_nextId s, to_message = message, to_kind = kind\<rparr>],
        ts_nextId := Suc (ts_nextId s)\<rparr>)"

definition dismissToast :: "nat \<Rightarrow> toast_store \<Rightarrow> toast_store" where
  "dismissToast i s = s\<lparr>ts_toasts := filter (\<lambda>t. to_id t \<noteq> i) (ts_toasts s)\<rparr>"

section \<open>Navigation\<close>

definition NAV_KEYS :: "string list" where
  "NAV_KEYS = [''getStarted'', ''dashboard'', ''projects'', ''agents'', ''topology'', ''wiring'', ''policy'',
    ''connections'', ''tools'', ''audit'', ''compliance'', ''settings'']"

definition keyFromHash :: "string \<Rightarrow> string option" where
  "keyFromHash h =
     (let slug = (case h of
            [] \<Rightarrow> []
          | c # cs \<Rightarrow> if c = CHR ''#'' then (case cs of [] \<Rightarrow> [] | d # ds \<Rightarrow> if d = CHR ''/'' then ds else cs) else h) in
      if slug \<in> set NAV_KEYS then Some slug else None)"

definition initial_view :: "string \<Rightarrow> string option \<Rightarrow> string" where
  "initial_view h store = nullish (keyFromHash h) (if truthy store then ''dashboard'' else ''getStarted'')"

definition navigate :: "string \<Rightarrow> string \<Rightarrow> string \<Rightarrow> string" where
  "navigate active key h = (if key = active then h else ''#/'' @ key)"

section \<open>The export can be read back\<close>

text \<open>A reader of quoted cells: a doubled quote stands for one, a single one ends the cell.\<close>

fun read_quoted :: "string \<Rightarrow> string \<times> string" where
  "read_quoted [] = ([], [])"
| "read_quoted [c] = (if c = CHR 0x22 then ([], []) else ([c], []))"
| "read_quoted (c # d # cs) =
     (if c = CHR 0x22
      then if d = CHR 0x22 then (let (v, rest) = read_quoted cs in (c # v, rest)) else ([], d # cs)
      else let (v, rest) = read_quoted (d # cs) in (c # v, rest))"

lemma read_quoted_shrinks: "length (snd (read_quoted s)) \<le> length s"
  by (induction s rule: read_quoted.induct) (auto simp: Let_def split: prod.splits)

function read_cells :: "string \<Rightarrow> string list \<times> string" where
  "read_cells s =
     (case s of
        [] \<Rightarrow> ([], [])
      | q # cs \<Rightarrow>
          let (v, rest) = read_quoted cs in
          (case rest of
             [] \<Rightarrow> ([v], [])
           | c # rest' \<Rightarrow> if c = CHR '','' then (let (vs, after) = read_cells rest' in (v # vs, after)) else ([v], rest)))"
  by pat_completeness auto
termination
proof (relation "measure length", goal_cases)
  case (2 s q cs x v rest c rest')
  then have "snd (read_quoted cs) = c # rest'" by (metis snd_conv)
  then show ?case using 2 read_quoted_shrinks [of cs] by simp
qed simp

declare read_cells.simps [simp del]

lemma read_cells_shrinks: "length (snd (read_cells s)) \<le> length s"
proof (induction s rule: read_cells.induct)
  case (1 s)
  show ?case
  proof (cases s)
    case s: (Cons q cs)
    obtain v rest where q: "read_quoted cs = (v, rest)" by (cases "read_quoted cs")
    then have len: "length rest \<le> length cs" using read_quoted_shrinks [of cs] by simp
    have "length (snd (read_cells rest')) \<le> length rest'" if "rest = CHR '','' # rest'" for rest'
      using "1.IH" [OF s q [symmetric] refl that refl] by simp
    then show ?thesis
      using len by (force simp: s read_cells.simps [of "q # cs"] q split: list.split prod.split)
  qed (simp add: read_cells.simps [of "[]"])
qed

function read_lines :: "string \<Rightarrow> string list list" where
  "read_lines s =
     (case s of
        [] \<Rightarrow> []
      | q # cs \<Rightarrow>
          let (vs, rest) = read_cells s in
          vs # (case rest of [] \<Rightarrow> [] | c # rest' \<Rightarrow> read_lines rest'))"
  by pat_completeness auto
termination
proof (relation "measure length", goal_cases)
  case (2 s q cs x vs rest c rest')
  then have "snd (read_cells s) = c # rest'" by (metis snd_conv)
  then show ?case using 2 read_cells_shrinks [of s] by simp
qed simp

declare read_lines.simps [simp del]

lemma read_quoted_cell:
  assumes "rest = [] \<or> hd rest \<noteq> CHR 0x22"
  shows "read_quoted (concat (map (\<lambda>c. if c = CHR 0x22 then [c, c] else [c]) v) @ CHR 0x22 # rest) = (v, rest)"
proof (induction v)
  case Nil then show ?case using assms by (cases rest) auto
next
  case (Cons c v)
  show ?case
  proof (cases "c = CHR 0x22")
    case True with Cons.IH show ?thesis by simp
  next
    case False
    obtain d ds where "concat (map (\<lambda>c. if c = CHR 0x22 then [c, c] else [c]) v) @ CHR 0x22 # rest = d # ds"
      by (cases "concat (map (\<lambda>c. if c = CHR 0x22 then [c, c] else [c]) v) @ CHR 0x22 # rest") auto
    with False Cons.IH show ?thesis by simp
  qed
qed

lemma read_cells_line:
  assumes "rest = [] \<or> hd rest \<noteq> CHR 0x22 \<and> hd rest \<noteq> CHR '',''" and "vs \<noteq> []"
  shows "read_cells (csv_line vs @ rest) = (vs, rest)"
  using assms(2)
proof (induction vs rule: induct_list012)
  case (2 v)
  from assms(1) show ?case
    using read_quoted_cell [of rest v] by (subst read_cells.simps) (auto simp: csv_line_def csv_cell_def split: list.split)
next
  case (3 v w vs)
  have "read_quoted (concat (map (\<lambda>c. if c = CHR 0x22 then [c, c] else [c]) v) @ CHR 0x22 # CHR '','' # csv_line (w # vs) @ rest) =
      (v, CHR '','' # csv_line (w # vs) @ rest)"
    by (rule read_quoted_cell) simp
  moreover have "read_cells (csv_line (w # vs) @ rest) = (w # vs, rest)" using 3 by simp
  moreover have "csv_line (v # w # vs) = csv_cell v @ '','' @ csv_line (w # vs)" by (simp add: csv_line_def)
  ultimately show ?case by (subst read_cells.simps) (simp add: csv_cell_def)
qed simp

lemma csv_line_head: "vs \<noteq> [] \<Longrightarrow> \<exists>t. csv_line vs = CHR 0x22 # t"
proof (induction vs rule: induct_list012)
  case (2 v) show ?case by (simp add: csv_line_def csv_cell_def)
next
  case (3 v w vs) show ?case by (simp add: csv_line_def csv_cell_def)
qed simp

lemma read_lines_join:
  assumes "\<forall>vs \<in> set rows. vs \<noteq> []"
  shows "read_lines (join_strings [CHR 0x0A] (map csv_line rows)) = rows"
  using assms
proof (induction rows rule: induct_list012)
  case 1 then show ?case by (simp add: read_lines.simps)
next
  case (2 vs)
  then obtain t where "csv_line vs = CHR 0x22 # t" using csv_line_head by auto
  then show ?case using read_cells_line [of "[]" vs] 2 by (subst read_lines.simps) simp
next
  case (3 vs ws rows)
  then obtain t where t: "csv_line vs = CHR 0x22 # t" using csv_line_head by auto
  have IH: "read_lines (join_strings [CHR 0x0A] (map csv_line (ws # rows))) = ws # rows" using 3 by simp
  have "read_cells (csv_line vs @ CHR 0x0A # join_strings [CHR 0x0A] (map csv_line (ws # rows))) =
      (vs, CHR 0x0A # join_strings [CHR 0x0A] (map csv_line (ws # rows)))"
    by (rule read_cells_line) (use 3 in auto)
  then show ?case using t IH by (subst read_lines.simps) simp
qed

text \<open>
  C24: The exported audit log can be read back.  After the header, a reader of quoted cells gets from the export
  exactly the cells of every entry, in order, whatever quotes, commas or line breaks an agent has put into a
  capability or an operation.
\<close>

theorem audit_export_readable:
  "\<exists>body. toCsv J rows = join_strings '','' audit_columns @ body \<and>
     read_lines (drop 1 body) = map (audit_cells J) rows"
proof -
  have cells: "audit_cells J r \<noteq> []" for r by (simp add: audit_cells_def audit_columns_def)
  have "read_lines (join_strings [CHR 0x0A] (map csv_line (map (audit_cells J) rows))) = map (audit_cells J) rows"
    by (rule read_lines_join) (auto simp: cells)
  then have body: "read_lines (join_strings [CHR 0x0A] (map (\<lambda>r. csv_line (audit_cells J r)) rows)) = map (audit_cells J) rows"
    by (simp add: comp_def)
  show ?thesis
  proof (cases rows)
    case Nil then show ?thesis by (intro exI [of _ "[]"]) (simp add: toCsv_def read_lines.simps)
  next
    case (Cons r rs)
    with body show ?thesis
      by (intro exI [of _ "CHR 0x0A # join_strings [CHR 0x0A] (map (\<lambda>r. csv_line (audit_cells J r)) rows)"])
        (simp add: toCsv_def)
  qed
qed

section \<open>The other views\<close>

text \<open>The feed shows the newest \<open>n\<close> well-formed events, newest first.\<close>

lemma event_feed: "fold (event_frame J n) frames [] = take n (rev (List.map_filter (jt_parse J) frames))"
proof (induction frames rule: rev_induct)
  case (snoc d frames)
  then show ?case by (cases "jt_parse J d") (simp_all add: event_frame_def List.map_filter_def take_Cons' )
qed (simp add: List.map_filter_simps)

text \<open>Three of the seven kinds that the feed knows never arrive: no error code is published as one of them.\<close>

lemma anomaly_kinds_unused:
  "SECURITY_EVENT_BY_CODE c \<noteq> Some JtiReplayDetected \<and> SECURITY_EVENT_BY_CODE c \<noteq> Some TokenConfusion \<and>
   SECURITY_EVENT_BY_CODE c \<noteq> Some ClockSkewRejected"
  by (cases c) simp_all

text \<open>With the gateway's assessments the badge of the topology is the one of the agent list.\<close>

definition shown_ui_grant :: "gateway_deps \<Rightarrow> connection_grant list \<Rightarrow> capability_grant \<Rightarrow> ui_grant" where
  "shown_ui_grant D grants g =
    \<lparr>ug_capability = g_capability g, ug_connection_id = map_option (k_uuid (gd_codec D)) (g_connectionId g),
     ug_operation = g_operation g, ug_status = grant_status_wire (g_status g),
     ug_risk = Some (risk_wire (grant_risk g)), ug_blocked = grant_blocked grants g\<rparr>"

lemma topology_radius_agrees:
  "topology_radius (map (shown_ui_grant D cs) gs) =
    (let n = fold (\<lambda>g s. s + riskRank (grant_risk g)) (filter (\<lambda>g. g_status g = GrantActive) gs) 0 in (n, blast_level n))"
proof -
  have score: "risk_score (shown_ui_grant D cs g) = riskRank (grant_risk g)" for g
    by (cases "grant_risk g") (simp_all add: risk_score_def shown_ui_grant_def)
  have active: "ug_status (shown_ui_grant D cs g) = ''active'' \<longleftrightarrow> g_status g = GrantActive" for g
    by (cases "g_status g") (simp_all add: shown_ui_grant_def)
  have "fold (\<lambda>b a. a + b) (map risk_score (active_ui_grants (map (shown_ui_grant D cs) gs))) n =
      fold (\<lambda>g s. s + riskRank (grant_risk g)) (filter (\<lambda>g. g_status g = GrantActive) gs) n" for n
    by (induction gs arbitrary: n) (simp_all add: active_ui_grants_def score active)
  then show ?thesis by (simp add: topology_radius_def blastRadius_def blast_level_def Let_def)
qed

text \<open>A key that is set is kept trimmed, and counts as loaded exactly when it is not blank.\<close>

lemma operator_key_set:
  "read_operator_key (setOperatorKey v store) = js_trim v"
  "operator_key_loaded (setOperatorKey v store) \<longleftrightarrow> js_trim v \<noteq> []"
  by (simp_all add: setOperatorKey_def read_operator_key_def operator_key_loaded_def js_trim_idem) (simp add: js_trim_def)

text \<open>Toasts keep distinct numbers, so dismissing one removes that one.\<close>

definition toasts_ok :: "toast_store \<Rightarrow> bool" where
  "toasts_ok s \<longleftrightarrow> distinct (map to_id (ts_toasts s)) \<and> (\<forall>t \<in> set (ts_toasts s). to_id t < ts_nextId s)"

lemma toasts_ok_steps:
  "toasts_ok no_toasts" "toasts_ok s \<Longrightarrow> toasts_ok (snd (pushToast m k s))" "toasts_ok s \<Longrightarrow> toasts_ok (dismissToast i s)"
  by (auto simp: toasts_ok_def no_toasts_def pushToast_def dismissToast_def distinct_map inj_on_def)

lemma push_then_dismiss:
  assumes "toasts_ok s" and "pushToast m k s = (i, s')"
  shows "ts_toasts (dismissToast i s') = ts_toasts s"
  using assms by (force simp: toasts_ok_def pushToast_def dismissToast_def filter_id_conv)

lemma navigate_arrives: "key \<in> set NAV_KEYS \<Longrightarrow> active \<noteq> key \<Longrightarrow> keyFromHash (navigate active key h) = Some key"
  by (auto simp: navigate_def keyFromHash_def Let_def NAV_KEYS_def)

end
