(* ===== verification/Server_Setup.thy ===== *)
theory Server_Setup
  imports Client_Sdk Config_Loader Bundled_Manifests
begin

text \<open>
  How the gateway comes up: the driver that owns the database connection (\<^verbatim>\<open>drivers/postgres/postgresDriver.ts\<close>),
  the logger (\<^verbatim>\<open>observability/logger.ts\<close>), the wiring of \<^verbatim>\<open>index.ts\<close> from a loaded configuration, and the creation of
  the first host (\<^verbatim>\<open>scripts/bootstrapHost.ts\<close>).  Whether the database answers and what a migration run does are
  parameters.
\<close>

section \<open>The driver of the database\<close>

text \<open>What queries go to: nothing, the pool, or the one client of a transaction.\<close>

datatype active_db = NoDb | PoolDb | ClientDb

record pg_driver =
  dr_pool :: bool
  dr_activeDb :: active_db

type_synonym 'a driver_op = "(fault, pg_driver, 'a) eff"

definition new_driver :: "active_db \<Rightarrow> pg_driver" where
  "new_driver active = \<lparr>dr_pool = False, dr_activeDb = active\<rparr>"

definition driver_db :: "active_db driver_op" where
  "driver_db =
     eff_bind (eff_read dr_activeDb) (\<lambda>a.
     eff_bind (eff_require (a \<noteq> NoDb)
       (OtherError (''PostgresStorageDriver not initialized '' @ em_dash @ '' call init() first''))) (\<lambda>_.
     eff_return a))"

text \<open>\<open>SELECT 1\<close> is the last step, after the pool has been stored.\<close>

definition driver_init :: "fault + unit \<Rightarrow> unit driver_op" where
  "driver_init ping =
     eff_bind (eff_read dr_activeDb) (\<lambda>a.
     if a \<noteq> NoDb then eff_return ()
     else eff_bind (eff_write (\<lambda>s. s\<lparr>dr_pool := True, dr_activeDb := PoolDb\<rparr>)) (\<lambda>_. eff_sum ping))"

definition driver_migrate :: "fault + unit \<Rightarrow> unit driver_op" where
  "driver_migrate run =
     eff_bind (eff_read dr_pool) (\<lambda>p.
     eff_bind (eff_require p (OtherError ''migrate() requires init() first'')) (\<lambda>_. eff_sum run))"

definition driver_healthCheck :: "fault + unit \<Rightarrow> bool driver_op" where
  "driver_healthCheck ping =
     eff_bind (eff_read dr_activeDb) (\<lambda>a.
     if a = NoDb then eff_return False
     else eff_catch (eff_bind (eff_sum ping) (\<lambda>_. eff_return True)) (\<lambda>_. eff_return False))"

text \<open>What the database answers to the statements around the function of a transaction.\<close>

record tx_answers =
  tx_connect :: "fault + unit"
  tx_begin :: "fault + unit"
  tx_commit :: "fault + unit"
  tx_rollback :: "fault + unit"

text \<open>\<open>transaction\<close> hands a driver of its own client to the function; the rollback of the data is \<open>eff_transaction\<close>.\<close>

definition driver_transaction :: "tx_answers \<Rightarrow> (pg_driver \<Rightarrow> fault + 'a) \<Rightarrow> 'a driver_op" where
  "driver_transaction A f =
     eff_bind (eff_read dr_pool) (\<lambda>p.
     eff_bind (eff_require p (OtherError ''transaction() requires a pool-backed driver'')) (\<lambda>_.
     eff_bind (eff_sum (tx_connect A)) (\<lambda>_.
     eff_catch
       (eff_bind (eff_sum (tx_begin A)) (\<lambda>_.
        eff_bind (eff_sum (f (new_driver ClientDb))) (\<lambda>result.
        eff_bind (eff_sum (tx_commit A)) (\<lambda>_. eff_return result))))
       (\<lambda>err. eff_bind (eff_sum (tx_rollback A)) (\<lambda>_. eff_throw err)))))"

definition driver_close :: "unit driver_op" where
  "driver_close = eff_write (\<lambda>s. if dr_pool s then new_driver NoDb else s)"

record pg_config =
  pg_host :: "string option"
  pg_port :: "int option"
  pg_database :: "string option"
  pg_user :: "string option"
  pg_password :: "string option"
  pg_connectionString :: "string option"
  pg_poolSize :: "int option"
  pg_ssl :: bool

text \<open>What the pool is created with; TLS is used without checking the certificate.\<close>

definition buildPoolConfig :: "pg_config \<Rightarrow> json_object" where
  "buildPoolConfig c =
     [(''max'', jint (nullish (pg_poolSize c) 10))] @
     (if truthy (pg_connectionString c) then [(''connectionString'', JStr (the (pg_connectionString c)))]
      else member ''host'' (map_option JStr (pg_host c)) @ member ''port'' (map_option jint (pg_port c)) @
           member ''database'' (map_option JStr (pg_database c)) @ member ''user'' (map_option JStr (pg_user c))) @
     member ''password'' (map_option JStr (pg_password c)) @
     (if pg_ssl c then [(''ssl'', JObj [(''rejectUnauthorized'', JBool False)])] else [])"

section \<open>Logging\<close>

datatype log_level = LogDebug | LogInfo | LogWarn | LogError

fun LEVELS :: "log_level \<Rightarrow> nat" where
  "LEVELS LogDebug = 10" | "LEVELS LogInfo = 20" | "LEVELS LogWarn = 30" | "LEVELS LogError = 40"

fun log_level_wire :: "log_level \<Rightarrow> string" where
  "log_level_wire LogDebug = ''debug''" | "log_level_wire LogInfo = ''info''"
| "log_level_wire LogWarn = ''warn''" | "log_level_wire LogError = ''error''"

record logger =
  lg_threshold :: nat
  lg_bindings :: json_object

text \<open>\<open>{ ...a, ...b }\<close>.\<close>

definition spread :: "json_object \<Rightarrow> json_object \<Rightarrow> json_object" where
  "spread a b = fold (\<lambda>(k, v). put_field k v) b a"

definition log_emit :: "logger \<Rightarrow> log_level \<Rightarrow> string \<Rightarrow> string \<Rightarrow> json_object \<Rightarrow> json_object list" where
  "log_emit l level now msg given =
     (if LEVELS level < lg_threshold l then []
      else [spread (spread [(''level'', JStr (log_level_wire level)), (''time'', JStr now), (''message'', JStr msg)]
              (lg_bindings l)) given])"

definition log_child :: "logger \<Rightarrow> json_object \<Rightarrow> logger" where
  "log_child l bindings = l\<lparr>lg_bindings := spread (lg_bindings l) bindings\<rparr>"

definition createLogger :: "log_level \<Rightarrow> logger" where
  "createLogger level = \<lparr>lg_threshold = LEVELS level, lg_bindings = []\<rparr>"

section \<open>Start of the gateway\<close>

text \<open>The values of a loaded configuration, of their declared types.\<close>

definition cfg_text :: "json_object \<Rightarrow> string list \<Rightarrow> string option" where
  "cfg_text c path = (case value_at path (JObj c) of Some (JStr s) \<Rightarrow> Some s | _ \<Rightarrow> None)"

definition cfg_int :: "json_object \<Rightarrow> string list \<Rightarrow> int option" where
  "cfg_int c path = (case value_at path (JObj c) of Some (JNum q) \<Rightarrow> Some \<lfloor>q\<rfloor> | _ \<Rightarrow> None)"

definition cfg_bool :: "json_object \<Rightarrow> string list \<Rightarrow> bool" where
  "cfg_bool c path \<longleftrightarrow> value_at path (JObj c) = Some (JBool True)"

definition base_url :: "json_object \<Rightarrow> string" where
  "base_url c = nullish (cfg_text c [''server'', ''baseUrl'']) []"

text \<open>The connection settings taken from the configuration, if the driver is one that exists.\<close>

definition driver_config :: "json_object \<Rightarrow> fault + pg_config" where
  "driver_config c =
     (if cfg_text c [''storage'', ''driver''] \<noteq> Some ''postgres'' \<or> \<not> member_truthy (value_at [''storage'', ''postgres''] (JObj c))
      then Inl (OtherError (''unsupported storage driver \"'' @ nullish (cfg_text c [''storage'', ''driver'']) [] @ ''\" '' @
             em_dash @ '' only postgres is implemented''))
      else Inr
        \<lparr>pg_host = cfg_text c [''storage'', ''postgres'', ''host''], pg_port = cfg_int c [''storage'', ''postgres'', ''port''],
         pg_database = cfg_text c [''storage'', ''postgres'', ''database''],
         pg_user = cfg_text c [''storage'', ''postgres'', ''user''], pg_password = None, pg_connectionString = None,
         pg_poolSize = cfg_int c [''storage'', ''postgres'', ''poolSize''],
         pg_ssl = cfg_bool c [''storage'', ''postgres'', ''ssl'']\<rparr>)"

definition seed_settings :: "json_object \<Rightarrow> (string \<Rightarrow> string option) \<Rightarrow> runtime_settings" where
  "seed_settings c env =
    \<lparr>st_rateLimit =
       \<lparr>rl_enabled = True, rl_perIpPerMinute = nullish (cfg_int c [''security'', ''rateLimits'', ''perIpPerMinute'']) 0,
        rl_registerPerHourPerIp =
          nullish (cfg_int c [''security'', ''rateLimits'', ''unknownHostRegistrationPerHourPerIp'']) 0\<rparr>,
     st_ipFilter = \<lparr>if_enabled = False, if_mode = DenyMode, if_entries = []\<rparr>,
     st_allowPrivateHosts = (env ''CONDUIT_JWKS_ALLOW_PRIVATE'' = Some ''true''),
     st_dpop = cfg_bool c [''security'', ''dpop'', ''enabled''], st_mtls = cfg_bool c [''security'', ''mtls'', ''enabled''],
     st_policy = \<lparr>pc_enabled = False, pc_defaultEffect = Allow, pc_rules = []\<rparr>\<rparr>"

definition config_lifetimes :: "json_object \<Rightarrow> agent_lifetime_config" where
  "config_lifetimes c =
    \<lparr>lc_sessionTtlSeconds = nullish (cfg_int c [''security'', ''lifetimes'', ''sessionTtlSeconds'']) 0,
     lc_maxLifetimeSeconds = nullish (cfg_int c [''security'', ''lifetimes'', ''maxLifetimeSeconds'']) 0,
     lc_absoluteLifetimeSeconds = nullish (cfg_int c [''security'', ''lifetimes'', ''absoluteLifetimeSeconds'']) 0\<rparr>"

definition SCHEMA_CACHE_TTL_SECONDS :: int where
  "SCHEMA_CACHE_TTL_SECONDS = 300"

text \<open>What the platform gives to the process.\<close>

record platform =
  pl_crypto :: node_crypto
  pl_json :: json_text
  pl_codec :: codec
  pl_gcm :: aes_gcm
  pl_fetch :: "http_request \<Rightarrow> fault + http_response"
  pl_parse_url :: "string \<Rightarrow> url option"
  pl_lookup :: "string \<Rightarrow> fault + string list"
  pl_httpGet :: "string \<Rightarrow> url \<Rightarrow> int \<Rightarrow> int \<Rightarrow> fault + string"
  pl_env :: "string \<Rightarrow> string option"
  pl_collate :: "string \<Rightarrow> nat"
  pl_listener :: "nat \<Rightarrow> security_event \<Rightarrow> fault + unit"

definition start_cipher :: "platform \<Rightarrow> json_object \<Rightarrow> fault + credential_cipher" where
  "start_cipher p c =
     (let var = nullish (cfg_text c [''crypto'', ''masterKey'', ''envVar'']) ''CONDUIT_MASTER_KEY'' in
      then_load (resolveMasterKey (pl_crypto p) var (pl_env p var)) (createCredentialCipher (pl_gcm p)))"

text \<open>The resolver gets the default bounds; whether private hosts are allowed is read from the settings at each request.\<close>

definition wire_resolver :: "platform \<Rightarrow> jwks_env" where
  "wire_resolver p =
    \<lparr>jw_parse_url = pl_parse_url p, jw_lookup = pl_lookup p, jw_httpGet = pl_httpGet p, jw_json = pl_json p,
     jw_allowPrivate = (pl_env p ''CONDUIT_JWKS_ALLOW_PRIVATE'' = Some ''true''),
     jw_ttlSeconds = 300, jw_timeoutMs = 3000, jw_maxBytes = 100000, jw_maxKeys = 20\<rparr>"

definition wire_services :: "platform \<Rightarrow> json_object \<Rightarrow> credential_cipher \<Rightarrow> gateway_deps" where
  "wire_services p c cipher =
     (let connectors = createConnectorRegistry \<lparr>io_fetch = pl_fetch p, io_json = pl_json p\<rparr> [] in
      \<lparr>gd_pipeline =
         \<lparr>pd_codec = pl_codec p, pd_crypto = pl_crypto p, pd_json = pl_json p, pd_issuer = base_url c,
          pd_clockSkewSeconds = nullish (cfg_int c [''security'', ''jwt'', ''clockSkewSeconds'']) 0,
          pd_jwks = Some (wire_resolver p)\<rparr>,
       gd_identity =
         \<lparr>id_codec = pl_codec p, id_crypto = pl_crypto p, id_json = pl_json p, id_lifetimes = config_lifetimes c,
          id_issuer = base_url c\<rparr>,
       gd_connections =
         \<lparr>kd_codec = pl_codec p, kd_cipher = cipher, kd_json = pl_json p, kd_connectors = Some connectors\<rparr>,
       gd_proxy =
         \<lparr>xd_crypto = pl_crypto p, xd_json = pl_json p, xd_cipher = cipher, xd_connectors = connectors, xd_policy = None\<rparr>,
       gd_router = \<lparr>td_json = pl_json p, td_adapters = createAdapterRegistry, td_ttlSeconds = SCHEMA_CACHE_TTL_SECONDS\<rparr>,
       gd_codec = pl_codec p, gd_json = pl_json p, gd_connectors = connectors, gd_baseUrl = base_url c,
       gd_collate = pl_collate p, gd_listener = pl_listener p\<rparr>)"

definition fresh_state :: "json_object \<Rightarrow> (string \<Rightarrow> string option) \<Rightarrow> millis \<Rightarrow> db \<Rightarrow> gateway_state" where
  "fresh_state c env now d =
    \<lparr>gw_db = d, gw_jwks = Map.empty, gw_proxy_limiter = createRateLimiter now, gw_cache = (\<lambda>nm. None),
     gw_metrics = createMetrics, gw_settings = seed_settings c env, gw_ip_limiter = createRateLimiter now,
     gw_register_limiter = createRateLimiter now, gw_listeners = [], gw_published = []\<rparr>"

text \<open>\<open>main\<close> up to the point where it listens; \<open>ping\<close> and \<open>migration\<close> are what the database answers.\<close>

definition start_gateway ::
  "platform \<Rightarrow> json option \<Rightarrow> fault + unit \<Rightarrow> fault + unit \<Rightarrow> millis \<Rightarrow> db \<Rightarrow> fault + gateway_deps \<times> gateway_state" where
  "start_gateway p file ping migration now d =
     then_load (loadConfig file (pl_env p)) (\<lambda>c.
     then_load (driver_config c) (\<lambda>cfg.
     then_load (fst (eff_bind (driver_init ping) (\<lambda>_. driver_migrate migration) (new_driver NoDb))) (\<lambda>_.
     then_load (start_cipher p c) (\<lambda>cipher.
     Inr (wire_services p c cipher, fresh_state c (pl_env p) now d)))))"

section \<open>The first host\<close>

text \<open>A key pair as the platform exports it: the public half has \<open>kty\<close>, \<open>crv\<close> and \<open>x\<close>, the private one \<open>d\<close> as well.\<close>

definition generateEd25519KeyPair :: "string \<Rightarrow> string \<Rightarrow> jwk \<times> json_object" where
  "generateEd25519KeyPair x d =
     (let priv = [(''crv'', JStr ''Ed25519''), (''d'', JStr d), (''x'', JStr x), (''kty'', JStr ''OKP'')] in
      (public_part priv, priv))"

definition bootstrap_host :: "node_crypto \<Rightarrow> jwk \<Rightarrow> host db_op" where
  "bootstrap_host c pub = hosts_create c
    \<lparr>nh_publicKeyJwk = Some pub, nh_jwksUrl = None, nh_userId = None, nh_defaultCapabilities = [], nh_status = HostActive\<rparr>"

definition bootstrap_output :: "codec \<Rightarrow> node_crypto \<Rightarrow> jwk \<times> json_object \<Rightarrow> host \<Rightarrow> json_object" where
  "bootstrap_output C c kp h =
     [(''hostId'', JStr (k_uuid C (h_id h))), (''issuer'', JStr (jwkThumbprint c (fst kp))),
      (''hostPrivateKeyJwk'', JObj (snd kp))]"

end
