(* ===== verification/Setup_Laws.thy ===== *)
theory Setup_Laws
  imports Server_Setup Client_Laws
begin

text \<open>
  What holds from the start of a gateway on: the life of its database driver, the issuer it announces against
  the one it accepts, and the acceptance of what the SDK and the first host send.
\<close>

section \<open>The driver\<close>

text \<open>
  The state after a failed \<open>init\<close> is that after a successful one: the pool is kept although the database
  did not answer, and a second \<open>init\<close> returns at once.
\<close>

lemma failed_init_sticks:
  "fst (driver_init (Inl e) (new_driver NoDb)) = Inl e"
  "snd (driver_init (Inl e) (new_driver NoDb)) = snd (driver_init (Inr ()) (new_driver NoDb))"
  "fst (driver_init ping (snd (driver_init (Inl e) (new_driver NoDb)))) = Inr ()"
  by (simp_all add: driver_init_def new_driver_def eff_defs eff_sum_def)

lemma no_nested_transaction:
  "driver_transaction A f (new_driver ClientDb) =
     (Inl (OtherError ''transaction() requires a pool-backed driver''), new_driver ClientDb)"
  by (simp add: driver_transaction_def new_driver_def eff_defs)

text \<open>A transaction that failed reports the failure, unless the rollback fails as well.\<close>

lemma failed_transaction_reports:
  assumes "dr_pool s" and "tx_connect A = Inr ()" and "tx_begin A = Inr ()" and "f (new_driver ClientDb) = Inl e"
  shows "driver_transaction A f s = (case tx_rollback A of Inl e' \<Rightarrow> Inl e' | Inr _ \<Rightarrow> Inl e, s)"
  using assms by (simp add: driver_transaction_def eff_defs eff_sum_def split: sum.split)

lemma closed_driver_reports:
  assumes "dr_pool s" and "driver_close s = (Inr (), s')"
  shows "fst (driver_healthCheck ping s') = Inr False" and "isl (fst (driver_db s'))" and "isl (fst (driver_migrate run s'))"
  using assms by (auto simp: driver_close_def driver_healthCheck_def driver_db_def driver_migrate_def new_driver_def eff_defs)

text \<open>Credentials of a connection string are the only ones used when there is one.\<close>

lemma connection_string_wins:
  "truthy (pg_connectionString c) \<Longrightarrow> field_of (buildPoolConfig c) ''host'' = None \<and> field_of (buildPoolConfig c) ''user'' = None"
  by (auto simp: buildPoolConfig_def field_of_def member_def split: option.splits)

section \<open>Logging\<close>

lemma spread_get: "field_of (spread a b) k = (case field_of b k of None \<Rightarrow> field_of a k | Some v \<Rightarrow> Some v)"
  by (induction b rule: rev_induct) (auto simp: spread_def)

text \<open>A child logger writes its bindings on every line it emits, and nothing below the threshold.\<close>

lemma child_emits_bindings:
  assumes "field_of b k = Some v" and "line \<in> set (log_emit (log_child l b) level t msg given)" and "field_of given k = None"
  shows "field_of line k = Some v \<and> lg_threshold l \<le> LEVELS level"
  using assms by (auto simp: log_emit_def log_child_def spread_get split: if_splits)

section \<open>Start\<close>

lemma start_gateway_Inr:
  "start_gateway p file ping migration now d = Inr (D, S) \<longleftrightarrow>
    (\<exists>c cfg cipher. loadConfig file (pl_env p) = Inr c \<and> driver_config c = Inr cfg \<and> ping = Inr () \<and> migration = Inr () \<and>
       start_cipher p c = Inr cipher \<and> D = wire_services p c cipher \<and> S = fresh_state c (pl_env p) now d)"
  by (auto simp: start_gateway_def then_load_Inr driver_init_def driver_migrate_def new_driver_def eff_bind_Inr_iff eff_defs
      eff_sum_def split: sum.splits)

text \<open>What the discovery document names as the issuer.\<close>

definition discovered_issuer :: "gateway_deps \<Rightarrow> request_env \<Rightarrow> gateway_state \<Rightarrow> json option" where
  "discovered_issuer D ev s =
     (case fst (handle_route D ev GetAgentConfiguration s) of Inr rep \<Rightarrow> claim (re_body rep) ''issuer'' | Inl _ \<Rightarrow> None)"

lemma discovered_issuer_eval: "discovered_issuer D ev s = Some (JStr (strip_slashes (gd_baseUrl D)))"
  by (simp add: discovered_issuer_def cacheable_def eff_return_def buildAgentConfiguration_def Let_def field_of_Cons)

lemma strip_slashes_same: "u \<noteq> [] \<Longrightarrow> strip_slashes u = u \<longleftrightarrow> last u \<noteq> CHR ''/''"
proof (cases u rule: rev_cases)
  case (snoc v c)
  have "strip_slashes (v @ [c]) \<noteq> v @ [c]" if "c = CHR ''/''"
  proof -
    have "length (strip_slashes (v @ [c])) \<le> length v"
      using length_dropWhile_le [of "\<lambda>c. c = CHR ''/''" "rev v"] that by (simp add: strip_slashes_def)
    then show ?thesis by (metis length_append_singleton not_less_eq_eq order_refl)
  qed
  then show ?thesis using snoc by (auto simp: strip_slashes_def)
qed simp

lemma started_issuer:
  assumes "start_gateway p file ping migration now d = Inr (D, S)" and "pl_env p ''CONDUIT_BASE_URL'' = Some u" and "u \<noteq> []"
  shows "gd_baseUrl D = u \<and> pd_issuer (gd_pipeline D) = u"
proof -
  from assms(1) obtain c cipher where c: "loadConfig file (pl_env p) = Inr c" "D = wire_services p c cipher"
    by (auto simp: start_gateway_Inr)
  with loadConfig_env(2) [OF c(1)] assms(2,3)
  have "value_at [''server'', ''baseUrl''] (JObj c) = Some (JStr u)" by (simp add: truthy_def)
  then show ?thesis
    by (simp add: c(2) wire_services_def Let_def base_url_def cfg_text_def nullish_def del: value_at.simps)
qed

lemma signatureVerify_claims:
  "signatureVerify P ck ctx s = (Inr ctx', s') \<Longrightarrow>
    \<exists>dj. decodeJwt (pd_json P) (ax_token ctx) = Inr dj \<and> ax_claims ctx' = Some (dj_claims dj)"
  by (auto simp: signatureVerify_def signatureVerify_agent_def signatureVerify_host_def eff_bind_Inr_iff eff_return_def
      eff_throw_def eff_some_def split: sum.splits jwt_typ.splits option.splits)

lemma typCheck_token: "typCheck P ctx s = (Inr ctx', s') \<Longrightarrow> ax_token ctx' = ax_token ctx"
  by (auto simp: typCheck_def eff_defs split: sum.splits if_splits)

text \<open>Whatever passes the stages both pipelines begin with is addressed to the issuer of the pipeline.\<close>

lemma stages_check_audience:
  assumes "run_stages (typCheck P # signatureVerify P ck # claimValidation P now # rest) ctx s = (Inr ctx', s')"
    and "decodeJwt (pd_json P) (ax_token ctx) = Inr dj"
  shows "claim (dj_claims dj) ''aud'' = Some (JStr (pd_issuer P))"
proof -
  from assms(1) obtain c1 s1 c2 s2 c3 s3 where "typCheck P ctx s = (Inr c1, s1)" "signatureVerify P ck c1 s1 = (Inr c2, s2)"
    "claimValidation P now c2 s2 = (Inr c3, s3)" by (auto simp: eff_bind_Inr_iff)
  then show ?thesis
    using assms(2) by (auto dest!: typCheck_token signatureVerify_claims elim!: claimValidation_pass)
qed

text \<open>
  C12: The issuer a gateway announces is the issuer it accepts only if the configured base URL has no trailing slash.
  With one, every token addressed to the issuer of the discovery document is refused by both pipelines.
\<close>

theorem discovered_issuer_accepted_iff:
  assumes "start_gateway p file ping migration now d = Inr (D, S)" and "pl_env p ''CONDUIT_BASE_URL'' = Some u" and "u \<noteq> []"
    and "decodeJwt (pd_json (gd_pipeline D)) token = Inr dj" and "claim (dj_claims dj) ''aud'' = discovered_issuer D ev S"
  shows "(discovered_issuer D ev S = Some (JStr (pd_issuer (gd_pipeline D))) \<longleftrightarrow> last u \<noteq> CHR ''/'') \<and>
    (last u = CHR ''/'' \<longrightarrow>
      isl (fst (run_stages (buildAgentPipeline (gd_pipeline D) ck) (start_context token AgentJwt capability args) s)) \<and>
      isl (fst (run_stages (buildHostPipeline (gd_pipeline D) ck) (start_context token HostJwt None None) s)))"
proof -
  have url: "gd_baseUrl D = u" "pd_issuer (gd_pipeline D) = u" using started_issuer [OF assms(1-3)] by simp_all
  have refused: "isl (fst (run_stages (typCheck (gd_pipeline D) # signatureVerify (gd_pipeline D) ck #
      claimValidation (gd_pipeline D) (ck_claims ck) # rest) ctx s))" if "strip_slashes u \<noteq> u" "ax_token ctx = token" for ctx rest
    using run_returns stages_check_audience [where ctx = ctx and P = "gd_pipeline D"] assms(4,5) that
    by (fastforce simp: discovered_issuer_eval url simp del: run_stages.simps)
  have "ax_token (start_context token ty cap a) = token" for ty cap a by (simp add: start_context_def)
  with refused strip_slashes_same [OF assms(3)] show ?thesis
    unfolding discovered_issuer_eval url buildAgentPipeline_def buildHostPipeline_def
    by (simp del: run_stages.simps)
qed

text \<open>A closed start: the base URL ends in a slash, everything else is a default.\<close>

definition sample_platform :: platform where
  "sample_platform =
    \<lparr>pl_crypto = (pd_crypto sample_pipeline_deps)\<lparr>nc_sha256 := take 32\<rparr>, pl_json = sample_request_json,
     pl_codec = unary_codec, pl_gcm = sample_gcm, pl_fetch = (\<lambda>r. Inl (OtherError ''offline'')),
     pl_parse_url = (\<lambda>s. None), pl_lookup = (\<lambda>h. Inr []), pl_httpGet = (\<lambda>ip u t m. Inl (OtherError ''offline'')),
     pl_env = [''CONDUIT_BASE_URL'' \<mapsto> ''https://gw/''], pl_collate = length, pl_listener = (\<lambda>l e. Inr ())\<rparr>"

definition sample_sdk_platform :: platform where
  "sample_sdk_platform = sample_platform
    \<lparr>pl_crypto := sample_sdk_crypto, pl_json := sample_sdk_json, pl_env := [''CONDUIT_BASE_URL'' \<mapsto> ''https://gw'']\<rparr>"

lemma sample_start_from:
  assumes "case loadConfig None (pl_env p) of Inr c \<Rightarrow> \<not> isl (driver_config c) \<and> \<not> isl (start_cipher p c) | Inl e \<Rightarrow> False"
  obtains D S where "start_gateway p None (Inr ()) (Inr ()) 0 d = Inr (D, S)"
proof -
  obtain c where c: "loadConfig None (pl_env p) = Inr c" using assms by (cases "loadConfig None (pl_env p)") auto
  with assms have "\<not> isl (driver_config c)" "\<not> isl (start_cipher p c)" by simp_all
  then obtain cfg cipher where "driver_config c = Inr cfg" "start_cipher p c = Inr cipher"
    by (cases "driver_config c"; cases "start_cipher p c") simp_all
  with c that show ?thesis unfolding start_gateway_Inr by blast
qed

lemma sample_ready:
  "case loadConfig None (pl_env sample_platform) of
     Inr c \<Rightarrow> \<not> isl (driver_config c) \<and> \<not> isl (start_cipher sample_platform c) | Inl e \<Rightarrow> False"
  "case loadConfig None (pl_env sample_sdk_platform) of
     Inr c \<Rightarrow> \<not> isl (driver_config c) \<and> \<not> isl (start_cipher sample_sdk_platform c) | Inl e \<Rightarrow> False"
  by code_simp+

lemma sample_start:
  obtains D S where "start_gateway sample_platform None (Inr ()) (Inr ()) 0 d = Inr (D, S)"
  using sample_start_from [OF sample_ready(1)] that by blast

lemma sample_sdk_start:
  obtains D S where "start_gateway sample_sdk_platform None (Inr ()) (Inr ()) 0 d = Inr (D, S)"
  using sample_start_from [OF sample_ready(2)] that by blast

lemma discovered_issuer_accepted_iff_witness:
  "\<exists>D S. start_gateway sample_platform None (Inr ()) (Inr ()) 0 empty_db = Inr (D, S) \<and>
     isl (fst (run_stages (buildAgentPipeline (gd_pipeline D) sample_clock)
       (start_context sample_token AgentJwt None None) sample_request_state))"
proof -
  obtain D S where start: "start_gateway sample_platform None (Inr ()) (Inr ()) 0 empty_db = Inr (D, S)"
    by (rule sample_start)
  have url: "pl_env sample_platform ''CONDUIT_BASE_URL'' = Some ''https://gw/''" by (simp add: sample_platform_def)
  have J: "pd_json (gd_pipeline D) = sample_request_json" "gd_baseUrl D = ''https://gw/''"
    using start started_issuer [OF start url]
    by (auto simp: start_gateway_Inr wire_services_def Let_def sample_platform_def)
  have "(case decodeJwt sample_request_json sample_token of
      Inr dj \<Rightarrow> claim (dj_claims dj) ''aud'' = Some (JStr (strip_slashes ''https://gw/'')) | Inl e \<Rightarrow> False)" by code_simp
  then obtain dj where dj: "decodeJwt (pd_json (gd_pipeline D)) sample_token = Inr dj"
    "claim (dj_claims dj) ''aud'' = Some (JStr (strip_slashes ''https://gw/''))" by (auto simp: J(1) split: sum.splits)
  have "claim (dj_claims dj) ''aud'' = discovered_issuer D undefined S" using dj(2) by (simp add: discovered_issuer_eval J(2))
  from discovered_issuer_accepted_iff [OF start url _ dj(1) this, where ck = sample_clock and capability = None
      and args = None and s = sample_request_state] start
  show ?thesis by auto
qed

section \<open>Tokens of the SDK\<close>

text \<open>
  C11: What the SDK sends is accepted by a gateway whose base URL is set and has no trailing slash.  When a client
  takes its audience from the discovery document of that gateway, holds the key of an agent that is usable there, the
  two clocks agree up to the skew, the token's identifier is new, the JSON of the token survives printing and parsing,
  and the agent has an active grant of the capability whose constraints the arguments meet, then the token of an
  \<open>executeCapability\<close> call is the bearer token of its request and passes the whole agent pipeline as that agent under
  that grant.
\<close>

theorem sdk_token_is_accepted:
  assumes start: "start_gateway p file ping migration t0 d0 = Inr (D, S)"
    and url: "pl_env p ''CONDUIT_BASE_URL'' = Some u" "u \<noteq> []" "last u \<noteq> CHR ''/''"
    and document: "cl_issuer c = None \<and> serves_document io c (buildAgentConfiguration (gd_baseUrl D)) \<or>
      cl_issuer c = claim (buildAgentConfiguration (gd_baseUrl D)) ''issuer''"
    and sign: "signJwt io agentId None None c = (Inr token, c')"
    and "db_wf d" and "client_of (gd_pipeline D) io c agentId r" and "usable_agent d (ck_state ck) r"
    and "on_time (gd_pipeline D) io ck" and "ci_jti io \<noteq> []" and "row_find jr_jti (ci_jti io) (db_jti d) = None"
    and "text_kept (gd_pipeline D)
      (agent_claims (cl_hostThumbprint c) agentId (Some (JStr u)) (ci_now io div 1000) (ci_jti io) None)"
    and "capability \<noteq> []" and "active_grants (ar_id r) capability d = g # gs" and "validate (gr_constraints g) args = Inr []"
  shows "bearerToken (text_at (rq_headers (client_request (ci_json io) base ''POST'' ''/capability/execute'' token
      (Some (JObj [(''capability'', JStr capability), (''args'', JObj args)])))) ''authorization'') = Some token \<and>
    (\<exists>ctx s'. run_stages (buildAgentPipeline (gd_pipeline D) ck) (start_context token AgentJwt (Some capability) (Some args))
        \<lparr>as_db = d, as_jwks = jwks\<rparr> = (Inr ctx, s') \<and>
      ax_agent ctx = Some (mapAgentRow r) \<and> ax_grant ctx = Some (mapGrantRow g))"
proof -
  have D: "gd_baseUrl D = u" "pd_issuer (gd_pipeline D) = u" using started_issuer [OF start url(1,2)] by simp_all
  have "claim (buildAgentConfiguration (gd_baseUrl D)) ''issuer'' = Some (JStr u)"
    using strip_slashes_same [OF url(2)] url(3) by (simp add: D buildAgentConfiguration_def Let_def field_of_Cons)
  from signJwt_issuer [OF sign document this url(2)] have iss: "cl_issuer c' = Some (JStr u)" .
  from addressed_token_is_accepted [OF assms(7) sign _ assms(8-12) _ assms(14-16), unfolded iss D(2), OF refl assms(13)]
  show ?thesis by (simp add: client_request_def text_at_def bearerToken_sent)
qed

lemma sdk_token_is_accepted_witness:
  "\<exists>D S token ctx s' g. start_gateway sample_sdk_platform None (Inr ()) (Inr ()) 0 empty_db = Inr (D, S) \<and>
     run_stages (buildAgentPipeline (gd_pipeline D) sample_clock)
       (start_context token AgentJwt (Some ''slack.post'') (Some [])) \<lparr>as_db = sample_sdk_db, as_jwks = Map.empty\<rparr> = (Inr ctx, s') \<and>
     ax_agent ctx = Some (mapAgentRow (sample_agent_row 7 2000)) \<and> ax_grant ctx = Some (mapGrantRow g)"
proof -
  obtain D S where start: "start_gateway sample_sdk_platform None (Inr ()) (Inr ()) 0 empty_db = Inr (D, S)"
    by (rule sample_sdk_start)
  have url: "pl_env sample_sdk_platform ''CONDUIT_BASE_URL'' = Some ''https://gw''" "''https://gw'' \<noteq> []"
    "last ''https://gw'' \<noteq> CHR ''/''" by (simp_all add: sample_sdk_platform_def)
  obtain c where c: "loadConfig None (pl_env sample_sdk_platform) = Inr c"
    "pd_clockSkewSeconds (gd_pipeline D) = nullish (cfg_int c [''security'', ''jwt'', ''clockSkewSeconds'']) 0"
    using start by (auto simp: start_gateway_Inr wire_services_def Let_def)
  have "(case loadConfig None (pl_env sample_sdk_platform) of
      Inr c \<Rightarrow> nullish (cfg_int c [''security'', ''jwt'', ''clockSkewSeconds'']) 0 | Inl e \<Rightarrow> 0) = 30" by code_simp
  then have skew: "pd_clockSkewSeconds (gd_pipeline D) = 30" by (simp add: c)
  have D: "pd_crypto (gd_pipeline D) = sample_sdk_crypto" "pd_json (gd_pipeline D) = sample_sdk_json"
    "pd_codec (gd_pipeline D) = unary_codec" "gd_baseUrl D = ''https://gw''"
    using start started_issuer [OF start url(1,2)]
    by (auto simp: start_gateway_Inr wire_services_def Let_def sample_sdk_platform_def sample_platform_def)
  let ?sign = "signJwt sample_client_io ''seventh'' None None sample_client"
  have "\<not> isl (fst ?sign)" by code_simp
  from run_returns [OF this] obtain token where sign: "?sign = (Inr token, snd ?sign)" by blast
  have document: "serves_document sample_client_io sample_client (buildAgentConfiguration (gd_baseUrl D))"
    by (simp add: serves_document_def sample_client_io_def sample_sdk_json_def response_ok_def D)
  have none: "cl_issuer sample_client = None" by (simp add: sample_client_def)
  have who: "client_of (gd_pipeline D) sample_client_io sample_client ''seventh'' (sample_agent_row 7 2000)"
    by (simp add: client_of_def D sample_client_io_def sample_client_def
        unary_codec_def sample_agent_row_def key_pair_ok_def sample_sdk_crypto_def sample_jwk_def)
  have kept: "text_kept (gd_pipeline D) (agent_claims (cl_hostThumbprint sample_client) ''seventh''
      (Some (JStr ''https://gw'')) (ci_now sample_client_io div 1000) (ci_jti sample_client_io) None)"
    by (simp add: text_kept_def D sample_sdk_json_def json_text_ok_def jwt_header_def
        sample_client_def sample_client_io_def sample_sdk_claims_def sample_json_text_def agent_claims_def)
  have usable: "usable_agent sample_sdk_db (ck_state sample_clock) (sample_agent_row 7 2000)" by code_simp
  have time: "on_time (gd_pipeline D) sample_client_io sample_clock"
    by (simp add: on_time_def skew sample_client_io_def sample_clock_def JWT_TTL_SECONDS_def)
  have jti: "ci_jti sample_client_io \<noteq> []" "row_find jr_jti (ci_jti sample_client_io) (db_jti sample_sdk_db) = None"
    by code_simp+
  obtain g where g: "active_grants (ar_id (sample_agent_row 7 2000)) ''slack.post'' sample_sdk_db = g # []"
      "validate (gr_constraints g) [] = Inr []"
  proof -
    have "map (\<lambda>g. validate (gr_constraints g) []) (active_grants (ar_id (sample_agent_row 7 2000)) ''slack.post'' sample_sdk_db)
        = [Inr []]" by code_simp
    then show ?thesis using that by auto
  qed
  from sdk_token_is_accepted [OF start url _ sign sample_sdk_db_wf who usable time jti kept _ g, where jwks = Map.empty and base = "[]"]
    document none start
  show ?thesis by blast
qed

section \<open>The first host\<close>

lemma hosts_create_Inr:
  assumes "hosts_create c n d = (Inr h, d')" and "nh_publicKeyJwk n = Some pub"
  obtains r where "h = mapHostRow r" and "db_hosts d' = db_hosts d @ [r]" and "db_jti d' = db_jti d" and "db_now d' = db_now d"
    and "hr_public_key_jwk r = Some pub" and "hr_key_thumbprint r = Some (jwkThumbprint c pub)" and "hr_status r = nh_status n"
    and "Some (jwkThumbprint c pub) \<notin> hr_key_thumbprint ` set (db_hosts d)"
proof -
  let ?r = "\<lparr>hr_id = db_uuids d (db_draws d), hr_public_key_jwk = nh_publicKeyJwk n, hr_jwks_url = nh_jwksUrl n,
    hr_key_thumbprint = map_option (jwkThumbprint c) (nh_publicKeyJwk n), hr_user_id = nh_userId n,
    hr_default_capabilities = nh_defaultCapabilities n, hr_status = nh_status n, hr_created_at = db_now d,
    hr_updated_at = db_now d\<rparr>"
  from assms have "h = mapHostRow ?r" "host_row_ok ?r (d\<lparr>db_draws := Suc (db_draws d)\<rparr>)"
    "d' = d\<lparr>db_draws := Suc (db_draws d), db_hosts := db_hosts d @ [?r]\<rparr>"
    by (simp_all add: hosts_create_def insert_host_def insert_row_def gen_random_uuid_def host_row_ok_def
        eff_bind_def eff_read_def eff_return_def eff_throw_def eff_require_def eff_write_def table_simps split: if_splits)
  then show ?thesis using that [of ?r] assms(2) by (simp add: host_row_ok_def)
qed

lemma signatureVerify_host_accepts:
  assumes "decodeJwt (pd_json P) (ax_token ctx) = Inr dj" and "dj_claims dj = JObj cs" and "ax_expectedTyp ctx = HostJwt"
    and "field_of cs ''iss'' = Some v" and "json_truthy v"
    and "row_find hr_key_thumbprint (Some (jt_param (pd_json P) v)) (db_hosts (as_db s)) = Some r"
    and "hr_public_key_jwk r = Some key" and "jwt_verify (pd_crypto P) (pd_json P) (ax_token ctx) key = Inr u"
  shows "signatureVerify P ck ctx s = (Inr (ctx\<lparr>ax_host := Some (mapHostRow r), ax_claims := Some (JObj cs)\<rparr>), s)"
  using assms
  by (simp add: signatureVerify_def signatureVerify_host_def principal_claim_def member_truthy_def eff_bind_def
      eff_sum_def eff_return_def eff_some_def on_db_eval hosts_findByThumbprint_def eff_read_def resolveKey_def verifyWith_def)

lemma host_pipeline_accepts:
  assumes dec: "decodeJwt (pd_json P) token = Inr dj" and ty: "dj_typ dj = Some (JStr ''host+jwt'')"
    and cs: "dj_claims dj = JObj cs" and iss: "field_of cs ''iss'' = Some v" "json_truthy v"
    and row: "row_find hr_key_thumbprint (Some (jt_param (pd_json P) v)) (db_hosts (as_db s)) = Some r"
    and key: "hr_public_key_jwk r = Some key" "jwt_verify (pd_crypto P) (pd_json P) token key = Inr u"
    and active: "hr_status r = HostActive"
    and cl: "timely_claims P (ck_claims ck) (JObj cs) ex" "field_of cs ''jti'' = Some jti" "json_truthy jti"
      "date_of_seconds (ex + of_int (pd_clockSkewSeconds P)) = Inr e"
    and put: "jti_put_run (jt_param (pd_json P) jti) e (as_db s) = (True, d)"
  shows "\<exists>ctx s'. run_stages (buildHostPipeline P ck) (start_context token HostJwt capability args) s = (Inr ctx, s') \<and>
    ax_host ctx = Some (mapHostRow r)"
proof -
  let ?c0 = "start_context token HostJwt capability args"
  let ?c1 = "?c0\<lparr>ax_decodedTyp := Some HostJwt\<rparr>"
  let ?c2 = "?c1\<lparr>ax_host := Some (mapHostRow r), ax_claims := Some (JObj cs)\<rparr>"
  have 1: "typCheck P ?c0 s = (Inr ?c1, s)"
    using typCheck_accepts [of P ?c0 dj s] dec ty by (simp add: start_context_def)
  have 2: "signatureVerify P ck ?c1 s = (Inr ?c2, s)"
    by (rule signatureVerify_host_accepts [OF _ cs _ iss row key(1)]) (simp_all add: start_context_def dec key(2))
  have 3: "claimValidation P (ck_claims ck) ?c2 s = (Inr ?c2, s\<lparr>as_db := d\<rparr>)"
    by (rule claimValidation_accepts [OF _ cl put]) simp
  have 4: "stateCheck (ck_state ck) ?c2 (s\<lparr>as_db := d\<rparr>) = (Inr ?c2, s\<lparr>as_db := d\<rparr>)"
    by (simp add: stateCheck_def active start_context_def eff_return_def)
  have "run_stages (buildHostPipeline P ck) ?c0 s = (Inr ?c2, s\<lparr>as_db := d\<rparr>)"
    by (simp add: buildHostPipeline_def eff_bind_def 1 2 3 4 eff_return_def)
  then show ?thesis by auto
qed

lemma host_claims_fields:
  "field_of (host_claims iss (Some a) now jti) ''iss'' = Some (JStr iss)"
  "field_of (host_claims iss (Some a) now jti) ''aud'' = Some a"
  "field_of (host_claims iss (Some a) now jti) ''iat'' = Some (jint now)"
  "field_of (host_claims iss (Some a) now jti) ''exp'' = Some (jint (now + JWT_TTL_SECONDS))"
  "field_of (host_claims iss (Some a) now jti) ''jti'' = Some (JStr jti)"
  by (simp_all add: host_claims_def member_def field_of_def)

text \<open>The client of a printed key pair names the host by the thumbprint that was printed and stored.\<close>

lemma bootstrapped_client:
  "cl_hostThumbprint (new_client c base (snd (generateEd25519KeyPair x sec))) = jwkThumbprint c (fst (generateEd25519KeyPair x sec))"
  "cl_hostKey (new_client c base (snd (generateEd25519KeyPair x sec))) = snd (generateEd25519KeyPair x sec)"
  by (simp_all add: new_client_def generateEd25519KeyPair_def Let_def)

definition host_text_kept :: "pipeline_deps \<Rightarrow> json_object \<Rightarrow> bool" where
  "host_text_kept P cs \<longleftrightarrow>
     json_text_ok (pd_json P) (jwt_header HostJwt) \<and> json_text_ok (pd_json P) (JObj cs) \<and>
     (\<forall>t. jt_param (pd_json P) (JStr t) = t)"

lemma signed_host_token:
  assumes sign: "hostJwt io c = (Inr token, c')" and io: "ci_crypto io = pd_crypto P" "ci_json io = pd_json P"
    and pair: "key_pair_ok (pd_crypto P) pub (cl_hostKey c)"
    and cs: "cs = host_claims (cl_hostThumbprint c) (cl_issuer c') (ci_now io div 1000) (ci_jti io)"
    and kept: "host_text_kept P cs"
  obtains dj where "jwt_verify (pd_crypto P) (pd_json P) token pub = Inr dj" and "dj_typ dj = Some (JStr ''host+jwt'')"
    and "dj_claims dj = JObj cs" and "decodeJwt (pd_json P) token = Inr dj"
proof -
  have key: "discoverIssuer io c = (Inr v, s) \<Longrightarrow> cl_hostKey s = cl_hostKey c" for v s
    by (auto simp: discoverIssuer_def eff_bind_Inr_iff eff_defs eff_sum_def split: if_splits option.splits sum.splits prod.splits)
  then have pass: "discoverIssuer io c = (Inr v, s) \<Longrightarrow>
      v = cl_issuer s \<and> cl_hostThumbprint s = cl_hostThumbprint c \<and> cl_hostKey s = cl_hostKey c" for v s
    using discoverIssuer_pass by metis
  have "jwt_sign (pd_crypto P) (pd_json P) HostJwt (JObj cs) (cl_hostKey c') = Inr token \<and> cl_hostKey c' = cl_hostKey c"
    using sign by (auto simp: hostJwt_def eff_bind_Inr_iff eff_read_def eff_sum_def cs io dest!: pass)
  then have "jwt_sign (pd_crypto P) (pd_json P) HostJwt (JObj cs) (cl_hostKey c) = Inr token" by metis
  from jwt_sign_verify_raw [OF _ _ pair this] kept obtain dj where
    v: "jwt_verify (pd_crypto P) (pd_json P) token pub = Inr dj" "dj_typ dj = Some (JStr ''host+jwt'')" "dj_claims dj = JObj cs"
    by (auto simp: host_text_kept_def)
  then have "decodeJwt (pd_json P) token = Inr dj"
    by (auto simp: jwt_verify_def split: sum.splits option.splits if_splits)
  with v show ?thesis by (rule that)
qed

text \<open>
  C13: The host that the bootstrap script creates can sign in: a client built from the private key it prints mints host
  tokens that pass the host pipeline as exactly that host, when the issuer it discovered is the one of the gateway,
  the clocks agree up to the skew and the identifier of the token is new.
\<close>

theorem bootstrapped_host_is_accepted:
  assumes pair: "generateEd25519KeyPair x sec = (pub, priv)" "key_pair_ok (pd_crypto P) pub priv"
    and made: "bootstrap_host (pd_crypto P) pub d = (Inr h, d')"
    and client: "c = new_client (pd_crypto P) base priv" and sign: "hostJwt io c = (Inr token, c')"
    and io: "ci_crypto io = pd_crypto P" "ci_json io = pd_json P" and named: "jwkThumbprint (pd_crypto P) pub \<noteq> []"
    and iss: "cl_issuer c' = Some (JStr (pd_issuer P))" and time: "on_time P io ck"
    and jti: "ci_jti io \<noteq> []" "row_find jr_jti (ci_jti io) (db_jti d) = None"
    and kept: "host_text_kept P (host_claims (cl_hostThumbprint c) (cl_issuer c') (ci_now io div 1000) (ci_jti io))"
  shows "\<exists>ctx s'. run_stages (buildHostPipeline P ck) (start_context token HostJwt None None)
      \<lparr>as_db = d', as_jwks = jwks\<rparr> = (Inr ctx, s') \<and> ax_host ctx = Some h"
proof -
  let ?cs = "host_claims (cl_hostThumbprint c) (cl_issuer c') (ci_now io div 1000) (ci_jti io)"
  let ?th = "jwkThumbprint (pd_crypto P) pub"
  have who: "cl_hostThumbprint c = ?th" "cl_hostKey c = priv"
    using bootstrapped_client [of "pd_crypto P" base x sec] by (simp_all add: client pair(1))
  obtain r where r: "h = mapHostRow r" "db_hosts d' = db_hosts d @ [r]" "db_jti d' = db_jti d"
      "hr_public_key_jwk r = Some pub" "hr_key_thumbprint r = Some ?th" "hr_status r = HostActive"
    and new: "Some ?th \<notin> hr_key_thumbprint ` set (db_hosts d)"
    using made unfolding bootstrap_host_def by (rule hosts_create_Inr) simp_all
  have row: "row_find hr_key_thumbprint (Some ?th) (db_hosts d') = Some r"
  proof -
    have "row_find hr_key_thumbprint (Some ?th) (db_hosts d) = None" using new by (simp add: row_find_None_iff)
    with r(5) show ?thesis by (simp add: r(2) row_find_append table_simps)
  qed
  obtain dj where v: "jwt_verify (pd_crypto P) (pd_json P) token pub = Inr dj" and ty: "dj_typ dj = Some (JStr ''host+jwt'')"
    and cl: "dj_claims dj = JObj ?cs" and dec: "decodeJwt (pd_json P) token = Inr dj"
    by (rule signed_host_token [OF sign io pair(2) [folded who(2)] refl kept])
  let ?ex = "of_int (ci_now io div 1000 + JWT_TTL_SECONDS) :: rat"
  have timely: "timely_claims P (ck_claims ck) (JObj ?cs) ?ex"
    using time by (simp add: timely_claims_def claim_number_def iss host_claims_fields jint_def on_time_def flip: of_int_add)
  obtain e where e: "date_of_seconds (?ex + of_int (pd_clockSkewSeconds P)) = Inr e"
    using date_in_range [of "ci_now io div 1000 + JWT_TTL_SECONDS + pd_clockSkewSeconds P"] time by (auto simp: on_time_def)
  have plain: "jt_param (pd_json P) (JStr t) = t" for t using kept by (simp add: host_text_kept_def)
  have "fst (jti_put_run (ci_jti io) e d')" using fresh_jti jti(2) by (simp add: r(3))
  then obtain d2 where put: "jti_put_run (jt_param (pd_json P) (JStr (ci_jti io))) e d' = (True, d2)"
    unfolding plain by (metis eq_fst_iff)
  show ?thesis
    unfolding r(1)
    by (rule host_pipeline_accepts [OF dec ty cl _ _ _ r(4) v r(6) timely _ _ e,
        where v = "JStr ?th" and jti = "JStr (ci_jti io)" and d = d2])
      (use put row named jti(1) in \<open>simp_all add: who iss host_claims_fields plain\<close>)
qed

text \<open>A closed bootstrap: the client reads the issuer from the discovery document first.\<close>

abbreviation sample_boot_pair :: "jwk \<times> json_object" where
  "sample_boot_pair \<equiv> generateEd25519KeyPair ''k1'' ''secret''"

abbreviation sample_boot_client :: conduit_client where
  "sample_boot_client \<equiv> new_client sample_sdk_crypto ''https://gw'' (snd sample_boot_pair)"

definition sample_boot_json :: json_text where
  "sample_boot_json = sample_json_text
    \<lparr>jt_parse := (\<lambda>s. Some (if s = ''h'' then jwt_header HostJwt
       else if s = ''doc'' then JObj [(''issuer'', JStr ''https://gw'')]
       else JObj (host_claims (jwkThumbprint sample_sdk_crypto (fst sample_boot_pair)) (Some (JStr ''https://gw'')) 50 ''j1''))),
     jt_stringify := (\<lambda>j. if j = jwt_header HostJwt then ''h'' else ''p'')\<rparr>"

definition sample_boot_gateway :: pipeline_deps where
  "sample_boot_gateway = sample_pipeline_deps\<lparr>pd_crypto := sample_sdk_crypto, pd_json := sample_boot_json\<rparr>"

definition sample_boot_io :: client_io where
  "sample_boot_io =
    \<lparr>ci_crypto = sample_sdk_crypto, ci_json = sample_boot_json, ci_fetch = (\<lambda>r. Inr \<lparr>rs_status = 200, rs_text = ''doc''\<rparr>),
     ci_now = 50000, ci_jti = ''j1'', ci_pair = ([], [])\<rparr>"

lemma bootstrapped_host_is_accepted_witness:
  "\<exists>token h d' ctx s'. bootstrap_host sample_sdk_crypto (fst sample_boot_pair) (sample_db []) = (Inr h, d') \<and>
     run_stages (buildHostPipeline sample_boot_gateway sample_clock) (start_context token HostJwt None None)
       \<lparr>as_db = d', as_jwks = Map.empty\<rparr> = (Inr ctx, s') \<and> ax_host ctx = Some h"
proof -
  let ?made = "bootstrap_host sample_sdk_crypto (fst sample_boot_pair) (sample_db [])"
  let ?sign = "hostJwt sample_boot_io sample_boot_client"
  have "\<not> isl (fst ?made)" by code_simp
  from run_returns [OF this] obtain h where made: "?made = (Inr h, snd ?made)" by blast
  have "\<not> isl (fst ?sign)" by code_simp
  from run_returns [OF this] obtain token where sign: "?sign = (Inr token, snd ?sign)" by blast
  have iss: "cl_issuer (snd ?sign) = Some (JStr ''https://gw'')" by code_simp
  have G: "pd_crypto sample_boot_gateway = sample_sdk_crypto" "pd_json sample_boot_gateway = sample_boot_json"
    "pd_issuer sample_boot_gateway = ''https://gw''" "ci_crypto sample_boot_io = sample_sdk_crypto"
    "ci_json sample_boot_io = sample_boot_json" "ci_now sample_boot_io = 50000" "ci_jti sample_boot_io = ''j1''"
    by (simp_all add: sample_boot_gateway_def sample_boot_io_def sample_pipeline_deps_def)
  have pair: "key_pair_ok (pd_crypto sample_boot_gateway) (fst sample_boot_pair) (snd sample_boot_pair)"
    by (simp add: key_pair_ok_def G sample_sdk_crypto_def generateEd25519KeyPair_def Let_def public_part_def key_text_def
        field_of_def)
  have kept: "host_text_kept sample_boot_gateway (host_claims (cl_hostThumbprint sample_boot_client)
      (cl_issuer (snd ?sign)) (ci_now sample_boot_io div 1000) (ci_jti sample_boot_io))"
    unfolding iss G bootstrapped_client host_text_kept_def
    by (simp add: sample_boot_json_def json_text_ok_def jwt_header_def host_claims_def sample_json_text_def)
  have named: "jwkThumbprint (pd_crypto sample_boot_gateway) (fst sample_boot_pair) \<noteq> []" by code_simp
  have time: "on_time sample_boot_gateway sample_boot_io sample_clock" by code_simp
  have jti: "row_find jr_jti (ci_jti sample_boot_io) (db_jti (sample_db [])) = None" by code_simp
  have "\<exists>ctx s'. run_stages (buildHostPipeline sample_boot_gateway sample_clock) (start_context token HostJwt None None)
      \<lparr>as_db = snd ?made, as_jwks = Map.empty\<rparr> = (Inr ctx, s') \<and> ax_host ctx = Some h"
    using bootstrapped_host_is_accepted [OF prod.collapse [symmetric] pair made [folded G(1)] refl sign [folded G(1)] _ _ named
        _ time _ jti kept [folded G(1)], where jwks = Map.empty] by (simp add: G iss)
  with made show ?thesis by blast
qed

end
