(* ===== verification/Spec2Isabelle.thy ===== *)
theory Spec2Isabelle
  imports Gateway_Access Client_Laws Operator_Keys Config_Loader Command_Line Dashboard_Laws Dashboard_Views Setup_Laws Auth_Laws Connection_Laws Connector_Laws Identity_Laws Credential_Cipher Policy_Engine Rate_Limiter Constraint_Engine State_Machine
begin

text \<open>
  Agent Conduit: a verification development of the gateway.

  \<^bold>\<open>The program.\<close>  Agent Conduit is a server between AI agents and the platforms they use.  A host (an
  operator's key) registers agents; an agent signs its requests; the gateway decides whether an agent
  may run an operation on a connection, runs it with a credential the agent never sees, and records what
  happened.  Paths below are under \<^verbatim>\<open>apps/server/src\<close> unless they start with \<^verbatim>\<open>packages\<close>.

  A request passes the address filter and the rate limits (\<^verbatim>\<open>server/gatewayApp.ts\<close>), is authenticated by
  the host or the agent pipeline (\<^verbatim>\<open>auth/\<close>) from its bearer token, is handled by a route (\<^verbatim>\<open>routes/\<close>)
  that calls the identity service (\<^verbatim>\<open>identity/\<close>), the connection services (\<^verbatim>\<open>connections/\<close>) or the token
  router (\<^verbatim>\<open>router/\<close>), which share the repositories (\<^verbatim>\<open>packages/storage\<close>); an error ends in the error
  middleware, which also publishes security events.  An execution goes from its pipeline to the
  connection proxy, which asks the policy, decrypts the credential and calls a driver
  (\<^verbatim>\<open>packages/connectors\<close>).

  \<^bold>\<open>How effects are modelled.\<close>  An operation is a function from its state to an error or a value together with
  the state after it (\<open>eff\<close> of Conduit_Prelude, with bind, catch and transaction); what was written
  before an error stays written, as in the program, except in a transaction.  Rows are records, tables are
  lists of rows in insertion order, primary keys, uniqueness and foreign keys are checked by the
  inserts as the migrations declare them.  Dates are milliseconds in the program and microseconds in
  the database.  Optional and null values are \<open>option\<close>.

  \<^bold>\<open>Theories and the code they model.\<close>
  \<^item> Conduit_Prelude: operations with errors, the locale \<open>effect_frame\<close> of what an operation may change (a
    preorder every composition preserves), tables, the truthiness conventions of JavaScript.
  \<^item> Json_Value, Js_Text, Base64url: JSON values, strings and numbers as the language treats them, base64url
    (\<^verbatim>\<open>packages/crypto\<close>) and page cursors.
  \<^item> Core_Errors, Core_Types: \<^verbatim>\<open>packages/core\<close>, error codes and envelope, every shared type.
  \<^item> Crypto_Jwt, Credential_Cipher: \<^verbatim>\<open>packages/crypto\<close> tokens and thumbprints, \<^verbatim>\<open>connections/credentialCipher.ts\<close>.
  \<^item> Storage_Db, Paging, Storage_Repos: \<^verbatim>\<open>packages/storage\<close>, rows and their mapping, keyset pages, every
    repository method.  Storage_Laws: the invariant \<open>db_wf\<close> of the schema, page walks, the replay cache.
  \<^item> State_Machine: \<^verbatim>\<open>identity/stateMachine.ts\<close> with both transition tables, as a locale of lifecycles.
  \<^item> Constraint_Engine, Policy_Engine, Ip_Address, Rate_Limiter, Runtime_Settings, Observability: the
    engines, guards, settings, metrics, compliance report and event stream of the same names.
  \<^item> Jwks_Resolver, Auth_Pipeline: \<^verbatim>\<open>auth/\<close>, all five stages.  Auth_Laws: what each of them lets through.
  \<^item> Identity_Service: \<^verbatim>\<open>identity/identityService.ts\<close>, every method.  Identity_Laws: its histories.
  \<^item> Connector_Drivers, Manifest_Driver, Bundled_Manifests: \<^verbatim>\<open>packages/connectors\<close>.  Connector_Laws: templates,
    credential forms and paths.
  \<^item> Connection_Service, Connection_Proxy: \<^verbatim>\<open>connections/\<close>.  Connection_Laws: what an execution is checked for.
  \<^item> Tool_Router: \<^verbatim>\<open>packages/adapters\<close>, \<^verbatim>\<open>router/\<close> and \<^verbatim>\<open>routes/toolRoutes.ts\<close>.  Router_Laws: the cache is coherent.
  \<^item> Gateway_Http: the state of the process (one record), the wiring of \<^verbatim>\<open>index.ts\<close>, \<^verbatim>\<open>server/authMiddleware.ts\<close>,
    \<^verbatim>\<open>server/errorHandler.ts\<close> and the guards.  Agent_Routes, Identity_Routes, Admin_Routes: \<^verbatim>\<open>routes/\<close>, one
    definition per handler.  Gateway_App: the remaining routes, the datatype \<open>route\<close> of all of them,
    \<open>gateway\<close> (one request through guards, handler and error middleware) and \<open>serve\<close> (a history of requests).
  \<^item> Gateway_Laws: the locale \<open>database_contract\<close> - a relation between databases that every repository and
    service operation respects is respected by every route and every history - interpreted for the
    invariant of the schema, for the evolution of agents and for the audit log; the path of an
    execution.  Gateway_Access: requests without a token, ended agents, refusals.

  \<^item> Config_Loader: \<^verbatim>\<open>config/configLoader.ts\<close>: the last layer wins, value by value.
  \<^item> Client_Sdk: \<^verbatim>\<open>packages/sdk/src/conduitClient.ts\<close>, every call of the client.  Operator_Keys:
    \<^verbatim>\<open>apps/dashboard/src/lib/agentCrypto.ts\<close> and \<^verbatim>\<open>risk.ts\<close>.  Client_Laws: completeness of the agent pipeline,
    and the tokens of the client that satisfy it.
  \<^item> Command_Line: \<^verbatim>\<open>packages/cli/src/index.ts\<close>: every command and the identity proxy of \<^verbatim>\<open>conduit run\<close>.
  \<^item> Dashboard_Client: \<^verbatim>\<open>apps/dashboard/src/api/client.ts\<close>, every request of the dashboard.  Dashboard_Forms: what
    its editors and forms check, build and send.  Dashboard_Laws: forms followed to their effect in the gateway.
    Dashboard_Views: the export of the audit log, the reach of an agent, filters, feed, browser stores, navigation.
  \<^item> Server_Setup: \<^verbatim>\<open>index.ts\<close> from the configuration to the wired services (\<open>start_gateway\<close>), the life of the
    Postgres driver, \<^verbatim>\<open>observability/logger.ts\<close>, key pairs and \<^verbatim>\<open>scripts/bootstrapHost.ts\<close>.  Setup_Laws: the issuer
    announced against the issuer accepted, what the SDK and the first host send is accepted, failed starts.

  \<^bold>\<open>What the lemmas show.\<close>  This theory states the properties of the whole gateway: an execution that answers was
  authorised in every respect and recorded once; ended agents stay out; the schema's constraints and
  the audit log survive every history; without a token nothing changes; refusals are recorded.  The other
  theories prove each component: soundness of the agent pipeline, single use of token ids, legal
  lifecycles, exact intersection of constraints, page walks and what they can lose, limiter bounds, task and host
  revocation, coherent schema cache, round trips of tokens, credentials, cursors and settings, and
  sufficiency of derived credential forms.

  \<^bold>\<open>Bounds and fuel.\<close>  All recursion is structural or terminates by a measure, so no function of the program is
  given fuel; the page walk of Storage_Laws takes a number of pages and its property says how many are
  enough (one more than there are rows).  Addresses are 32-bit words; limits, time-outs and sizes are the
  constants of the source.

  \<^bold>\<open>Parameters.\<close>  What is not code of the repository is an argument: SHA-256, Ed25519 and AES-GCM (\<open>node_crypto\<close>,
  \<open>gcm\<close>), JSON text, the text of ids and dates (\<open>codec\<close>), DNS and HTTPS answers, the values of the clock at
  each place it is read, random bytes, fresh ids, the collation of \<^verbatim>\<open>localeCompare\<close>.  Laws about them are
  named predicates (\<open>codec_ok\<close>, \<open>gcm_ok\<close>, ...) that occur as hypotheses and are instantiated in the witnesses.

  \<^bold>\<open>Simplifications.\<close>  Express is not modelled: a request is a matched route with a body of the type its handler casts
  it to, so a body of another shape is outside the model, and so are paths that match no route.  Requests are
  handled one after another; the one interleaving that is modelled is that of a schema lookup and a
  registration.  Locks and isolation levels of the database are not: operations do not overlap.  The lists a handler
  reads concurrently (\<^verbatim>\<open>Promise.all\<close>) are read in order.  Numbers of a body that the program expects to be whole (time
  to live, rate limits, page sizes) are unbounded integers.

  \<^bold>\<open>Not modelled.\<close>  Of the dashboard (\<^verbatim>\<open>apps/dashboard\<close>) the rendering of answers, icons and query caches, and of the command line
  the parsing of arguments, the sockets and the wrapped process are left out.  Listening, signals, the output of the logger and the
  migrations are effects of the platform.  The demonstration scripts repeat the calls of the client.  The MySQL
  driver, the driver factory, the TLS manager, the GitHub driver and the middleware scaffolds throw or are not used.
\<close>

section \<open>Executions\<close>

text \<open>
  C1: An execution that answers a result was authorised.  The request carried a bearer token signed with the
  registered key of an agent that is active under an active host (or a key fetched for it), with
  none of its clocks elapsed; that agent holds an active grant of exactly the capability named,
  whose constraints the arguments meet; the grant's connection is active and the agent entitled to
  the operation on it; the policy, the rate limit and the credential let it pass; the reply is what
  the driver of that connection answered, and exactly one audit row, naming agent, grant and
  outcome, was appended.
\<close>

theorem execution_is_authorized:
  assumes "handle_route D ev (PostCapabilityExecute body) s = (Inr rep, s')" and "fresh_audit_id (gw_db s)"
  shows "\<exists>token key r g driver ctx result.
    bearerToken (ev_authorization ev) = Some token \<and> signed_by (live_pipeline D s) token key \<and>
    (ar_public_key_jwk r = Some key \<or> ar_public_key_jwk r = None) \<and>
    authorized_execution D ev body s r g driver ctx \<and> dv_execute driver ctx = Inr result \<and>
    rep = reply 200 (case er_data result of None \<Rightarrow> [] | Some j \<Rightarrow> [(''data'', j)]) \<and>
    db_audit (gw_db s') = db_audit (gw_db s) @
      [audit_row_of (execute_entry (live_proxy D s) (ev_execute_clock ev) (mapAgentRow r) (mapGrantRow g)
         (execute_args body) (run_outcome (Inr result))) (db_uuids (gw_db s) (db_draws (gw_db s))) (db_now (gw_db s))]"
  using assms by (simp only: handle_route.simps) (rule execution_authorized_raw)

text \<open>A closed gateway: agent 7 of host 1 with a grant on the mock connection 100.\<close>

definition sample_gateway_deps :: gateway_deps where
  "sample_gateway_deps =
    \<lparr>gd_pipeline = sample_pipeline_deps, gd_identity = sample_identity_deps,
     gd_connections = sample_connection_deps, gd_proxy = sample_proxy_deps, gd_router = sample_router_deps,
     gd_codec = unary_codec, gd_json = sample_json_text, gd_connectors = [MockDriver],
     gd_baseUrl = ''https://gw'', gd_collate = length, gd_listener = (\<lambda>l e. Inr ())\<rparr>"

definition sample_gateway_state :: gateway_state where
  "sample_gateway_state =
    \<lparr>gw_db = snd (grants_upsert ((sample_new_grant 7 (Some 100))\<lparr>ng_operation := Some ''echo''\<rparr>) sample_vault_db),
     gw_jwks = Map.empty, gw_proxy_limiter = createRateLimiter 0, gw_cache = (\<lambda>nm. None),
     gw_metrics = createMetrics, gw_settings = defaultSettings, gw_ip_limiter = createRateLimiter 0,
     gw_register_limiter = createRateLimiter 0, gw_listeners = [], gw_published = []\<rparr>"

definition sample_env :: "string option \<Rightarrow> request_env" where
  "sample_env authorization =
    \<lparr>ev_ip = ''10.0.0.1'', ev_path = ''/capability/execute'', ev_authorization = authorization,
     ev_auth_clock = sample_clock, ev_now1 = 50000, ev_now2 = 50000, ev_lookup_clock = (50000, 50000, 50000),
     ev_execute_clock = \<lparr>ek_start = 50000, ek_rate = 50001, ek_end = 50005\<rparr>, ev_limit_clock = (50000, 50000),
     ev_iv = sample_iv, ev_random = (\<lambda>n. 0), ev_event_id = 900, ev_event_time = 50000, ev_health = Inr True\<rparr>"

definition sample_execute_body :: execute_body where
  "sample_execute_body = \<lparr>xb_capability = Some ''slack.post'', xb_args = None\<rparr>"

abbreviation sample_bearer :: "string option" where
  "sample_bearer \<equiv> Some (BEARER @ sample_token)"

lemma execution_is_authorized_witness:
  "\<exists>rep s' r g driver ctx.
     handle_route sample_gateway_deps (sample_env sample_bearer) (PostCapabilityExecute sample_execute_body)
       sample_gateway_state = (Inr rep, s') \<and>
     authorized_execution sample_gateway_deps (sample_env sample_bearer) sample_execute_body sample_gateway_state r g driver ctx \<and>
     length (db_audit (gw_db s')) = Suc (length (db_audit (gw_db sample_gateway_state)))"
proof -
  let ?run = "handle_route sample_gateway_deps (sample_env sample_bearer) (PostCapabilityExecute sample_execute_body)
       sample_gateway_state"
  have "\<not> isl (fst ?run)" by code_simp
  from run_returns [OF this] obtain rep where run: "?run = (Inr rep, snd ?run)" by blast
  have fresh: "fresh_audit_id (gw_db sample_gateway_state)" by code_simp
  from execution_is_authorized [OF run fresh] obtain r g driver ctx where
    "authorized_execution sample_gateway_deps (sample_env sample_bearer) sample_execute_body sample_gateway_state r g driver ctx"
    "length (db_audit (gw_db (snd ?run))) = Suc (length (db_audit (gw_db sample_gateway_state)))"
    by auto
  with run show ?thesis by blast
qed

section \<open>What no history of requests can undo\<close>

text \<open>
  C3: A revoked, rejected or claimed agent is out for good: after any further history of requests to any
  route, no token and no capability takes that agent through the agent pipeline.
\<close>

theorem revoked_agent_never_returns:
  assumes "db_wf (gw_db s)" and "row_find ar_id i (db_agents (gw_db s)) = Some r"
    and "ar_status r \<in> {AgentRevoked, AgentRejected, AgentClaimed}"
  shows "\<not> (\<exists>ev token capability args ctx agent t.
    run_pipeline D ev AgentJwt (start_context token AgentJwt capability args) (serve D reqs s) = (Inr ctx, t) \<and>
    ax_agent ctx = Some agent \<and> a_id agent = i)"
  using assms by (rule revoked_stays_out)

definition sample_revoked_state :: gateway_state where
  "sample_revoked_state = sample_gateway_state
    \<lparr>gw_db := sample_db [sample_agent_row 7 2000, (sample_agent_row 8 3000)\<lparr>ar_status := AgentRevoked\<rparr>]\<rparr>"

lemma sample_revoked_wf: "db_wf (gw_db sample_revoked_state)"
  unfolding sample_revoked_state_def by (simp, rule sample_db_wf) (auto simp: sample_agent_row_def refs_def)

lemma revoked_agent_never_returns_witness:
  "\<not> (\<exists>ev token capability args ctx agent t.
    run_pipeline sample_gateway_deps ev AgentJwt (start_context token AgentJwt capability args)
      (serve sample_gateway_deps [(sample_env sample_bearer, PostAgentReactivate (Some ''eighth''))] sample_revoked_state)
      = (Inr ctx, t) \<and>
    ax_agent ctx = Some agent \<and> a_id agent = 8)"
  by (rule revoked_agent_never_returns [OF sample_revoked_wf, where r = "(sample_agent_row 8 3000)\<lparr>ar_status := AgentRevoked\<rparr>"])
    (simp_all add: sample_revoked_state_def sample_db_def sample_agent_row_def table_simps)

text \<open>
  C5: No request breaks the schema: the keys, the uniqueness constraints and the references between the
  tables hold after any history of requests, whatever errors occurred in them.
\<close>

theorem gateway_keeps_schema:
  assumes "db_wf (gw_db s)"
  shows "db_wf (gw_db (serve D reqs s))"
  using assms gateway_wf.serve_evolves [of s D reqs] by (simp add: keeps_def)

lemma gateway_keeps_schema_witness:
  "db_wf (gw_db (serve sample_gateway_deps
     [(sample_env sample_bearer, PostCapabilityExecute sample_execute_body), (sample_env None, GetAgentsRisk)]
     sample_revoked_state))"
  by (rule gateway_keeps_schema) (rule sample_revoked_wf)

text \<open>
  C6: The audit log is append-only: no request changes or removes a row of it, so after any history the
  rows of before are still there, in the same order, with new ones after them.
\<close>

theorem audit_log_append_only:
  "\<exists>rows. db_audit (gw_db (serve D reqs s)) = db_audit (gw_db s) @ rows"
  using gateway_audit.serve_evolves [of s D reqs] by (simp add: audit_extends_def)

text \<open>
  C9: A request without a bearer token changes no table, no setting and no cached schema, and on a route that
  is not public it ends in one of the guards' refusals or in the 401 of a missing token.
\<close>

theorem tokenless_request_is_harmless:
  assumes "\<not> truthy (bearerToken (ev_authorization ev))"
  shows "untouched s (snd (gateway D ev r s)) \<and>
    (public_route r \<or> re_status (fst (gateway D ev r s)) \<in> {401, 403, 429})"
  using tokenless_untouched [OF assms] tokenless_refused [OF assms] by blast

lemma tokenless_request_is_harmless_witness:
  "untouched sample_gateway_state (snd (gateway sample_gateway_deps (sample_env None) PostHostRevoke sample_gateway_state)) \<and>
   re_status (fst (gateway sample_gateway_deps (sample_env None) PostHostRevoke sample_gateway_state)) \<in> {401, 403, 429}"
  using tokenless_request_is_harmless [of "sample_env None" sample_gateway_state sample_gateway_deps PostHostRevoke]
  by (simp add: sample_env_def bearerToken_def truthy_def public_route_def)

text \<open>
  C10: A refused execution is recorded: when the pipeline has identified the agent and then refuses the call with
  403 or 429, the same error reaches the caller and one audit row is appended that denies that
  capability to that agent.
\<close>

theorem refusal_is_recorded:
  assumes "pipeline_run D ev (execute_context token body) s = ((Some (ConduitError e), ctx), a)"
    and "bearerToken (ev_authorization ev) = Some token" and "token \<noteq> []" and "truthy (xb_capability body)"
    and "ax_agent ctx = Some agent" and "ce_httpStatus e \<in> {403, 429}" and "fresh_audit_id (as_db a)"
  shows "\<exists>s' row. handle_route D ev (PostCapabilityExecute body) s = (Inl (ConduitError e), s') \<and>
    db_audit (gw_db s') = db_audit (as_db a) @ [row] \<and> aur_agent_id row = Some (a_id agent) \<and>
    aur_event_type row = ''capability.denied'' \<and> aur_capability row = ax_capability ctx \<and>
    aur_outcome row = OutcomeDenied"
  using refused_execution_recorded [OF assms] by simp

definition sample_denied_body :: execute_body where
  "sample_denied_body = \<lparr>xb_capability = Some ''mail.send'', xb_args = None\<rparr>"

lemma refusal_is_recorded_witness:
  "\<exists>e s' row. handle_route sample_gateway_deps (sample_env sample_bearer) (PostCapabilityExecute sample_denied_body)
      sample_gateway_state = (Inl (ConduitError e), s') \<and> last (db_audit (gw_db s')) = row \<and>
    aur_event_type row = ''capability.denied'' \<and> aur_agent_id row = Some 7"
proof -
  let ?p = "pipeline_run sample_gateway_deps (sample_env sample_bearer)
      (execute_context sample_token sample_denied_body) sample_gateway_state"
  have "(case ?p of ((f, ctx), a) \<Rightarrow>
      (case f of Some (ConduitError e) \<Rightarrow> ce_httpStatus e = 403 | _ \<Rightarrow> False) \<and>
      map_option a_id (ax_agent ctx) = Some 7 \<and> fresh_audit_id (as_db a))"
    by code_simp
  then obtain e ctx a agent where p: "?p = ((Some (ConduitError e), ctx), a)" "ce_httpStatus e \<in> {403, 429}"
      "ax_agent ctx = Some agent" "a_id agent = 7" "fresh_audit_id (as_db a)"
    by (auto split: prod.splits option.splits fault.splits)
  have b: "bearerToken (ev_authorization (sample_env sample_bearer)) = Some sample_token" "sample_token \<noteq> []"
      "truthy (xb_capability sample_denied_body)"
    by code_simp+
  from refusal_is_recorded [OF p(1) b p(3,2,5)] p(4) show ?thesis by fastforce
qed

section \<open>Broken wires\<close>

lemma blocked_flag_exact_witness:
  "\<exists>rep s' grants. get_agent_grants sample_gateway_deps ''seventh'' sample_gateway_state = (Inr rep, s') \<and>
     gw_db s' = gw_db sample_gateway_state \<and>
     grants_findForAgent 7 (gw_db sample_gateway_state) = (Inr grants, gw_db sample_gateway_state)"
proof -
  let ?run = "get_agent_grants sample_gateway_deps ''seventh'' sample_gateway_state"
  have "\<not> isl (fst ?run)" by code_simp
  from run_returns [OF this] obtain rep where run: "?run = (Inr rep, snd ?run)" by blast
  have "k_to_uuid (gd_codec sample_gateway_deps) ''seventh'' = Some 7" by code_simp
  with blocked_flag_exact [OF run] run show ?thesis by fastforce
qed

end
